(* ===== verification/Prelude.thy ===== *)
theory Prelude
  imports Main "HOL-Library.Word"
begin

text \<open>
  What every component of the development shares: the machine integers, results with errors and
  panics, the operations of a mutable host that keep their writes when they fail, overflow-checked
  arithmetic, and the parts of the Rust string library that the identifiers and paths use
  (\<^verbatim>\<open>split\<close>, integer \<^verbatim>\<open>parse\<close> and \<^verbatim>\<open>Display\<close>).
\<close>

section \<open>Collections of facts\<close>

named_theorems res_simps \<open>normal forms of results and of fallible operations on a host\<close>
named_theorems text_simps \<open>splitting, parsing and printing of strings\<close>
named_theorems store_simps \<open>what a read returns after a write\<close>
named_theorems frame_simps \<open>what a write leaves alone\<close>

section \<open>Machine integers and byte strings\<close>

type_synonym u8 = "8 word"
type_synonym u32 = "32 word"
type_synonym u64 = "64 word"
type_synonym bytes = "u8 list"

section \<open>Results\<close>

text \<open>
  A Rust function returns a value, returns \<^verbatim>\<open>Err e\<close>, or panics. A panic is kept apart from the
  errors: no caller can observe or handle it.
\<close>

datatype 'e fault = Err (fault_error: 'e) | Panic

type_synonym ('a, 'e) res = "'e fault + 'a"

definition bind_res :: "('a, 'e) res \<Rightarrow> ('a \<Rightarrow> ('b, 'e) res) \<Rightarrow> ('b, 'e) res" where
  "bind_res m f = (case m of Inl e \<Rightarrow> Inl e | Inr x \<Rightarrow> f x)"

definition fail_with :: "'e \<Rightarrow> ('a, 'e) res" where
  "fail_with e = Inl (Err e)"

definition panics :: "('a, 'e) res" where
  "panics = Inl Panic"

definition map_err :: "('e \<Rightarrow> 'f) \<Rightarrow> ('a, 'e) res \<Rightarrow> ('a, 'f) res" where
  "map_err g m = (case m of Inl (Err e) \<Rightarrow> Inl (Err (g e)) | Inl Panic \<Rightarrow> Inl Panic | Inr x \<Rightarrow> Inr x)"

definition ok_or :: "'a option \<Rightarrow> 'e \<Rightarrow> ('a, 'e) res" where
  "ok_or m e = (case m of None \<Rightarrow> Inl (Err e) | Some x \<Rightarrow> Inr x)"

definition unwrap_opt :: "'a option \<Rightarrow> ('a, 'e) res" where
  "unwrap_opt m = (case m of None \<Rightarrow> Inl Panic | Some x \<Rightarrow> Inr x)"

definition ensure :: "bool \<Rightarrow> 'e \<Rightarrow> (unit, 'e) res" where
  "ensure b e = (if b then Inr () else Inl (Err e))"

definition res_ok :: "('a, 'e) res \<Rightarrow> 'a option" where
  "res_ok m = (case m of Inl _ \<Rightarrow> None | Inr x \<Rightarrow> Some x)"

lemma bind_res_simps [simp, res_simps]:
  "bind_res (Inr x) f = f x"
  "bind_res (Inl e) f = Inl e"
  by (simp_all add: bind_res_def)

lemma bind_res_eq_Inr [simp]:
  "bind_res m f = Inr y \<longleftrightarrow> (\<exists>x. m = Inr x \<and> f x = Inr y)"
  by (cases m) auto

lemma bind_res_eq_Inl:
  "bind_res m f = Inl e \<longleftrightarrow> m = Inl e \<or> (\<exists>x. m = Inr x \<and> f x = Inl e)"
  by (cases m) auto

lemma bind_res_assoc [res_simps]:
  "bind_res (bind_res m f) g = bind_res m (\<lambda>x. bind_res (f x) g)"
  by (cases m) simp_all

lemma bind_res_cong [fundef_cong]:
  assumes "m = n" and "\<And>x. n = Inr x \<Longrightarrow> f x = g x"
  shows "bind_res m f = bind_res n g"
  using assms by (cases n) simp_all

lemma fail_with_simps [simp]:
  "bind_res (fail_with e) f = fail_with e"
  "fail_with e \<noteq> Inr x"
  "Inr x \<noteq> fail_with e"
  "fail_with e = Inl (Err e') \<longleftrightarrow> e = e'"
  "fail_with e \<noteq> Inl Panic"
  "fail_with e = fail_with e' \<longleftrightarrow> e = e'"
  by (simp_all add: fail_with_def)

lemma panics_simps [simp]:
  "bind_res panics f = panics"
  "panics \<noteq> Inr x"
  "Inr x \<noteq> panics"
  "panics \<noteq> fail_with e"
  "fail_with e \<noteq> panics"
  by (simp_all add: panics_def fail_with_def)

lemma map_err_simps [simp, res_simps]:
  "map_err g (Inr x) = Inr x"
  "map_err g (Inl (Err e)) = Inl (Err (g e))"
  "map_err g (Inl Panic) = Inl Panic"
  "map_err g (fail_with e) = fail_with (g e)"
  "map_err g panics = panics"
  by (simp_all add: map_err_def fail_with_def panics_def)

lemma map_err_eq_Inr [simp]: "map_err g m = Inr x \<longleftrightarrow> m = Inr x"
  by (simp add: map_err_def split: sum.splits fault.splits)

lemma map_err_eq_Panic [simp]: "map_err g m = Inl Panic \<longleftrightarrow> m = Inl Panic"
  by (simp add: map_err_def split: sum.splits fault.splits)

lemma ok_or_simps [simp, res_simps]:
  "ok_or (Some x) e = Inr x"
  "ok_or None e = fail_with e"
  by (simp_all add: ok_or_def fail_with_def)

lemma ok_or_eq_Inr [simp]: "ok_or m e = Inr x \<longleftrightarrow> m = Some x"
  by (cases m) simp_all

lemma ok_or_no_panic [simp]: "ok_or m e \<noteq> Inl Panic"
  by (cases m) simp_all

lemma unwrap_opt_simps [simp, res_simps]:
  "unwrap_opt (Some x) = Inr x"
  "unwrap_opt None = panics"
  by (simp_all add: unwrap_opt_def panics_def)

lemma unwrap_opt_eq_Inr [simp]: "unwrap_opt m = Inr x \<longleftrightarrow> m = Some x"
  by (cases m) simp_all

lemma ensure_simps [simp, res_simps]:
  "ensure True e = Inr ()"
  "ensure False e = fail_with e"
  by (simp_all add: ensure_def fail_with_def)

lemma ensure_eq_Inr [simp]: "ensure b e = Inr u \<longleftrightarrow> b"
  by (cases b) simp_all

lemma ensure_no_panic [simp]: "ensure b e \<noteq> Inl Panic"
  by (cases b) simp_all

lemma res_ok_simps [simp]:
  "res_ok (Inr x) = Some x"
  "res_ok (Inl e) = None"
  "res_ok (fail_with d) = None"
  by (simp_all add: res_ok_def fail_with_def)

lemma res_ok_eq_Some [simp]: "res_ok m = Some x \<longleftrightarrow> m = Inr x"
  by (cases m) simp_all

section \<open>Operations of a mutable host\<close>

text \<open>
  A method that takes \<^verbatim>\<open>&mut self\<close> returns its result together with the state it leaves. An error
  does not undo the writes made before it.
\<close>

type_synonym ('s, 'a, 'e) op = "'s \<Rightarrow> ('a, 'e) res \<times> 's"

definition op_return :: "'a \<Rightarrow> ('s, 'a, 'e) op" where
  "op_return x = (\<lambda>s. (Inr x, s))"

definition op_lift :: "('a, 'e) res \<Rightarrow> ('s, 'a, 'e) op" where
  "op_lift r = (\<lambda>s. (r, s))"

definition op_read :: "('s \<Rightarrow> ('a, 'e) res) \<Rightarrow> ('s, 'a, 'e) op" where
  "op_read f = (\<lambda>s. (f s, s))"

definition op_bind :: "('s, 'a, 'e) op \<Rightarrow> ('a \<Rightarrow> ('s, 'b, 'e) op) \<Rightarrow> ('s, 'b, 'e) op" where
  "op_bind m f = (\<lambda>s. case m s of (Inl e, t) \<Rightarrow> (Inl e, t) | (Inr x, t) \<Rightarrow> f x t)"

definition op_then :: "('s, 'a, 'e) op \<Rightarrow> ('s, 'b, 'e) op \<Rightarrow> ('s, 'b, 'e) op" where
  "op_then m n = op_bind m (\<lambda>_. n)"

definition op_map_err :: "('e \<Rightarrow> 'f) \<Rightarrow> ('s, 'a, 'e) op \<Rightarrow> ('s, 'a, 'f) op" where
  "op_map_err g m = (\<lambda>s. case m s of (r, t) \<Rightarrow> (map_err g r, t))"

definition op_update :: "('s \<Rightarrow> 's) \<Rightarrow> ('s, unit, 'e) op" where
  "op_update f = (\<lambda>s. (Inr (), f s))"

fun op_each :: "('a \<Rightarrow> ('s, unit, 'e) op) \<Rightarrow> 'a list \<Rightarrow> ('s, unit, 'e) op" where
  "op_each f [] = op_return ()"
| "op_each f (x # xs) = op_then (f x) (op_each f xs)"

lemma op_return_apply [simp]: "op_return x s = (Inr x, s)"
  by (simp add: op_return_def)

lemma op_lift_apply [simp]: "op_lift r s = (r, s)"
  by (simp add: op_lift_def)

lemma op_read_apply [simp]: "op_read f s = (f s, s)"
  by (simp add: op_read_def)

lemma op_update_apply [simp]: "op_update f s = (Inr (), f s)"
  by (simp add: op_update_def)

lemma op_bind_apply:
  "op_bind m f s = (case fst (m s) of Inl e \<Rightarrow> (Inl e, snd (m s)) | Inr x \<Rightarrow> f x (snd (m s)))"
  by (simp add: op_bind_def split: prod.splits sum.splits)

lemma op_bind_ok [simp, res_simps]: "m s = (Inr x, t) \<Longrightarrow> op_bind m f s = f x t"
  by (simp add: op_bind_def)

lemma op_bind_fail [simp, res_simps]: "m s = (Inl e, t) \<Longrightarrow> op_bind m f s = (Inl e, t)"
  by (simp add: op_bind_def)

lemma op_bind_basic [simp, res_simps]:
  "op_bind (op_return x) f s = f x s"
  "op_bind (op_lift r) f s = (case r of Inl e \<Rightarrow> (Inl e, s) | Inr x \<Rightarrow> f x s)"
  "op_bind (op_read g) f s = (case g s of Inl e \<Rightarrow> (Inl e, s) | Inr x \<Rightarrow> f x s)"
  "op_bind (op_update h) f' s = f' () (h s)"
  by (simp_all add: op_bind_def)

lemma op_bind_eq_Inr:
  "op_bind m f s = (Inr y, t) \<longleftrightarrow> (\<exists>x u. m s = (Inr x, u) \<and> f x u = (Inr y, t))"
  by (auto simp: op_bind_def split: prod.splits sum.splits)

lemma op_then_eq_Inr:
  "op_then m n s = (Inr y, t) \<longleftrightarrow> (\<exists>x u. m s = (Inr x, u) \<and> n u = (Inr y, t))"
  by (simp add: op_then_def op_bind_eq_Inr)

lemma op_then_basic [simp, res_simps]:
  "op_then (op_return x) n s = n s"
  "op_then (op_update h) n s = n (h s)"
  by (simp_all add: op_then_def)

lemma op_then_ok [simp, res_simps]: "m s = (Inr x, t) \<Longrightarrow> op_then m n s = n t"
  by (simp add: op_then_def)

lemma op_then_fail [simp, res_simps]: "m s = (Inl e, t) \<Longrightarrow> op_then m n s = (Inl e, t)"
  by (simp add: op_then_def)

lemma op_map_err_eq_Inr [simp]: "op_map_err g m s = (Inr x, t) \<longleftrightarrow> m s = (Inr x, t)"
  by (auto simp: op_map_err_def split: prod.splits)

lemma op_map_err_ok: "m s = (Inr x, t) \<Longrightarrow> op_map_err g m s = (Inr x, t)"
  by simp

text \<open>
  The part of the state that an operation never touches, whatever its outcome: sequencing keeps it.
\<close>

definition keeps :: "('s \<Rightarrow> 'v) \<Rightarrow> ('s, 'a, 'e) op \<Rightarrow> bool" where
  "keeps view m \<longleftrightarrow> (\<forall>s. view (snd (m s)) = view s)"

lemma keepsD: "keeps view m \<Longrightarrow> m s = (r, t) \<Longrightarrow> view t = view s"
  unfolding keeps_def by (metis snd_conv)

lemma keeps_return [simp, intro]: "keeps view (op_return x)"
  and keeps_lift [simp, intro]: "keeps view (op_lift r)"
  and keeps_read [simp, intro]: "keeps view (op_read f)"
  by (simp_all add: keeps_def)

lemma keeps_update: "(\<And>s. view (f s) = view s) \<Longrightarrow> keeps view (op_update f)"
  by (simp add: keeps_def)

lemma keeps_bind [intro]:
  assumes "keeps view m" and "\<And>x. keeps view (f x)"
  shows "keeps view (op_bind m f)"
  using assms by (auto simp: keeps_def op_bind_apply split: sum.splits)

lemma keeps_then [intro]: "keeps view m \<Longrightarrow> keeps view n \<Longrightarrow> keeps view (op_then m n)"
  unfolding op_then_def by blast

lemma keeps_map_err [intro]: "keeps view m \<Longrightarrow> keeps view (op_map_err g m)"
  by (simp add: keeps_def op_map_err_def case_prod_unfold)

lemma keeps_each [intro]: "(\<And>x. keeps view (f x)) \<Longrightarrow> keeps view (op_each f xs)"
  by (induction xs) auto

section \<open>Overflow-checked arithmetic\<close>

text \<open>
  The workspace profile sets \<^verbatim>\<open>overflow-checks = true\<close>: \<^verbatim>\<open>+\<close>, \<^verbatim>\<open>-\<close> and \<^verbatim>\<open>*\<close> on machine integers panic
  on overflow. \<^verbatim>\<open>checked_add\<close> returns \<^verbatim>\<open>None\<close> and \<^verbatim>\<open>saturating_add\<close> stops at the maximum.
\<close>

definition checked_add :: "'a::len word \<Rightarrow> 'a word \<Rightarrow> 'a word option" where
  "checked_add a b = (if a + b < a then None else Some (a + b))"

definition checked_sub :: "'a::len word \<Rightarrow> 'a word \<Rightarrow> 'a word option" where
  "checked_sub a b = (if a < b then None else Some (a - b))"

definition saturating_add :: "'a::len word \<Rightarrow> 'a word \<Rightarrow> 'a word" where
  "saturating_add a b = (if a + b < a then - 1 else a + b)"

definition plus_or_panic :: "'a::len word \<Rightarrow> 'a word \<Rightarrow> ('a word, 'e) res" where
  "plus_or_panic a b = unwrap_opt (checked_add a b)"

lemma word_plus_overflow:
  fixes a b :: "'a::len word"
  shows "a + b < a \<longleftrightarrow> 2 ^ LENGTH('a) \<le> unat a + unat b"
proof (cases "unat a + unat b < 2 ^ LENGTH('a)")
  case True
  then have "unat (a + b) = unat a + unat b"
    by (rule unat_add_lem [THEN iffD1])
  with True show ?thesis
    by (simp add: word_less_nat_alt)
next
  case False
  have "unat (a + b) = (unat a + unat b) mod 2 ^ LENGTH('a)"
    by (simp add: unat_word_ariths)
  moreover have "unat a < 2 ^ LENGTH('a)" and "unat b < 2 ^ LENGTH('a)"
    by (rule unsigned_less)+
  ultimately have "unat (a + b) = unat a + unat b - 2 ^ LENGTH('a)"
    using False by (simp add: le_mod_geq not_less)
  with False show ?thesis
    using \<open>unat b < 2 ^ LENGTH('a)\<close> unfolding word_less_nat_alt by linarith
qed

lemma checked_add_eq_Some:
  "checked_add a b = Some c \<longleftrightarrow> unat a + unat b < 2 ^ LENGTH('a) \<and> c = a + b"
  for a b c :: "'a::len word"
  by (auto simp: checked_add_def word_plus_overflow)

lemma checked_add_unat:
  "checked_add a b = Some c \<Longrightarrow> unat c = unat a + unat b"
  for a b c :: "'a::len word"
  unfolding checked_add_eq_Some by (auto intro: unat_add_lem [THEN iffD1])

lemma checked_sub_eq_Some:
  "checked_sub a b = Some c \<longleftrightarrow> b \<le> a \<and> c = a - b"
  for a b c :: "'a::len word"
  by (auto simp: checked_sub_def)

lemma plus_or_panic_eq_Inr [simp]: "plus_or_panic a b = Inr c \<longleftrightarrow> checked_add a b = Some c"
  by (simp add: plus_or_panic_def)

lemma plus_or_panic_not_Err [simp]: "plus_or_panic a b \<noteq> Inl (Err e)"
  by (simp add: plus_or_panic_def unwrap_opt_def split: option.splits)

lemma saturating_add_mono:
  "a \<le> saturating_add a b"
  by (auto simp: saturating_add_def not_less)

end
