(* ===== verification/Rust_Text.thy ===== *)
theory Rust_Text
  imports Prelude
begin

text \<open>
  The string operations of the Rust standard library that the IBC host code uses, on the UTF-8
  bytes of a string: \<^verbatim>\<open>split\<close> on a character, \<^verbatim>\<open>parse::<u64>\<close>, \<^verbatim>\<open>Display\<close> of integers,
  \<^verbatim>\<open>strip_prefix\<close>, \<^verbatim>\<open>chars\<close>, \<^verbatim>\<open>trim\<close> and big-endian bytes of an integer.
\<close>

section \<open>Splitting and joining\<close>

fun split_on :: "char \<Rightarrow> string \<Rightarrow> string list" where
  "split_on c [] = [[]]"
| "split_on c (x # xs) =
     (if x = c then [] # split_on c xs
      else (case split_on c xs of [] \<Rightarrow> [[x]] | p # ps \<Rightarrow> (x # p) # ps))"

fun join_with :: "char \<Rightarrow> string list \<Rightarrow> string" where
  "join_with c [] = []"
| "join_with c [p] = p"
| "join_with c (p # q # ps) = p @ c # join_with c (q # ps)"

lemma split_on_not_Nil [simp]: "split_on c s \<noteq> []"
  by (induction s) (auto split: list.splits)

lemma split_on_fresh [simp, text_simps]: "c \<notin> set p \<Longrightarrow> split_on c p = [p]"
  by (induction p) auto

lemma split_on_append [simp, text_simps]: "c \<notin> set p \<Longrightarrow> split_on c (p @ c # s) = p # split_on c s"
  by (induction p) auto

lemma join_split_on [text_simps]: "join_with c (split_on c s) = s"
proof (induction s)
  case (Cons x s)
  obtain p ps where *: "split_on c s = p # ps"
    by (cases "split_on c s") auto
  with Cons show ?case
    by (cases ps) auto
qed simp

lemma split_on_pieces: "p \<in> set (split_on c s) \<Longrightarrow> c \<notin> set p"
proof (induction s arbitrary: p)
  case (Cons x s)
  then show ?case
    by (cases "split_on c s") (auto split: if_splits)
qed simp

lemma split_on_join:
  assumes "ps \<noteq> []" and "\<And>p. p \<in> set ps \<Longrightarrow> c \<notin> set p"
  shows "split_on c (join_with c ps) = ps"
  using assms by (induction c ps rule: join_with.induct) auto

lemma split_on_inj: "split_on c s = split_on c t \<longleftrightarrow> s = t"
  by (metis join_split_on)

text \<open>The part after the last separator, and so the part before it, is determined.\<close>

lemma last_separator:
  assumes "p @ c # q = p' @ c # q'" and "c \<notin> set q" and "c \<notin> set q'"
  shows "p = p' \<and> q = q'"
proof -
  have "rev q @ c # rev p = rev q' @ c # rev p'"
    using assms(1) by (metis append.assoc append_Cons append_Nil rev.simps(2) rev_append)
  moreover have "rev q = takeWhile (\<lambda>x. x \<noteq> c) (rev q @ c # rev p)"
    using assms(2) by (simp add: takeWhile_append)
  moreover have "rev q' = takeWhile (\<lambda>x. x \<noteq> c) (rev q' @ c # rev p')"
    using assms(3) by (simp add: takeWhile_append)
  ultimately show ?thesis
    by simp
qed

section \<open>Decimal integers\<close>

definition digit_char :: "nat \<Rightarrow> char" where
  "digit_char d = char_of (48 + d)"

definition digit_val :: "char \<Rightarrow> nat option" where
  "digit_val c = (let n = of_char c :: nat in if 48 \<le> n \<and> n \<le> 57 then Some (n - 48) else None)"

text \<open>\<^verbatim>\<open>Display\<close> of an unsigned integer: no sign, no leading zero.\<close>

function show_nat :: "nat \<Rightarrow> string" where
  "show_nat n = (if n < 10 then [digit_char n] else show_nat (n div 10) @ [digit_char (n mod 10)])"
  by auto
termination by (relation "measure id") auto

declare show_nat.simps [simp del]

definition show_u64 :: "u64 \<Rightarrow> string" where
  "show_u64 w = show_nat (unat w)"

text \<open>
  \<^verbatim>\<open>parse::<u64>\<close>: an optional plus sign, then at least one digit; leading zeros are accepted, and a
  value above the maximum is an error. The loop multiplies and adds with overflow checks.
\<close>

fun parse_digits :: "nat \<Rightarrow> nat \<Rightarrow> string \<Rightarrow> nat option" where
  "parse_digits limit acc [] = Some acc"
| "parse_digits limit acc (c # cs) =
     (case digit_val c of
        None \<Rightarrow> None
      | Some d \<Rightarrow> if acc * 10 + d < limit then parse_digits limit (acc * 10 + d) cs else None)"

definition parse_uint :: "nat \<Rightarrow> string \<Rightarrow> nat option" where
  "parse_uint limit s =
     (if s = [] \<or> s = ''+'' then None
      else parse_digits limit 0 (if hd s = CHR ''+'' then tl s else s))"

definition parse_u64 :: "string \<Rightarrow> u64 option" where
  "parse_u64 s = map_option of_nat (parse_uint (2 ^ 64) s)"

lemma digit_val_char [simp]: "d < 10 \<Longrightarrow> digit_val (digit_char d) = Some d"
  by (simp add: digit_val_def digit_char_def of_char_of)

lemma digit_char_not_sign:
  assumes "d < 10"
  shows "digit_char d \<noteq> CHR ''+''" and "digit_char d \<noteq> CHR ''/''" and "digit_char d \<noteq> CHR ''-''"
proof -
  have "of_char (digit_char d) = 48 + d"
    using assms by (simp add: digit_char_def of_char_of)
  then show "digit_char d \<noteq> CHR ''+''" and "digit_char d \<noteq> CHR ''/''" and "digit_char d \<noteq> CHR ''-''"
    by auto
qed

lemma show_nat_not_Nil [simp]: "show_nat n \<noteq> []"
  by (subst show_nat.simps) simp

lemma show_nat_digits: "c \<in> set (show_nat n) \<Longrightarrow> \<exists>d < 10. c = digit_char d"
proof (induction n rule: show_nat.induct)
  case (1 n)
  then show ?case
    by (subst (asm) (2) show_nat.simps) (auto split: if_splits intro: exI [of _ "n mod 10"])
qed

lemma show_nat_fresh [simp, text_simps]:
  "CHR ''/'' \<notin> set (show_nat n)"
  "CHR ''-'' \<notin> set (show_nat n)"
  "CHR ''+'' \<notin> set (show_nat n)"
  using show_nat_digits digit_char_not_sign by metis+

lemma hd_show_nat_not_plus [simp]: "hd (show_nat n) \<noteq> CHR ''+''"
  by (metis show_nat_fresh(3) show_nat_not_Nil list.set_sel(1))

lemma parse_digits_append:
  "parse_digits l a (xs @ ys) = Option.bind (parse_digits l a xs) (\<lambda>b. parse_digits l b ys)"
  by (induction xs arbitrary: a) (auto split: option.splits)

lemma parse_digits_show_nat: "n < l \<Longrightarrow> parse_digits l 0 (show_nat n) = Some n"
proof (induction n rule: show_nat.induct)
  case (1 n)
  show ?case
  proof (cases "n < 10")
    case True
    with 1 show ?thesis
      by (subst show_nat.simps) simp
  next
    case False
    with 1 have "parse_digits l 0 (show_nat (n div 10)) = Some (n div 10)"
      by simp
    with False 1(2) show ?thesis
      by (subst show_nat.simps) (simp add: parse_digits_append)
  qed
qed

lemma parse_uint_show_nat [text_simps]: "n < l \<Longrightarrow> parse_uint l (show_nat n) = Some n"
  by (auto simp: parse_uint_def parse_digits_show_nat dest: arg_cong [where f = hd])

lemma parse_show_u64 [simp, text_simps]: "parse_u64 (show_u64 w) = Some w"
  by (simp add: parse_u64_def show_u64_def parse_uint_show_nat unsigned_less [where 'b = 64, simplified])

lemma show_u64_fresh [simp, text_simps]:
  "CHR ''/'' \<notin> set (show_u64 w)"
  "CHR ''-'' \<notin> set (show_u64 w)"
  by (simp_all add: show_u64_def)

lemma show_u64_not_Nil [simp]: "show_u64 w \<noteq> []"
  by (simp add: show_u64_def)

lemma show_u64_inj [simp]: "show_u64 v = show_u64 w \<longleftrightarrow> v = w"
  by (metis parse_show_u64 option.inject)

lemma parse_digits_bound: "parse_digits l a s = Some n \<Longrightarrow> a < l \<Longrightarrow> n < l"
  by (induction s arbitrary: a) (auto split: option.splits if_splits)

section \<open>Prefixes\<close>

definition strip_prefix :: "string \<Rightarrow> string \<Rightarrow> string option" where
  "strip_prefix p s = (if take (length p) s = p then Some (drop (length p) s) else None)"

lemma strip_prefix_append [simp, text_simps]: "strip_prefix p (p @ s) = Some s"
  by (simp add: strip_prefix_def)

lemma strip_prefix_eq_Some: "strip_prefix p s = Some t \<longleftrightarrow> s = p @ t"
  by (auto simp: strip_prefix_def) (metis append_take_drop_id)

section \<open>Characters of a string\<close>

text \<open>
  \<^verbatim>\<open>chars\<close> decodes the UTF-8 bytes into Unicode scalar values. A Rust string always holds valid
  UTF-8, so the lead byte alone tells how many continuation bytes follow.
\<close>

fun utf8_decode :: "nat list \<Rightarrow> nat list" where
  "utf8_decode [] = []"
| "utf8_decode (a # as) =
     (if a < 128 then a # utf8_decode as
      else if a < 224 then
        (case as of b # bs \<Rightarrow> ((a mod 32) * 64 + b mod 64) # utf8_decode bs | _ \<Rightarrow> [])
      else if a < 240 then
        (case as of b # c # cs \<Rightarrow> ((a mod 16) * 4096 + (b mod 64) * 64 + c mod 64) # utf8_decode cs
                  | _ \<Rightarrow> [])
      else
        (case as of b # c # d # ds \<Rightarrow>
             ((a mod 8) * 262144 + (b mod 64) * 4096 + (c mod 64) * 64 + d mod 64) # utf8_decode ds
           | _ \<Rightarrow> []))"

definition chars :: "string \<Rightarrow> nat list" where
  "chars s = utf8_decode (map of_char s)"

definition ascii_alphanumeric :: "nat \<Rightarrow> bool" where
  "ascii_alphanumeric n \<longleftrightarrow> 48 \<le> n \<and> n \<le> 57 \<or> 65 \<le> n \<and> n \<le> 90 \<or> 97 \<le> n \<and> n \<le> 122"

text \<open>
  \<^verbatim>\<open>char::is_alphanumeric\<close> is the ASCII test below 128 and a table of the Unicode standard above;
  the table is the argument \<open>ua\<close>.
\<close>

definition is_alphanumeric :: "(nat \<Rightarrow> bool) \<Rightarrow> nat \<Rightarrow> bool" where
  "is_alphanumeric ua n \<longleftrightarrow> (if n < 128 then ascii_alphanumeric n else ua n)"

text \<open>\<^verbatim>\<open>char::is_whitespace\<close>: the Unicode property White_Space.\<close>

definition is_whitespace :: "nat \<Rightarrow> bool" where
  "is_whitespace n \<longleftrightarrow> 9 \<le> n \<and> n \<le> 13 \<or> n = 32 \<or> n = 133 \<or> n = 160 \<or> n = 5760
     \<or> 8192 \<le> n \<and> n \<le> 8202 \<or> n = 8232 \<or> n = 8233 \<or> n = 8239 \<or> n = 8287 \<or> n = 12288"

definition trim_is_empty :: "string \<Rightarrow> bool" where
  "trim_is_empty s \<longleftrightarrow> list_all is_whitespace (chars s)"

lemma utf8_decode_ascii: "list_all (\<lambda>n. n < 128) ns \<Longrightarrow> utf8_decode ns = ns"
  by (induction ns) auto

lemma chars_ascii: "list_all (\<lambda>c. of_char c < (128 :: nat)) s \<Longrightarrow> chars s = map of_char s"
  by (simp add: chars_def utf8_decode_ascii list_all_iff)

lemma utf8_decode_ascii_append:
  "list_all (\<lambda>n. n < 128) ns \<Longrightarrow> utf8_decode (ns @ ms) = ns @ utf8_decode ms"
  by (induction ns) auto

lemma of_char_digit_char: "d < 10 \<Longrightarrow> (of_char (digit_char d) :: nat) = 48 + d"
  by (simp add: digit_char_def of_char_of)

lemma show_nat_of_char: "c \<in> set (show_nat n) \<Longrightarrow> 48 \<le> (of_char c :: nat) \<and> (of_char c :: nat) \<le> 57"
  using show_nat_digits [of c n] of_char_digit_char by fastforce

lemma show_nat_length: "n < 10 ^ k \<Longrightarrow> 0 < k \<Longrightarrow> length (show_nat n) \<le> k"
proof (induction n arbitrary: k rule: show_nat.induct)
  case (1 n)
  show ?case
  proof (cases "n < 10")
    case True
    with 1(3) show ?thesis
      by (subst show_nat.simps) simp
  next
    case False
    with 1(2,3) obtain j where j: "k = Suc j" "0 < j"
      by (cases k; cases "k = 1") auto
    with 1(2) have "n div 10 < 10 ^ j"
      by (simp add: less_mult_imp_div_less mult.commute)
    with 1(1) [OF False this j(2)] False j(1) show ?thesis
      by (subst show_nat.simps) simp
  qed
qed

lemma show_u64_length: "length (show_u64 w) \<le> 20"
proof -
  have "unat w < 2 ^ 64"
    using unsigned_less [of w] by simp
  then have "unat w < 10 ^ 20"
    by simp
  then show ?thesis
    unfolding show_u64_def by (rule show_nat_length) simp
qed

lemma show_u64_of_char:
  "c \<in> set (show_u64 w) \<Longrightarrow> 48 \<le> (of_char c :: nat) \<and> (of_char c :: nat) \<le> 57"
  by (simp add: show_u64_def show_nat_of_char)

section \<open>Big-endian bytes\<close>

definition be_bytes :: "u64 \<Rightarrow> bytes" where
  "be_bytes w = map (\<lambda>i. ucast (drop_bit (8 * i) w)) [7, 6, 5, 4, 3, 2, 1, 0]"

lemma be_bytes_length [simp]: "length (be_bytes w) = 8"
  by (simp add: be_bytes_def)

lemma be_bytes_inj: "be_bytes v = be_bytes w \<longleftrightarrow> v = w"
proof
  assume eq: "be_bytes v = be_bytes w"
  have "bit v n = bit w n" if "n < 64" for n
  proof -
    have "n div 8 \<in> set [7, 6, 5, 4, 3, 2, 1, 0]"
      using that by auto
    then have "(ucast (drop_bit (8 * (n div 8)) v) :: u8) = ucast (drop_bit (8 * (n div 8)) w)"
      using eq unfolding be_bytes_def map_eq_conv by blast
    then have "bit (ucast (drop_bit (8 * (n div 8)) v) :: u8) (n mod 8)
             = bit (ucast (drop_bit (8 * (n div 8)) w) :: u8) (n mod 8)"
      by simp
    then show ?thesis
      by (simp add: bit_ucast_iff bit_drop_bit_eq)
  qed
  then show "v = w"
    by (intro bit_word_eqI) simp
qed simp

end
