(* ===== verification/Host_Identifiers.thy ===== *)
theory Host_Identifiers
  imports Rust_Text
begin

text \<open>
  ICS24 host identifiers: \<^verbatim>\<open>core/ics24_host/validate.rs\<close>, \<^verbatim>\<open>identifier.rs\<close> and \<^verbatim>\<open>error.rs\<close>. Client,
  connection and port identifiers are validated strings; a channel identifier is a number that
  prints as \<^verbatim>\<open>channel-N\<close>. The lemmas show what validation accepts, that the constructors used by the
  handlers always produce valid identifiers, and that printing is inverted by parsing.
\<close>

section \<open>Validation\<close>

datatype validation_error =
    ContainSeparator string
  | InvalidLength string nat nat nat
  | InvalidCharacter string
  | Empty
  | ChainIdInvalidFormat string
  | ChannelIdInvalidFormat
  | ChannelIdParseFailure
  | InvalidCounterpartyChannelId

definition PATH_SEPARATOR :: char where
  "PATH_SEPARATOR = CHR ''/''"

definition VALID_SPECIAL_CHARS :: string where
  "VALID_SPECIAL_CHARS = ''._+-#[]<>''"

definition valid_identifier_char :: "(nat \<Rightarrow> bool) \<Rightarrow> nat \<Rightarrow> bool" where
  "valid_identifier_char ua n \<longleftrightarrow> is_alphanumeric ua n \<or> n \<in> set (chars VALID_SPECIAL_CHARS)"

definition validate_identifier ::
    "(nat \<Rightarrow> bool) \<Rightarrow> string \<Rightarrow> nat \<Rightarrow> nat \<Rightarrow> (unit, validation_error) res" where
  "validate_identifier ua s mn mx =
     (if \<not> mn \<le> mx then panics
      else if s = [] then fail_with Empty
      else if PATH_SEPARATOR \<in> set s then fail_with (ContainSeparator s)
      else if length s < mn \<or> mx < length s then fail_with (InvalidLength s (length s) mn mx)
      else if \<not> list_all (valid_identifier_char ua) (chars s) then fail_with (InvalidCharacter s)
      else Inr ())"

definition validate_client_identifier :: "(nat \<Rightarrow> bool) \<Rightarrow> string \<Rightarrow> (unit, validation_error) res" where
  "validate_client_identifier ua s = validate_identifier ua s 9 64"

definition validate_connection_identifier :: "(nat \<Rightarrow> bool) \<Rightarrow> string \<Rightarrow> (unit, validation_error) res" where
  "validate_connection_identifier ua s = validate_identifier ua s 10 64"

definition validate_port_identifier :: "(nat \<Rightarrow> bool) \<Rightarrow> string \<Rightarrow> (unit, validation_error) res" where
  "validate_port_identifier ua s = validate_identifier ua s 2 128"

lemmas validator_defs =
  validate_client_identifier_def validate_connection_identifier_def validate_port_identifier_def

section \<open>Identifiers\<close>

datatype client_id = ClientId (client_id_str: string)

datatype connection_id = ConnectionId (connection_id_str: string)

datatype port_id = PortId (port_id_str: string)

datatype channel_id = ChannelId (channel_sequence: u64)

definition client_id_from_str :: "(nat \<Rightarrow> bool) \<Rightarrow> string \<Rightarrow> (client_id, validation_error) res" where
  "client_id_from_str ua s = bind_res (validate_client_identifier ua s) (\<lambda>_. Inr (ClientId s))"

definition client_id_new :: "(nat \<Rightarrow> bool) \<Rightarrow> string \<Rightarrow> u64 \<Rightarrow> (client_id, validation_error) res" where
  "client_id_new ua prefix counter = client_id_from_str ua (prefix @ ''-'' @ show_u64 counter)"

definition client_id_to_string :: "client_id \<Rightarrow> string" where
  "client_id_to_string i = client_id_str i"

definition connection_prefix :: string where
  "connection_prefix = ''connection''"

definition connection_id_from_str :: "(nat \<Rightarrow> bool) \<Rightarrow> string \<Rightarrow> (connection_id, validation_error) res" where
  "connection_id_from_str ua s =
     bind_res (validate_connection_identifier ua s) (\<lambda>_. Inr (ConnectionId s))"

text \<open>\<^verbatim>\<open>ConnectionId::new\<close> ends in an \<^verbatim>\<open>expect\<close>: a validation error is a panic.\<close>

definition connection_id_new :: "(nat \<Rightarrow> bool) \<Rightarrow> u64 \<Rightarrow> (connection_id, 'e) res" where
  "connection_id_new ua counter =
     (case connection_id_from_str ua (connection_prefix @ ''-'' @ show_u64 counter) of
        Inl _ \<Rightarrow> panics | Inr i \<Rightarrow> Inr i)"

definition connection_id_to_string :: "connection_id \<Rightarrow> string" where
  "connection_id_to_string i = connection_id_str i"

definition port_transfer :: port_id where
  "port_transfer = PortId ''transfer''"

definition port_id_from_str :: "(nat \<Rightarrow> bool) \<Rightarrow> string \<Rightarrow> (port_id, validation_error) res" where
  "port_id_from_str ua s = bind_res (validate_port_identifier ua s) (\<lambda>_. Inr (PortId s))"

definition port_id_to_string :: "port_id \<Rightarrow> string" where
  "port_id_to_string i = port_id_str i"

definition channel_prefix :: string where
  "channel_prefix = ''channel-''"

definition channel_id_from_id :: "string \<Rightarrow> channel_id option" where
  "channel_id_from_id s = map_option ChannelId (Option.bind (strip_prefix channel_prefix s) parse_u64)"

definition channel_id_from_str :: "string \<Rightarrow> (channel_id, validation_error) res" where
  "channel_id_from_str s = ok_or (channel_id_from_id s) ChannelIdInvalidFormat"

definition channel_id_to_string :: "channel_id \<Rightarrow> string" where
  "channel_id_to_string c = channel_prefix @ show_u64 (channel_sequence c)"

definition port_channel_id_to_string :: "port_id \<Rightarrow> channel_id \<Rightarrow> string" where
  "port_channel_id_to_string p c = port_id_to_string p @ ''/'' @ channel_id_to_string c"

text \<open>The string-valued identifiers that their \<^verbatim>\<open>from_str\<close> returns.\<close>

definition valid_client_id :: "(nat \<Rightarrow> bool) \<Rightarrow> client_id \<Rightarrow> bool" where
  "valid_client_id ua i \<longleftrightarrow> validate_client_identifier ua (client_id_str i) = Inr ()"

definition valid_connection_id :: "(nat \<Rightarrow> bool) \<Rightarrow> connection_id \<Rightarrow> bool" where
  "valid_connection_id ua i \<longleftrightarrow> validate_connection_identifier ua (connection_id_str i) = Inr ()"

definition valid_port_id :: "(nat \<Rightarrow> bool) \<Rightarrow> port_id \<Rightarrow> bool" where
  "valid_port_id ua i \<longleftrightarrow> validate_port_identifier ua (port_id_str i) = Inr ()"

section \<open>What validation accepts\<close>

lemma validate_identifier_ok_iff:
  "validate_identifier ua s mn mx = Inr u \<longleftrightarrow>
     mn \<le> mx \<and> s \<noteq> [] \<and> CHR ''/'' \<notin> set s \<and> mn \<le> length s \<and> length s \<le> mx
     \<and> list_all (valid_identifier_char ua) (chars s)"
  by (auto simp: validate_identifier_def PATH_SEPARATOR_def)

lemma validate_identifier_no_panic: "mn \<le> mx \<Longrightarrow> validate_identifier ua s mn mx \<noteq> Inl Panic"
  by (simp add: validate_identifier_def fail_with_def)

lemma valid_id_no_separator [text_simps]:
  "valid_client_id ua i \<Longrightarrow> CHR ''/'' \<notin> set (client_id_str i)"
  "valid_connection_id ua k \<Longrightarrow> CHR ''/'' \<notin> set (connection_id_str k)"
  "valid_port_id ua p \<Longrightarrow> CHR ''/'' \<notin> set (port_id_str p)"
  by (simp_all add: valid_client_id_def valid_connection_id_def valid_port_id_def validator_defs
      validate_identifier_ok_iff)

lemma from_str_to_string [simp, text_simps]:
  "valid_client_id ua i \<Longrightarrow> client_id_from_str ua (client_id_str i) = Inr i"
  "valid_connection_id ua k \<Longrightarrow> connection_id_from_str ua (connection_id_str k) = Inr k"
  "valid_port_id ua p \<Longrightarrow> port_id_from_str ua (port_id_str p) = Inr p"
  by (simp_all add: client_id_from_str_def connection_id_from_str_def port_id_from_str_def
      valid_client_id_def valid_connection_id_def valid_port_id_def)

lemma from_str_valid:
  "client_id_from_str ua s = Inr i \<Longrightarrow> valid_client_id ua i"
  "connection_id_from_str ua s = Inr k \<Longrightarrow> valid_connection_id ua k"
  "port_id_from_str ua s = Inr p \<Longrightarrow> valid_port_id ua p"
  by (auto simp: client_id_from_str_def connection_id_from_str_def port_id_from_str_def
      valid_client_id_def valid_connection_id_def valid_port_id_def)

lemma channel_id_roundtrip [simp, text_simps]:
  "channel_id_from_str (channel_id_to_string c) = Inr c"
  by (cases c) (simp add: channel_id_from_str_def channel_id_from_id_def channel_id_to_string_def)

lemma channel_id_to_string_inj [simp]: "channel_id_to_string c = channel_id_to_string d \<longleftrightarrow> c = d"
  by (metis channel_id_roundtrip sum.inject(2))

lemma channel_id_no_separator [simp, text_simps]: "CHR ''/'' \<notin> set (channel_id_to_string c)"
  by (simp add: channel_id_to_string_def channel_prefix_def)

subsection \<open>The constructors with a counter\<close>

lemma ascii_char_valid:
  assumes "c \<in> set (show_u64 n)"
  shows "valid_identifier_char ua (of_char c)" and "(of_char c :: nat) < 128"
  using show_u64_of_char [OF assms]
  by (auto simp: valid_identifier_char_def is_alphanumeric_def ascii_alphanumeric_def)

lemma counter_id_chars:
  assumes "list_all (\<lambda>c. (of_char c :: nat) < 128) p"
    and "list_all (\<lambda>c. valid_identifier_char ua (of_char c)) p"
  shows "list_all (valid_identifier_char ua) (chars (p @ show_u64 n))"
proof -
  have "chars (p @ show_u64 n) = map of_char (p @ show_u64 n)"
    using assms(1) ascii_char_valid(2) [of _ n] by (intro chars_ascii) (auto simp: list_all_iff)
  then show ?thesis
    using assms(2) ascii_char_valid(1) by (auto simp: list_all_iff)
qed

lemma valid_char_literals:
  "valid_identifier_char ua n \<longleftrightarrow> is_alphanumeric ua n \<or> n \<in> {46, 95, 43, 45, 35, 91, 93, 60, 62}"
  by (auto simp: valid_identifier_char_def VALID_SPECIAL_CHARS_def chars_def)

lemma connection_id_new_ok [simp]:
  "connection_id_new ua n = Inr (ConnectionId (''connection-'' @ show_u64 n))"
proof -
  have "list_all (valid_identifier_char ua) (chars (''connection-'' @ show_u64 n))"
    by (rule counter_id_chars)
      (simp_all add: valid_char_literals is_alphanumeric_def ascii_alphanumeric_def)
  then have "validate_connection_identifier ua (''connection-'' @ show_u64 n) = Inr ()"
    using show_u64_length [of n]
    by (simp add: validate_connection_identifier_def validate_identifier_ok_iff Suc_le_eq)
  then show ?thesis
    by (simp add: connection_id_new_def connection_id_from_str_def connection_prefix_def)
qed

lemma client_id_new_eq:
  "client_id_new ua t n = Inr i \<Longrightarrow> i = ClientId (t @ ''-'' @ show_u64 n) \<and> valid_client_id ua i"
  by (auto simp: client_id_new_def client_id_from_str_def valid_client_id_def)

lemma client_id_new_inj:
  assumes "client_id_new ua t n = Inr i" and "client_id_new ua u m = Inr i"
  shows "t = u \<and> n = m"
proof -
  have "t @ CHR ''-'' # show_u64 n = u @ CHR ''-'' # show_u64 m"
    using assms [THEN client_id_new_eq] by simp
  then have "t = u \<and> show_u64 n = show_u64 m"
    by (rule last_separator) simp_all
  then show ?thesis
    by simp
qed

end
