(* ===== verification/Height_Time.thy ===== *)
theory Height_Time
  imports Host_Identifiers
begin

text \<open>
  Heights (\<^verbatim>\<open>core/ics02_client/height.rs\<close>), timestamps (\<^verbatim>\<open>timestamp.rs\<close>) and the error type of ICS02
  (\<^verbatim>\<open>core/ics02_client/error.rs\<close>). Heights carry the order of the source, an instance of
  \<open>linorder\<close>. \<^verbatim>\<open>tendermint::Time\<close> is a count of nanoseconds since the epoch; which counts that type
  can represent is the argument \<open>tm\<close>.
\<close>

section \<open>Heights\<close>

datatype height = Height (revision_number: u64) (revision_height: u64)

datatype ordering = Less | Equal | Greater

definition height_zero :: height where
  "height_zero = Height 0 0"

definition is_zero :: "height \<Rightarrow> bool" where
  "is_zero h \<longleftrightarrow> revision_height h = 0"

definition height_add :: "height \<Rightarrow> u64 \<Rightarrow> (height, 'e) res" where
  "height_add h delta =
     bind_res (plus_or_panic (revision_height h) delta) (\<lambda>n. Inr (Height (revision_number h) n))"

definition height_increment :: "height \<Rightarrow> (height, 'e) res" where
  "height_increment h = height_add h 1"

definition with_revision_height :: "height \<Rightarrow> u64 \<Rightarrow> height" where
  "with_revision_height h n = Height (revision_number h) n"

definition height_cmp :: "height \<Rightarrow> height \<Rightarrow> ordering" where
  "height_cmp a b =
     (if revision_number a < revision_number b then Less
      else if revision_number a > revision_number b then Greater
      else if revision_height a < revision_height b then Less
      else if revision_height a > revision_height b then Greater
      else Equal)"

instantiation height :: linorder
begin

definition less_eq_height :: "height \<Rightarrow> height \<Rightarrow> bool" where
  "a \<le> b \<longleftrightarrow> height_cmp a b \<noteq> Greater"

definition less_height :: "height \<Rightarrow> height \<Rightarrow> bool" where
  "a < b \<longleftrightarrow> height_cmp a b = Less"

instance
proof
  fix x y z :: height
  show "x < y \<longleftrightarrow> x \<le> y \<and> \<not> y \<le> x"
    by (cases x; cases y) (auto simp: less_height_def less_eq_height_def height_cmp_def)
  show "x \<le> x"
    by (simp add: less_eq_height_def height_cmp_def)
  show "x \<le> z" if "x \<le> y" and "y \<le> z"
    using that by (cases x; cases y; cases z)
      (auto simp: less_eq_height_def height_cmp_def split: if_splits)
  show "x = y" if "x \<le> y" and "y \<le> x"
    using that by (cases x; cases y) (auto simp: less_eq_height_def height_cmp_def split: if_splits)
  show "x \<le> y \<or> y \<le> x"
    by (cases x; cases y) (auto simp: less_eq_height_def height_cmp_def)
qed

end

lemma height_less_iff:
  "a < b \<longleftrightarrow> revision_number a < revision_number b
     \<or> revision_number a = revision_number b \<and> revision_height a < revision_height b"
  by (auto simp: less_height_def height_cmp_def)

lemma height_le_iff:
  "a \<le> b \<longleftrightarrow> revision_number a < revision_number b
     \<or> revision_number a = revision_number b \<and> revision_height a \<le> revision_height b"
  by (auto simp: less_eq_height_def height_cmp_def)

lemma height_cmp_refines_order:
  "height_cmp a b = (if a < b then Less else if a = b then Equal else Greater)"
  by (cases a; cases b) (auto simp: less_height_def height_cmp_def)

lemma height_zero_le [simp]: "height_zero \<le> h"
  by (auto simp: height_le_iff height_zero_def word_gt_0)

lemma height_zero_is_zero [simp]: "is_zero height_zero"
  by (simp add: is_zero_def height_zero_def)

subsection \<open>Text form\<close>

datatype height_error = HeightConversion string

text \<open>\<^verbatim>\<open>Display\<close> and \<^verbatim>\<open>From<Height> for String\<close>; the second prints the revision number twice.\<close>

definition height_display :: "height \<Rightarrow> string" where
  "height_display h = show_u64 (revision_number h) @ ''-'' @ show_u64 (revision_height h)"

definition height_into_string :: "height \<Rightarrow> string" where
  "height_into_string h = show_u64 (revision_number h) @ ''-'' @ show_u64 (revision_number h)"

text \<open>Indexing with \<^verbatim>\<open>split[1]\<close> panics when the text has no dash.\<close>

definition height_try_from :: "string \<Rightarrow> (height, height_error) res" where
  "height_try_from s = (let parts = split_on (CHR ''-'') s in
     bind_res (if 0 < length parts then Inr (parts ! 0) else panics) (\<lambda>p0.
     bind_res (ok_or (parse_u64 p0) (HeightConversion s)) (\<lambda>n.
     bind_res (if 1 < length parts then Inr (parts ! 1) else panics) (\<lambda>p1.
     bind_res (ok_or (parse_u64 p1) (HeightConversion s)) (\<lambda>h.
     Inr (Height n h))))))"

lemma height_display_split:
  "split_on (CHR ''-'') (height_display h)
     = [show_u64 (revision_number h), show_u64 (revision_height h)]"
  by (simp add: height_display_def)

lemma height_try_from_display [simp, text_simps]: "height_try_from (height_display h) = Inr h"
  by (cases h) (simp add: height_try_from_def height_display_split)

lemma height_display_inj [simp]: "height_display a = height_display b \<longleftrightarrow> a = b"
  by (metis height_try_from_display sum.inject(2))

lemma height_display_no_separator [simp, text_simps]: "CHR ''/'' \<notin> set (height_display h)"
  by (simp add: height_display_def)

section \<open>Timestamps\<close>

type_synonym tm_time = int
type_synonym duration = nat

datatype timestamp = Timestamp (time: "tm_time option")

datatype expiry = Expired | NotExpired | InvalidTimestamp

datatype parse_timestamp_error = ParseInt | ParseError

datatype timestamp_overflow_error = TimestampOverflow

definition timestamp_none :: timestamp where
  "timestamp_none = Timestamp None"

definition from_nanoseconds :: "(int \<Rightarrow> bool) \<Rightarrow> u64 \<Rightarrow> (timestamp, parse_timestamp_error) res" where
  "from_nanoseconds tm n =
     (if n = 0 then Inr (Timestamp None)
      else if tm (uint n) then Inr (Timestamp (Some (uint n)))
      else fail_with ParseError)"

text \<open>A duration is a count of nanoseconds; \<^verbatim>\<open>Time::duration_since\<close> fails when it would be negative.\<close>

definition duration_since :: "timestamp \<Rightarrow> timestamp \<Rightarrow> duration option" where
  "duration_since a b =
     (case (time a, time b) of
        (Some s, Some t) \<Rightarrow> if t \<le> s then Some (nat (s - t)) else None
      | _ \<Rightarrow> None)"

text \<open>\<^verbatim>\<open>nanoseconds\<close> asserts that the time is not negative and expects it to fit 64 bits.\<close>

definition nanoseconds_opt :: "timestamp \<Rightarrow> u64 option" where
  "nanoseconds_opt ts =
     (case time ts of
        None \<Rightarrow> Some 0
      | Some t \<Rightarrow> if \<not> 0 \<le> t then None else if t < 2 ^ 64 then Some (word_of_int t) else None)"

definition nanoseconds :: "timestamp \<Rightarrow> (u64, 'e) res" where
  "nanoseconds ts = unwrap_opt (nanoseconds_opt ts)"

definition check_expiry :: "timestamp \<Rightarrow> timestamp \<Rightarrow> expiry" where
  "check_expiry a b =
     (case (time a, time b) of
        (Some s, Some t) \<Rightarrow> if s \<ge> t then Expired else NotExpired
      | _ \<Rightarrow> InvalidTimestamp)"

definition timestamp_after :: "timestamp \<Rightarrow> timestamp \<Rightarrow> bool" where
  "timestamp_after a b = (case (time a, time b) of (Some s, Some t) \<Rightarrow> s > t | _ \<Rightarrow> False)"

definition timestamp_add ::
    "(int \<Rightarrow> bool) \<Rightarrow> timestamp \<Rightarrow> duration \<Rightarrow> (timestamp, timestamp_overflow_error) res" where
  "timestamp_add tm ts d =
     (case time ts of
        Some t \<Rightarrow> if tm (t + int d) then Inr (Timestamp (Some (t + int d)))
                  else fail_with TimestampOverflow
      | None \<Rightarrow> Inr ts)"

definition timestamp_sub ::
    "(int \<Rightarrow> bool) \<Rightarrow> timestamp \<Rightarrow> duration \<Rightarrow> (timestamp, timestamp_overflow_error) res" where
  "timestamp_sub tm ts d =
     (case time ts of
        Some t \<Rightarrow> if tm (t - int d) then Inr (Timestamp (Some (t - int d)))
                  else fail_with TimestampOverflow
      | None \<Rightarrow> Inr ts)"

definition timestamp_from_str :: "(int \<Rightarrow> bool) \<Rightarrow> string \<Rightarrow> (timestamp, parse_timestamp_error) res" where
  "timestamp_from_str tm s = bind_res (ok_or (parse_u64 s) ParseInt) (from_nanoseconds tm)"

lemma uint_u64_bounds: "0 \<le> uint n" "uint n < 2 ^ 64" for n :: u64
  using unsigned_less [of n, where 'a = int] by simp_all

lemma uint_u64_pos: "n \<noteq> 0 \<Longrightarrow> 0 < uint n" for n :: u64
  by (simp add: order.strict_iff_order unsigned_eq_0_iff)

lemma nanoseconds_eq_Inr [simp]: "nanoseconds ts = Inr n \<longleftrightarrow> nanoseconds_opt ts = Some n"
  by (simp add: nanoseconds_def)

lemma nanoseconds_from_nanoseconds:
  assumes "from_nanoseconds tm n = Inr ts"
  shows "nanoseconds_opt ts = Some n"
  using assms uint_u64_bounds [of n]
  by (auto simp: from_nanoseconds_def nanoseconds_opt_def split: if_splits)

lemma from_nanoseconds_total:
  "(\<And>k. 0 < k \<Longrightarrow> k < 2 ^ 64 \<Longrightarrow> tm k) \<Longrightarrow> \<exists>ts. from_nanoseconds tm n = Inr ts"
  using uint_u64_bounds [of n] uint_u64_pos [of n] by (simp add: from_nanoseconds_def)

lemma uint_word_of_int_u64: "0 \<le> k \<Longrightarrow> k < 2 ^ 64 \<Longrightarrow> uint (word_of_int k :: u64) = k"
  by (simp add: uint_word_of_int take_bit_int_eq_self)

lemma from_nanoseconds_nanoseconds:
  assumes "nanoseconds_opt ts = Some n" and "pred_option tm (time ts)" and "time ts \<noteq> Some 0"
  shows "from_nanoseconds tm n = Inr ts"
proof (cases "time ts")
  case None
  with assms(1) show ?thesis
    by (cases ts) (simp add: nanoseconds_opt_def from_nanoseconds_def)
next
  case (Some k)
  with assms(1,3) have k: "0 < k" "k < 2 ^ 64" "n = word_of_int k"
    by (auto simp: nanoseconds_opt_def split: if_splits)
  then have "uint n = k"
    by (simp add: uint_word_of_int_u64)
  with k Some assms(2) show ?thesis
    by (cases ts) (auto simp: from_nanoseconds_def)
qed

lemma check_expiry_simps [simp]:
  "check_expiry (Timestamp (Some s)) (Timestamp (Some t)) = (if s \<ge> t then Expired else NotExpired)"
  "check_expiry (Timestamp None) b = InvalidTimestamp"
  "check_expiry a (Timestamp None) = InvalidTimestamp"
  by (simp_all add: check_expiry_def split: option.splits)

section \<open>Errors of ICS02\<close>

text \<open>
  The variants of \<^verbatim>\<open>ics02_client::error::Error\<close>. Sources that only feed an error trace are left out;
  a reason text is kept where the handlers construct it; \<open>E02_HeaderVerificationFailureOf e\<close> has
  the text of the error \<open>e\<close> as its reason. The variants that only the conversions from
  raw messages build are grouped in two types of their own.
\<close>

datatype ics02_decode_error =
    E02_UnknownClientStateType string
  | E02_EmptyClientStateResponse
  | E02_EmptyPrefix
  | E02_UnknownConsensusStateType string
  | E02_EmptyConsensusStateResponse
  | E02_UnknownHeaderType string
  | E02_UnknownMisbehaviourType string
  | E02_InvalidRawClientId string validation_error
  | E02_DecodeRawClientState
  | E02_DecodeRawHeader
  | E02_DecodeRawConsensusState
  | E02_MissingRawClientState
  | E02_InvalidRawConsensusState
  | E02_MissingRawConsensusState
  | E02_InvalidMsgUpdateClientId validation_error
  | E02_Decode
  | E02_Encode

datatype ics02_raw_error =
    E02_MissingHeight
  | E02_InvalidClientIdentifier validation_error
  | E02_InvalidRawHeader
  | E02_MalformedHeader
  | E02_MissingRawHeader
  | E02_MissingRawClientMessage
  | E02_DecodeRawMisbehaviour
  | E02_InvalidRawMisbehaviour validation_error
  | E02_MissingRawMisbehaviour
  | E02_InvalidAddress
  | E02_InvalidCommitmentProof
  | E02_InvalidPacketTimestamp parse_timestamp_error
  | E02_InvalidConnectionEnd
  | E02_InvalidChannelEnd
  | E02_InvalidAnyClientState
  | E02_InvalidAnyConsensusState
  | E02_Signer

datatype ics02_error =
    E02_ClientError string string
  | E02_UnknownClientType string
  | E02_ClientIdentifierConstructor string u64 validation_error
  | E02_ClientAlreadyExists client_id
  | E02_ClientNotFound client_id
  | E02_ClientFrozen client_id
  | E02_ConsensusStateNotFound client_id height
  | E02_ImplementationSpecific string
  | E02_HeaderVerificationFailure string
  | E02_HeaderVerificationFailureOf ics02_error
  | E02_InvalidTrustThreshold u64 u64
  | E02_FailedTrustThresholdConversion u64 u64
  | E02_InvalidStringAsHeight string height_error
  | E02_InvalidHeightResult
  | E02_InvalidUpgradeClientProof
  | E02_InvalidUpgradeConsensusStateProof
  | E02_ClientArgsTypeMismatch string
  | E02_InsufficientVotingPower string
  | E02_RawClientAndConsensusStateTypesMismatch string string
  | E02_LowHeaderHeight height height
  | E02_LowUpgradeHeight (upgraded_height: height) (client_height: height)
  | E02_InvalidConsensusStateTimestamp timestamp timestamp
  | E02_HeaderNotWithinTrustPeriod timestamp timestamp
  | E02_MissingLocalConsensusState height
  | E02_Undecodable ics02_decode_error
  | E02_Malformed ics02_raw_error

section \<open>Stepping heights back\<close>

definition height_sub :: "height \<Rightarrow> u64 \<Rightarrow> (height, ics02_error) res" where
  "height_sub h delta =
     (if revision_height h \<le> delta then fail_with E02_InvalidHeightResult
      else Inr (Height (revision_number h) (revision_height h - delta)))"

definition height_decrement :: "height \<Rightarrow> (height, ics02_error) res" where
  "height_decrement h = height_sub h 1"

lemma height_sub_less:
  assumes "height_sub h d = Inr k"
  shows "k \<le> h" and "\<not> is_zero k" and "revision_number k = revision_number h"
  using assms
  by (auto simp: height_sub_def height_le_iff is_zero_def word_less_nat_alt word_le_nat_alt unat_sub
      split: if_splits)

lemma height_sub_add:
  assumes "height_sub h d = Inr k"
  shows "height_add k d = Inr h"
proof -
  have d: "d \<le> revision_height h" and k: "k = Height (revision_number h) (revision_height h - d)"
    using assms by (auto simp: height_sub_def split: if_splits)
  have "unat (revision_height h - d) + unat d = unat (revision_height h)"
    using d by (simp add: unat_sub word_le_nat_alt)
  moreover have "unat (revision_height h) < 2 ^ 64"
    using unsigned_less [of "revision_height h"] by simp
  ultimately have "checked_add (revision_height h - d) d = Some (revision_height h)"
    by (simp add: checked_add_eq_Some)
  then show ?thesis
    using k by (simp add: height_add_def plus_or_panic_def)
qed

lemma height_add_sub:
  assumes "height_add h d = Inr k" and "\<not> is_zero h"
  shows "height_sub k d = Inr h"
proof -
  obtain n where n: "checked_add (revision_height h) d = Some n" "k = Height (revision_number h) n"
    using assms(1) by (auto simp: height_add_def)
  from checked_add_unat [OF n(1)] n have "unat (revision_height k) = unat (revision_height h) + unat d"
    and "k = Height (revision_number h) (revision_height h + d)"
    by (simp_all add: checked_add_eq_Some)
  then show ?thesis
    using assms(2) by (cases h) (simp add: height_sub_def is_zero_def word_le_nat_alt unat_eq_0)
qed

lemma height_add_mono: "height_add h d = Inr k \<Longrightarrow> h \<le> k"
  by (auto simp: height_add_def height_le_iff checked_add_def split: if_splits)

end
