(* ===== verification/Host_Paths.thy ===== *)
theory Host_Paths
  imports Height_Time
begin

text \<open>
  The ICS24 path language, \<^verbatim>\<open>core/ics24_host/path.rs\<close>: the paths under which a chain stores what its
  counterparties verify, their text form and its parser. The printer is injective on all paths of
  the language, whatever the identifiers hold, and the parser inverts it on valid identifiers.
\<close>

section \<open>Paths\<close>

type_synonym sequence = u64

datatype path =
    ClientTypePath client_id
  | ClientStatePath client_id
  | ClientConsensusStatePath client_id u64 u64
  | ClientConnectionsPath client_id
  | ConnectionsPath connection_id
  | PortsPath port_id
  | ChannelEndsPath port_id channel_id
  | SeqSendsPath port_id channel_id
  | SeqRecvsPath port_id channel_id
  | SeqAcksPath port_id channel_id
  | CommitmentsPath port_id channel_id sequence
  | AcksPath port_id channel_id sequence
  | ReceiptsPath port_id channel_id sequence
  | UpgradedClientState u64
  | UpgradedClientConsensusState u64
  | OutsidePath string

datatype sub_path = Channels channel_id | Sequences sequence

datatype path_error = ParseFailure string

definition UPGRADED_IBC_STATE :: string where
  "UPGRADED_IBC_STATE = ''upgradedIBCState''"

definition UPGRADED_CLIENT_STATE :: string where
  "UPGRADED_CLIENT_STATE = ''upgradedClient''"

definition UPGRADED_CLIENT_CONSENSUS_STATE :: string where
  "UPGRADED_CLIENT_CONSENSUS_STATE = ''upgradedConsState''"

lemmas upgrade_keys =
  UPGRADED_IBC_STATE_def UPGRADED_CLIENT_STATE_def UPGRADED_CLIENT_CONSENSUS_STATE_def

definition channel_part :: "port_id \<Rightarrow> channel_id \<Rightarrow> string" where
  "channel_part p c = port_id_to_string p @ ''/channels/'' @ channel_id_to_string c"

definition packet_part :: "port_id \<Rightarrow> channel_id \<Rightarrow> sequence \<Rightarrow> string" where
  "packet_part p c s = channel_part p c @ ''/sequences/'' @ show_u64 s"

fun path_display :: "path \<Rightarrow> string" where
  "path_display (ClientTypePath i) = ''clients/'' @ client_id_to_string i @ ''/clientType''"
| "path_display (ClientStatePath i) = ''clients/'' @ client_id_to_string i @ ''/clientState''"
| "path_display (ClientConsensusStatePath i e h) =
     ''clients/'' @ client_id_to_string i @ ''/consensusStates/'' @ show_u64 e @ ''-'' @ show_u64 h"
| "path_display (ClientConnectionsPath i) = ''clients/'' @ client_id_to_string i @ ''/connections''"
| "path_display (ConnectionsPath k) = ''connections/'' @ connection_id_to_string k"
| "path_display (PortsPath p) = ''ports/'' @ port_id_to_string p"
| "path_display (ChannelEndsPath p c) = ''channelEnds/ports/'' @ channel_part p c"
| "path_display (SeqSendsPath p c) = ''nextSequenceSend/ports/'' @ channel_part p c"
| "path_display (SeqRecvsPath p c) = ''nextSequenceRecv/ports/'' @ channel_part p c"
| "path_display (SeqAcksPath p c) = ''nextSequenceAck/ports/'' @ channel_part p c"
| "path_display (CommitmentsPath p c s) = ''commitments/ports/'' @ packet_part p c s"
| "path_display (AcksPath p c s) = ''acks/ports/'' @ packet_part p c s"
| "path_display (ReceiptsPath p c s) = ''receipts/ports/'' @ packet_part p c s"
| "path_display (UpgradedClientState h) =
     UPGRADED_IBC_STATE @ ''/'' @ show_u64 h @ ''/'' @ UPGRADED_CLIENT_STATE"
| "path_display (UpgradedClientConsensusState h) =
     UPGRADED_IBC_STATE @ ''/'' @ show_u64 h @ ''/'' @ UPGRADED_CLIENT_CONSENSUS_STATE"
| "path_display (OutsidePath s) = s"

fun is_provable :: "path \<Rightarrow> bool" where
  "is_provable (ClientConnectionsPath i) \<longleftrightarrow> False"
| "is_provable (PortsPath p) \<longleftrightarrow> False"
| "is_provable _ \<longleftrightarrow> True"

section \<open>The parser\<close>

text \<open>
  \<^verbatim>\<open>parse_client_paths\<close> reads \<^verbatim>\<open>components[1]\<close> before it looks at the number of components; out of
  range this is a panic. All the other parsers check the length first.
\<close>

definition parse_outside_paths :: "string list \<Rightarrow> path option" where
  "parse_outside_paths cs = Some (OutsidePath (join_with (CHR ''/'') cs))"

definition parse_client_paths :: "(nat \<Rightarrow> bool) \<Rightarrow> string list \<Rightarrow> (path option, 'e) res" where
  "parse_client_paths ua cs =
     (if cs = [] then Inr None
      else if hd cs \<noteq> ''clients'' then Inr None
      else if length cs \<le> 1 then panics
      else (case client_id_from_str ua (cs ! 1) of
          Inl _ \<Rightarrow> Inr None
        | Inr i \<Rightarrow>
            if length cs = 3 then
              Inr (if cs ! 2 = ''clientType'' then Some (ClientTypePath i)
                   else if cs ! 2 = ''clientState'' then Some (ClientStatePath i)
                   else if cs ! 2 = ''connections'' then Some (ClientConnectionsPath i)
                   else None)
            else if length cs = 4 then
              (if ''consensusStates'' \<noteq> cs ! 2 then Inr None
               else (let eh = split_on (CHR ''-'') (last cs) in
                 if length eh \<noteq> 2 then Inr None
                 else (case parse_u64 (eh ! 0) of
                     None \<Rightarrow> Inr None
                   | Some e \<Rightarrow> (case parse_u64 (eh ! 1) of
                         None \<Rightarrow> Inr None
                       | Some h \<Rightarrow> Inr (Some (ClientConsensusStatePath i e h))))))
            else Inr None))"

definition parse_connections :: "(nat \<Rightarrow> bool) \<Rightarrow> string list \<Rightarrow> path option" where
  "parse_connections ua cs =
     (if length cs \<noteq> 2 then None
      else if hd cs \<noteq> ''connections'' then None
      else map_option ConnectionsPath (res_ok (connection_id_from_str ua (last cs))))"

definition parse_ports :: "(nat \<Rightarrow> bool) \<Rightarrow> string list \<Rightarrow> path option" where
  "parse_ports ua cs =
     (if length cs \<noteq> 2 then None
      else if hd cs \<noteq> ''ports'' then None
      else map_option PortsPath (res_ok (port_id_from_str ua (last cs))))"

definition parse_channels :: "string list \<Rightarrow> sub_path option" where
  "parse_channels cs =
     (if length cs \<noteq> 2 then None
      else if hd cs \<noteq> ''channels'' then None
      else map_option Channels (res_ok (channel_id_from_str (last cs))))"

definition parse_sequences :: "string list \<Rightarrow> sub_path option" where
  "parse_sequences cs =
     (if length cs \<noteq> 2 then None
      else if hd cs \<noteq> ''sequences'' then None
      else map_option Sequences (parse_u64 (last cs)))"

definition parse_channel_ends :: "(nat \<Rightarrow> bool) \<Rightarrow> string list \<Rightarrow> path option" where
  "parse_channel_ends ua cs =
     (if length cs \<noteq> 5 then None
      else if hd cs \<noteq> ''channelEnds'' then None
      else (case (parse_ports ua (take 2 (drop 1 cs)), parse_channels (take 2 (drop 3 cs))) of
          (Some (PortsPath p), Some (Channels c)) \<Rightarrow> Some (ChannelEndsPath p c)
        | _ \<Rightarrow> None))"

definition parse_seqs :: "(nat \<Rightarrow> bool) \<Rightarrow> string list \<Rightarrow> path option" where
  "parse_seqs ua cs =
     (if length cs \<noteq> 5 then None
      else (case (parse_ports ua (take 2 (drop 1 cs)), parse_channels (take 2 (drop 3 cs))) of
          (Some (PortsPath p), Some (Channels c)) \<Rightarrow>
            if hd cs = ''nextSequenceSend'' then Some (SeqSendsPath p c)
            else if hd cs = ''nextSequenceRecv'' then Some (SeqRecvsPath p c)
            else if hd cs = ''nextSequenceAck'' then Some (SeqAcksPath p c)
            else None
        | _ \<Rightarrow> None))"

definition parse_commitments :: "(nat \<Rightarrow> bool) \<Rightarrow> string list \<Rightarrow> path option" where
  "parse_commitments ua cs =
     (if length cs \<noteq> 7 then None
      else if hd cs \<noteq> ''commitments'' then None
      else (case (parse_ports ua (take 2 (drop 1 cs)), parse_channels (take 2 (drop 3 cs)),
                  parse_sequences (drop 5 cs)) of
          (Some (PortsPath p), Some (Channels c), Some (Sequences s)) \<Rightarrow> Some (CommitmentsPath p c s)
        | _ \<Rightarrow> None))"

definition parse_acks :: "(nat \<Rightarrow> bool) \<Rightarrow> string list \<Rightarrow> path option" where
  "parse_acks ua cs =
     (if length cs \<noteq> 7 then None
      else if hd cs \<noteq> ''acks'' then None
      else (case (parse_ports ua (take 2 (drop 1 cs)), parse_channels (take 2 (drop 3 cs)),
                  parse_sequences (drop 5 cs)) of
          (Some (PortsPath p), Some (Channels c), Some (Sequences s)) \<Rightarrow> Some (AcksPath p c s)
        | _ \<Rightarrow> None))"

definition parse_receipts :: "(nat \<Rightarrow> bool) \<Rightarrow> string list \<Rightarrow> path option" where
  "parse_receipts ua cs =
     (if length cs \<noteq> 7 then None
      else if hd cs \<noteq> ''receipts'' then None
      else (case (parse_ports ua (take 2 (drop 1 cs)), parse_channels (take 2 (drop 3 cs)),
                  parse_sequences (drop 5 cs)) of
          (Some (PortsPath p), Some (Channels c), Some (Sequences s)) \<Rightarrow> Some (ReceiptsPath p c s)
        | _ \<Rightarrow> None))"

definition parse_upgrades :: "string list \<Rightarrow> path option" where
  "parse_upgrades cs =
     (if length cs \<noteq> 3 then None
      else if hd cs \<noteq> UPGRADED_IBC_STATE then None
      else (case parse_u64 (cs ! 1) of
          None \<Rightarrow> None
        | Some h \<Rightarrow>
            if last cs = UPGRADED_CLIENT_STATE then Some (UpgradedClientState h)
            else if last cs = UPGRADED_CLIENT_CONSENSUS_STATE then Some (UpgradedClientConsensusState h)
            else None))"

definition or_else :: "'a option \<Rightarrow> 'a option \<Rightarrow> 'a option" where
  "or_else m n = (case m of None \<Rightarrow> n | Some x \<Rightarrow> Some x)"

definition path_from_str :: "(nat \<Rightarrow> bool) \<Rightarrow> string \<Rightarrow> (path, path_error) res" where
  "path_from_str ua s = (let cs = split_on (CHR ''/'') s in
     bind_res (parse_client_paths ua cs) (\<lambda>m.
     ok_or
       (or_else m
       (or_else (parse_connections ua cs)
       (or_else (parse_ports ua cs)
       (or_else (parse_channel_ends ua cs)
       (or_else (parse_seqs ua cs)
       (or_else (parse_commitments ua cs)
       (or_else (parse_acks ua cs)
       (or_else (parse_receipts ua cs)
       (or_else (parse_upgrades cs)
         (parse_outside_paths cs))))))))))
       (ParseFailure s)))"

section \<open>Printing is injective\<close>

lemma suffix_inj:
  assumes "CHR ''/'' \<notin> set q" and "CHR ''/'' \<notin> set r"
  shows "x @ CHR ''/'' # q = y @ CHR ''/'' # r \<longleftrightarrow> x = y \<and> q = r"
  using last_separator [of x "CHR ''/''" q y r] assms by blast

lemma tail_part_inj:
  assumes "(x @ w) @ CHR ''/'' # q = (y @ w) @ CHR ''/'' # r"
    and "CHR ''/'' \<notin> set q" and "CHR ''/'' \<notin> set r"
  shows "x = y \<and> q = r"
  using last_separator [OF assms] by simp

lemma channel_part_inj [simp]: "channel_part p c = channel_part p' c' \<longleftrightarrow> p = p' \<and> c = c'"
proof
  assume "channel_part p c = channel_part p' c'"
  then have "(port_id_str p @ ''/channels'') @ CHR ''/'' # channel_id_to_string c
           = (port_id_str p' @ ''/channels'') @ CHR ''/'' # channel_id_to_string c'"
    by (simp add: channel_part_def port_id_to_string_def)
  from tail_part_inj [OF this] show "p = p' \<and> c = c'"
    by (simp add: port_id.expand)
qed simp

lemma packet_part_inj [simp]:
  "packet_part p c s = packet_part p' c' s' \<longleftrightarrow> p = p' \<and> c = c' \<and> s = s'"
proof
  assume "packet_part p c s = packet_part p' c' s'"
  then have "(channel_part p c @ ''/sequences'') @ CHR ''/'' # show_u64 s
           = (channel_part p' c' @ ''/sequences'') @ CHR ''/'' # show_u64 s'"
    by (simp add: packet_part_def)
  from tail_part_inj [OF this] show "p = p' \<and> c = c' \<and> s = s'"
    by simp
qed simp

definition client_part :: "client_id \<Rightarrow> string \<Rightarrow> string" where
  "client_part i t = client_id_str i @ CHR ''/'' # t"

definition consensus_part :: "client_id \<Rightarrow> height \<Rightarrow> string" where
  "consensus_part i h = client_id_str i @ ''/consensusStates'' @ CHR ''/'' # height_display h"

lemma client_path_parts:
  "path_display (ClientTypePath i) = ''clients/'' @ client_part i ''clientType''"
  "path_display (ClientStatePath i) = ''clients/'' @ client_part i ''clientState''"
  "path_display (ClientConnectionsPath i) = ''clients/'' @ client_part i ''connections''"
  "path_display (ClientConsensusStatePath i e h) = ''clients/'' @ consensus_part i (Height e h)"
  by (simp_all add: client_part_def consensus_part_def client_id_to_string_def height_display_def)

lemma client_part_inj:
  "CHR ''/'' \<notin> set t \<Longrightarrow> CHR ''/'' \<notin> set u \<Longrightarrow> client_part i t = client_part j u \<longleftrightarrow> i = j \<and> t = u"
  by (auto simp: client_part_def suffix_inj client_id.expand)

lemma consensus_part_inj [simp]: "consensus_part i h = consensus_part j k \<longleftrightarrow> i = j \<and> h = k"
proof
  assume "consensus_part i h = consensus_part j k"
  then have "(client_id_str i @ ''/consensusStates'') @ CHR ''/'' # height_display h
           = (client_id_str j @ ''/consensusStates'') @ CHR ''/'' # height_display k"
    by (simp add: consensus_part_def)
  from tail_part_inj [OF this] show "i = j \<and> h = k"
    by (simp add: client_id.expand)
qed simp

lemma height_display_hd: "hd (height_display h) \<noteq> CHR ''c''"
proof -
  have "hd (height_display h) \<in> set (show_u64 (revision_number h))"
    by (simp add: height_display_def)
  then show ?thesis
    using show_u64_of_char by fastforce
qed

lemma client_part_neq_consensus:
  assumes "CHR ''/'' \<notin> set t" and "hd t = CHR ''c''"
  shows "client_part i t \<noteq> consensus_part j h"
proof
  assume "client_part i t = consensus_part j h"
  then have "client_id_str i @ CHR ''/'' # t
           = (client_id_str j @ ''/consensusStates'') @ CHR ''/'' # height_display h"
    by (simp add: client_part_def consensus_part_def)
  from last_separator [OF this] have "t = height_display h"
    using assms(1) by simp
  with assms(2) height_display_hd show False
    by blast
qed

lemma upgrade_part_inj:
  "show_u64 a @ CHR ''/'' # x = show_u64 b @ CHR ''/'' # y \<longleftrightarrow> a = b \<and> x = y"
proof
  assume "show_u64 a @ CHR ''/'' # x = show_u64 b @ CHR ''/'' # y"
  then have "split_on (CHR ''/'') (show_u64 a @ CHR ''/'' # x) = split_on (CHR ''/'') (show_u64 b @ CHR ''/'' # y)"
    by simp
  then show "a = b \<and> x = y"
    by (simp add: split_on_inj)
qed simp

fun in_language :: "path \<Rightarrow> bool" where
  "in_language (OutsidePath s) \<longleftrightarrow> False"
| "in_language _ \<longleftrightarrow> True"

lemma path_display_inj_language:
  assumes "in_language p" and "in_language q" and "path_display p = path_display q"
  shows "p = q"
  using assms
  by (cases p; cases q)
    (simp_all add: client_path_parts client_part_inj client_part_neq_consensus
      client_part_neq_consensus [symmetric] upgrade_keys upgrade_part_inj
      connection_id_to_string_def port_id_to_string_def connection_id.expand port_id.expand
      del: path_display.simps(1-4))

section \<open>Parsing inverts printing\<close>

fun valid_path :: "(nat \<Rightarrow> bool) \<Rightarrow> path \<Rightarrow> bool" where
  "valid_path ua (ClientTypePath i) \<longleftrightarrow> valid_client_id ua i"
| "valid_path ua (ClientStatePath i) \<longleftrightarrow> valid_client_id ua i"
| "valid_path ua (ClientConsensusStatePath i e h) \<longleftrightarrow> valid_client_id ua i"
| "valid_path ua (ClientConnectionsPath i) \<longleftrightarrow> valid_client_id ua i"
| "valid_path ua (ConnectionsPath k) \<longleftrightarrow> valid_connection_id ua k"
| "valid_path ua (PortsPath p) \<longleftrightarrow> valid_port_id ua p"
| "valid_path ua (ChannelEndsPath p c) \<longleftrightarrow> valid_port_id ua p"
| "valid_path ua (SeqSendsPath p c) \<longleftrightarrow> valid_port_id ua p"
| "valid_path ua (SeqRecvsPath p c) \<longleftrightarrow> valid_port_id ua p"
| "valid_path ua (SeqAcksPath p c) \<longleftrightarrow> valid_port_id ua p"
| "valid_path ua (CommitmentsPath p c s) \<longleftrightarrow> valid_port_id ua p"
| "valid_path ua (AcksPath p c s) \<longleftrightarrow> valid_port_id ua p"
| "valid_path ua (ReceiptsPath p c s) \<longleftrightarrow> valid_port_id ua p"
| "valid_path ua (UpgradedClientState h) \<longleftrightarrow> True"
| "valid_path ua (UpgradedClientConsensusState h) \<longleftrightarrow> True"
| "valid_path ua (OutsidePath s) \<longleftrightarrow> False"

fun path_components :: "path \<Rightarrow> string list" where
  "path_components (ClientTypePath i) = [''clients'', client_id_str i, ''clientType'']"
| "path_components (ClientStatePath i) = [''clients'', client_id_str i, ''clientState'']"
| "path_components (ClientConsensusStatePath i e h) =
     [''clients'', client_id_str i, ''consensusStates'', height_display (Height e h)]"
| "path_components (ClientConnectionsPath i) = [''clients'', client_id_str i, ''connections'']"
| "path_components (ConnectionsPath k) = [''connections'', connection_id_str k]"
| "path_components (PortsPath p) = [''ports'', port_id_str p]"
| "path_components (ChannelEndsPath p c) =
     [''channelEnds'', ''ports'', port_id_str p, ''channels'', channel_id_to_string c]"
| "path_components (SeqSendsPath p c) =
     [''nextSequenceSend'', ''ports'', port_id_str p, ''channels'', channel_id_to_string c]"
| "path_components (SeqRecvsPath p c) =
     [''nextSequenceRecv'', ''ports'', port_id_str p, ''channels'', channel_id_to_string c]"
| "path_components (SeqAcksPath p c) =
     [''nextSequenceAck'', ''ports'', port_id_str p, ''channels'', channel_id_to_string c]"
| "path_components (CommitmentsPath p c s) =
     [''commitments'', ''ports'', port_id_str p, ''channels'', channel_id_to_string c,
      ''sequences'', show_u64 s]"
| "path_components (AcksPath p c s) =
     [''acks'', ''ports'', port_id_str p, ''channels'', channel_id_to_string c,
      ''sequences'', show_u64 s]"
| "path_components (ReceiptsPath p c s) =
     [''receipts'', ''ports'', port_id_str p, ''channels'', channel_id_to_string c,
      ''sequences'', show_u64 s]"
| "path_components (UpgradedClientState h) =
     [UPGRADED_IBC_STATE, show_u64 h, UPGRADED_CLIENT_STATE]"
| "path_components (UpgradedClientConsensusState h) =
     [UPGRADED_IBC_STATE, show_u64 h, UPGRADED_CLIENT_CONSENSUS_STATE]"
| "path_components (OutsidePath s) = split_on (CHR ''/'') s"

lemma path_display_components:
  "path_display p = join_with (CHR ''/'') (path_components p)"
  by (cases p) (simp_all add: channel_part_def packet_part_def upgrade_keys client_id_to_string_def
      connection_id_to_string_def port_id_to_string_def height_display_def join_split_on)

lemma path_components_fresh:
  "valid_path ua p \<Longrightarrow> s \<in> set (path_components p) \<Longrightarrow> CHR ''/'' \<notin> set s"
  by (cases p) (auto simp: upgrade_keys dest: valid_id_no_separator)

lemma path_components_not_Nil [simp]: "path_components p \<noteq> []"
  by (cases p) simp_all

lemma split_on_path_display:
  "valid_path ua p \<Longrightarrow> split_on (CHR ''/'') (path_display p) = path_components p"
  unfolding path_display_components
  by (rule split_on_join) (auto dest: path_components_fresh)

lemma or_else_simps [simp]: "or_else None n = n" "or_else (Some x) n = Some x"
  by (simp_all add: or_else_def)

lemma or_else_assoc: "or_else m (or_else n k) = or_else (or_else m n) k"
  by (cases m) simp_all

lemmas parser_defs =
  parse_client_paths_def parse_connections_def parse_ports_def parse_channels_def
  parse_sequences_def parse_channel_ends_def parse_seqs_def parse_commitments_def parse_acks_def
  parse_receipts_def parse_upgrades_def parse_outside_paths_def

lemma path_from_str_display:
  assumes "valid_path ua p"
  shows "path_from_str ua (path_display p) = Inr p"
  unfolding path_from_str_def Let_def split_on_path_display [OF assms]
  using assms
  by (cases p) (simp_all add: parser_defs upgrade_keys height_display_split)

lemma parse_client_paths_panic:
  "parse_client_paths ua cs = Inl Panic \<longleftrightarrow> cs = [''clients'']"
  by (cases cs; cases "tl cs") (auto simp: parse_client_paths_def panics_def Let_def
      split: sum.splits option.splits)

lemma path_from_str_panic_iff: "path_from_str ua s = Inl Panic \<longleftrightarrow> s = ''clients''"
proof -
  have "path_from_str ua s = Inl Panic \<longleftrightarrow>
      parse_client_paths ua (split_on (CHR ''/'') s) = (Inl Panic :: (path option, path_error) res)"
    by (simp add: path_from_str_def Let_def bind_res_eq_Inl)
  also have "\<dots> \<longleftrightarrow> split_on (CHR ''/'') s = split_on (CHR ''/'') ''clients''"
    by (simp add: parse_client_paths_panic)
  finally show ?thesis
    by (simp only: split_on_inj)
qed

lemma parse_client_paths_no_Err: "parse_client_paths ua cs \<noteq> Inl (Err e)"
  by (auto simp: parse_client_paths_def panics_def Let_def split: sum.splits option.splits)

lemma path_from_str_no_Err: "path_from_str ua s \<noteq> Inl (Err e)"
proof -
  have "ok_or (or_else m (parse_outside_paths cs)) e' \<noteq> Inl (Err e)" for m cs and e' :: path_error
    by (cases m) (simp_all add: parse_outside_paths_def)
  then show ?thesis
    by (simp add: path_from_str_def Let_def bind_res_eq_Inl parse_client_paths_no_Err or_else_assoc)
qed

end
