(* ===== verification/Connection_Types.thy ===== *)
theory Connection_Types
  imports Host_Paths "HOL-Library.Char_ord" "HOL-Library.List_Lexorder"
begin

text \<open>
  The data of ICS03: commitment prefixes (\<^verbatim>\<open>ics23_commitment/commitment.rs\<close>), channel orderings
  (\<^verbatim>\<open>ics04_channel/channel.rs\<close>), connection versions and their negotiation (\<^verbatim>\<open>version.rs\<close>), connection
  ends with their conversions from and to the wire format (\<^verbatim>\<open>connection.rs\<close>), and the errors
  (\<^verbatim>\<open>error.rs\<close>).
\<close>

section \<open>Commitment prefixes and proofs\<close>

datatype commitment_prefix = CommitmentPrefix (prefix_bytes: bytes)

datatype commitment_error = EmptyCommitmentPrefix

datatype proof_error = EmptyProof | ZeroHeight

definition commitment_prefix_try_from :: "bytes \<Rightarrow> (commitment_prefix, commitment_error) res" where
  "commitment_prefix_try_from b =
     (if b = [] then fail_with EmptyCommitmentPrefix else Inr (CommitmentPrefix b))"

datatype commitment_proof_bytes = CommitmentProofBytes (proof_bytes: bytes)

definition commitment_proof_bytes_try_from :: "bytes \<Rightarrow> (commitment_proof_bytes, proof_error) res" where
  "commitment_proof_bytes_try_from b =
     (if b = [] then fail_with EmptyProof else Inr (CommitmentProofBytes b))"

datatype commitment_root = CommitmentRoot (root_bytes: bytes)

section \<open>Channel orderings\<close>

datatype order = Unordered | Ordered

fun order_as_str :: "order \<Rightarrow> string" where
  "order_as_str Unordered = ''ORDER_UNORDERED''"
| "order_as_str Ordered = ''ORDER_ORDERED''"

fun order_to_i32 :: "order \<Rightarrow> int" where
  "order_to_i32 Unordered = 1"
| "order_to_i32 Ordered = 2"

section \<open>Versions\<close>

record version =
  version_identifier :: string
  version_features :: "string list"

type_synonym raw_version = version

definition is_supported_feature :: "version \<Rightarrow> string \<Rightarrow> bool" where
  "is_supported_feature v f \<longleftrightarrow> f \<in> set (version_features v)"

definition version_default :: version where
  "version_default = \<lparr>version_identifier = ''1'', version_features = [order_as_str Ordered, order_as_str Unordered]\<rparr>"

definition get_compatible_versions :: "version list" where
  "get_compatible_versions = [version_default]"

section \<open>Connection ends\<close>

datatype conn_state = ConnUninitialized | ConnInit | ConnTryOpen | ConnOpen

record conn_counterparty =
  cpty_client_id :: client_id
  cpty_connection_id :: "connection_id option"
  cpty_prefix :: commitment_prefix

record connection_end =
  conn_state :: conn_state
  conn_client_id :: client_id
  conn_counterparty :: conn_counterparty
  conn_versions :: "version list"
  conn_delay_period :: duration

datatype ics03_raw_error =
    E03_EmptyProtoConnectionEnd
  | E03_InvalidState int
  | E03_InvalidAddress
  | E03_MissingProofHeight
  | E03_MissingConsensusHeight
  | E03_InvalidPacketHeight height_error
  | E03_Signer
  | E03_MissingCounterpartyPrefix

datatype ics03_error =
    E03_Ics02Client ics02_error
  | E03_ConnectionExistsAlready connection_id
  | E03_ConnectionMismatch connection_id
  | E03_InvalidConsensusHeight height height
  | E03_StaleConsensusHeight height height
  | E03_InvalidIdentifier validation_error
  | E03_EmptyVersions
  | E03_EmptyFeatures
  | E03_NoCommonVersion
  | E03_VersionNotSupported version
  | E03_InvalidProof proof_error
  | E03_VerifyConnectionState ics02_error
  | E03_ConnectionNotFound connection_id
  | E03_InvalidCounterparty
  | E03_ConnectionIdMismatch connection_id connection_id
  | E03_MissingCounterparty
  | E03_NullClientProof
  | E03_FrozenClient client_id
  | E03_ConnectionVerificationFailure
  | E03_ConsensusStateVerificationFailure height ics02_error
  | E03_ClientStateVerificationFailure client_id ics02_error
  | E03_ImplementationSpecific string
  | E03_Malformed ics03_raw_error

fun conn_state_to_i32 :: "conn_state \<Rightarrow> int" where
  "conn_state_to_i32 ConnUninitialized = 0"
| "conn_state_to_i32 ConnInit = 1"
| "conn_state_to_i32 ConnTryOpen = 2"
| "conn_state_to_i32 ConnOpen = 3"

definition conn_state_try_from :: "int \<Rightarrow> (conn_state, ics03_error) res" where
  "conn_state_try_from n =
     (if n = 0 then Inr ConnUninitialized
      else if n = 1 then Inr ConnInit
      else if n = 2 then Inr ConnTryOpen
      else if n = 3 then Inr ConnOpen
      else fail_with (E03_Malformed (E03_InvalidState n)))"

definition conn_less_or_equal_progress :: "conn_state \<Rightarrow> conn_state \<Rightarrow> bool" where
  "conn_less_or_equal_progress a b \<longleftrightarrow> conn_state_to_i32 a \<le> conn_state_to_i32 b"

definition set_conn_version :: "version \<Rightarrow> connection_end \<Rightarrow> connection_end" where
  "set_conn_version v c = c\<lparr>conn_versions := [v]\<rparr>"

definition client_id_default :: client_id where
  "client_id_default = ClientId ''00-uninitialized-0''"

definition connection_end_default :: connection_end where
  "connection_end_default =
     \<lparr>conn_state = ConnUninitialized, conn_client_id = client_id_default,
      conn_counterparty = \<lparr>cpty_client_id = client_id_default, cpty_connection_id = None,
                           cpty_prefix = CommitmentPrefix []\<rparr>,
      conn_versions = [], conn_delay_period = 0\<rparr>"

section \<open>Version negotiation\<close>

text \<open>
  The two nested loops of \<^verbatim>\<open>pick_version\<close>: the intersection in the order of the loops, ended early by
  an empty feature of a counterparty version with a supported identifier.
\<close>

fun pick_inner ::
    "version \<Rightarrow> version list \<Rightarrow> version list \<Rightarrow> (version list, ics03_error) res" where
  "pick_inner s [] acc = Inr acc"
| "pick_inner s (c # cs) acc =
     (if version_identifier c \<noteq> version_identifier s then pick_inner s cs acc
      else if list_ex trim_is_empty (version_features c) then fail_with E03_EmptyFeatures
      else pick_inner s cs (acc @ [s]))"

fun pick_outer ::
    "version list \<Rightarrow> version list \<Rightarrow> version list \<Rightarrow> (version list, ics03_error) res" where
  "pick_outer [] cs acc = Inr acc"
| "pick_outer (s # ss) cs acc = bind_res (pick_inner s cs acc) (\<lambda>acc'. pick_outer ss cs acc')"

definition pick_version :: "version list \<Rightarrow> version list \<Rightarrow> (version, ics03_error) res" where
  "pick_version supported counterparty =
     bind_res (pick_outer supported counterparty []) (\<lambda>inter.
       (let sorted_inter = sort_key version_identifier inter in
        if sorted_inter = [] then fail_with E03_NoCommonVersion else Inr (sorted_inter ! 0)))"

lemma pick_inner_ok:
  "pick_inner s cs acc = Inr r \<longleftrightarrow>
     r = acc @ replicate (length (filter (\<lambda>c. version_identifier c = version_identifier s) cs)) s
     \<and> list_all (\<lambda>c. version_identifier c = version_identifier s \<longrightarrow> \<not> list_ex trim_is_empty (version_features c)) cs"
  by (induction s cs acc rule: pick_inner.induct) (auto simp: replicate_append_same)

lemma pick_inner_no_panic [simp]: "pick_inner s cs acc \<noteq> Inl Panic"
  by (induction s cs acc rule: pick_inner.induct) auto

definition common_version :: "version list \<Rightarrow> version \<Rightarrow> bool" where
  "common_version cs s \<longleftrightarrow> (\<exists>c \<in> set cs. version_identifier c = version_identifier s)"

definition no_blank_features :: "version list \<Rightarrow> version \<Rightarrow> bool" where
  "no_blank_features cs s \<longleftrightarrow>
     (\<forall>c \<in> set cs. version_identifier c = version_identifier s \<longrightarrow> (\<forall>f \<in> set (version_features c). \<not> trim_is_empty f))"

lemma pick_inner_set:
  "pick_inner s cs acc = Inr r \<Longrightarrow>
     set r = set acc \<union> {v. v = s \<and> common_version cs s} \<and> no_blank_features cs s"
  by (auto simp: pick_inner_ok common_version_def no_blank_features_def list_all_iff list_ex_iff
      filter_empty_conv)

lemma pick_inner_total:
  "no_blank_features cs s \<Longrightarrow> \<exists>r. pick_inner s cs acc = Inr r"
  by (auto simp: pick_inner_ok no_blank_features_def list_all_iff list_ex_iff)

lemma pick_outer_set:
  "pick_outer ss cs acc = Inr r \<Longrightarrow>
     set r = set acc \<union> {s \<in> set ss. common_version cs s} \<and> (\<forall>s \<in> set ss. no_blank_features cs s)"
proof (induction ss cs acc arbitrary: r rule: pick_outer.induct)
  case (2 s ss cs acc)
  from 2(2) obtain a where a: "pick_inner s cs acc = Inr a" "pick_outer ss cs a = Inr r"
    by auto
  from 2(1) [OF a] pick_inner_set [OF a(1)] show ?case
    by auto
qed simp

lemma pick_outer_total:
  "\<forall>s \<in> set ss. no_blank_features cs s \<Longrightarrow> \<exists>r. pick_outer ss cs acc = Inr r"
proof (induction ss cs acc rule: pick_outer.induct)
  case (2 s ss cs acc)
  then show ?case
    using pick_inner_total [of cs s acc] by auto
qed simp

lemma pick_outer_no_panic: "pick_outer ss cs acc \<noteq> Inl Panic"
  by (induction ss cs acc rule: pick_outer.induct) (auto simp: bind_res_eq_Inl)

lemma sort_key_eq_Nil [simp]: "sort_key f xs = [] \<longleftrightarrow> xs = []"
  by (metis length_0_conv length_sort)

lemma sort_key_hd_least:
  "xs \<noteq> [] \<Longrightarrow> sort_key f xs ! 0 \<in> set xs \<and> (\<forall>x \<in> set xs. f (sort_key f xs ! 0) \<le> f x)"
proof -
  assume "xs \<noteq> []"
  then obtain y ys where y: "sort_key f xs = y # ys"
    by (cases "sort_key f xs") auto
  have "set (y # ys) = set xs"
    using y by (metis set_sort)
  moreover have "sorted (map f (y # ys))"
    using y by (metis sorted_sort_key)
  ultimately show ?thesis
    unfolding y by force
qed

lemma pick_version_sound:
  assumes "pick_version ss cs = Inr v"
  shows "v \<in> set ss" and "common_version cs v" and "no_blank_features cs v"
    and "\<And>s. s \<in> set ss \<Longrightarrow> common_version cs s \<Longrightarrow> version_identifier v \<le> version_identifier s"
proof -
  obtain r where r: "pick_outer ss cs [] = Inr r" "r \<noteq> []" "v = sort_key version_identifier r ! 0"
    using assms by (auto simp: pick_version_def Let_def split: if_splits)
  with sort_key_hd_least [of r version_identifier] pick_outer_set [OF r(1)]
  show "v \<in> set ss" "common_version cs v" "no_blank_features cs v"
    "\<And>s. s \<in> set ss \<Longrightarrow> common_version cs s \<Longrightarrow> version_identifier v \<le> version_identifier s"
    by auto
qed

lemma pick_version_complete:
  assumes "\<forall>s \<in> set ss. no_blank_features cs s" and "s \<in> set ss" and "common_version cs s"
  shows "\<exists>v. pick_version ss cs = Inr v"
proof -
  obtain r where r: "pick_outer ss cs [] = Inr r"
    using pick_outer_total assms(1) by blast
  with pick_outer_set [OF r] assms(2,3) have "r \<noteq> []"
    by auto
  with r show ?thesis
    by (auto simp: pick_version_def Let_def)
qed

lemma pick_version_no_panic: "pick_version ss cs \<noteq> Inl Panic"
  by (auto simp: pick_version_def Let_def bind_res_eq_Inl pick_outer_no_panic)

section \<open>The wire format\<close>

text \<open>
  The protobuf messages of a version, a counterparty and a connection end, with the conversions of
  the source. A missing message field is \<open>None\<close>, a missing string is empty.
\<close>

record raw_conn_counterparty =
  raw_cpty_client_id :: string
  raw_cpty_connection_id :: string
  raw_cpty_prefix :: "bytes option"

record raw_connection_end =
  raw_conn_client_id :: string
  raw_conn_versions :: "raw_version list"
  raw_conn_state :: int
  raw_conn_counterparty :: "raw_conn_counterparty option"
  raw_conn_delay_period :: u64

definition version_try_from :: "raw_version \<Rightarrow> (version, ics03_error) res" where
  "version_try_from v =
     (if trim_is_empty (version_identifier v) then fail_with E03_EmptyVersions
      else if list_ex trim_is_empty (version_features v) then fail_with E03_EmptyFeatures
      else Inr v)"

fun collect_res :: "('a, 'e) res list \<Rightarrow> ('a list, 'e) res" where
  "collect_res [] = Inr []"
| "collect_res (r # rs) = bind_res r (\<lambda>x. bind_res (collect_res rs) (\<lambda>xs. Inr (x # xs)))"

definition conn_counterparty_try_from ::
    "(nat \<Rightarrow> bool) \<Rightarrow> raw_conn_counterparty \<Rightarrow> (conn_counterparty, ics03_error) res" where
  "conn_counterparty_try_from ua r =
     bind_res
       (if raw_cpty_connection_id r = [] then Inr None
        else map_err E03_InvalidIdentifier
          (bind_res (connection_id_from_str ua (raw_cpty_connection_id r)) (\<lambda>k. Inr (Some k)))) (\<lambda>k.
     bind_res (map_err E03_InvalidIdentifier (client_id_from_str ua (raw_cpty_client_id r))) (\<lambda>i.
     bind_res (ok_or (raw_cpty_prefix r) E03_MissingCounterparty) (\<lambda>b.
     bind_res (map_err (\<lambda>_. E03_Ics02Client (E02_Undecodable E02_EmptyPrefix))
         (commitment_prefix_try_from b)) (\<lambda>p.
     Inr \<lparr>cpty_client_id = i, cpty_connection_id = k, cpty_prefix = p\<rparr>))))"

definition conn_counterparty_into_raw :: "conn_counterparty \<Rightarrow> raw_conn_counterparty" where
  "conn_counterparty_into_raw c =
     \<lparr>raw_cpty_client_id = client_id_str (cpty_client_id c),
      raw_cpty_connection_id = (case cpty_connection_id c of None \<Rightarrow> [] | Some k \<Rightarrow> connection_id_str k),
      raw_cpty_prefix = Some (prefix_bytes (cpty_prefix c))\<rparr>"

definition connection_end_try_from ::
    "(nat \<Rightarrow> bool) \<Rightarrow> raw_connection_end \<Rightarrow> (connection_end, ics03_error) res" where
  "connection_end_try_from ua r =
     bind_res (conn_state_try_from (raw_conn_state r)) (\<lambda>st.
     if st = ConnUninitialized then Inr connection_end_default
     else if raw_conn_client_id r = [] then fail_with (E03_Malformed E03_EmptyProtoConnectionEnd)
     else
       bind_res (map_err E03_InvalidIdentifier (client_id_from_str ua (raw_conn_client_id r))) (\<lambda>i.
       bind_res (ok_or (raw_conn_counterparty r) E03_MissingCounterparty) (\<lambda>rc.
       bind_res (conn_counterparty_try_from ua rc) (\<lambda>c.
       bind_res (collect_res (map version_try_from (raw_conn_versions r))) (\<lambda>vs.
       Inr \<lparr>conn_state = st, conn_client_id = i, conn_counterparty = c, conn_versions = vs,
            conn_delay_period = unat (raw_conn_delay_period r)\<rparr>)))))"

text \<open>\<^verbatim>\<open>as_nanos() as u64\<close> keeps the low 64 bits.\<close>

definition connection_end_into_raw :: "connection_end \<Rightarrow> raw_connection_end" where
  "connection_end_into_raw c =
     \<lparr>raw_conn_client_id = client_id_str (conn_client_id c), raw_conn_versions = conn_versions c,
      raw_conn_state = conn_state_to_i32 (conn_state c),
      raw_conn_counterparty = Some (conn_counterparty_into_raw (conn_counterparty c)),
      raw_conn_delay_period = of_nat (conn_delay_period c)\<rparr>"

text \<open>The connection ends that the conversion from the wire can produce.\<close>

definition wf_conn_counterparty :: "(nat \<Rightarrow> bool) \<Rightarrow> conn_counterparty \<Rightarrow> bool" where
  "wf_conn_counterparty ua c \<longleftrightarrow> valid_client_id ua (cpty_client_id c)
     \<and> pred_option (valid_connection_id ua) (cpty_connection_id c) \<and> prefix_bytes (cpty_prefix c) \<noteq> []"

definition wf_version :: "version \<Rightarrow> bool" where
  "wf_version v \<longleftrightarrow> \<not> trim_is_empty (version_identifier v)
     \<and> list_all (\<lambda>f. \<not> trim_is_empty f) (version_features v)"

definition wf_connection_end :: "(nat \<Rightarrow> bool) \<Rightarrow> connection_end \<Rightarrow> bool" where
  "wf_connection_end ua c \<longleftrightarrow> conn_state c \<noteq> ConnUninitialized \<and> valid_client_id ua (conn_client_id c)
     \<and> wf_conn_counterparty ua (conn_counterparty c) \<and> list_all wf_version (conn_versions c)
     \<and> conn_delay_period c < 2 ^ 64"

lemma conn_state_roundtrip [simp]: "conn_state_try_from (conn_state_to_i32 s) = Inr s"
  by (cases s) (simp_all add: conn_state_try_from_def)

lemma version_try_from_ok: "version_try_from v = Inr w \<longleftrightarrow> w = v \<and> wf_version v"
  by (auto simp: version_try_from_def wf_version_def list_all_iff list_ex_iff)

lemma collect_res_ok: "list_all (\<lambda>x. f x = Inr x) xs \<Longrightarrow> collect_res (map f xs) = Inr xs"
  by (induction xs) auto

lemma collect_res_eq_Inr: "collect_res rs = Inr xs \<longleftrightarrow> rs = map Inr xs"
  by (induction rs arbitrary: xs) auto

lemma valid_id_not_empty:
  "valid_client_id ua i \<Longrightarrow> client_id_str i \<noteq> []"
  "valid_connection_id ua k \<Longrightarrow> connection_id_str k \<noteq> []"
  "valid_port_id ua p \<Longrightarrow> port_id_str p \<noteq> []"
  by (simp_all add: valid_client_id_def valid_connection_id_def valid_port_id_def validator_defs
      validate_identifier_ok_iff)

lemma conn_counterparty_roundtrip:
  "wf_conn_counterparty ua c \<Longrightarrow> conn_counterparty_try_from ua (conn_counterparty_into_raw c) = Inr c"
  by (cases "cpty_connection_id c"; cases "cpty_prefix c")
    (auto simp: conn_counterparty_try_from_def conn_counterparty_into_raw_def wf_conn_counterparty_def
      commitment_prefix_try_from_def valid_id_not_empty)

lemma connection_end_roundtrip:
  assumes "wf_connection_end ua c"
  shows "connection_end_try_from ua (connection_end_into_raw c) = Inr c"
proof -
  have "collect_res (map version_try_from (conn_versions c)) = Inr (conn_versions c)"
    using assms by (intro collect_res_ok) (auto simp: wf_connection_end_def list_all_iff version_try_from_ok)
  moreover have "unat (of_nat (conn_delay_period c) :: u64) = conn_delay_period c"
    using assms by (simp add: wf_connection_end_def unat_of_nat)
  ultimately show ?thesis
    using assms
    by (auto simp: connection_end_try_from_def connection_end_into_raw_def wf_connection_end_def
        conn_counterparty_roundtrip dest: valid_id_not_empty)
qed

lemma connection_end_try_from_wf:
  assumes "connection_end_try_from ua r = Inr c"
  shows "c = connection_end_default \<or> wf_connection_end ua c"
proof -
  have "unat (raw_conn_delay_period r) < 2 ^ 64"
    using unsigned_less [of "raw_conn_delay_period r"] by simp
  moreover have "wf_conn_counterparty ua d" if "conn_counterparty_try_from ua x = Inr d" for x d
    using that by (auto simp: conn_counterparty_try_from_def wf_conn_counterparty_def
        commitment_prefix_try_from_def split: if_splits dest: from_str_valid)
  moreover have "list_all wf_version vs" if "collect_res (map version_try_from ws) = Inr vs" for ws vs
    using that by (auto simp: collect_res_eq_Inr list_all_iff version_try_from_ok map_eq_conv
        in_set_conv_nth list_eq_iff_nth_eq)
  ultimately show ?thesis
    using assms by (auto simp: connection_end_try_from_def wf_connection_end_def
        split: if_splits dest: from_str_valid)
qed

end
