(* ===== verification/Channel_Types.thy ===== *)
theory Channel_Types
  imports Connection_Types
begin

text \<open>
  The data of ICS04: channel ends and their wire format (\<^verbatim>\<open>ics04_channel/channel.rs\<close>), packets,
  sequences and timeouts (\<^verbatim>\<open>packet.rs\<close>), commitments (\<^verbatim>\<open>commitment.rs\<close> and the default methods of
  \<^verbatim>\<open>ChannelReader\<close> in \<^verbatim>\<open>context.rs\<close>), and the errors of ICS04 and ICS05.
\<close>

section \<open>Channel ends\<close>

datatype chan_state = ChanInit | ChanTryOpen | ChanOpen | ChanClosed

record chan_counterparty =
  cpty_port_id :: port_id
  cpty_channel_id :: "channel_id option"

datatype channel_version = ChannelVersion (channel_version_str: string)

record channel_end =
  chan_state :: chan_state
  chan_ordering :: order
  chan_remote :: chan_counterparty
  chan_connection_hops :: "connection_id list"
  chan_version :: channel_version

section \<open>Errors\<close>

datatype ics05_error =
    E05_UnknownPort port_id
  | E05_PortAlreadyBound port_id
  | E05_ModuleNotFound port_id
  | E05_ImplementationSpecific string

datatype ics04_raw_error =
    E04_UnknownState int
  | E04_UnknownOrderType string
  | E04_InvalidVersion
  | E04_Signer
  | E04_InvalidProof proof_error
  | E04_MissingHeight
  | E04_MissingChannelProof
  | E04_ZeroPacketSequence
  | E04_ZeroPacketData
  | E04_ZeroPacketTimeout
  | E04_InvalidTimeoutHeight
  | E04_InvalidPacket
  | E04_MissingPacket
  | E04_MissingChannelId
  | E04_MissingCounterparty
  | E04_MissingChannel
  | E04_InvalidStringAsSequence string
  | E04_InvalidPacketTimestamp parse_timestamp_error
  | E04_InvalidPacketHeight height_error
  | E04_InvalidCounterpartyChannelId validation_error
  | E04_AbciConversionFailed string

datatype ics04_packet_error =
    E04_InvalidPacketCounterparty port_id channel_id
  | E04_MissingNextRecvSeq port_id channel_id
  | E04_MissingNextSendSeq port_id channel_id
  | E04_MissingNextAckSeq port_id channel_id
  | E04_PacketVerificationFailed sequence ics02_error
  | E04_InvalidAcknowledgement
  | E04_AcknowledgementExists sequence
  | E04_InvalidPacketSequence sequence sequence
  | E04_LowPacketHeight height height
  | E04_PacketTimeoutNotReached height height timestamp timestamp
  | E04_PacketTimeoutHeightNotReached height height
  | E04_PacketTimeoutTimestampNotReached timestamp timestamp
  | E04_LowPacketTimestamp
  | E04_ErrorInvalidConsensusState
  | E04_PacketCommitmentNotFound sequence
  | E04_IncorrectPacketCommitment sequence
  | E04_PacketReceiptNotFound sequence
  | E04_PacketAcknowledgementNotFound sequence
  | E04_ProcessedTimeNotFound client_id height
  | E04_ProcessedHeightNotFound client_id height
  | E04_NotEnoughtFundsForFee

text \<open>
  \<^verbatim>\<open>implementation_specific(e.to_string())\<close> keeps only the text of another error; here that error
  itself is kept, in \<open>E04_Shown02\<close> and \<open>E04_Shown04\<close>, and for \<^verbatim>\<open>app_module(e.to_string())\<close> in \<open>E04_AppShown\<close>.
\<close>

datatype ics04_error =
    E04_Ics03Connection ics03_error
  | E04_Ics02Client ics02_error
  | E04_Ics05Port ics05_error
  | E04_Identifier validation_error
  | E04_InvalidConnectionHopsLength nat nat
  | E04_NoCommonVersion
  | E04_InvalidVersionLengthConnection
  | E04_ChannelFeatureNotSuportedByConnection
  | E04_ChannelNotFound port_id channel_id
  | E04_ChannelMismatch channel_id
  | E04_ConnectionNotOpen connection_id
  | E04_UndefinedConnectionCounterparty connection_id
  | E04_VerifyChannelFailed ics02_error
  | E04_FrozenClient client_id
  | E04_InvalidChannelState channel_id chan_state
  | E04_ChannelClosed channel_id
  | E04_ChanOpenAckProofVerification
  | E04_RouteNotFound
  | E04_ImplementationSpecific string
  | E04_Shown02 ics02_error
  | E04_Shown04 ics04_error
  | E04_AppModule string
  | E04_AppShown ics04_error
  | E04_Packet ics04_packet_error
  | E04_Malformed ics04_raw_error

section \<open>Channel ends on the wire\<close>

definition order_from_i32 :: "int \<Rightarrow> (order, ics04_error) res" where
  "order_from_i32 n =
     (if n = 1 then Inr Unordered
      else if n = 2 then Inr Ordered
      else fail_with (E04_Malformed (E04_UnknownOrderType (if n < 0 then CHR ''-'' # show_nat (nat (- n))
                                                           else show_nat (nat n)))))"

fun chan_state_as_string :: "chan_state \<Rightarrow> string" where
  "chan_state_as_string ChanInit = ''INIT''"
| "chan_state_as_string ChanTryOpen = ''TRYOPEN''"
| "chan_state_as_string ChanOpen = ''OPEN''"
| "chan_state_as_string ChanClosed = ''CLOSED''"

fun chan_state_to_i32 :: "chan_state \<Rightarrow> int" where
  "chan_state_to_i32 ChanInit = 1"
| "chan_state_to_i32 ChanTryOpen = 2"
| "chan_state_to_i32 ChanOpen = 3"
| "chan_state_to_i32 ChanClosed = 4"

definition chan_state_from_i32 :: "int \<Rightarrow> (chan_state, ics04_error) res" where
  "chan_state_from_i32 n =
     (if n = 1 then Inr ChanInit
      else if n = 2 then Inr ChanTryOpen
      else if n = 3 then Inr ChanOpen
      else if n = 4 then Inr ChanClosed
      else fail_with (E04_Malformed (E04_UnknownState n)))"

definition chan_less_or_equal_progress :: "chan_state \<Rightarrow> chan_state \<Rightarrow> bool" where
  "chan_less_or_equal_progress a b \<longleftrightarrow> chan_state_to_i32 a \<le> chan_state_to_i32 b"

definition set_counterparty_channel_id :: "channel_id \<Rightarrow> channel_end \<Rightarrow> channel_end" where
  "set_counterparty_channel_id c e = e\<lparr>chan_remote := (chan_remote e)\<lparr>cpty_channel_id := Some c\<rparr>\<rparr>"

definition channel_end_validate_basic :: "channel_end \<Rightarrow> (unit, ics04_error) res" where
  "channel_end_validate_basic e =
     (if length (chan_connection_hops e) \<noteq> 1
      then fail_with (E04_InvalidConnectionHopsLength 1 (length (chan_connection_hops e)))
      else Inr ())"

record raw_chan_counterparty =
  raw_cpty_port_id :: string
  raw_cpty_channel_id :: string

record raw_channel =
  raw_chan_state :: int
  raw_chan_ordering :: int
  raw_chan_counterparty :: "raw_chan_counterparty option"
  raw_chan_connection_hops :: "string list"
  raw_chan_version :: string

definition chan_counterparty_try_from ::
    "(nat \<Rightarrow> bool) \<Rightarrow> raw_chan_counterparty \<Rightarrow> (chan_counterparty, ics04_error) res" where
  "chan_counterparty_try_from ua r =
     bind_res
       (if raw_cpty_channel_id r = [] then Inr None
        else map_err E04_Identifier
          (bind_res (channel_id_from_str (raw_cpty_channel_id r)) (\<lambda>c. Inr (Some c)))) (\<lambda>c.
     bind_res (map_err E04_Identifier (port_id_from_str ua (raw_cpty_port_id r))) (\<lambda>p.
     Inr \<lparr>cpty_port_id = p, cpty_channel_id = c\<rparr>))"

definition chan_counterparty_into_raw :: "chan_counterparty \<Rightarrow> raw_chan_counterparty" where
  "chan_counterparty_into_raw c =
     \<lparr>raw_cpty_port_id = port_id_str (cpty_port_id c),
      raw_cpty_channel_id =
        (case cpty_channel_id c of None \<Rightarrow> [] | Some k \<Rightarrow> channel_id_to_string k)\<rparr>"

definition channel_end_try_from ::
    "(nat \<Rightarrow> bool) \<Rightarrow> raw_channel \<Rightarrow> (channel_end, ics04_error) res" where
  "channel_end_try_from ua r =
     bind_res (chan_state_from_i32 (raw_chan_state r)) (\<lambda>st.
     bind_res (order_from_i32 (raw_chan_ordering r)) (\<lambda>ord.
     bind_res (ok_or (raw_chan_counterparty r) (E04_Malformed E04_MissingCounterparty)) (\<lambda>rc.
     bind_res (chan_counterparty_try_from ua rc) (\<lambda>remote.
     bind_res (map_err E04_Identifier
         (collect_res (map (connection_id_from_str ua) (raw_chan_connection_hops r)))) (\<lambda>hops.
     Inr \<lparr>chan_state = st, chan_ordering = ord, chan_remote = remote, chan_connection_hops = hops,
          chan_version = ChannelVersion (raw_chan_version r)\<rparr>)))))"

definition channel_end_into_raw :: "channel_end \<Rightarrow> raw_channel" where
  "channel_end_into_raw e =
     \<lparr>raw_chan_state = chan_state_to_i32 (chan_state e),
      raw_chan_ordering = order_to_i32 (chan_ordering e),
      raw_chan_counterparty = Some (chan_counterparty_into_raw (chan_remote e)),
      raw_chan_connection_hops = map connection_id_str (chan_connection_hops e),
      raw_chan_version = channel_version_str (chan_version e)\<rparr>"

definition wf_channel_end :: "(nat \<Rightarrow> bool) \<Rightarrow> channel_end \<Rightarrow> bool" where
  "wf_channel_end ua e \<longleftrightarrow> valid_port_id ua (cpty_port_id (chan_remote e))
     \<and> list_all (valid_connection_id ua) (chan_connection_hops e)"

lemma chan_state_roundtrip [simp]: "chan_state_from_i32 (chan_state_to_i32 s) = Inr s"
  by (cases s) (simp_all add: chan_state_from_i32_def)

lemma order_roundtrip [simp]: "order_from_i32 (order_to_i32 s) = Inr s"
  by (cases s) (simp_all add: order_from_i32_def)

lemma channel_id_to_string_not_Nil [simp]: "channel_id_to_string c \<noteq> []"
  by (simp add: channel_id_to_string_def channel_prefix_def)

lemma channel_end_roundtrip:
  assumes "wf_channel_end ua e"
  shows "channel_end_try_from ua (channel_end_into_raw e) = Inr e"
proof -
  have "map (connection_id_from_str ua \<circ> connection_id_str) (chan_connection_hops e)
      = map Inr (chan_connection_hops e)"
    using assms by (simp add: wf_channel_end_def list_all_iff)
  then have "collect_res (map (connection_id_from_str ua) (map connection_id_str (chan_connection_hops e)))
      = Inr (chan_connection_hops e)"
    by (simp only: map_map collect_res_eq_Inr)
  moreover have "chan_counterparty_try_from ua (chan_counterparty_into_raw (chan_remote e))
      = Inr (chan_remote e)"
    using assms by (cases "cpty_channel_id (chan_remote e)")
      (simp_all add: wf_channel_end_def chan_counterparty_try_from_def chan_counterparty_into_raw_def)
  ultimately show ?thesis
    by (simp add: channel_end_try_from_def channel_end_into_raw_def)
qed

lemma collect_connection_ids_valid:
  "collect_res (map (connection_id_from_str ua) ss) = Inr ks \<Longrightarrow> list_all (valid_connection_id ua) ks"
  by (induction ss arbitrary: ks) (auto dest: from_str_valid)

lemma channel_end_try_from_wf:
  "channel_end_try_from ua r = Inr e \<Longrightarrow> wf_channel_end ua e"
  by (auto simp: channel_end_try_from_def chan_counterparty_try_from_def wf_channel_end_def
      dest: from_str_valid collect_connection_ids_valid split: if_splits)

section \<open>Packets\<close>

record packet =
  pkt_sequence :: sequence
  source_port :: port_id
  source_channel :: channel_id
  destination_port :: port_id
  destination_channel :: channel_id
  packet_data :: bytes
  timeout_height :: height
  timeout_timestamp :: timestamp

datatype receipt = ReceiptOk

datatype timeout_variant = TimeoutHeight | TimeoutTimestamp | TimeoutBoth

definition seq_increment :: "sequence \<Rightarrow> (sequence, 'e) res" where
  "seq_increment s = plus_or_panic s 1"

definition sequence_from_str :: "string \<Rightarrow> (sequence, ics04_error) res" where
  "sequence_from_str s = ok_or (parse_u64 s) (E04_Malformed (E04_InvalidStringAsSequence s))"

definition timed_out :: "packet \<Rightarrow> timestamp \<Rightarrow> height \<Rightarrow> bool" where
  "timed_out p dst_ts dst_height \<longleftrightarrow>
     timeout_height p \<noteq> height_zero \<and> timeout_height p \<le> dst_height
     \<or> timeout_timestamp p \<noteq> timestamp_none \<and> check_expiry dst_ts (timeout_timestamp p) = Expired"

definition packet_timeout_variant :: "packet \<Rightarrow> timestamp \<Rightarrow> height \<Rightarrow> timeout_variant option" where
  "packet_timeout_variant p dst_ts dst_height =
     (let height_timeout = timeout_height p \<noteq> height_zero \<and> timeout_height p \<le> dst_height;
          timestamp_timeout = timeout_timestamp p \<noteq> timestamp_none
                              \<and> check_expiry dst_ts (timeout_timestamp p) = Expired
      in if height_timeout \<and> \<not> timestamp_timeout then Some TimeoutHeight
         else if timestamp_timeout \<and> \<not> height_timeout then Some TimeoutTimestamp
         else if timestamp_timeout \<and> height_timeout then Some TimeoutBoth
         else None)"

record raw_packet =
  raw_sequence :: u64
  raw_source_port :: string
  raw_source_channel :: string
  raw_destination_port :: string
  raw_destination_channel :: string
  raw_data :: bytes
  raw_timeout_height :: "height option"
  raw_timeout_timestamp :: u64

definition packet_try_from ::
    "(nat \<Rightarrow> bool) \<Rightarrow> (int \<Rightarrow> bool) \<Rightarrow> raw_packet \<Rightarrow> (packet, ics04_error) res" where
  "packet_try_from ua tm r =
     (if raw_sequence r = 0 then fail_with (E04_Malformed E04_ZeroPacketSequence)
      else bind_res (ok_or (raw_timeout_height r) (E04_Malformed E04_MissingHeight)) (\<lambda>h.
      if raw_data r = [] then fail_with (E04_Malformed E04_ZeroPacketData)
      else
        bind_res (map_err (\<lambda>e. E04_Malformed (E04_InvalidPacketTimestamp e))
          (from_nanoseconds tm (raw_timeout_timestamp r))) (\<lambda>ts.
        bind_res (map_err E04_Identifier (port_id_from_str ua (raw_source_port r))) (\<lambda>sp.
        bind_res (map_err E04_Identifier (channel_id_from_str (raw_source_channel r))) (\<lambda>sc.
        bind_res (map_err E04_Identifier (port_id_from_str ua (raw_destination_port r))) (\<lambda>dp.
        bind_res (map_err E04_Identifier (channel_id_from_str (raw_destination_channel r))) (\<lambda>dc.
        Inr \<lparr>pkt_sequence = raw_sequence r, source_port = sp, source_channel = sc,
             destination_port = dp, destination_channel = dc, packet_data = raw_data r,
             timeout_height = h, timeout_timestamp = ts\<rparr>)))))))"

definition packet_into_raw :: "packet \<Rightarrow> (raw_packet, 'e) res" where
  "packet_into_raw p =
     bind_res (nanoseconds (timeout_timestamp p)) (\<lambda>ns.
     Inr \<lparr>raw_sequence = pkt_sequence p, raw_source_port = port_id_str (source_port p),
          raw_source_channel = channel_id_to_string (source_channel p),
          raw_destination_port = port_id_str (destination_port p),
          raw_destination_channel = channel_id_to_string (destination_channel p),
          raw_data = packet_data p, raw_timeout_height = Some (timeout_height p),
          raw_timeout_timestamp = ns\<rparr>)"

definition wf_packet :: "(nat \<Rightarrow> bool) \<Rightarrow> packet \<Rightarrow> bool" where
  "wf_packet ua p \<longleftrightarrow> pkt_sequence p \<noteq> 0 \<and> packet_data p \<noteq> [] \<and> valid_port_id ua (source_port p)
     \<and> valid_port_id ua (destination_port p)
     \<and> pred_option (\<lambda>t. 0 < t \<and> t < 2 ^ 64) (time (timeout_timestamp p))"

lemma seq_increment_ok [simp]:
  "seq_increment s = Inr t \<longleftrightarrow> s \<noteq> - 1 \<and> t = s + 1"
proof -
  have "unat s + 1 < 2 ^ 64 \<longleftrightarrow> s \<noteq> - 1"
  proof -
    have "unat s < 2 ^ 64"
      using unsigned_less [of s] by simp
    moreover have "unat s = 2 ^ 64 - 1 \<longleftrightarrow> s = - 1"
      by (simp add: word_unat_eq_iff unsigned_minus_1_eq_mask mask_eq_exp_minus_1)
    ultimately show ?thesis
      by auto
  qed
  then show ?thesis
    by (simp add: seq_increment_def checked_add_eq_Some)
qed

lemma seq_increment_less:
  assumes "seq_increment s = Inr t"
  shows "s < t"
proof -
  have "checked_add s 1 = Some t"
    using assms unfolding seq_increment_def by (simp only: plus_or_panic_eq_Inr)
  from checked_add_unat [OF this] show ?thesis
    by (simp add: word_less_nat_alt)
qed

lemma timed_out_variant: "timed_out p ts h \<longleftrightarrow> packet_timeout_variant p ts h \<noteq> None"
  by (auto simp: timed_out_def packet_timeout_variant_def Let_def)

lemma nanoseconds_in_range:
  assumes "pred_option (\<lambda>t. 0 < t \<and> t < 2 ^ 64) (time ts)"
  obtains n where "nanoseconds_opt ts = Some n" and "time ts \<noteq> Some 0"
  using assms by (cases "time ts") (auto simp: nanoseconds_opt_def)

lemma packet_roundtrip:
  assumes "wf_packet ua p" and "pred_option tm (time (timeout_timestamp p))"
  shows "bind_res (packet_into_raw p) (packet_try_from ua tm) = Inr p"
proof -
  obtain n where n: "nanoseconds_opt (timeout_timestamp p) = Some n" "time (timeout_timestamp p) \<noteq> Some 0"
    using assms(1) nanoseconds_in_range unfolding wf_packet_def by blast
  have "from_nanoseconds tm n = Inr (timeout_timestamp p)"
    by (rule from_nanoseconds_nanoseconds) (use n assms(2) in auto)
  with n assms(1) show ?thesis
    by (simp add: packet_into_raw_def packet_try_from_def wf_packet_def)
qed

lemma packet_try_from_wf:
  "packet_try_from ua tm r = Inr p \<Longrightarrow> wf_packet ua p \<and> pred_option tm (time (timeout_timestamp p))"
  using uint_u64_bounds [of "raw_timeout_timestamp r"] uint_u64_pos [of "raw_timeout_timestamp r"]
  by (auto simp: packet_try_from_def wf_packet_def from_nanoseconds_def dest: from_str_valid
      split: if_splits)

section \<open>Commitments\<close>

text \<open>\<open>hash\<close> is the SHA-256 function of the host.\<close>

definition packet_commitment ::
    "(bytes \<Rightarrow> bytes) \<Rightarrow> bytes \<Rightarrow> height \<Rightarrow> timestamp \<Rightarrow> (bytes, 'e) res" where
  "packet_commitment hash d h ts =
     bind_res (nanoseconds ts) (\<lambda>ns.
     Inr (hash (be_bytes ns @ be_bytes (revision_number h) @ be_bytes (revision_height h) @ hash d)))"

definition ack_commitment :: "(bytes \<Rightarrow> bytes) \<Rightarrow> bytes \<Rightarrow> bytes" where
  "ack_commitment hash ack = hash ack"

lemma nanoseconds_inj:
  assumes "nanoseconds_opt a = Some n" and "nanoseconds_opt b = Some n"
    and "time a \<noteq> Some 0" and "time b \<noteq> Some 0"
  shows "a = b"
  using from_nanoseconds_nanoseconds [of a n "\<lambda>_. True"]
    from_nanoseconds_nanoseconds [of b n "\<lambda>_. True"] assms by (simp add: option.pred_True)

text \<open>
  Two packets with the same commitment have the same content, provided the hash has no collision on
  the strings that are hashed.
\<close>

definition commitment_input :: "(bytes \<Rightarrow> bytes) \<Rightarrow> bytes \<Rightarrow> height \<Rightarrow> timestamp \<Rightarrow> bytes" where
  "commitment_input hash d h ts =
     (case nanoseconds_opt ts of
        None \<Rightarrow> []
      | Some n \<Rightarrow> be_bytes n @ be_bytes (revision_number h) @ be_bytes (revision_height h) @ hash d)"

lemma packet_commitment_binding:
  assumes "packet_commitment hash d h ts = (Inr c :: (bytes, 'e) res)"
    and "packet_commitment hash d' h' ts' = (Inr c :: (bytes, 'f) res)"
    and "time ts \<noteq> Some 0" and "time ts' \<noteq> Some 0"
    and "inj_on hash {d, d', commitment_input hash d h ts, commitment_input hash d' h' ts'}"
  shows "d = d' \<and> h = h' \<and> ts = ts'"
proof -
  obtain n n' where n: "nanoseconds_opt ts = Some n" "nanoseconds_opt ts' = Some n'"
    using assms(1,2) by (auto simp: packet_commitment_def)
  have "hash (commitment_input hash d h ts) = hash (commitment_input hash d' h' ts')"
    using assms(1,2) n by (simp add: packet_commitment_def commitment_input_def)
  from inj_onD [OF assms(5) this] n have "n = n'" and "h = h'" and "hash d = hash d'"
    by (simp_all add: commitment_input_def append_eq_append_conv be_bytes_inj height.expand)
  moreover from this(3) have "d = d'"
    by (rule inj_onD [OF assms(5)]) simp_all
  ultimately show ?thesis
    using n nanoseconds_inj [of ts n ts'] assms(3,4) by simp
qed

end
