(* ===== verification/Handler_Msgs.thy ===== *)
theory Handler_Msgs
  imports Channel_Types
begin

text \<open>
  The proofs carried by a message (\<^verbatim>\<open>proofs.rs\<close>) and the messages of ICS03 and ICS04
  (\<^verbatim>\<open>ics03_connection/msgs\<close> and \<^verbatim>\<open>ics04_channel/msgs\<close>), after their decoding.
\<close>

section \<open>Proofs\<close>

record consensus_proof =
  cp_proof :: commitment_proof_bytes
  cp_height :: height

record proofs =
  object_proof :: commitment_proof_bytes
  client_proof :: "commitment_proof_bytes option"
  consensus_proof :: "consensus_proof option"
  other_proof :: "commitment_proof_bytes option"
  proof_height :: height

definition consensus_proof_new ::
    "commitment_proof_bytes \<Rightarrow> height \<Rightarrow> (consensus_proof, proof_error) res" where
  "consensus_proof_new p h =
     (if is_zero h then fail_with ZeroHeight else Inr \<lparr>cp_proof = p, cp_height = h\<rparr>)"

definition proofs_new ::
    "commitment_proof_bytes \<Rightarrow> commitment_proof_bytes option \<Rightarrow> consensus_proof option
       \<Rightarrow> commitment_proof_bytes option \<Rightarrow> height \<Rightarrow> (proofs, proof_error) res" where
  "proofs_new ob cl cons ot h =
     (if is_zero h then fail_with ZeroHeight
      else Inr \<lparr>object_proof = ob, client_proof = cl, consensus_proof = cons, other_proof = ot,
                proof_height = h\<rparr>)"

section \<open>Connection messages\<close>

record msg_conn_open_init =
  coi_client_id :: client_id
  coi_counterparty :: conn_counterparty
  coi_version :: "version option"
  coi_delay_period :: duration
  coi_signer :: string

record 'cs msg_conn_open_try =
  cot_client_id :: client_id
  cot_client_state :: "'cs option"
  cot_counterparty :: conn_counterparty
  cot_counterparty_versions :: "version list"
  cot_proofs :: proofs
  cot_delay_period :: duration
  cot_signer :: string
  cot_host_consensus_state_proof :: bytes

record 'cs msg_conn_open_ack =
  coa_connection_id :: connection_id
  coa_counterparty_connection_id :: connection_id
  coa_client_state :: "'cs option"
  coa_proofs :: proofs
  coa_host_consensus_state_proof :: bytes
  coa_version :: version
  coa_signer :: string

record msg_conn_open_confirm =
  coc_connection_id :: connection_id
  coc_proofs :: proofs
  coc_signer :: string

datatype 'cs connection_msg =
    ConnectionOpenInit msg_conn_open_init
  | ConnectionOpenTry "'cs msg_conn_open_try"
  | ConnectionOpenAck "'cs msg_conn_open_ack"
  | ConnectionOpenConfirm msg_conn_open_confirm

text \<open>The method \<^verbatim>\<open>consensus_height\<close> of the try and ack messages.\<close>

definition consensus_height :: "proofs \<Rightarrow> height" where
  "consensus_height ps =
     (case consensus_proof ps of None \<Rightarrow> height_zero | Some p \<Rightarrow> cp_height p)"

section \<open>Channel messages\<close>

record msg_chan_open_init =
  hoi_port_id :: port_id
  hoi_channel :: channel_end
  hoi_signer :: string

record msg_chan_open_try =
  hot_port_id :: port_id
  hot_channel :: channel_end
  hot_counterparty_version :: channel_version
  hot_proofs :: proofs
  hot_signer :: string

record msg_chan_open_ack =
  hoa_port_id :: port_id
  hoa_channel_id :: channel_id
  hoa_counterparty_channel_id :: channel_id
  hoa_counterparty_version :: channel_version
  hoa_proofs :: proofs
  hoa_signer :: string

record msg_chan_open_confirm =
  hoc_port_id :: port_id
  hoc_channel_id :: channel_id
  hoc_proofs :: proofs
  hoc_signer :: string

record msg_chan_close_init =
  hci_port_id :: port_id
  hci_channel_id :: channel_id
  hci_signer :: string

record msg_chan_close_confirm =
  hcc_port_id :: port_id
  hcc_channel_id :: channel_id
  hcc_proofs :: proofs
  hcc_signer :: string

datatype channel_msg =
    ChannelOpenInit msg_chan_open_init
  | ChannelOpenTry msg_chan_open_try
  | ChannelOpenAck msg_chan_open_ack
  | ChannelOpenConfirm msg_chan_open_confirm
  | ChannelCloseInit msg_chan_close_init
  | ChannelCloseConfirm msg_chan_close_confirm

section \<open>Packet messages\<close>

record msg_recv_packet =
  mrp_packet :: packet
  mrp_proofs :: proofs
  mrp_signer :: string

record msg_acknowledgement =
  mak_packet :: packet
  mak_acknowledgement :: bytes
  mak_proofs :: proofs
  mak_signer :: string

record msg_timeout =
  mto_packet :: packet
  mto_next_sequence_recv :: sequence
  mto_proofs :: proofs
  mto_signer :: string

record msg_timeout_on_close =
  mtc_packet :: packet
  mtc_next_sequence_recv :: sequence
  mtc_proofs :: proofs
  mtc_signer :: string

datatype packet_msg =
    RecvPacketMsg msg_recv_packet
  | AckPacketMsg msg_acknowledgement
  | ToPacketMsg msg_timeout
  | ToClosePacketMsg msg_timeout_on_close

end
