(* ===== verification/Host_Store.thy ===== *)
theory Host_Store
  imports Channel_Types
begin

text \<open>
  The storage of pallet-ibc. What counterparties verify lives in one child trie, under the ICS24
  paths; the modules of \<^verbatim>\<open>pallet-ibc/src/ics23\<close> are typed views of it. The other storage items of
  \<^verbatim>\<open>pallet-ibc/src/lib.rs\<close> are maps and counters of their own. A value of the trie is what its
  encoding decodes to: the raw protobuf message for connection and channel ends, the number or the
  bytes otherwise; decoding as another kind of value fails.

  The views are instances of one interface, the locales \<open>keyed_store\<close> and \<open>deletable_store\<close>: reads
  see exactly the last write to the same key.
\<close>

section \<open>The interface of a key-value store\<close>

locale keyed_store =
  fixes get :: "'s \<Rightarrow> 'k \<Rightarrow> 'v option"
    and put :: "'k \<Rightarrow> 'v \<Rightarrow> 's \<Rightarrow> 's"
  assumes get_put: "get (put k v s) k' = (if k' = k then Some v else get s k')"
begin

lemma get_put_same: "get (put k v s) k = Some v"
  by (simp add: get_put)

lemma get_put_other: "k' \<noteq> k \<Longrightarrow> get (put k v s) k' = get s k'"
  by (simp add: get_put)

lemma get_put_put: "get (put k v (put k w s)) k' = get (put k v s) k'"
  by (simp add: get_put)

lemma put_grows: "get s k' \<noteq> None \<Longrightarrow> get (put k v s) k' \<noteq> None"
  by (simp add: get_put)

lemma get_fold_put:
  "get (fold (\<lambda>(k, v). put k v) kvs s) k' =
     (case map_of (rev kvs) k' of Some v \<Rightarrow> Some v | None \<Rightarrow> get s k')"
  by (induction kvs rule: rev_induct) (auto simp: get_put split: option.splits)

end

locale deletable_store = keyed_store +
  fixes del :: "'k \<Rightarrow> 's \<Rightarrow> 's"
  assumes get_del: "get (del k s) k' = (if k' = k then None else get s k')"
begin

lemma get_del_same: "get (del k s) k = None"
  by (simp add: get_del)

lemma get_del_other: "k' \<noteq> k \<Longrightarrow> get (del k s) k' = get s k'"
  by (simp add: get_del)

lemma del_shrinks: "get (del k s) k' \<noteq> None \<Longrightarrow> get s k' \<noteq> None"
  by (simp add: get_del split: if_splits)

lemma get_del_put: "get (del k (put k v s)) k' = get (del k s) k'"
  by (simp add: get_del get_put)

end

section \<open>The state of the pallet\<close>

datatype ('cs, 'cons) stored =
    SClientType string
  | SClientState 'cs
  | SConsensusState 'cons
  | SConnection raw_connection_end
  | SChannel raw_channel
  | SSequence u64
  | SCommitment bytes
  | SReceipt bytes
  | SAck bytes

text \<open>\<^verbatim>\<open>PacketInfo\<close> of \<^verbatim>\<open>pallet-ibc/primitives\<close>, the copy of a packet kept for relayers.\<close>

record packet_info =
  info_height :: "u64 option"
  info_sequence :: u64
  info_source_port :: string
  info_source_channel :: string
  info_destination_port :: string
  info_destination_channel :: string
  info_channel_order :: int
  info_data :: bytes
  info_timeout_height :: "u64 \<times> u64"
  info_timeout_timestamp :: u64
  info_ack :: "bytes option"

type_synonym packet_key = "port_id \<times> channel_id \<times> sequence"

text \<open>
  Storage, with that of the application modules and the other pallets as \<open>app_storage\<close>, then what
  the surrounding runtime supplies: the prefix of the child trie, the parachain
  id, the block number, the time, the block numbers with a known hash and the configured minimum
  connection delay in seconds.
\<close>

record ('cs, 'cons, 'app) host =
  trie :: "bytes \<rightharpoonup> ('cs, 'cons) stored"
  ClientUpdateTime :: "client_id \<times> height \<rightharpoonup> u64"
  ClientUpdateHeight :: "client_id \<times> height \<rightharpoonup> height"
  ChannelCounter :: u32
  PacketCounter :: u32
  ClientCounter :: u32
  ConnectionCounter :: u32
  AcknowledgementCounter :: u32
  PacketReceiptCounter :: u32
  ChannelsConnection :: "connection_id \<rightharpoonup> (port_id \<times> channel_id) list"
  ConnectionClient :: "client_id \<Rightarrow> connection_id list"
  ConsensusHeights :: "client_id \<Rightarrow> height list"
  SendPackets :: "packet_key \<rightharpoonup> packet_info"
  RecvPackets :: "packet_key \<rightharpoonup> packet_info"
  Acks :: "packet_key \<rightharpoonup> bytes"
  app_storage :: 'app
  PalletPrefix :: bytes
  parachain_id :: u32
  block_number :: u32
  now_nanos :: u64
  BlockHash :: "u32 list"
  MinimumConnectionDelay :: u64

section \<open>The child trie\<close>

definition as_bytes :: "string \<Rightarrow> bytes" where
  "as_bytes s = map (\<lambda>c. of_nat (of_char c)) s"

definition apply_prefix :: "bytes \<Rightarrow> string list \<Rightarrow> bytes" where
  "apply_prefix prefix ps = prefix @ concat (map as_bytes ps)"

definition store_key :: "('cs, 'cons, 'app) host \<Rightarrow> path \<Rightarrow> bytes" where
  "store_key s p = apply_prefix (PalletPrefix s) [path_display p]"

definition child_get :: "('cs, 'cons, 'app) host \<Rightarrow> path \<Rightarrow> ('cs, 'cons) stored option" where
  "child_get s p = trie s (store_key s p)"

definition child_put :: "path \<Rightarrow> ('cs, 'cons) stored \<Rightarrow> ('cs, 'cons, 'app) host \<Rightarrow> ('cs, 'cons, 'app) host" where
  "child_put p v s = s\<lparr>trie := (trie s)(store_key s p \<mapsto> v)\<rparr>"

definition child_kill :: "path \<Rightarrow> ('cs, 'cons, 'app) host \<Rightarrow> ('cs, 'cons, 'app) host" where
  "child_kill p s = s\<lparr>trie := (trie s)(store_key s p := None)\<rparr>"

definition child_exists :: "('cs, 'cons, 'app) host \<Rightarrow> path \<Rightarrow> bool" where
  "child_exists s p \<longleftrightarrow> child_get s p \<noteq> None"

lemma as_bytes_inj: "as_bytes s = as_bytes t \<longleftrightarrow> s = t"
proof -
  have "inj (\<lambda>c. of_nat (of_char c :: nat) :: u8)"
  proof (rule injI)
    fix c d :: char
    assume "(of_nat (of_char c :: nat) :: u8) = of_nat (of_char d)"
    then have "unat (of_nat (of_char c :: nat) :: u8) = unat (of_nat (of_char d) :: u8)"
      by simp
    then have "(of_char c :: nat) mod 256 = of_char d mod 256"
      by (simp add: unat_of_nat)
    then show "c = d"
      by simp
  qed
  then show ?thesis
    by (simp add: as_bytes_def inj_map_eq_map)
qed

lemma store_key_inj:
  "in_language p \<Longrightarrow> in_language q \<Longrightarrow> store_key s p = store_key s q \<longleftrightarrow> p = q"
  by (auto simp: store_key_def apply_prefix_def as_bytes_inj dest: path_display_inj_language)

lemma store_key_update [simp]: "store_key (trie_update f s) p = store_key s p"
  by (simp add: store_key_def)

lemma child_get_put:
  "in_language p \<Longrightarrow> in_language q \<Longrightarrow>
     child_get (child_put p v s) q = (if q = p then Some v else child_get s q)"
  by (auto simp: child_get_def child_put_def store_key_inj)

lemma child_get_kill:
  "in_language p \<Longrightarrow> in_language q \<Longrightarrow>
     child_get (child_kill p s) q = (if q = p then None else child_get s q)"
  by (auto simp: child_get_def child_kill_def store_key_inj)

section \<open>Typed views of the trie\<close>

text \<open>\<^verbatim>\<open>ics23/clients.rs\<close>, \<^verbatim>\<open>client_states.rs\<close>, \<^verbatim>\<open>consensus_states.rs\<close> and \<^verbatim>\<open>connections.rs\<close>.\<close>

definition clients_get :: "('cs, 'cons, 'app) host \<Rightarrow> client_id \<Rightarrow> string option" where
  "clients_get s i = (case child_get s (ClientTypePath i) of Some (SClientType t) \<Rightarrow> Some t | _ \<Rightarrow> None)"

definition clients_insert :: "client_id \<Rightarrow> string \<Rightarrow> ('cs, 'cons, 'app) host \<Rightarrow> ('cs, 'cons, 'app) host" where
  "clients_insert i t = child_put (ClientTypePath i) (SClientType t)"

definition clients_contains_key :: "('cs, 'cons, 'app) host \<Rightarrow> client_id \<Rightarrow> bool" where
  "clients_contains_key s i \<longleftrightarrow> child_exists s (ClientTypePath i)"

definition client_states_get :: "('cs, 'cons, 'app) host \<Rightarrow> client_id \<Rightarrow> 'cs option" where
  "client_states_get s i =
     (case child_get s (ClientStatePath i) of Some (SClientState c) \<Rightarrow> Some c | _ \<Rightarrow> None)"

definition client_states_insert :: "client_id \<Rightarrow> 'cs \<Rightarrow> ('cs, 'cons, 'app) host \<Rightarrow> ('cs, 'cons, 'app) host" where
  "client_states_insert i c = child_put (ClientStatePath i) (SClientState c)"

definition consensus_path :: "client_id \<times> height \<Rightarrow> path" where
  "consensus_path k = ClientConsensusStatePath (fst k) (revision_number (snd k)) (revision_height (snd k))"

definition consensus_states_get :: "('cs, 'cons, 'app) host \<Rightarrow> client_id \<times> height \<Rightarrow> 'cons option" where
  "consensus_states_get s k =
     (case child_get s (consensus_path k) of Some (SConsensusState c) \<Rightarrow> Some c | _ \<Rightarrow> None)"

definition consensus_states_insert ::
    "client_id \<times> height \<Rightarrow> 'cons \<Rightarrow> ('cs, 'cons, 'app) host \<Rightarrow> ('cs, 'cons, 'app) host" where
  "consensus_states_insert k c = child_put (consensus_path k) (SConsensusState c)"

definition connections_get :: "('cs, 'cons, 'app) host \<Rightarrow> connection_id \<Rightarrow> raw_connection_end option" where
  "connections_get s k =
     (case child_get s (ConnectionsPath k) of Some (SConnection r) \<Rightarrow> Some r | _ \<Rightarrow> None)"

definition connections_insert ::
    "connection_id \<Rightarrow> raw_connection_end \<Rightarrow> ('cs, 'cons, 'app) host \<Rightarrow> ('cs, 'cons, 'app) host" where
  "connections_insert k r = child_put (ConnectionsPath k) (SConnection r)"

text \<open>\<^verbatim>\<open>ics23/channels.rs\<close> and the three sequence counters of a channel.\<close>

definition channels_get :: "('cs, 'cons, 'app) host \<Rightarrow> port_id \<times> channel_id \<Rightarrow> raw_channel option" where
  "channels_get s k =
     (case child_get s (ChannelEndsPath (fst k) (snd k)) of Some (SChannel r) \<Rightarrow> Some r | _ \<Rightarrow> None)"

definition channels_insert ::
    "port_id \<times> channel_id \<Rightarrow> raw_channel \<Rightarrow> ('cs, 'cons, 'app) host \<Rightarrow> ('cs, 'cons, 'app) host" where
  "channels_insert k r = child_put (ChannelEndsPath (fst k) (snd k)) (SChannel r)"

definition next_seq_send_get :: "('cs, 'cons, 'app) host \<Rightarrow> port_id \<times> channel_id \<Rightarrow> u64 option" where
  "next_seq_send_get s k =
     (case child_get s (SeqSendsPath (fst k) (snd k)) of Some (SSequence n) \<Rightarrow> Some n | _ \<Rightarrow> None)"

definition next_seq_send_insert ::
    "port_id \<times> channel_id \<Rightarrow> u64 \<Rightarrow> ('cs, 'cons, 'app) host \<Rightarrow> ('cs, 'cons, 'app) host" where
  "next_seq_send_insert k n = child_put (SeqSendsPath (fst k) (snd k)) (SSequence n)"

definition next_seq_recv_get :: "('cs, 'cons, 'app) host \<Rightarrow> port_id \<times> channel_id \<Rightarrow> u64 option" where
  "next_seq_recv_get s k =
     (case child_get s (SeqRecvsPath (fst k) (snd k)) of Some (SSequence n) \<Rightarrow> Some n | _ \<Rightarrow> None)"

definition next_seq_recv_insert ::
    "port_id \<times> channel_id \<Rightarrow> u64 \<Rightarrow> ('cs, 'cons, 'app) host \<Rightarrow> ('cs, 'cons, 'app) host" where
  "next_seq_recv_insert k n = child_put (SeqRecvsPath (fst k) (snd k)) (SSequence n)"

definition next_seq_ack_get :: "('cs, 'cons, 'app) host \<Rightarrow> port_id \<times> channel_id \<Rightarrow> u64 option" where
  "next_seq_ack_get s k =
     (case child_get s (SeqAcksPath (fst k) (snd k)) of Some (SSequence n) \<Rightarrow> Some n | _ \<Rightarrow> None)"

definition next_seq_ack_insert ::
    "port_id \<times> channel_id \<Rightarrow> u64 \<Rightarrow> ('cs, 'cons, 'app) host \<Rightarrow> ('cs, 'cons, 'app) host" where
  "next_seq_ack_insert k n = child_put (SeqAcksPath (fst k) (snd k)) (SSequence n)"

text \<open>\<^verbatim>\<open>ics23/packet_commitments.rs\<close>, \<^verbatim>\<open>receipts.rs\<close> and \<^verbatim>\<open>acknowledgements.rs\<close>.\<close>

definition commitment_path :: "packet_key \<Rightarrow> path" where
  "commitment_path k = CommitmentsPath (fst k) (fst (snd k)) (snd (snd k))"

definition receipt_path :: "packet_key \<Rightarrow> path" where
  "receipt_path k = ReceiptsPath (fst k) (fst (snd k)) (snd (snd k))"

definition ack_path :: "packet_key \<Rightarrow> path" where
  "ack_path k = AcksPath (fst k) (fst (snd k)) (snd (snd k))"

definition packet_commitment_insert ::
    "packet_key \<Rightarrow> bytes \<Rightarrow> ('cs, 'cons, 'app) host \<Rightarrow> ('cs, 'cons, 'app) host" where
  "packet_commitment_insert k b = child_put (commitment_path k) (SCommitment b)"

definition packet_commitment_get :: "('cs, 'cons, 'app) host \<Rightarrow> packet_key \<Rightarrow> bytes option" where
  "packet_commitment_get s k =
     (case child_get s (commitment_path k) of Some (SCommitment b) \<Rightarrow> Some b | _ \<Rightarrow> None)"

definition packet_commitment_remove :: "packet_key \<Rightarrow> ('cs, 'cons, 'app) host \<Rightarrow> ('cs, 'cons, 'app) host" where
  "packet_commitment_remove k = child_kill (commitment_path k)"

definition packet_commitment_contains_key :: "('cs, 'cons, 'app) host \<Rightarrow> packet_key \<Rightarrow> bool" where
  "packet_commitment_contains_key s k \<longleftrightarrow> child_exists s (commitment_path k)"

definition packet_receipt_insert ::
    "packet_key \<Rightarrow> bytes \<Rightarrow> ('cs, 'cons, 'app) host \<Rightarrow> ('cs, 'cons, 'app) host" where
  "packet_receipt_insert k b = child_put (receipt_path k) (SReceipt b)"

definition packet_receipt_get :: "('cs, 'cons, 'app) host \<Rightarrow> packet_key \<Rightarrow> bytes option" where
  "packet_receipt_get s k =
     (case child_get s (receipt_path k) of Some (SReceipt b) \<Rightarrow> Some b | _ \<Rightarrow> None)"

definition packet_receipt_contains_key :: "('cs, 'cons, 'app) host \<Rightarrow> packet_key \<Rightarrow> bool" where
  "packet_receipt_contains_key s k \<longleftrightarrow> child_exists s (receipt_path k)"

definition acknowledgements_insert ::
    "packet_key \<Rightarrow> bytes \<Rightarrow> ('cs, 'cons, 'app) host \<Rightarrow> ('cs, 'cons, 'app) host" where
  "acknowledgements_insert k b = child_put (ack_path k) (SAck b)"

definition acknowledgements_get :: "('cs, 'cons, 'app) host \<Rightarrow> packet_key \<Rightarrow> bytes option" where
  "acknowledgements_get s k =
     (case child_get s (ack_path k) of Some (SAck b) \<Rightarrow> Some b | _ \<Rightarrow> None)"

definition acknowledgements_remove :: "packet_key \<Rightarrow> ('cs, 'cons, 'app) host \<Rightarrow> ('cs, 'cons, 'app) host" where
  "acknowledgements_remove k = child_kill (ack_path k)"

definition acknowledgements_contains_key :: "('cs, 'cons, 'app) host \<Rightarrow> packet_key \<Rightarrow> bool" where
  "acknowledgements_contains_key s k \<longleftrightarrow> child_exists s (ack_path k)"

lemmas view_paths = consensus_path_def commitment_path_def receipt_path_def ack_path_def

lemmas view_gets =
  clients_get_def client_states_get_def consensus_states_get_def connections_get_def
  channels_get_def next_seq_send_get_def next_seq_recv_get_def next_seq_ack_get_def
  packet_commitment_get_def packet_receipt_get_def acknowledgements_get_def
  clients_contains_key_def packet_commitment_contains_key_def packet_receipt_contains_key_def
  acknowledgements_contains_key_def child_exists_def

lemmas view_puts =
  clients_insert_def client_states_insert_def consensus_states_insert_def connections_insert_def
  channels_insert_def next_seq_send_insert_def next_seq_recv_insert_def next_seq_ack_insert_def
  packet_commitment_insert_def packet_commitment_remove_def packet_receipt_insert_def
  acknowledgements_insert_def acknowledgements_remove_def

lemmas view_laws = view_gets view_puts view_paths child_get_put child_get_kill

section \<open>The views keep the contract\<close>

interpretation clients: keyed_store clients_get clients_insert
  by unfold_locales (simp add: view_laws)

interpretation client_states: keyed_store client_states_get client_states_insert
  by unfold_locales (simp add: view_laws)

interpretation consensus_states: keyed_store consensus_states_get consensus_states_insert
  by unfold_locales (auto simp: view_laws prod_eq_iff height.expand)

interpretation connections: keyed_store connections_get connections_insert
  by unfold_locales (simp add: view_laws)

interpretation channels: keyed_store channels_get channels_insert
  by unfold_locales (auto simp: view_laws prod_eq_iff)

interpretation next_seq_send: keyed_store next_seq_send_get next_seq_send_insert
  by unfold_locales (auto simp: view_laws prod_eq_iff)

interpretation next_seq_recv: keyed_store next_seq_recv_get next_seq_recv_insert
  by unfold_locales (auto simp: view_laws prod_eq_iff)

interpretation next_seq_ack: keyed_store next_seq_ack_get next_seq_ack_insert
  by unfold_locales (auto simp: view_laws prod_eq_iff)

interpretation packet_commitments:
  deletable_store packet_commitment_get packet_commitment_insert packet_commitment_remove
  by unfold_locales (auto simp: view_laws prod_eq_iff)

interpretation packet_receipts: keyed_store packet_receipt_get packet_receipt_insert
  by unfold_locales (auto simp: view_laws prod_eq_iff)

interpretation acknowledgements:
  deletable_store acknowledgements_get acknowledgements_insert acknowledgements_remove
  by unfold_locales (auto simp: view_laws prod_eq_iff)

lemma contains_key_after_write:
  "packet_commitment_contains_key (packet_commitment_insert k b s) k' \<longleftrightarrow>
     k' = k \<or> packet_commitment_contains_key s k'"
  "packet_commitment_contains_key (packet_commitment_remove k s) k' \<longleftrightarrow>
     k' \<noteq> k \<and> packet_commitment_contains_key s k'"
  "packet_receipt_contains_key (packet_receipt_insert k b s) k' \<longleftrightarrow>
     k' = k \<or> packet_receipt_contains_key s k'"
  "acknowledgements_contains_key (acknowledgements_insert k b s) k' \<longleftrightarrow>
     k' = k \<or> acknowledgements_contains_key s k'"
  "acknowledgements_contains_key (acknowledgements_remove k s) k' \<longleftrightarrow>
     k' \<noteq> k \<and> acknowledgements_contains_key s k'"
  "clients_contains_key (clients_insert i t s) i' \<longleftrightarrow> i' = i \<or> clients_contains_key s i'"
  by (auto simp: view_laws prod_eq_iff)

section \<open>What writes leave alone\<close>

lemma child_put_fields [simp, frame_simps]:
  "ClientUpdateTime (child_put p v s) = ClientUpdateTime s"
  "ClientUpdateHeight (child_put p v s) = ClientUpdateHeight s"
  "ChannelCounter (child_put p v s) = ChannelCounter s"
  "PacketCounter (child_put p v s) = PacketCounter s"
  "ClientCounter (child_put p v s) = ClientCounter s"
  "ConnectionCounter (child_put p v s) = ConnectionCounter s"
  "AcknowledgementCounter (child_put p v s) = AcknowledgementCounter s"
  "PacketReceiptCounter (child_put p v s) = PacketReceiptCounter s"
  "ChannelsConnection (child_put p v s) = ChannelsConnection s"
  "ConnectionClient (child_put p v s) = ConnectionClient s"
  "ConsensusHeights (child_put p v s) = ConsensusHeights s"
  "SendPackets (child_put p v s) = SendPackets s"
  "RecvPackets (child_put p v s) = RecvPackets s"
  "Acks (child_put p v s) = Acks s"
  "app_storage (child_put p v s) = app_storage s"
  "PalletPrefix (child_put p v s) = PalletPrefix s"
  "parachain_id (child_put p v s) = parachain_id s"
  "block_number (child_put p v s) = block_number s"
  "now_nanos (child_put p v s) = now_nanos s"
  "BlockHash (child_put p v s) = BlockHash s"
  "MinimumConnectionDelay (child_put p v s) = MinimumConnectionDelay s"
  by (simp_all add: child_put_def)

lemma child_kill_fields [simp, frame_simps]:
  "ClientUpdateTime (child_kill p s) = ClientUpdateTime s"
  "ClientUpdateHeight (child_kill p s) = ClientUpdateHeight s"
  "ChannelCounter (child_kill p s) = ChannelCounter s"
  "PacketCounter (child_kill p s) = PacketCounter s"
  "ClientCounter (child_kill p s) = ClientCounter s"
  "ConnectionCounter (child_kill p s) = ConnectionCounter s"
  "AcknowledgementCounter (child_kill p s) = AcknowledgementCounter s"
  "PacketReceiptCounter (child_kill p s) = PacketReceiptCounter s"
  "ChannelsConnection (child_kill p s) = ChannelsConnection s"
  "ConnectionClient (child_kill p s) = ConnectionClient s"
  "ConsensusHeights (child_kill p s) = ConsensusHeights s"
  "SendPackets (child_kill p s) = SendPackets s"
  "RecvPackets (child_kill p s) = RecvPackets s"
  "Acks (child_kill p s) = Acks s"
  "app_storage (child_kill p s) = app_storage s"
  "PalletPrefix (child_kill p s) = PalletPrefix s"
  "parachain_id (child_kill p s) = parachain_id s"
  "block_number (child_kill p s) = block_number s"
  "now_nanos (child_kill p s) = now_nanos s"
  "BlockHash (child_kill p s) = BlockHash s"
  "MinimumConnectionDelay (child_kill p s) = MinimumConnectionDelay s"
  by (simp_all add: child_kill_def)

lemma child_get_fields [simp, frame_simps]:
  "child_get (ClientUpdateTime_update f1 s) p = child_get s p"
  "child_get (ClientUpdateHeight_update f2 s) p = child_get s p"
  "child_get (ChannelCounter_update f3 s) p = child_get s p"
  "child_get (PacketCounter_update f4 s) p = child_get s p"
  "child_get (ClientCounter_update f5 s) p = child_get s p"
  "child_get (ConnectionCounter_update f6 s) p = child_get s p"
  "child_get (AcknowledgementCounter_update f7 s) p = child_get s p"
  "child_get (PacketReceiptCounter_update f8 s) p = child_get s p"
  "child_get (ChannelsConnection_update f9 s) p = child_get s p"
  "child_get (ConnectionClient_update f10 s) p = child_get s p"
  "child_get (ConsensusHeights_update f11 s) p = child_get s p"
  "child_get (SendPackets_update f12 s) p = child_get s p"
  "child_get (RecvPackets_update f13 s) p = child_get s p"
  "child_get (Acks_update f14 s) p = child_get s p"
  "child_get (app_storage_update f15 s) p = child_get s p"
  "child_get (parachain_id_update f16 s) p = child_get s p"
  "child_get (block_number_update f17 s) p = child_get s p"
  "child_get (now_nanos_update f18 s) p = child_get s p"
  "child_get (BlockHash_update f19 s) p = child_get s p"
  "child_get (MinimumConnectionDelay_update f20 s) p = child_get s p"
  by (simp_all add: child_get_def store_key_def)

text \<open>The writes of a view touch one path of the trie.\<close>

lemma keeps_child_put:
  "in_language p \<Longrightarrow> in_language q \<Longrightarrow> q \<noteq> p \<Longrightarrow> keeps (\<lambda>s. child_get s q) (op_update (child_put p v))"
  by (simp add: keeps_def child_get_put)

lemma keeps_child_kill:
  "in_language p \<Longrightarrow> in_language q \<Longrightarrow> q \<noteq> p \<Longrightarrow> keeps (\<lambda>s. child_get s q) (op_update (child_kill p))"
  by (simp add: keeps_def child_get_kill)

end
