(* ===== verification/Host_Context.thy ===== *)
theory Host_Context
  imports Host_Store
begin

text \<open>
  The reader and keeper operations that pallet-ibc gives the protocol library: \<^verbatim>\<open>pallet-ibc/src\<close>,
  files \<^verbatim>\<open>client.rs\<close>, \<^verbatim>\<open>connection.rs\<close>, \<^verbatim>\<open>channel.rs\<close> and parts of \<^verbatim>\<open>impls.rs\<close>. Log output is left out.

  The record \<open>env\<close> holds what the host is parametric in: the hash function, the Unicode table and
  the range of \<^verbatim>\<open>tendermint::Time\<close> behind identifiers and timestamps, and the light clients with their
  traits \<^verbatim>\<open>ClientState\<close>, \<^verbatim>\<open>ConsensusState\<close> and \<^verbatim>\<open>ClientDef\<close> of \<^verbatim>\<open>core/ics02_client\<close>.
\<close>

section \<open>Light clients\<close>

datatype status = Active | Frozen | ExpiredStatus | Unknown | Unauthorized

datatype 'cons consensus_update = Single 'cons | Batch "(height \<times> 'cons) list"

record ('cs, 'cons, 'msg, 'app) env =
  unicode_alnum :: "nat \<Rightarrow> bool"
  tm_representable :: "int \<Rightarrow> bool"
  sha2_256 :: "bytes \<Rightarrow> bytes"
  cs_client_type :: "'cs \<Rightarrow> string"
  cs_latest_height :: "'cs \<Rightarrow> height"
  cs_status :: "'cs \<Rightarrow> ('cs, 'cons, 'app) host \<Rightarrow> client_id \<Rightarrow> status"
  cs_expired :: "'cs \<Rightarrow> duration \<Rightarrow> bool"
  cons_root :: "'cons \<Rightarrow> commitment_root"
  cons_timestamp :: "'cons \<Rightarrow> timestamp"
  def_verify_client_message ::
    "('cs, 'cons, 'app) host \<Rightarrow> client_id \<Rightarrow> 'cs \<Rightarrow> 'msg \<Rightarrow> (unit, ics02_error) res"
  def_update_state ::
    "('cs, 'cons, 'app) host \<Rightarrow> client_id \<Rightarrow> 'cs \<Rightarrow> 'msg \<Rightarrow> ('cs \<times> 'cons consensus_update, ics02_error) res"
  def_update_state_on_misbehaviour :: "'cs \<Rightarrow> 'msg \<Rightarrow> ('cs, ics02_error) res"
  def_check_for_misbehaviour ::
    "('cs, 'cons, 'app) host \<Rightarrow> client_id \<Rightarrow> 'cs \<Rightarrow> 'msg \<Rightarrow> (bool, ics02_error) res"
  def_verify_upgrade_and_update_state ::
    "('cs, 'cons, 'app) host \<Rightarrow> client_id \<Rightarrow> 'cs \<Rightarrow> 'cs \<Rightarrow> 'cons \<Rightarrow> bytes \<Rightarrow> bytes
       \<Rightarrow> ('cs \<times> 'cons consensus_update, ics02_error) res"
  def_verify_client_consensus_state ::
    "('cs, 'cons, 'app) host \<Rightarrow> 'cs \<Rightarrow> height \<Rightarrow> commitment_prefix \<Rightarrow> commitment_proof_bytes
       \<Rightarrow> commitment_root \<Rightarrow> client_id \<Rightarrow> height \<Rightarrow> 'cons \<Rightarrow> (unit, ics02_error) res"
  def_verify_connection_state ::
    "('cs, 'cons, 'app) host \<Rightarrow> client_id \<Rightarrow> 'cs \<Rightarrow> height \<Rightarrow> commitment_prefix
       \<Rightarrow> commitment_proof_bytes \<Rightarrow> commitment_root \<Rightarrow> connection_id \<Rightarrow> connection_end
       \<Rightarrow> (unit, ics02_error) res"
  def_verify_channel_state ::
    "('cs, 'cons, 'app) host \<Rightarrow> client_id \<Rightarrow> 'cs \<Rightarrow> height \<Rightarrow> commitment_prefix
       \<Rightarrow> commitment_proof_bytes \<Rightarrow> commitment_root \<Rightarrow> port_id \<Rightarrow> channel_id \<Rightarrow> channel_end
       \<Rightarrow> (unit, ics02_error) res"
  def_verify_client_full_state ::
    "('cs, 'cons, 'app) host \<Rightarrow> 'cs \<Rightarrow> height \<Rightarrow> commitment_prefix \<Rightarrow> commitment_proof_bytes
       \<Rightarrow> commitment_root \<Rightarrow> client_id \<Rightarrow> 'cs \<Rightarrow> (unit, ics02_error) res"
  def_verify_packet_data ::
    "('cs, 'cons, 'app) host \<Rightarrow> client_id \<Rightarrow> 'cs \<Rightarrow> height \<Rightarrow> connection_end
       \<Rightarrow> commitment_proof_bytes \<Rightarrow> commitment_root \<Rightarrow> port_id \<Rightarrow> channel_id \<Rightarrow> sequence \<Rightarrow> bytes
       \<Rightarrow> (unit, ics02_error) res"
  def_verify_packet_acknowledgement ::
    "('cs, 'cons, 'app) host \<Rightarrow> client_id \<Rightarrow> 'cs \<Rightarrow> height \<Rightarrow> connection_end
       \<Rightarrow> commitment_proof_bytes \<Rightarrow> commitment_root \<Rightarrow> port_id \<Rightarrow> channel_id \<Rightarrow> sequence \<Rightarrow> bytes
       \<Rightarrow> (unit, ics02_error) res"
  def_verify_next_sequence_recv ::
    "('cs, 'cons, 'app) host \<Rightarrow> client_id \<Rightarrow> 'cs \<Rightarrow> height \<Rightarrow> connection_end
       \<Rightarrow> commitment_proof_bytes \<Rightarrow> commitment_root \<Rightarrow> port_id \<Rightarrow> channel_id \<Rightarrow> sequence
       \<Rightarrow> (unit, ics02_error) res"
  def_verify_packet_receipt_absence ::
    "('cs, 'cons, 'app) host \<Rightarrow> client_id \<Rightarrow> 'cs \<Rightarrow> height \<Rightarrow> connection_end
       \<Rightarrow> commitment_proof_bytes \<Rightarrow> commitment_root \<Rightarrow> port_id \<Rightarrow> channel_id \<Rightarrow> sequence
       \<Rightarrow> (unit, ics02_error) res"
  host_consensus_state_fn ::
    "('cs, 'cons, 'app) host \<Rightarrow> height \<Rightarrow> bytes option \<Rightarrow> 'cs \<Rightarrow> ('cons, ics02_error) res"
  validate_self_client_fn :: "('cs, 'cons, 'app) host \<Rightarrow> 'cs \<Rightarrow> (unit, ics02_error) res"

definition is_frozen ::
    "('cs, 'cons, 'msg, 'app) env \<Rightarrow> 'cs \<Rightarrow> ('cs, 'cons, 'app) host \<Rightarrow> client_id \<Rightarrow> bool" where
  "is_frozen E c s i \<longleftrightarrow> cs_status E c s i = Frozen"

text \<open>The default method \<^verbatim>\<open>status\<close> of the trait.\<close>

definition default_status :: "height option \<Rightarrow> status" where
  "default_status frozen_height = (if frozen_height \<noteq> None then Frozen else Active)"

section \<open>Reading clients\<close>

definition get_client_type ::
    "('cs, 'cons, 'app) host \<Rightarrow> client_id \<Rightarrow> (string, ics02_error) res" where
  "get_client_type s i =
     (if clients_contains_key s i then ok_or (clients_get s i) (E02_ClientNotFound i)
      else fail_with (E02_ClientNotFound i))"

definition get_client_state :: "('cs, 'cons, 'app) host \<Rightarrow> client_id \<Rightarrow> ('cs, ics02_error) res" where
  "get_client_state s i = ok_or (client_states_get s i) (E02_ClientNotFound i)"

definition get_consensus_state ::
    "('cs, 'cons, 'app) host \<Rightarrow> client_id \<Rightarrow> height \<Rightarrow> ('cons, ics02_error) res" where
  "get_consensus_state s i h = ok_or (consensus_states_get s (i, h)) (E02_ConsensusStateNotFound i h)"

definition maybe_consensus_state ::
    "('cs, 'cons, 'app) host \<Rightarrow> client_id \<Rightarrow> height \<Rightarrow> ('cons option, ics02_error) res" where
  "maybe_consensus_state s i h =
     (case get_consensus_state s i h of
        Inr c \<Rightarrow> Inr (Some c)
      | Inl (Err (E02_ConsensusStateNotFound j k)) \<Rightarrow> Inr None
      | Inl e \<Rightarrow> Inl e)"

definition next_consensus_state ::
    "('cs, 'cons, 'app) host \<Rightarrow> client_id \<Rightarrow> height \<Rightarrow> ('cons option, ics02_error) res" where
  "next_consensus_state s i h =
     Inr (Option.bind (find (\<lambda>n. n > h) (ConsensusHeights s i))
            (\<lambda>n. res_ok (get_consensus_state s i n)))"

definition prev_consensus_state ::
    "('cs, 'cons, 'app) host \<Rightarrow> client_id \<Rightarrow> height \<Rightarrow> ('cons option, ics02_error) res" where
  "prev_consensus_state s i h =
     (let before = filter (\<lambda>p. p < h) (ConsensusHeights s i) in
      Inr (if before = [] then None else res_ok (get_consensus_state s i (last before))))"

definition host_height :: "('cs, 'cons, 'app) host \<Rightarrow> height" where
  "host_height s = Height (ucast (parachain_id s)) (ucast (block_number s))"

definition host_timestamp ::
    "('cs, 'cons, 'msg, 'app) env \<Rightarrow> ('cs, 'cons, 'app) host \<Rightarrow> (timestamp, 'e) res" where
  "host_timestamp E s =
     (case from_nanoseconds (tm_representable E) (now_nanos s) of Inr t \<Rightarrow> Inr t | Inl _ \<Rightarrow> panics)"

definition get_client_counter :: "('cs, 'cons, 'app) host \<Rightarrow> (u64, ics02_error) res" where
  "get_client_counter s = Inr (ucast (ClientCounter s))"

section \<open>Storing clients\<close>

definition store_client_type ::
    "client_id \<Rightarrow> string \<Rightarrow> (('cs, 'cons, 'app) host, unit, ics02_error) op" where
  "store_client_type i t = op_update (clients_insert i t)"

definition store_client_state ::
    "client_id \<Rightarrow> 'cs \<Rightarrow> (('cs, 'cons, 'app) host, unit, ics02_error) op" where
  "store_client_state i c = op_update (client_states_insert i c)"

text \<open>
  \<^verbatim>\<open>BoundedBTreeSet::try_insert\<close>: a set with room, or one that already holds the value, takes it;
  otherwise the value is handed back. The set is the ordered list of its members.
\<close>

definition bounded_try_insert :: "nat \<Rightarrow> height \<Rightarrow> height list \<Rightarrow> height list option" where
  "bounded_try_insert bound h hs =
     (if length hs < bound \<or> h \<in> set hs then Some (insort_insert h hs) else None)"

definition MAX_CONSENSUS_HEIGHTS :: nat where
  "MAX_CONSENSUS_HEIGHTS = 256"

definition record_consensus_height :: "height \<Rightarrow> height list \<Rightarrow> (height list, 'e) res" where
  "record_consensus_height h hs =
     (case bounded_try_insert MAX_CONSENSUS_HEIGHTS h hs of
        Some hs' \<Rightarrow> Inr hs'
      | None \<Rightarrow>
          (case hs of
             [] \<Rightarrow> panics
           | first # rest \<Rightarrow> unwrap_opt (bounded_try_insert MAX_CONSENSUS_HEIGHTS h (remove1 first hs))))"

definition tracks_heights :: "client_id \<Rightarrow> bool" where
  "tracks_heights i \<longleftrightarrow> strip_prefix ''10-grandpa'' (client_id_str i) = None
     \<and> strip_prefix ''11-beefy'' (client_id_str i) = None"

definition store_consensus_state ::
    "client_id \<Rightarrow> height \<Rightarrow> 'cons \<Rightarrow> (('cs, 'cons, 'app) host, unit, ics02_error) op" where
  "store_consensus_state i h c =
     op_then (op_update (consensus_states_insert (i, h) c))
       (if tracks_heights i then
          op_bind (op_read (\<lambda>s. record_consensus_height h (ConsensusHeights s i))) (\<lambda>hs.
          op_update (\<lambda>s. s\<lparr>ConsensusHeights := (ConsensusHeights s)(i := hs)\<rparr>))
        else op_return ())"

definition increase_client_counter :: "('cs, 'cons, 'app) host \<Rightarrow> ('cs, 'cons, 'app) host" where
  "increase_client_counter s =
     (case checked_add (ClientCounter s) 1 of Some n \<Rightarrow> s\<lparr>ClientCounter := n\<rparr> | None \<Rightarrow> s)"

definition store_update_time ::
    "client_id \<Rightarrow> height \<Rightarrow> timestamp \<Rightarrow> (('cs, 'cons, 'app) host, unit, ics02_error) op" where
  "store_update_time i h ts =
     op_bind (op_lift (nanoseconds ts)) (\<lambda>n.
     op_update (\<lambda>s. s\<lparr>ClientUpdateTime := (ClientUpdateTime s)((i, h) \<mapsto> n)\<rparr>))"

definition store_update_height ::
    "client_id \<Rightarrow> height \<Rightarrow> height \<Rightarrow> (('cs, 'cons, 'app) host, unit, ics02_error) op" where
  "store_update_height i h host_h =
     op_update (\<lambda>s. s\<lparr>ClientUpdateHeight := (ClientUpdateHeight s)((i, h) \<mapsto> host_h)\<rparr>)"

section \<open>Connections\<close>

definition minimum_delay_period :: "('cs, 'cons, 'app) host \<Rightarrow> duration" where
  "minimum_delay_period s = unat (MinimumConnectionDelay s) * 10 ^ 9"

definition get_connection_end ::
    "('cs, 'cons, 'msg, 'app) env \<Rightarrow> ('cs, 'cons, 'app) host \<Rightarrow> connection_id \<Rightarrow> (connection_end, ics03_error) res" where
  "get_connection_end E s k =
     bind_res (ok_or (connections_get s k) (E03_ConnectionNotFound k)) (\<lambda>r.
     map_err (\<lambda>_. E03_ConnectionMismatch k) (connection_end_try_from (unicode_alnum E) r))"

definition host_oldest_height :: "('cs, 'cons, 'app) host \<Rightarrow> height" where
  "host_oldest_height s =
     Height (ucast (parachain_id s)) (case sort (BlockHash s) of [] \<Rightarrow> 0 | n # _ \<Rightarrow> ucast n)"

definition commitment_prefix_of ::
    "('cs, 'cons, 'app) host \<Rightarrow> (commitment_prefix, 'e) res" where
  "commitment_prefix_of s =
     (case commitment_prefix_try_from (PalletPrefix s) of Inr p \<Rightarrow> Inr p | Inl _ \<Rightarrow> panics)"

definition get_connection_counter :: "('cs, 'cons, 'app) host \<Rightarrow> (u64, ics03_error) res" where
  "get_connection_counter s = Inr (ucast (ConnectionCounter s))"

definition store_connection ::
    "connection_id \<Rightarrow> connection_end \<Rightarrow> (('cs, 'cons, 'app) host, unit, ics03_error) op" where
  "store_connection k c = op_update (connections_insert k (connection_end_into_raw c))"

definition store_connection_to_client ::
    "connection_id \<Rightarrow> client_id \<Rightarrow> (('cs, 'cons, 'app) host, unit, ics03_error) op" where
  "store_connection_to_client k i =
     op_update (\<lambda>s. s\<lparr>ConnectionClient := (ConnectionClient s)(i := ConnectionClient s i @ [k])\<rparr>)"

definition increase_connection_counter :: "('cs, 'cons, 'app) host \<Rightarrow> ('cs, 'cons, 'app) host" where
  "increase_connection_counter s =
     (case checked_add (ConnectionCounter s) 1 of Some n \<Rightarrow> s\<lparr>ConnectionCounter := n\<rparr> | None \<Rightarrow> s)"

section \<open>Reading channels\<close>

text \<open>A formatted reason keeps the fixed part of its text and the identifiers in it.\<close>

definition get_channel_end ::
    "('cs, 'cons, 'msg, 'app) env \<Rightarrow> ('cs, 'cons, 'app) host \<Rightarrow> port_id \<times> channel_id
       \<Rightarrow> (channel_end, ics04_error) res" where
  "get_channel_end E s k =
     bind_res (ok_or (channels_get s k) (E04_Malformed E04_MissingChannel)) (\<lambda>r.
     map_err (\<lambda>_. E04_ChannelNotFound (fst k) (snd k)) (channel_end_try_from (unicode_alnum E) r))"

fun decode_connection_channels ::
    "(nat \<Rightarrow> bool) \<Rightarrow> (port_id \<times> channel_id) list \<Rightarrow> ((port_id \<times> channel_id) list, ics04_error) res" where
  "decode_connection_channels ua [] = Inr []"
| "decode_connection_channels ua ((p, c) # items) =
     bind_res (map_err (\<lambda>_. E04_ImplementationSpecific ''[connection_channels]: invalid port id string: '')
       (port_id_from_str ua (port_id_to_string p))) (\<lambda>p'.
     bind_res (map_err (\<lambda>_. E04_ImplementationSpecific ''[connection_channels]: error decoding channel_id: '')
       (channel_id_from_str (channel_id_to_string c))) (\<lambda>c'.
     bind_res (decode_connection_channels ua items) (\<lambda>rest. Inr ((p', c') # rest))))"

definition connection_channels ::
    "('cs, 'cons, 'msg, 'app) env \<Rightarrow> ('cs, 'cons, 'app) host \<Rightarrow> connection_id
       \<Rightarrow> ((port_id \<times> channel_id) list, ics04_error) res" where
  "connection_channels E s k =
     (case ChannelsConnection s k of
        Some items \<Rightarrow> decode_connection_channels (unicode_alnum E) items
      | None \<Rightarrow> fail_with (E04_ConnectionNotOpen k))"

definition get_next_sequence_send ::
    "('cs, 'cons, 'app) host \<Rightarrow> port_id \<times> channel_id \<Rightarrow> (sequence, ics04_error) res" where
  "get_next_sequence_send s k =
     ok_or (next_seq_send_get s k) (E04_Packet (E04_MissingNextSendSeq (fst k) (snd k)))"

definition get_next_sequence_recv ::
    "('cs, 'cons, 'app) host \<Rightarrow> port_id \<times> channel_id \<Rightarrow> (sequence, ics04_error) res" where
  "get_next_sequence_recv s k =
     ok_or (next_seq_recv_get s k) (E04_Packet (E04_MissingNextRecvSeq (fst k) (snd k)))"

definition get_next_sequence_ack ::
    "('cs, 'cons, 'app) host \<Rightarrow> port_id \<times> channel_id \<Rightarrow> (sequence, ics04_error) res" where
  "get_next_sequence_ack s k =
     ok_or (next_seq_ack_get s k) (E04_Packet (E04_MissingNextAckSeq (fst k) (snd k)))"

definition get_packet_commitment ::
    "('cs, 'cons, 'app) host \<Rightarrow> packet_key \<Rightarrow> (bytes, ics04_error) res" where
  "get_packet_commitment s k =
     (if packet_commitment_contains_key s k
      then ok_or (packet_commitment_get s k) (E04_Malformed E04_MissingPacket)
      else fail_with (E04_Packet (E04_PacketCommitmentNotFound (snd (snd k)))))"

definition get_packet_receipt ::
    "('cs, 'cons, 'app) host \<Rightarrow> packet_key \<Rightarrow> (receipt, ics04_error) res" where
  "get_packet_receipt s k =
     (if packet_receipt_contains_key s k
      then bind_res
        (ok_or (packet_receipt_get s k) (E04_Packet (E04_PacketReceiptNotFound (snd (snd k))))) (\<lambda>b.
        if b = as_bytes ''Ok'' then Inr ReceiptOk
        else fail_with (E04_Packet (E04_PacketReceiptNotFound (snd (snd k)))))
      else fail_with (E04_Packet (E04_PacketReceiptNotFound (snd (snd k)))))"

definition get_packet_acknowledgement ::
    "('cs, 'cons, 'app) host \<Rightarrow> packet_key \<Rightarrow> (bytes, ics04_error) res" where
  "get_packet_acknowledgement s k =
     (if acknowledgements_contains_key s k
      then ok_or (acknowledgements_get s k)
        (E04_Packet (E04_PacketAcknowledgementNotFound (snd (snd k))))
      else fail_with (E04_Packet (E04_PacketAcknowledgementNotFound (snd (snd k)))))"

definition client_update_time ::
    "('cs, 'cons, 'msg, 'app) env \<Rightarrow> ('cs, 'cons, 'app) host \<Rightarrow> client_id \<Rightarrow> height
       \<Rightarrow> (timestamp, ics04_error) res" where
  "client_update_time E s i h =
     bind_res (ok_or (ClientUpdateTime s (i, h))
       (E04_ImplementationSpecific
         (''[client_update_time]:  client update timestamp not found for '' @ client_id_str i
          @ '' at height: '' @ height_display h))) (\<lambda>n.
     map_err (\<lambda>_. E04_ImplementationSpecific
         ''[client_update_time]:  error decoding timestamp from nano seconds: '')
       (from_nanoseconds (tm_representable E) n))"

definition client_update_height ::
    "('cs, 'cons, 'app) host \<Rightarrow> client_id \<Rightarrow> height \<Rightarrow> (height, ics04_error) res" where
  "client_update_height s i h =
     ok_or (ClientUpdateHeight s (i, h))
       (E04_ImplementationSpecific
         (''[client_update_time]:  client update height not found for '' @ client_id_str i
          @ '' at height: '' @ height_display h))"

definition get_channel_counter :: "('cs, 'cons, 'app) host \<Rightarrow> (u64, ics04_error) res" where
  "get_channel_counter s = Inr (ucast (ChannelCounter s))"

section \<open>Storing channels and packets\<close>

definition packet_info_from_packet :: "packet \<Rightarrow> (packet_info, 'e) res" where
  "packet_info_from_packet p =
     bind_res (nanoseconds (timeout_timestamp p)) (\<lambda>ns.
     Inr \<lparr>info_height = None, info_sequence = pkt_sequence p,
          info_source_port = port_id_to_string (source_port p),
          info_source_channel = channel_id_to_string (source_channel p),
          info_destination_port = port_id_to_string (destination_port p),
          info_destination_channel = channel_id_to_string (destination_channel p),
          info_channel_order = 0, info_data = packet_data p,
          info_timeout_height = (revision_number (timeout_height p), revision_height (timeout_height p)),
          info_timeout_timestamp = ns, info_ack = None\<rparr>)"

definition store_packet_commitment ::
    "packet_key \<Rightarrow> bytes \<Rightarrow> (('cs, 'cons, 'app) host, unit, ics04_error) op" where
  "store_packet_commitment k b =
     op_update (\<lambda>s.
       let s' = packet_commitment_insert k b s in
       case checked_add (PacketCounter s') 1 of Some n \<Rightarrow> s'\<lparr>PacketCounter := n\<rparr> | None \<Rightarrow> s')"

definition packet_info_at ::
    "('cs, 'cons, 'msg, 'app) env \<Rightarrow> packet_key \<Rightarrow> packet \<Rightarrow> ('cs, 'cons, 'app) host
       \<Rightarrow> (packet_info, ics04_error) res" where
  "packet_info_at E k p s =
     bind_res (get_channel_end E s (fst k, fst (snd k))) (\<lambda>e.
     bind_res (packet_info_from_packet p) (\<lambda>info.
     Inr (info\<lparr>info_height := Some (ucast (block_number s)),
               info_channel_order := order_to_i32 (chan_ordering e)\<rparr>)))"

definition store_send_packet ::
    "('cs, 'cons, 'msg, 'app) env \<Rightarrow> packet_key \<Rightarrow> packet
       \<Rightarrow> (('cs, 'cons, 'app) host, unit, ics04_error) op" where
  "store_send_packet E k p =
     op_bind (op_read (packet_info_at E k p)) (\<lambda>info.
     op_update (\<lambda>s. s\<lparr>SendPackets := (SendPackets s)(k \<mapsto> info)\<rparr>))"

definition store_recv_packet ::
    "('cs, 'cons, 'msg, 'app) env \<Rightarrow> packet_key \<Rightarrow> packet
       \<Rightarrow> (('cs, 'cons, 'app) host, unit, ics04_error) op" where
  "store_recv_packet E k p =
     op_bind (op_read (packet_info_at E k p)) (\<lambda>info.
     op_update (\<lambda>s. s\<lparr>RecvPackets := (RecvPackets s)(k \<mapsto> info)\<rparr>))"

definition delete_packet_commitment ::
    "packet_key \<Rightarrow> (('cs, 'cons, 'app) host, unit, ics04_error) op" where
  "delete_packet_commitment k =
     op_update (\<lambda>s.
       let s' = packet_commitment_remove k s in
       case checked_sub (PacketCounter s') 1 of Some n \<Rightarrow> s'\<lparr>PacketCounter := n\<rparr> | None \<Rightarrow> s')"

definition store_packet_receipt ::
    "packet_key \<Rightarrow> receipt \<Rightarrow> (('cs, 'cons, 'app) host, unit, ics04_error) op" where
  "store_packet_receipt k r =
     op_update (\<lambda>s.
       let s' = packet_receipt_insert k (case r of ReceiptOk \<Rightarrow> as_bytes ''Ok'') s in
       case checked_add (PacketReceiptCounter s') 1 of
         Some n \<Rightarrow> s'\<lparr>PacketReceiptCounter := n\<rparr> | None \<Rightarrow> s')"

definition store_packet_acknowledgement ::
    "packet_key \<Rightarrow> bytes \<Rightarrow> (('cs, 'cons, 'app) host, unit, ics04_error) op" where
  "store_packet_acknowledgement k b =
     op_update (\<lambda>s.
       let s' = acknowledgements_insert k b s in
       case checked_add (AcknowledgementCounter s') 1 of
         Some n \<Rightarrow> s'\<lparr>AcknowledgementCounter := n\<rparr> | None \<Rightarrow> s')"

definition delete_packet_acknowledgement ::
    "packet_key \<Rightarrow> (('cs, 'cons, 'app) host, unit, ics04_error) op" where
  "delete_packet_acknowledgement k =
     op_update (\<lambda>s.
       let s' = acknowledgements_remove k s in
       case checked_sub (AcknowledgementCounter s') 1 of
         Some n \<Rightarrow> s'\<lparr>AcknowledgementCounter := n\<rparr> | None \<Rightarrow> s')"

definition store_raw_acknowledgement ::
    "packet_key \<Rightarrow> bytes \<Rightarrow> (('cs, 'cons, 'app) host, unit, ics04_error) op" where
  "store_raw_acknowledgement k ack = op_update (\<lambda>s. s\<lparr>Acks := (Acks s)(k \<mapsto> ack)\<rparr>)"

definition store_connection_channels ::
    "connection_id \<Rightarrow> port_id \<times> channel_id \<Rightarrow> (('cs, 'cons, 'app) host, unit, ics04_error) op" where
  "store_connection_channels k pc =
     op_update (\<lambda>s. s\<lparr>ChannelsConnection := (ChannelsConnection s)(k \<mapsto>
       (case ChannelsConnection s k of Some items \<Rightarrow> items @ [pc] | None \<Rightarrow> [pc]))\<rparr>)"

definition store_channel ::
    "port_id \<times> channel_id \<Rightarrow> channel_end \<Rightarrow> (('cs, 'cons, 'app) host, unit, ics04_error) op" where
  "store_channel k e = op_update (channels_insert k (channel_end_into_raw e))"

definition store_next_sequence_send ::
    "port_id \<times> channel_id \<Rightarrow> sequence \<Rightarrow> (('cs, 'cons, 'app) host, unit, ics04_error) op" where
  "store_next_sequence_send k n = op_update (next_seq_send_insert k n)"

definition store_next_sequence_recv ::
    "port_id \<times> channel_id \<Rightarrow> sequence \<Rightarrow> (('cs, 'cons, 'app) host, unit, ics04_error) op" where
  "store_next_sequence_recv k n = op_update (next_seq_recv_insert k n)"

definition store_next_sequence_ack ::
    "port_id \<times> channel_id \<Rightarrow> sequence \<Rightarrow> (('cs, 'cons, 'app) host, unit, ics04_error) op" where
  "store_next_sequence_ack k n = op_update (next_seq_ack_insert k n)"

definition increase_channel_counter :: "('cs, 'cons, 'app) host \<Rightarrow> ('cs, 'cons, 'app) host" where
  "increase_channel_counter s = s\<lparr>ChannelCounter := saturating_add (ChannelCounter s) 1\<rparr>"

section \<open>Encoded values are read back\<close>

locale coded_store = keyed_store get put
  for get :: "'s \<Rightarrow> 'k \<Rightarrow> 'v option" and put :: "'k \<Rightarrow> 'v \<Rightarrow> 's \<Rightarrow> 's" +
  fixes encode :: "'w \<Rightarrow> 'v"
    and decode :: "'v \<Rightarrow> ('w, 'e) res"
    and wf :: "'w \<Rightarrow> bool"
  assumes decode_encode: "wf w \<Longrightarrow> decode (encode w) = Inr w"
begin

lemma lookup_written:
  "wf w \<Longrightarrow> bind_res (ok_or (get (put k (encode w) s) k') e) (\<lambda>r. map_err g (decode r)) =
     (if k' = k then Inr w else bind_res (ok_or (get s k') e) (\<lambda>r. map_err g (decode r)))"
  by (simp add: get_put decode_encode)

end

interpretation coded_connections:
  coded_store connections_get connections_insert connection_end_into_raw
    "connection_end_try_from ua" "wf_connection_end ua" for ua
  by unfold_locales (rule connection_end_roundtrip)

interpretation coded_channels:
  coded_store channels_get channels_insert channel_end_into_raw
    "channel_end_try_from ua" "wf_channel_end ua" for ua
  by unfold_locales (rule channel_end_roundtrip)

lemma get_connection_end_written:
  "wf_connection_end (unicode_alnum E) c \<Longrightarrow>
     get_connection_end E (connections_insert k (connection_end_into_raw c) s) k' =
       (if k' = k then Inr c else get_connection_end E s k')"
  unfolding get_connection_end_def by (rule coded_connections.lookup_written)

lemma get_channel_end_written:
  "wf_channel_end (unicode_alnum E) e \<Longrightarrow>
     get_channel_end E (channels_insert k (channel_end_into_raw e) s) k' =
       (if k' = k then Inr e else get_channel_end E s k')"
  unfolding get_channel_end_def by (rule coded_channels.lookup_written)

lemma get_channel_end_wf:
  "get_channel_end E s k = Inr e \<Longrightarrow> wf_channel_end (unicode_alnum E) e"
  by (auto simp: get_channel_end_def dest: channel_end_try_from_wf)

lemma get_connection_end_wf:
  "get_connection_end E s k = Inr c \<Longrightarrow> c = connection_end_default \<or> wf_connection_end (unicode_alnum E) c"
  by (auto simp: get_connection_end_def dest: connection_end_try_from_wf)

section \<open>Facts about the readers\<close>

lemma get_client_type_eq: "get_client_type s i = ok_or (clients_get s i) (E02_ClientNotFound i)"
  by (auto simp: get_client_type_def view_gets)

lemma get_packet_commitment_ok:
  "get_packet_commitment s k = Inr b \<longleftrightarrow> packet_commitment_get s k = Some b"
  by (auto simp: get_packet_commitment_def view_gets split: if_splits)

lemma get_packet_acknowledgement_ok:
  "get_packet_acknowledgement s k = Inr b \<longleftrightarrow> acknowledgements_get s k = Some b"
  by (auto simp: get_packet_acknowledgement_def view_gets split: if_splits)

lemma get_packet_receipt_ok:
  "get_packet_receipt s k = Inr r \<longleftrightarrow> packet_receipt_get s k = Some (as_bytes ''Ok'')"
  by (cases r) (auto simp: get_packet_receipt_def view_gets split: if_splits)

lemma maybe_consensus_state_eq:
  "maybe_consensus_state s i h = Inr (consensus_states_get s (i, h))"
  by (cases "consensus_states_get s (i, h)")
    (simp_all add: maybe_consensus_state_def get_consensus_state_def fail_with_def)

lemmas reader_oks =
  get_client_type_eq get_client_state_def get_consensus_state_def get_packet_commitment_ok
  get_packet_acknowledgement_ok get_packet_receipt_ok get_next_sequence_send_def
  get_next_sequence_recv_def get_next_sequence_ack_def

lemma host_timestamp_ok [simp]:
  "host_timestamp E s = Inr ts \<longleftrightarrow> from_nanoseconds (tm_representable E) (now_nanos s) = Inr ts"
  by (simp add: host_timestamp_def split: sum.splits)

section \<open>Tracked consensus heights\<close>

definition heights_ok :: "height list \<Rightarrow> bool" where
  "heights_ok hs \<longleftrightarrow> sorted hs \<and> distinct hs \<and> length hs \<le> MAX_CONSENSUS_HEIGHTS"

lemma insort_insert_length: "length (insort_insert h hs) \<le> Suc (length hs)"
  by (simp add: insort_insert_key_def)

lemma bounded_try_insert_ok:
  assumes "bounded_try_insert MAX_CONSENSUS_HEIGHTS h hs = Some hs'" and "heights_ok hs"
  shows "heights_ok hs' \<and> set hs' = insert h (set hs)"
proof -
  have hs': "hs' = insort_insert h hs" and room: "length hs < MAX_CONSENSUS_HEIGHTS \<or> h \<in> set hs"
    using assms(1) by (auto simp: bounded_try_insert_def split: if_splits)
  have "length hs' \<le> MAX_CONSENSUS_HEIGHTS"
    using room assms(2) insort_insert_length [of h hs] unfolding hs'
    by (auto simp: heights_ok_def insort_insert_key_def)
  then show ?thesis
    using assms(2) by (simp add: hs' heights_ok_def sorted_insort_insert distinct_insort_insert
        set_insort_insert)
qed

lemma record_consensus_height_ok:
  assumes "heights_ok hs"
  obtains hs' where "record_consensus_height h hs = Inr hs'" and "heights_ok hs'" and "h \<in> set hs'"
    and "set hs' \<subseteq> insert h (set hs)"
proof (cases "bounded_try_insert MAX_CONSENSUS_HEIGHTS h hs")
  case (Some hs')
  with bounded_try_insert_ok [OF Some assms] show ?thesis
    by (intro that [of hs']) (auto simp: record_consensus_height_def)
next
  case None
  then have "\<not> length hs < MAX_CONSENSUS_HEIGHTS" and "h \<notin> set hs"
    by (auto simp: bounded_try_insert_def split: if_splits)
  then obtain f rest where hs: "hs = f # rest"
    by (cases hs) (auto simp: MAX_CONSENSUS_HEIGHTS_def)
  have rest: "heights_ok rest" and room: "length rest < MAX_CONSENSUS_HEIGHTS"
    using assms by (auto simp: heights_ok_def hs)
  then obtain hs' where hs': "bounded_try_insert MAX_CONSENSUS_HEIGHTS h rest = Some hs'"
    by (auto simp: bounded_try_insert_def)
  with bounded_try_insert_ok [OF hs' rest] None show ?thesis
    by (intro that [of hs']) (auto simp: record_consensus_height_def hs)
qed

lemma find_sorted_least:
  assumes "sorted hs" and "find (\<lambda>n. n > h) hs = Some (n :: height)"
  shows "n \<in> set hs \<and> h < n \<and> (\<forall>m \<in> set hs. h < m \<longrightarrow> n \<le> m)"
proof -
  obtain i where i: "i < length hs" "h < hs ! i" "n = hs ! i" "\<forall>j < i. \<not> h < hs ! j"
    using assms(2) by (auto simp: find_Some_iff)
  have "n \<le> m" if m: "m \<in> set hs" and hm: "h < m" for m
  proof -
    obtain j where j: "j < length hs" "m = hs ! j"
      using m by (auto simp: in_set_conv_nth)
    with i(4) hm have "i \<le> j"
      by (meson not_le)
    with assms(1) i j show ?thesis
      by (simp add: sorted_nth_mono)
  qed
  with i show ?thesis
    by auto
qed

lemma last_sorted_greatest:
  assumes "sorted hs" and "hs \<noteq> []"
  shows "last hs \<in> set hs \<and> (\<forall>m \<in> set hs. m \<le> last (hs :: height list))"
proof -
  obtain ys y where hs: "hs = ys @ [y]"
    using assms(2) by (cases hs rule: rev_cases) auto
  with assms(1) show ?thesis
    by (auto simp: sorted_append)
qed

section \<open>Identifiers from a counter\<close>

text \<open>
  Clients, connections and channels are named after a 32-bit counter. The interface: \<open>used\<close> tells
  which identifiers a state holds, \<open>numbered\<close> the number of an identifier, which it has once.
\<close>

definition ids_below ::
    "('s \<Rightarrow> u32) \<Rightarrow> ('s \<Rightarrow> 'id \<Rightarrow> bool) \<Rightarrow> ('id \<Rightarrow> u64 \<Rightarrow> bool) \<Rightarrow> 's \<Rightarrow> bool" where
  "ids_below counter used numbered s \<longleftrightarrow>
     (\<forall>i. used s i \<longrightarrow> (\<exists>n. numbered i n \<and> n < ucast (counter s)))"

lemma counter_step:
  assumes "(c :: u32) \<noteq> - 1"
  shows "checked_add c 1 = Some (c + 1)" and "(ucast c :: u64) < ucast (c + 1)"
    and "saturating_add c 1 = c + 1"
proof -
  have "unat c \<noteq> 2 ^ 32 - 1"
    using assms by (simp add: word_unat_eq_iff unsigned_minus_1_eq_mask mask_eq_exp_minus_1)
  moreover have "unat c < 2 ^ 32"
    using unsigned_less [of c, where 'a = nat] by simp
  ultimately have lt: "unat c + 1 < 2 ^ 32"
    by simp
  then show add: "checked_add c 1 = Some (c + 1)"
    by (simp add: checked_add_eq_Some)
  from lt have "unat c < 2 ^ 64" and "Suc (unat c) < 2 ^ 64"
    by simp_all
  with checked_add_unat [OF add] show "(ucast c :: u64) < ucast (c + 1)"
    by (simp add: word_less_nat_alt unsigned_ucast_eq take_bit_nat_eq_self)
  from add show "saturating_add c 1 = c + 1"
    by (simp add: saturating_add_def checked_add_def split: if_splits)
qed

locale id_allocator =
  fixes counter :: "'s \<Rightarrow> u32"
    and used :: "'s \<Rightarrow> 'id \<Rightarrow> bool"
    and numbered :: "'id \<Rightarrow> u64 \<Rightarrow> bool"
  assumes numbered_unique: "numbered i n \<Longrightarrow> numbered i m \<Longrightarrow> n = m"
begin

lemma fresh: "ids_below counter used numbered s \<Longrightarrow> numbered i (ucast (counter s)) \<Longrightarrow> \<not> used s i"
  unfolding ids_below_def using numbered_unique by blast

lemma allocate:
  assumes "ids_below counter used numbered s" and "numbered i (ucast (counter s))"
    and "counter s \<noteq> - 1" and "counter s' = counter s + 1"
    and "\<And>j. used s' j \<Longrightarrow> j = i \<or> used s j"
  shows "ids_below counter used numbered s'"
proof (unfold ids_below_def, intro allI impI)
  fix j
  assume "used s' j"
  then consider "j = i" | n where "numbered j n" "n < ucast (counter s)"
    using assms(1,5) unfolding ids_below_def by blast
  then show "\<exists>n. numbered j n \<and> n < ucast (counter s')"
    by cases (use assms(2,4) counter_step(2) [OF assms(3)] in \<open>auto intro: less_trans\<close>)
qed

lemma unchanged:
  assumes "ids_below counter used numbered s" and "counter s' = counter s"
    and "\<And>j. used s' j \<Longrightarrow> used s j"
  shows "ids_below counter used numbered s'"
  using assms unfolding ids_below_def by auto

end

definition client_numbered :: "client_id \<Rightarrow> u64 \<Rightarrow> bool" where
  "client_numbered i n \<longleftrightarrow> (\<exists>t. client_id_str i = t @ CHR ''-'' # show_u64 n)"

definition connection_numbered :: "connection_id \<Rightarrow> u64 \<Rightarrow> bool" where
  "connection_numbered k n \<longleftrightarrow> k = ConnectionId (''connection-'' @ show_u64 n)"

definition channel_numbered :: "port_id \<times> channel_id \<Rightarrow> u64 \<Rightarrow> bool" where
  "channel_numbered pc n \<longleftrightarrow> snd pc = ChannelId n"

interpretation client_ids:
  id_allocator ClientCounter "\<lambda>s i. clients_get s i \<noteq> None" client_numbered
proof
  fix i n m
  assume "client_numbered i n" and "client_numbered i m"
  then obtain t u where "t @ CHR ''-'' # show_u64 n = u @ CHR ''-'' # show_u64 m"
    unfolding client_numbered_def by metis
  from last_separator [OF this] show "n = m"
    by simp
qed

interpretation connection_ids:
  id_allocator ConnectionCounter "\<lambda>s k. connections_get s k \<noteq> None" connection_numbered
  by unfold_locales (auto simp: connection_numbered_def)

interpretation channel_ids:
  id_allocator ChannelCounter "\<lambda>s pc. channels_get s pc \<noteq> None" channel_numbered
  by unfold_locales (auto simp: channel_numbered_def)

definition client_ids_below :: "('cs, 'cons, 'app) host \<Rightarrow> bool" where
  "client_ids_below = ids_below ClientCounter (\<lambda>s i. clients_get s i \<noteq> None) client_numbered"

definition connection_ids_below :: "('cs, 'cons, 'app) host \<Rightarrow> bool" where
  "connection_ids_below =
     ids_below ConnectionCounter (\<lambda>s k. connections_get s k \<noteq> None) connection_numbered"

definition channel_ids_below :: "('cs, 'cons, 'app) host \<Rightarrow> bool" where
  "channel_ids_below = ids_below ChannelCounter (\<lambda>s pc. channels_get s pc \<noteq> None) channel_numbered"

end
