(* ===== verification/Mock_Client.thy ===== *)
theory Mock_Client
  imports Host_Context
begin

text \<open>
  The mock light client of \<^verbatim>\<open>mock/client_def.rs\<close>, \<^verbatim>\<open>mock/client_state.rs\<close> and \<^verbatim>\<open>mock/header.rs\<close>, as an
  instance of the light-client interface \<open>env\<close>, and an empty host. The handlers are run on them in
  the witnesses of the development.
\<close>

record mock_header =
  mh_height :: height
  mh_timestamp :: timestamp

record mock_client_state =
  mcs_header :: mock_header
  mcs_frozen_height :: "height option"

record mock_consensus_state =
  mcons_header :: mock_header
  mcons_root :: commitment_root

datatype mock_client_message =
    MockHeaderMsg mock_header
  | MockMisbehaviourMsg mock_header mock_header

fun mock_message_header :: "mock_client_message \<Rightarrow> mock_header" where
  "mock_message_header (MockHeaderMsg h) = h"
| "mock_message_header (MockMisbehaviourMsg h1 h2) = h1"

definition mock_client_state_new :: "mock_client_message \<Rightarrow> mock_client_state" where
  "mock_client_state_new m = \<lparr>mcs_header = mock_message_header m, mcs_frozen_height = None\<rparr>"

definition mock_consensus_state_new :: "mock_header \<Rightarrow> mock_consensus_state" where
  "mock_consensus_state_new h = \<lparr>mcons_header = h, mcons_root = CommitmentRoot [0]\<rparr>"

definition mock_update_state ::
    "mock_client_state \<Rightarrow> mock_client_message
       \<Rightarrow> (mock_client_state \<times> mock_consensus_state consensus_update, ics02_error) res" where
  "mock_update_state c m =
     (if mh_height (mcs_header c) \<ge> mh_height (mock_message_header m)
      then fail_with (E02_LowHeaderHeight (mh_height (mock_message_header m)) (mh_height (mcs_header c)))
      else Inr (mock_client_state_new m, Single (mock_consensus_state_new (mock_message_header m))))"

definition mock_env ::
    "(mock_client_state, mock_consensus_state, mock_client_message, unit) env" where
  "mock_env =
     \<lparr>unicode_alnum = (\<lambda>_. False), tm_representable = (\<lambda>_. True), sha2_256 = (\<lambda>b. b),
      cs_client_type = (\<lambda>_. ''9999-mock''),
      cs_latest_height = (\<lambda>c. mh_height (mcs_header c)),
      cs_status = (\<lambda>c s i. default_status (mcs_frozen_height c)),
      cs_expired = (\<lambda>c d. False),
      cons_root = mcons_root,
      cons_timestamp = (\<lambda>c. mh_timestamp (mcons_header c)),
      def_verify_client_message = (\<lambda>s i c m. Inr ()),
      def_update_state = (\<lambda>s i c m. mock_update_state c m),
      def_update_state_on_misbehaviour = (\<lambda>c m. Inr c),
      def_check_for_misbehaviour = (\<lambda>s i c m. Inr False),
      def_verify_upgrade_and_update_state = (\<lambda>s i c c' k p q. Inr (c', Single k)),
      def_verify_client_consensus_state = (\<lambda>s c h p q r i ch k. Inr ()),
      def_verify_connection_state = (\<lambda>s i c h p q r k e. Inr ()),
      def_verify_channel_state = (\<lambda>s i c h p q r po ch e. Inr ()),
      def_verify_client_full_state = (\<lambda>s c h p q r i c'. Inr ()),
      def_verify_packet_data = (\<lambda>s i c h e q r po ch sq b. Inr ()),
      def_verify_packet_acknowledgement = (\<lambda>s i c h e q r po ch sq b. Inr ()),
      def_verify_next_sequence_recv = (\<lambda>s i c h e q r po ch sq. Inr ()),
      def_verify_packet_receipt_absence = (\<lambda>s i c h e q r po ch sq. Inr ()),
      host_consensus_state_fn =
        (\<lambda>s h p c. Inr (mock_consensus_state_new \<lparr>mh_height = h, mh_timestamp = Timestamp None\<rparr>)),
      validate_self_client_fn = (\<lambda>s c. Inr ())\<rparr>"

definition empty_host :: "(mock_client_state, mock_consensus_state, unit) host" where
  "empty_host =
     \<lparr>trie = Map.empty, ClientUpdateTime = Map.empty, ClientUpdateHeight = Map.empty,
      ChannelCounter = 0, PacketCounter = 0, ClientCounter = 0, ConnectionCounter = 0,
      AcknowledgementCounter = 0, PacketReceiptCounter = 0, ChannelsConnection = Map.empty,
      ConnectionClient = (\<lambda>_. []), ConsensusHeights = (\<lambda>_. []), SendPackets = Map.empty,
      RecvPackets = Map.empty, Acks = Map.empty, app_storage = (),
      PalletPrefix = as_bytes ''ibc/'', parachain_id = 2000, block_number = 10,
      now_nanos = 1000, BlockHash = [5, 6, 7, 8, 9], MinimumConnectionDelay = 0\<rparr>"

definition mock_header_at :: "u64 \<Rightarrow> mock_header" where
  "mock_header_at n = \<lparr>mh_height = Height 0 n, mh_timestamp = Timestamp (Some 1)\<rparr>"

lemma mock_env_simps [simp]:
  "unicode_alnum mock_env = (\<lambda>_. False)"
  "tm_representable mock_env = (\<lambda>_. True)"
  "sha2_256 mock_env = (\<lambda>b. b)"
  "cs_client_type mock_env c = ''9999-mock''"
  "cs_latest_height mock_env c = mh_height (mcs_header c)"
  "cs_status mock_env c s i = default_status (mcs_frozen_height c)"
  "cs_expired mock_env c d = False"
  "cons_root mock_env k = mcons_root k"
  "cons_timestamp mock_env k = mh_timestamp (mcons_header k)"
  "def_verify_client_message mock_env s i c m = Inr ()"
  "def_update_state mock_env s i c m = mock_update_state c m"
  "def_check_for_misbehaviour mock_env s i c m = Inr False"
  "def_verify_upgrade_and_update_state mock_env s i c c' k p q = Inr (c', Single k)"
  by (simp_all add: mock_env_def)

lemma mock_env_proofs [simp]:
  "def_verify_client_consensus_state mock_env s c h p q r i ch k = Inr ()"
  "def_verify_connection_state mock_env s i c h p q r ki e = Inr ()"
  "def_verify_channel_state mock_env s i c h p q r po cn ce = Inr ()"
  "def_verify_client_full_state mock_env s c h p q r i c' = Inr ()"
  "def_verify_packet_data mock_env s i c h e q r po cn sq b = Inr ()"
  "def_verify_packet_acknowledgement mock_env s i c h e q r po cn sq b = Inr ()"
  "def_verify_next_sequence_recv mock_env s i c h e q r po cn sq = Inr ()"
  "def_verify_packet_receipt_absence mock_env s i c h e q r po cn sq = Inr ()"
  "validate_self_client_fn mock_env s c = Inr ()"
  by (simp_all add: mock_env_def)

lemma empty_host_reads [simp]:
  "child_get empty_host p = None"
  "ConsensusHeights empty_host i = []"
  by (simp_all add: empty_host_def child_get_def)

end
