(* ===== verification/Handler_Output.thy ===== *)
theory Handler_Output
  imports Channel_Types
begin

text \<open>
  Events (\<^verbatim>\<open>events.rs\<close> and the attribute structs of \<^verbatim>\<open>ics02_client/events.rs\<close>,
  \<^verbatim>\<open>ics03_connection/events.rs\<close> and \<^verbatim>\<open>ics04_channel/events.rs\<close>) and the output of a handler
  (\<^verbatim>\<open>handler.rs\<close>): its result with the log lines and events it produced.
\<close>

section \<open>Events\<close>

record client_attributes =
  cl_height :: height
  cl_client_id :: client_id
  cl_client_type :: string
  cl_consensus_height :: height

record conn_attributes =
  cn_height :: height
  cn_connection_id :: "connection_id option"
  cn_client_id :: client_id
  cn_counterparty_connection_id :: "connection_id option"
  cn_counterparty_client_id :: client_id

record chan_attributes =
  ch_height :: height
  ch_port_id :: port_id
  ch_channel_id :: "channel_id option"
  ch_connection_id :: connection_id
  ch_counterparty_port_id :: port_id
  ch_counterparty_channel_id :: "channel_id option"

record module_event_attribute =
  attr_key :: string
  attr_value :: string

record module_event =
  event_kind :: string
  event_module_name :: string
  event_attributes :: "module_event_attribute list"

datatype ibc_event =
    CreateClientEvent client_attributes
  | UpdateClientEvent client_attributes
  | UpgradeClientEvent client_attributes
  | ClientMisbehaviourEvent client_attributes
  | OpenInitConnectionEvent conn_attributes
  | OpenTryConnectionEvent conn_attributes
  | OpenAckConnectionEvent conn_attributes
  | OpenConfirmConnectionEvent conn_attributes
  | OpenInitChannelEvent chan_attributes
  | OpenTryChannelEvent chan_attributes
  | OpenAckChannelEvent chan_attributes
  | OpenConfirmChannelEvent chan_attributes
  | CloseInitChannelEvent chan_attributes
  | CloseConfirmChannelEvent chan_attributes
  | SendPacketEvent height packet
  | ReceivePacketEvent height packet
  | WriteAcknowledgementEvent height packet bytes
  | AcknowledgePacketEvent height packet
  | TimeoutPacketEvent height packet
  | TimeoutOnClosePacketEvent height packet
  | AppModuleEvent module_event

text \<open>
  \<^verbatim>\<open>From<ModuleEventAttribute> for EventAttribute\<close>: the key and value of the ABCI attribute. The
  value is taken from the key field.
\<close>

definition event_attribute_from_module :: "module_event_attribute \<Rightarrow> string \<times> string" where
  "event_attribute_from_module a = (attr_key a, attr_key a)"

section \<open>Handler output\<close>

record 'r handler_output =
  out_result :: 'r
  out_log :: "string list"
  out_events :: "ibc_event list"

record output_builder =
  builder_log :: "string list"
  builder_events :: "ibc_event list"

definition builder_new :: output_builder where
  "builder_new = \<lparr>builder_log = [], builder_events = []\<rparr>"

definition builder_add_log :: "string \<Rightarrow> output_builder \<Rightarrow> output_builder" where
  "builder_add_log l b = b\<lparr>builder_log := builder_log b @ [l]\<rparr>"

definition builder_emit :: "ibc_event \<Rightarrow> output_builder \<Rightarrow> output_builder" where
  "builder_emit e b = b\<lparr>builder_events := builder_events b @ [e]\<rparr>"

definition with_log :: "string list \<Rightarrow> output_builder \<Rightarrow> output_builder" where
  "with_log l b = b\<lparr>builder_log := builder_log b @ l\<rparr>"

definition with_events :: "ibc_event list \<Rightarrow> output_builder \<Rightarrow> output_builder" where
  "with_events es b = b\<lparr>builder_events := builder_events b @ es\<rparr>"

definition with_result :: "output_builder \<Rightarrow> 'r \<Rightarrow> 'r handler_output" where
  "with_result b r = \<lparr>out_result = r, out_log = builder_log b, out_events = builder_events b\<rparr>"

definition builder_merge :: "output_builder \<Rightarrow> output_builder \<Rightarrow> output_builder" where
  "builder_merge b other =
     \<lparr>builder_log = builder_log b @ builder_log other,
      builder_events = builder_events b @ builder_events other\<rparr>"

lemmas builder_defs =
  builder_new_def builder_add_log_def builder_emit_def with_log_def with_events_def with_result_def
  builder_merge_def

lemma with_result_simps [simp]:
  "out_result (with_result b r) = r"
  "out_log (with_result b r) = builder_log b"
  "out_events (with_result b r) = builder_events b"
  by (simp_all add: with_result_def)

lemma with_result_eq_iff [simp]:
  "with_result b r = with_result b' r' \<longleftrightarrow> r = r' \<and> b = b'"
  by (auto simp: with_result_def)

end
