(* ===== verification/Client_Handler.thy ===== *)
theory Client_Handler
  imports Mock_Client Handler_Output
begin

text \<open>
  ICS02: the handlers \<^verbatim>\<open>create_client.rs\<close>, \<^verbatim>\<open>update_client.rs\<close> and \<^verbatim>\<open>upgrade_client.rs\<close> of
  \<^verbatim>\<open>core/ics02_client/handler\<close>, their dispatcher, and \<^verbatim>\<open>ClientKeeper::store_client_result\<close> of
  \<^verbatim>\<open>core/ics02_client/context.rs\<close>.
\<close>

section \<open>Messages and results\<close>

record ('cs, 'cons) msg_create_client =
  create_client_state :: 'cs
  create_consensus_state :: 'cons
  create_signer :: string

record 'msg msg_update_client =
  update_client_id :: client_id
  update_client_message :: 'msg
  update_signer :: string

record ('cs, 'cons) msg_upgrade_client =
  upgrade_client_id :: client_id
  upgrade_client_state :: 'cs
  upgrade_consensus_state :: 'cons
  proof_upgrade_client :: bytes
  proof_upgrade_consensus_state :: bytes
  upgrade_signer :: string

datatype ('cs, 'cons, 'msg) client_msg =
    CreateClient "('cs, 'cons) msg_create_client"
  | UpdateClient "'msg msg_update_client"
  | UpgradeClient "('cs, 'cons) msg_upgrade_client"

record ('cs, 'cons) create_result =
  cr_client_id :: client_id
  cr_client_type :: string
  cr_client_state :: 'cs
  cr_consensus_state :: 'cons
  cr_processed_time :: timestamp
  cr_processed_height :: height

record ('cs, 'cons) update_result =
  ur_client_id :: client_id
  ur_client_state :: 'cs
  ur_consensus_state :: "'cons consensus_update option"
  ur_processed_time :: timestamp
  ur_processed_height :: height

record ('cs, 'cons) upgrade_result =
  gr_client_id :: client_id
  gr_client_state :: 'cs
  gr_consensus_state :: "'cons consensus_update option"

datatype ('cs, 'cons) client_result =
    CreateResult "('cs, 'cons) create_result"
  | UpdateResult "('cs, 'cons) update_result"
  | UpgradeResult "('cs, 'cons) upgrade_result"

section \<open>Handlers\<close>

definition create_client_process ::
    "('cs, 'cons, 'msg, 'app) env \<Rightarrow> ('cs, 'cons, 'app) host \<Rightarrow> ('cs, 'cons) msg_create_client
       \<Rightarrow> (('cs, 'cons) client_result handler_output, ics02_error) res" where
  "create_client_process E s msg =
     bind_res (get_client_counter s) (\<lambda>id_counter.
     let client_type = cs_client_type E (create_client_state msg) in
     bind_res (map_err (E02_ClientIdentifierConstructor client_type id_counter)
       (client_id_new (unicode_alnum E) client_type id_counter)) (\<lambda>client_id.
     bind_res (host_timestamp E s) (\<lambda>now.
     Inr (with_result
       (builder_emit (CreateClientEvent
            \<lparr>cl_height = host_height s, cl_client_id = client_id, cl_client_type = client_type,
             cl_consensus_height = cs_latest_height E (create_client_state msg)\<rparr>)
         (builder_add_log
           (''success: generated new client identifier: '' @ client_id_to_string client_id)
           builder_new))
       (CreateResult
         \<lparr>cr_client_id = client_id, cr_client_type = client_type,
          cr_client_state = create_client_state msg,
          cr_consensus_state = create_consensus_state msg,
          cr_processed_time = now, cr_processed_height = host_height s\<rparr>)))))"

definition update_client_process ::
    "('cs, 'cons, 'msg, 'app) env \<Rightarrow> ('cs, 'cons, 'app) host \<Rightarrow> 'msg msg_update_client
       \<Rightarrow> (('cs, 'cons) client_result handler_output, ics02_error) res" where
  "update_client_process E s msg =
     (let client_id = update_client_id msg; client_message = update_client_message msg in
     bind_res (get_client_type s client_id) (\<lambda>client_type.
     bind_res (get_client_state s client_id) (\<lambda>client_state.
     if is_frozen E client_state s client_id then fail_with (E02_ClientFrozen client_id)
     else
     bind_res (map_err (\<lambda>_. E02_ConsensusStateNotFound client_id (cs_latest_height E client_state))
       (get_consensus_state s client_id (cs_latest_height E client_state))) (\<lambda>latest_consensus_state.
     bind_res (host_timestamp E s) (\<lambda>now.
     bind_res (map_err (\<lambda>_. E02_ImplementationSpecific ''Could not find update time for client'')
       (client_update_time E s client_id (cs_latest_height E client_state))) (\<lambda>last_update.
     bind_res (ok_or (duration_since now last_update)
       (E02_InvalidConsensusStateTimestamp (cons_timestamp E latest_consensus_state) now)) (\<lambda>elapsed.
     if cs_expired E client_state elapsed
     then fail_with (E02_HeaderNotWithinTrustPeriod last_update now)
     else
     bind_res (map_err E02_HeaderVerificationFailureOf
       (def_verify_client_message E s client_id client_state client_message)) (\<lambda>_.
     bind_res (map_err E02_HeaderVerificationFailureOf
       (def_check_for_misbehaviour E s client_id client_state client_message)) (\<lambda>found_misbehaviour.
     let attributes =
       \<lparr>cl_height = host_height s, cl_client_id = client_id, cl_client_type = client_type,
        cl_consensus_height = cs_latest_height E client_state\<rparr> in
     if found_misbehaviour then
       bind_res (def_update_state_on_misbehaviour E client_state client_message) (\<lambda>frozen_state.
       Inr (with_result (builder_emit (ClientMisbehaviourEvent attributes) builder_new)
         (UpdateResult
           \<lparr>ur_client_id = client_id, ur_client_state = frozen_state, ur_consensus_state = None,
            ur_processed_time = now, ur_processed_height = host_height s\<rparr>)))
     else
       bind_res (map_err E02_HeaderVerificationFailureOf
         (def_update_state E s client_id client_state client_message)) (\<lambda>(new_state, new_consensus).
       Inr (with_result
         (builder_emit (UpdateClientEvent
            (attributes\<lparr>cl_consensus_height := cs_latest_height E new_state\<rparr>)) builder_new)
         (UpdateResult
           \<lparr>ur_client_id = client_id, ur_client_state = new_state,
            ur_consensus_state = Some new_consensus,
            ur_processed_time = now, ur_processed_height = host_height s\<rparr>))))))))))))"

definition upgrade_client_process ::
    "('cs, 'cons, 'msg, 'app) env \<Rightarrow> ('cs, 'cons, 'app) host \<Rightarrow> ('cs, 'cons) msg_upgrade_client
       \<Rightarrow> (('cs, 'cons) client_result handler_output, ics02_error) res" where
  "upgrade_client_process E s msg =
     (let client_id = upgrade_client_id msg in
     bind_res (get_client_state s client_id) (\<lambda>client_state.
     if is_frozen E client_state s client_id then fail_with (E02_ClientFrozen client_id)
     else if cs_latest_height E client_state \<ge> cs_latest_height E (upgrade_client_state msg)
     then fail_with (E02_LowUpgradeHeight (cs_latest_height E client_state)
                      (cs_latest_height E (upgrade_client_state msg)))
     else
     bind_res (get_client_type s client_id) (\<lambda>client_type.
     bind_res (def_verify_upgrade_and_update_state E s client_id client_state
         (upgrade_client_state msg) (upgrade_consensus_state msg) (proof_upgrade_client msg)
         (proof_upgrade_consensus_state msg)) (\<lambda>(new_state, new_consensus).
     Inr (with_result
       (builder_emit (UpgradeClientEvent
          \<lparr>cl_height = host_height s, cl_client_id = client_id, cl_client_type = client_type,
           cl_consensus_height = cs_latest_height E new_state\<rparr>) builder_new)
       (UpgradeResult
         \<lparr>gr_client_id = client_id, gr_client_state = new_state,
          gr_consensus_state = Some new_consensus\<rparr>))))))"

fun client_dispatch ::
    "('cs, 'cons, 'msg, 'app) env \<Rightarrow> ('cs, 'cons, 'app) host \<Rightarrow> ('cs, 'cons, 'msg) client_msg
       \<Rightarrow> (('cs, 'cons) client_result handler_output, ics02_error) res" where
  "client_dispatch E s (CreateClient msg) = create_client_process E s msg"
| "client_dispatch E s (UpdateClient msg) = update_client_process E s msg"
| "client_dispatch E s (UpgradeClient msg) = upgrade_client_process E s msg"

section \<open>Storing a result\<close>

definition store_consensus_update ::
    "client_id \<Rightarrow> height \<Rightarrow> 'cons \<Rightarrow> timestamp \<Rightarrow> height
       \<Rightarrow> (('cs, 'cons, 'app) host, unit, ics02_error) op" where
  "store_consensus_update i h c t host_h =
     op_then (store_consensus_state i h c)
     (op_then (store_update_time i h t)
       (store_update_height i h host_h))"

fun store_client_result ::
    "('cs, 'cons, 'msg, 'app) env \<Rightarrow> ('cs, 'cons) client_result
       \<Rightarrow> (('cs, 'cons, 'app) host, unit, ics02_error) op" where
  "store_client_result E (CreateResult r) =
     op_then (store_client_type (cr_client_id r) (cr_client_type r))
     (op_then (store_client_state (cr_client_id r) (cr_client_state r))
     (op_then (store_consensus_state (cr_client_id r) (cs_latest_height E (cr_client_state r))
         (cr_consensus_state r))
     (op_then (op_update increase_client_counter)
     (op_then (store_update_time (cr_client_id r) (cs_latest_height E (cr_client_state r))
         (cr_processed_time r))
       (store_update_height (cr_client_id r) (cs_latest_height E (cr_client_state r))
         (cr_processed_height r))))))"
| "store_client_result E (UpdateResult r) =
     op_then (store_client_state (ur_client_id r) (ur_client_state r))
       (case ur_consensus_state r of
          None \<Rightarrow> op_return ()
        | Some (Single c) \<Rightarrow>
            store_consensus_update (ur_client_id r) (cs_latest_height E (ur_client_state r)) c
              (ur_processed_time r) (ur_processed_height r)
        | Some (Batch cs) \<Rightarrow>
            op_each (\<lambda>(h, c). store_consensus_update (ur_client_id r) h c
              (ur_processed_time r) (ur_processed_height r)) cs)"
| "store_client_result E (UpgradeResult r) =
     op_then (store_client_state (gr_client_id r) (gr_client_state r))
       (case gr_consensus_state r of
          None \<Rightarrow> op_return ()
        | Some (Single c) \<Rightarrow>
            store_consensus_state (gr_client_id r) (cs_latest_height E (gr_client_state r)) c
        | Some (Batch cs) \<Rightarrow>
            op_each (\<lambda>(h, c). store_consensus_state (gr_client_id r) h c) cs)"

section \<open>Effect of storing a result\<close>

definition heights_inv :: "('cs, 'cons, 'app) host \<Rightarrow> bool" where
  "heights_inv s \<longleftrightarrow> (\<forall>i. heights_ok (ConsensusHeights s i))"

lemma store_consensus_state_ok:
  assumes "heights_inv s"
  obtains hs where
    "store_consensus_state i h c s =
       (Inr (), (consensus_states_insert (i, h) c s)\<lparr>ConsensusHeights := (ConsensusHeights s)(i := hs)\<rparr>)"
    and "heights_ok hs" and "tracks_heights i \<Longrightarrow> h \<in> set hs"
proof (cases "tracks_heights i")
  case True
  have hk: "heights_ok (ConsensusHeights s i)"
    using assms by (simp add: heights_inv_def)
  obtain hs where "record_consensus_height h (ConsensusHeights s i) = (Inr hs :: (height list, ics02_error) res)"
    "heights_ok hs" "h \<in> set hs"
    by (rule record_consensus_height_ok [OF hk, of h])
  with True show ?thesis
    by (intro that [of hs]) (simp_all add: store_consensus_state_def view_puts)
next
  case False
  with assms show ?thesis
    by (intro that [of "ConsensusHeights s i"])
      (simp_all add: store_consensus_state_def heights_inv_def view_puts)
qed

lemma heights_inv_consensus:
  "heights_inv s \<Longrightarrow> heights_ok hs \<Longrightarrow>
     heights_inv ((consensus_states_insert (i, h) c s)\<lparr>ConsensusHeights := (ConsensusHeights s)(i := hs)\<rparr>)"
  by (simp add: heights_inv_def)

text \<open>The paths of the trie that belong to a client.\<close>

fun client_owned :: "client_id \<Rightarrow> path \<Rightarrow> bool" where
  "client_owned i (ClientTypePath j) \<longleftrightarrow> j = i"
| "client_owned i (ClientStatePath j) \<longleftrightarrow> j = i"
| "client_owned i (ClientConsensusStatePath j e h) \<longleftrightarrow> j = i"
| "client_owned i p \<longleftrightarrow> False"

fun result_client_id :: "('cs, 'cons) client_result \<Rightarrow> client_id" where
  "result_client_id (CreateResult r) = cr_client_id r"
| "result_client_id (UpdateResult r) = ur_client_id r"
| "result_client_id (UpgradeResult r) = gr_client_id r"

lemma client_store_keeps_path:
  assumes "in_language q" and "\<not> client_owned i q"
  shows "keeps (\<lambda>s. child_get s q) (store_client_type i t)"
    and "keeps (\<lambda>s. child_get s q) (store_client_state i c)"
    and "keeps (\<lambda>s. child_get s q) (store_consensus_state i h k)"
    and "keeps (\<lambda>s. child_get s q) (store_update_time i h ts)"
    and "keeps (\<lambda>s. child_get s q) (store_update_height i h hh)"
    and "keeps (\<lambda>s. child_get s q) (op_update increase_client_counter)"
  using assms
  by (cases q; auto simp: store_client_type_def store_client_state_def store_consensus_state_def
      store_update_time_def store_update_height_def view_puts view_paths increase_client_counter_def
      child_get_put split: option.splits intro!: keeps_then keeps_bind keeps_update)+

lemma store_client_result_keeps_path:
  assumes "in_language q" and "\<not> client_owned (result_client_id r) q"
  shows "keeps (\<lambda>s. child_get s q) (store_client_result E r)"
  using assms client_store_keeps_path [OF assms]
  by (cases r) (auto simp: store_consensus_update_def
      split: option.splits consensus_update.splits intro!: keeps_then keeps_each)

section \<open>What the handlers return\<close>

lemma create_client_process_ok:
  assumes "create_client_process E s msg = Inr out"
  obtains i now where
    "client_id_new (unicode_alnum E) (cs_client_type E (create_client_state msg)) (ucast (ClientCounter s)) = Inr i"
    and "from_nanoseconds (tm_representable E) (now_nanos s) = Inr now"
    and "out_result out = CreateResult
      \<lparr>cr_client_id = i, cr_client_type = cs_client_type E (create_client_state msg),
       cr_client_state = create_client_state msg, cr_consensus_state = create_consensus_state msg,
       cr_processed_time = now, cr_processed_height = host_height s\<rparr>"
  using assms by (auto simp: create_client_process_def get_client_counter_def Let_def)

lemma update_client_process_ok:
  assumes "update_client_process E s msg = Inr out"
  obtains (misbehaviour) c c' now where
    "client_states_get s (update_client_id msg) = Some c"
    and "\<not> is_frozen E c s (update_client_id msg)"
    and "from_nanoseconds (tm_representable E) (now_nanos s) = Inr now"
    and "def_verify_client_message E s (update_client_id msg) c (update_client_message msg) = Inr ()"
    and "def_check_for_misbehaviour E s (update_client_id msg) c (update_client_message msg) = Inr True"
    and "def_update_state_on_misbehaviour E c (update_client_message msg) = Inr c'"
    and "out_result out = UpdateResult
      \<lparr>ur_client_id = update_client_id msg, ur_client_state = c', ur_consensus_state = None,
       ur_processed_time = now, ur_processed_height = host_height s\<rparr>"
  | (update) c c' u now where
    "client_states_get s (update_client_id msg) = Some c"
    and "\<not> is_frozen E c s (update_client_id msg)"
    and "from_nanoseconds (tm_representable E) (now_nanos s) = Inr now"
    and "def_verify_client_message E s (update_client_id msg) c (update_client_message msg) = Inr ()"
    and "def_check_for_misbehaviour E s (update_client_id msg) c (update_client_message msg) = Inr False"
    and "def_update_state E s (update_client_id msg) c (update_client_message msg) = Inr (c', u)"
    and "out_result out = UpdateResult
      \<lparr>ur_client_id = update_client_id msg, ur_client_state = c', ur_consensus_state = Some u,
       ur_processed_time = now, ur_processed_height = host_height s\<rparr>"
  using assms
  by (auto simp: update_client_process_def Let_def reader_oks client_update_time_def
      split: if_splits prod.splits)

lemma upgrade_client_process_ok:
  assumes "upgrade_client_process E s msg = Inr out"
  obtains c c' u where
    "client_states_get s (upgrade_client_id msg) = Some c"
    and "\<not> is_frozen E c s (upgrade_client_id msg)"
    and "cs_latest_height E c < cs_latest_height E (upgrade_client_state msg)"
    and "def_verify_upgrade_and_update_state E s (upgrade_client_id msg) c (upgrade_client_state msg)
           (upgrade_consensus_state msg) (proof_upgrade_client msg) (proof_upgrade_consensus_state msg)
         = Inr (c', u)"
    and "out_result out = UpgradeResult
      \<lparr>gr_client_id = upgrade_client_id msg, gr_client_state = c', gr_consensus_state = Some u\<rparr>"
  using assms
  by (auto simp: upgrade_client_process_def Let_def reader_oks split: if_splits prod.splits)

lemma update_client_needs_time:
  assumes "update_client_process E s msg = Inr out"
  obtains c n where "client_states_get s (update_client_id msg) = Some c"
    and "ClientUpdateTime s (update_client_id msg, cs_latest_height E c) = Some n"
  using assms
  by (auto simp: update_client_process_def Let_def reader_oks client_update_time_def
      split: if_splits prod.splits)

section \<open>Creation\<close>

text \<open>The state after the result of a creation is stored, with \<open>hs\<close> the tracked heights.\<close>

definition created_state ::
    "('cs, 'cons, 'msg, 'app) env \<Rightarrow> ('cs, 'cons) create_result \<Rightarrow> u64 \<Rightarrow> height list
       \<Rightarrow> ('cs, 'cons, 'app) host \<Rightarrow> ('cs, 'cons, 'app) host" where
  "created_state E r n hs s =
     (let i = cr_client_id r; h = cs_latest_height E (cr_client_state r) in
      (consensus_states_insert (i, h) (cr_consensus_state r)
        (client_states_insert i (cr_client_state r) (clients_insert i (cr_client_type r) s)))
      \<lparr>ConsensusHeights := (ConsensusHeights s)(i := hs),
       ClientCounter := (case checked_add (ClientCounter s) 1 of Some m \<Rightarrow> m | None \<Rightarrow> ClientCounter s),
       ClientUpdateTime := (ClientUpdateTime s)((i, h) \<mapsto> n),
       ClientUpdateHeight := (ClientUpdateHeight s)((i, h) \<mapsto> cr_processed_height r)\<rparr>)"

lemma store_create_ok:
  assumes "heights_inv s" and "nanoseconds_opt (cr_processed_time r) = Some n"
  obtains hs where "heights_ok hs"
    and "store_client_result E (CreateResult r) s = (Inr (), created_state E r n hs s)"
proof -
  let ?s = "client_states_insert (cr_client_id r) (cr_client_state r)
           (clients_insert (cr_client_id r) (cr_client_type r) s)"
  have inv: "heights_inv ?s"
    using assms(1) by (simp add: heights_inv_def view_puts)
  obtain hs where st: "store_consensus_state (cr_client_id r) (cs_latest_height E (cr_client_state r))
      (cr_consensus_state r) ?s = (Inr (), (consensus_states_insert
        (cr_client_id r, cs_latest_height E (cr_client_state r)) (cr_consensus_state r) ?s)
        \<lparr>ConsensusHeights := (ConsensusHeights ?s)(cr_client_id r := hs)\<rparr>)" and hs: "heights_ok hs"
    by (rule store_consensus_state_ok [OF inv])
  have "store_client_result E (CreateResult r) s = (Inr (), created_state E r n hs s)"
    using assms(2) st
    by (cases "checked_add (ClientCounter s) 1")
      (simp_all add: store_client_type_def store_client_state_def store_update_time_def
        store_update_height_def nanoseconds_def increase_client_counter_def created_state_def
        Let_def view_puts)
  with hs show ?thesis
    by (rule that)
qed


section \<open>Properties\<close>

text \<open>C27: storing the result of a client creation succeeds and makes the client readable: its type,
  its state, the consensus state at its latest height, and the host time and height at which that
  consensus state was stored. Nothing outside the paths of the new client changes.\<close>

theorem create_client_stored:
  assumes "create_client_process E s msg = Inr out" and "heights_inv s"
  shows "\<exists>i s'. result_client_id (out_result out) = i
    \<and> store_client_result E (out_result out) s = (Inr (), s')
    \<and> get_client_type s' i = Inr (cs_client_type E (create_client_state msg))
    \<and> get_client_state s' i = Inr (create_client_state msg)
    \<and> get_consensus_state s' i (cs_latest_height E (create_client_state msg))
        = Inr (create_consensus_state msg)
    \<and> ClientUpdateTime s' (i, cs_latest_height E (create_client_state msg)) = Some (now_nanos s)
    \<and> client_update_height s' i (cs_latest_height E (create_client_state msg)) = Inr (host_height s)
    \<and> (\<forall>q. in_language q \<and> \<not> client_owned i q \<longrightarrow> child_get s' q = child_get s q)"
proof -
  obtain i now where r: "out_result out = CreateResult
      \<lparr>cr_client_id = i, cr_client_type = cs_client_type E (create_client_state msg),
       cr_client_state = create_client_state msg, cr_consensus_state = create_consensus_state msg,
       cr_processed_time = now, cr_processed_height = host_height s\<rparr>" (is "_ = CreateResult ?r")
    and now: "nanoseconds_opt now = Some (now_nanos s)"
    using create_client_process_ok [OF assms(1)] nanoseconds_from_nanoseconds by metis
  from now have "nanoseconds_opt (cr_processed_time ?r) = Some (now_nanos s)"
    by simp
  then obtain hs where st:
    "store_client_result E (CreateResult ?r) s = (Inr (), created_state E ?r (now_nanos s) hs s)"
    by (rule store_create_ok [OF assms(2)])
  have "child_get (created_state E ?r (now_nanos s) hs s) q = child_get s q"
    if "in_language q" and "\<not> client_owned i q" for q
    using keepsD [OF store_client_result_keeps_path st] that by simp
  with st show ?thesis
    unfolding r by (auto simp: created_state_def Let_def reader_oks client_update_height_def view_laws)
qed

text \<open>A mock client is created on the empty host.\<close>

definition sample_create :: "(mock_client_state, mock_consensus_state) msg_create_client" where
  "sample_create =
     \<lparr>create_client_state = mock_client_state_new (MockHeaderMsg (mock_header_at 7)),
      create_consensus_state = mock_consensus_state_new (mock_header_at 7), create_signer = ''relayer''\<rparr>"

lemma empty_host_heights: "heights_inv empty_host"
  by (simp add: heights_inv_def heights_ok_def)

lemma sample_create_runs: "\<exists>out. create_client_process mock_env empty_host sample_create = Inr out"
proof -
  have "client_id_new (\<lambda>_. False) ''9999-mock'' (0 :: u64) = Inr (ClientId ''9999-mock-0'')"
    by code_simp
  moreover have "host_timestamp mock_env empty_host = (Inr (Timestamp (Some 1000)) :: (timestamp, ics02_error) res)"
    by (simp add: from_nanoseconds_def empty_host_def)
  ultimately show ?thesis
    by (simp add: create_client_process_def get_client_counter_def empty_host_def Let_def)
qed

theorem create_client_stored_witness:
  "\<exists>out s'. create_client_process mock_env empty_host sample_create = Inr out
     \<and> store_client_result mock_env (out_result out) empty_host = (Inr (), s')
     \<and> get_client_state s' (result_client_id (out_result out)) = Inr (create_client_state sample_create)"
  using sample_create_runs create_client_stored [OF _ empty_host_heights] by blast

text \<open>Client identifiers are never reused. While the 32-bit counter has not reached its maximum,
  a creation stores its client under an identifier that no client has, and every client identifier
  stays below the counter.\<close>

theorem create_client_fresh:
  assumes "client_ids_below s" and "create_client_process E s msg = Inr out" and "heights_inv s"
    and "ClientCounter s \<noteq> - 1"
  shows "clients_get s (result_client_id (out_result out)) = None
    \<and> (\<exists>s'. store_client_result E (out_result out) s = (Inr (), s') \<and> client_ids_below s')"
proof -
  obtain i now where new: "client_id_new (unicode_alnum E) (cs_client_type E (create_client_state msg))
      (ucast (ClientCounter s)) = Inr i"
    and r: "out_result out = CreateResult
      \<lparr>cr_client_id = i, cr_client_type = cs_client_type E (create_client_state msg),
       cr_client_state = create_client_state msg, cr_consensus_state = create_consensus_state msg,
       cr_processed_time = now, cr_processed_height = host_height s\<rparr>" (is "_ = CreateResult ?r")
    and now: "nanoseconds_opt now = Some (now_nanos s)"
    using create_client_process_ok [OF assms(2)] nanoseconds_from_nanoseconds by metis
  from now have "nanoseconds_opt (cr_processed_time ?r) = Some (now_nanos s)"
    by simp
  then obtain hs where st:
    "store_client_result E (CreateResult ?r) s = (Inr (), created_state E ?r (now_nanos s) hs s)"
    by (rule store_create_ok [OF assms(3)])
  have num: "client_numbered i (ucast (ClientCounter s))"
    using client_id_new_eq [OF new] by (simp add: client_numbered_def)
  have "client_ids_below (created_state E ?r (now_nanos s) hs s)"
    unfolding client_ids_below_def
    by (rule client_ids.allocate [OF assms(1) [unfolded client_ids_below_def] num assms(4)])
      (auto simp: created_state_def Let_def view_laws counter_step [OF assms(4)] split: if_splits)
  with st client_ids.fresh [OF assms(1) [unfolded client_ids_below_def] num] show ?thesis
    unfolding r by simp
qed

theorem create_client_fresh_witness:
  "\<exists>out s'. create_client_process mock_env empty_host sample_create = Inr out
     \<and> clients_get empty_host (result_client_id (out_result out)) = None
     \<and> store_client_result mock_env (out_result out) empty_host = (Inr (), s') \<and> client_ids_below s'"
proof -
  have "client_ids_below empty_host"
    by (simp add: client_ids_below_def ids_below_def view_gets)
  moreover have "ClientCounter empty_host \<noteq> - 1"
    by (simp add: empty_host_def)
  ultimately show ?thesis
    using sample_create_runs create_client_fresh [OF _ _ empty_host_heights] by blast
qed

text \<open>A frozen client accepts no update and no upgrade, whatever the message and its proofs.\<close>

theorem frozen_client_rejected:
  assumes "get_client_state s i = Inr c" and "is_frozen E c s i"
    and "update_client_id m = i" and "upgrade_client_id u = i"
  shows "(\<exists>e. update_client_process E s m = Inl (Err e))
    \<and> upgrade_client_process E s u = Inl (Err (E02_ClientFrozen i))"
  using assms
  by (auto simp: update_client_process_def upgrade_client_process_def Let_def reader_oks fail_with_def
      bind_res_eq_Inl ok_or_def split: option.splits)

definition sample_id :: client_id where
  "sample_id = ClientId ''9999-mock-0''"

definition frozen_mock :: mock_client_state where
  "frozen_mock = \<lparr>mcs_header = mock_header_at 7, mcs_frozen_height = Some (Height 0 7)\<rparr>"

definition sample_update :: "mock_client_message msg_update_client" where
  "sample_update = \<lparr>update_client_id = sample_id,
     update_client_message = MockHeaderMsg (mock_header_at 9), update_signer = ''relayer''\<rparr>"

definition sample_upgrade :: "(mock_client_state, mock_consensus_state) msg_upgrade_client" where
  "sample_upgrade =
     \<lparr>upgrade_client_id = sample_id,
      upgrade_client_state = mock_client_state_new (MockHeaderMsg (mock_header_at 8)),
      upgrade_consensus_state = mock_consensus_state_new (mock_header_at 8),
      proof_upgrade_client = [1], proof_upgrade_consensus_state = [1], upgrade_signer = ''relayer''\<rparr>"

theorem frozen_client_rejected_witness:
  "upgrade_client_process mock_env (client_states_insert sample_id frozen_mock empty_host) sample_upgrade
     = Inl (Err (E02_ClientFrozen sample_id))"
  using frozen_client_rejected
    [of "client_states_insert sample_id frozen_mock empty_host" sample_id frozen_mock mock_env
      sample_update sample_upgrade]
  by (simp add: reader_oks client_states.get_put is_frozen_def default_status_def frozen_mock_def
      sample_update_def sample_upgrade_def)

text \<open>Whether it succeeds or fails half-way, storing a client result changes no path of the
  provable store but those of its own client: other clients, connections, channels and packets are
  as before.\<close>

theorem client_result_confined:
  assumes "store_client_result E r s = (res, s')" and "in_language q"
    and "\<not> client_owned (result_client_id r) q"
  shows "child_get s' q = child_get s q"
  using keepsD [OF store_client_result_keeps_path assms(1)] assms(2,3) by blast

theorem client_result_confined_witness:
  "child_get (snd (store_client_result mock_env
       (UpgradeResult \<lparr>gr_client_id = sample_id, gr_client_state = frozen_mock, gr_consensus_state = None\<rparr>)
       empty_host)) (ConnectionsPath (ConnectionId ''connection-0''))
     = child_get empty_host (ConnectionsPath (ConnectionId ''connection-0''))"
  using client_result_confined
    [of mock_env "UpgradeResult \<lparr>gr_client_id = sample_id, gr_client_state = frozen_mock, gr_consensus_state = None\<rparr>"
      empty_host "fst (store_client_result mock_env (UpgradeResult
        \<lparr>gr_client_id = sample_id, gr_client_state = frozen_mock, gr_consensus_state = None\<rparr>) empty_host)"
      "snd (store_client_result mock_env (UpgradeResult
        \<lparr>gr_client_id = sample_id, gr_client_state = frozen_mock, gr_consensus_state = None\<rparr>) empty_host)"
      "ConnectionsPath (ConnectionId ''connection-0'')"]
  by simp

subsection \<open>Upgrades and the time of the last update\<close>

lemma keeps_update_time:
  "keeps ClientUpdateTime (store_client_state i c)"
  "keeps ClientUpdateTime (store_consensus_state i h k)"
  by (auto simp: store_client_state_def store_consensus_state_def view_puts
      intro!: keeps_then keeps_bind keeps_update)

lemma keeps_client_state: "keeps (\<lambda>s. client_states_get s i) (store_consensus_state j h k)"
  by (auto simp: store_consensus_state_def view_laws intro!: keeps_then keeps_bind keeps_update)

lemma store_upgrade_effect:
  assumes "store_client_result E (UpgradeResult r) s = (res, s')"
  shows "client_states_get s' (gr_client_id r) = Some (gr_client_state r)"
    and "ClientUpdateTime s' = ClientUpdateTime s"
proof -
  let ?rest = "case gr_consensus_state r of
          None \<Rightarrow> op_return ()
        | Some (Single c) \<Rightarrow>
            store_consensus_state (gr_client_id r) (cs_latest_height E (gr_client_state r)) c
        | Some (Batch cs) \<Rightarrow>
            op_each (\<lambda>(h, c). store_consensus_state (gr_client_id r) h c) cs"
  have run: "?rest (client_states_insert (gr_client_id r) (gr_client_state r) s) = (res, s')"
    using assms by (simp add: store_client_state_def)
  have "keeps (\<lambda>s. client_states_get s (gr_client_id r)) ?rest" and "keeps ClientUpdateTime ?rest"
    by (auto split: option.splits consensus_update.splits
        intro!: keeps_each keeps_client_state keeps_update_time)
  with run show "client_states_get s' (gr_client_id r) = Some (gr_client_state r)"
    and "ClientUpdateTime s' = ClientUpdateTime s"
    by (auto dest!: keepsD simp: client_states.get_put) (simp add: view_puts)
qed

text \<open>C30: an upgrade stores no update time for the new latest height. Unless one was recorded before,
  every later update of an upgraded client is refused, whatever its message.\<close>

theorem upgraded_client_cannot_update:
  assumes "upgrade_client_process E s msg = Inr out" and "out_result out = UpgradeResult r"
    and "store_client_result E (out_result out) s = (res, s')"
    and "ClientUpdateTime s (upgrade_client_id msg, cs_latest_height E (gr_client_state r)) = None"
    and "update_client_id m = upgrade_client_id msg"
  shows "update_client_process E s' m \<noteq> Inr out'"
proof
  assume "update_client_process E s' m = Inr out'"
  then obtain c n where "client_states_get s' (update_client_id m) = Some c"
    and "ClientUpdateTime s' (update_client_id m, cs_latest_height E c) = Some n"
    by (rule update_client_needs_time)
  moreover have "gr_client_id r = upgrade_client_id msg"
    using upgrade_client_process_ok [OF assms(1)] assms(2) by fastforce
  ultimately show False
    using store_upgrade_effect [OF assms(3) [unfolded assms(2)]] assms(4,5) by simp
qed

definition active_mock :: mock_client_state where
  "active_mock = mock_client_state_new (MockHeaderMsg (mock_header_at 7))"

definition upgradable_host :: "(mock_client_state, mock_consensus_state, unit) host" where
  "upgradable_host = client_states_insert sample_id active_mock
     (clients_insert sample_id ''9999-mock'' empty_host)"

theorem upgraded_client_cannot_update_witness:
  "\<exists>out. upgrade_client_process mock_env upgradable_host sample_upgrade = Inr out
     \<and> (\<forall>out'. update_client_process mock_env
           (snd (store_client_result mock_env (out_result out) upgradable_host)) sample_update \<noteq> Inr out')"
proof -
  let ?r = "\<lparr>gr_client_id = sample_id,
          gr_client_state = upgrade_client_state sample_upgrade,
          gr_consensus_state = Some (Single (upgrade_consensus_state sample_upgrade))\<rparr>"
  let ?out = "with_result (builder_emit (UpgradeClientEvent
          \<lparr>cl_height = host_height upgradable_host, cl_client_id = sample_id,
           cl_client_type = ''9999-mock'', cl_consensus_height = Height 0 8\<rparr>) builder_new)
        (UpgradeResult ?r)"
  have ok: "upgrade_client_process mock_env upgradable_host sample_upgrade = Inr ?out"
    by (simp add: upgrade_client_process_def upgradable_host_def sample_upgrade_def reader_oks view_laws
        Let_def is_frozen_def default_status_def active_mock_def mock_client_state_new_def
        mock_header_at_def height_le_iff)
  have untimed: "ClientUpdateTime upgradable_host k = None" for k
    by (simp add: upgradable_host_def empty_host_def view_puts child_put_def)
  have same: "update_client_id sample_update = upgrade_client_id sample_upgrade"
    by (simp add: sample_update_def sample_upgrade_def)
  have "update_client_process mock_env (snd (store_client_result mock_env (out_result ?out) upgradable_host))
      sample_update \<noteq> Inr out'" for out'
    by (rule upgraded_client_cannot_update [OF ok _ prod.collapse [symmetric] untimed same, of ?r]) simp
  with ok show ?thesis by blast
qed

end
