(* ===== verification/Wire_Msgs.thy ===== *)
theory Wire_Msgs
  imports Handler_Msgs Client_Handler
begin

text \<open>
  The messages of ICS03 and ICS04 on the wire: the protobuf messages and the conversions \<^verbatim>\<open>TryFrom\<close> and
  \<^verbatim>\<open>From\<close> of \<^verbatim>\<open>ics03_connection/msgs\<close> and \<^verbatim>\<open>ics04_channel/msgs\<close>, with \<^verbatim>\<open>Signer::from_str\<close> of
  \<^verbatim>\<open>signer.rs\<close>. The interface \<open>wire_format\<close> says what a pair of conversions promises: what is decoded is
  well formed, and a well-formed message is decoded from its encoding. Deprecated fields of the protobuf messages,
  which no conversion reads, are left out.
\<close>

section \<open>The interface of a pair of conversions\<close>

locale wire_encoding =
  fixes enc :: "'m \<Rightarrow> ('r, 'e) res"
    and dec :: "'r \<Rightarrow> ('m, 'e) res"
    and wf :: "'m \<Rightarrow> bool"
  assumes dec_enc: "wf m \<Longrightarrow> bind_res (enc m) dec = Inr m"
begin

lemma enc_inj:
  assumes "wf m" and "wf m'" and "enc m = enc m'"
  shows "m = m'"
proof -
  have "(Inr m :: (_, 'e) res) = bind_res (enc m') dec" by (simp only: dec_enc [OF assms(1), symmetric] assms(3))
  then show ?thesis by (simp only: dec_enc [OF assms(2)] sum.inject)
qed

lemma enc_total: "wf m \<Longrightarrow> \<exists>r. enc m = Inr r \<and> dec r = Inr m"
  using dec_enc [of m] by (cases "enc m") auto

end

locale wire_format = wire_encoding +
  assumes dec_wf: "dec r = Inr m \<Longrightarrow> wf m"
begin

lemma dec_canonical:
  assumes "dec r = Inr m"
  shows "bind_res (enc m) dec = dec r"
  by (simp only: dec_enc [OF dec_wf [OF assms]] assms)

end

section \<open>Signers and proofs\<close>

datatype signer_error = EmptySigner

definition signer_from_str :: "string \<Rightarrow> (string, signer_error) res" where
  "signer_from_str s = (if trim_is_empty s then fail_with EmptySigner else Inr s)"

lemma signer_ok [simp]: "signer_from_str s = Inr t \<longleftrightarrow> t = s \<and> \<not> trim_is_empty s"
  by (auto simp: signer_from_str_def)

definition wf_proof :: "commitment_proof_bytes \<Rightarrow> bool" where
  "wf_proof p \<longleftrightarrow> proof_bytes p \<noteq> []"

lemma proof_bytes_ok [simp]:
  "commitment_proof_bytes_try_from b = Inr p \<longleftrightarrow> b \<noteq> [] \<and> p = CommitmentProofBytes b"
  by (auto simp: commitment_proof_bytes_try_from_def)

lemma proofs_new_ok [simp]:
  "proofs_new ob cl cons ot h = Inr ps \<longleftrightarrow> \<not> is_zero h
     \<and> ps = \<lparr>object_proof = ob, client_proof = cl, consensus_proof = cons, other_proof = ot, proof_height = h\<rparr>"
  by (auto simp: proofs_new_def)

lemma consensus_proof_new_ok [simp]:
  "consensus_proof_new p h = Inr c \<longleftrightarrow> \<not> is_zero h \<and> c = \<lparr>cp_proof = p, cp_height = h\<rparr>"
  by (auto simp: consensus_proof_new_def)

text \<open>The proofs that a message with one object proof carries, in the errors of ICS03 and of ICS04.\<close>

definition object_proofs03 :: "bytes \<Rightarrow> height \<Rightarrow> (proofs, ics03_error) res" where
  "object_proofs03 b h =
     bind_res (map_err E03_InvalidProof (commitment_proof_bytes_try_from b)) (\<lambda>p.
     map_err E03_InvalidProof (proofs_new p None None None h))"

definition object_proofs04 :: "bytes \<Rightarrow> height option \<Rightarrow> (proofs, ics04_error) res" where
  "object_proofs04 b h =
     bind_res (map_err (\<lambda>e. E04_Malformed (E04_InvalidProof e)) (commitment_proof_bytes_try_from b)) (\<lambda>p.
     bind_res (ok_or h (E04_Malformed E04_MissingHeight)) (\<lambda>h.
     map_err (\<lambda>e. E04_Malformed (E04_InvalidProof e)) (proofs_new p None None None h)))"

definition wf_object_proofs :: "proofs \<Rightarrow> bool" where
  "wf_object_proofs ps \<longleftrightarrow> wf_proof (object_proof ps) \<and> client_proof ps = None \<and> consensus_proof ps = None
     \<and> other_proof ps = None \<and> \<not> is_zero (proof_height ps)"

lemma object_proofs_ok:
  "object_proofs03 b h' = Inr ps \<longleftrightarrow> wf_object_proofs ps \<and> b = proof_bytes (object_proof ps) \<and> h' = proof_height ps"
  "object_proofs04 b h = Inr ps \<longleftrightarrow> wf_object_proofs ps \<and> b = proof_bytes (object_proof ps) \<and> h = Some (proof_height ps)"
  by (cases ps; cases "object_proof ps"; auto simp: object_proofs03_def object_proofs04_def wf_object_proofs_def wf_proof_def)+

section \<open>Client messages\<close>

record raw_any =
  any_type_url :: string
  any_value :: bytes

text \<open>The conversions of the states and messages of the light clients, which the clients supply.\<close>

record 'a any_codec =
  from_any :: "raw_any \<Rightarrow> ('a, ics02_error) res"
  into_any :: "'a \<Rightarrow> raw_any"

record raw_create_client =
  rcr_client_state :: "raw_any option"
  rcr_consensus_state :: "raw_any option"
  rcr_signer :: string

record raw_update_client =
  rup_client_id :: string
  rup_client_message :: "raw_any option"
  rup_signer :: string

record raw_upgrade_client =
  rug_client_id :: string
  rug_client_state :: "raw_any option"
  rug_consensus_state :: "raw_any option"
  rug_proof_upgrade_client :: bytes
  rug_proof_upgrade_consensus_state :: bytes
  rug_signer :: string

text \<open>
  A consensus state that the light client can not decode is reported as missing when a client is created,
  and a missing consensus state is reported as a missing client state when a client is upgraded.
\<close>

definition create_client_try_from ::
    "'cs any_codec \<Rightarrow> 'cons any_codec \<Rightarrow> raw_create_client \<Rightarrow> (('cs, 'cons) msg_create_client, ics02_error) res" where
  "create_client_try_from K C r =
     bind_res (ok_or (rcr_client_state r) (E02_Undecodable E02_MissingRawClientState)) (\<lambda>rs.
     bind_res (ok_or (Option.bind (rcr_consensus_state r) (\<lambda>a. res_ok (from_any C a)))
       (E02_Undecodable E02_MissingRawConsensusState)) (\<lambda>cons.
     bind_res (from_any K rs) (\<lambda>cs.
     bind_res (map_err (\<lambda>_. E02_Malformed E02_Signer) (signer_from_str (rcr_signer r))) (\<lambda>s.
     Inr \<lparr>create_client_state = cs, create_consensus_state = cons, create_signer = s\<rparr>))))"

definition create_client_into_raw ::
    "'cs any_codec \<Rightarrow> 'cons any_codec \<Rightarrow> ('cs, 'cons) msg_create_client \<Rightarrow> raw_create_client" where
  "create_client_into_raw K C m =
     \<lparr>rcr_client_state = Some (into_any K (create_client_state m)),
      rcr_consensus_state = Some (into_any C (create_consensus_state m)), rcr_signer = create_signer m\<rparr>"

definition update_client_try_from ::
    "(nat \<Rightarrow> bool) \<Rightarrow> 'msg any_codec \<Rightarrow> raw_update_client \<Rightarrow> ('msg msg_update_client, ics02_error) res" where
  "update_client_try_from ua N r =
     bind_res (ok_or (rup_client_message r) (E02_Malformed E02_MissingRawClientMessage)) (\<lambda>rm.
     bind_res (map_err (\<lambda>e. E02_Undecodable (E02_InvalidMsgUpdateClientId e)) (client_id_from_str ua (rup_client_id r))) (\<lambda>i.
     bind_res (from_any N rm) (\<lambda>m.
     bind_res (map_err (\<lambda>_. E02_Malformed E02_Signer) (signer_from_str (rup_signer r))) (\<lambda>s.
     Inr \<lparr>update_client_id = i, update_client_message = m, update_signer = s\<rparr>))))"

definition update_client_into_raw :: "'msg any_codec \<Rightarrow> 'msg msg_update_client \<Rightarrow> raw_update_client" where
  "update_client_into_raw N m =
     \<lparr>rup_client_id = client_id_str (update_client_id m),
      rup_client_message = Some (into_any N (update_client_message m)), rup_signer = update_signer m\<rparr>"

definition upgrade_client_try_from ::
    "(nat \<Rightarrow> bool) \<Rightarrow> 'cs any_codec \<Rightarrow> 'cons any_codec \<Rightarrow> raw_upgrade_client
       \<Rightarrow> (('cs, 'cons) msg_upgrade_client, ics02_error) res" where
  "upgrade_client_try_from ua K C r =
     bind_res (ok_or (rug_client_state r) (E02_Undecodable E02_MissingRawClientState)) (\<lambda>rs.
     bind_res (ok_or (rug_consensus_state r) (E02_Undecodable E02_MissingRawClientState)) (\<lambda>rc.
     bind_res (map_err (\<lambda>e. E02_Malformed (E02_InvalidClientIdentifier e)) (client_id_from_str ua (rug_client_id r))) (\<lambda>i.
     bind_res (from_any K rs) (\<lambda>cs.
     bind_res (from_any C rc) (\<lambda>cons.
     bind_res (map_err (\<lambda>_. E02_Malformed E02_Signer) (signer_from_str (rug_signer r))) (\<lambda>s.
     Inr \<lparr>upgrade_client_id = i, upgrade_client_state = cs, upgrade_consensus_state = cons,
          proof_upgrade_client = rug_proof_upgrade_client r,
          proof_upgrade_consensus_state = rug_proof_upgrade_consensus_state r, upgrade_signer = s\<rparr>))))))"

definition upgrade_client_into_raw ::
    "'cs any_codec \<Rightarrow> 'cons any_codec \<Rightarrow> ('cs, 'cons) msg_upgrade_client \<Rightarrow> raw_upgrade_client" where
  "upgrade_client_into_raw K C m =
     \<lparr>rug_client_id = client_id_str (upgrade_client_id m),
      rug_client_state = Some (into_any K (upgrade_client_state m)),
      rug_consensus_state = Some (into_any C (upgrade_consensus_state m)),
      rug_proof_upgrade_client = proof_upgrade_client m,
      rug_proof_upgrade_consensus_state = proof_upgrade_consensus_state m, rug_signer = upgrade_signer m\<rparr>"

section \<open>Connection messages\<close>

record raw_conn_open_init =
  rci_client_id :: string
  rci_counterparty :: "raw_conn_counterparty option"
  rci_version :: "raw_version option"
  rci_delay_period :: u64
  rci_signer :: string

record raw_conn_open_try =
  rct_client_id :: string
  rct_client_state :: "raw_any option"
  rct_counterparty :: "raw_conn_counterparty option"
  rct_delay_period :: u64
  rct_counterparty_versions :: "raw_version list"
  rct_proof_height :: "height option"
  rct_proof_init :: bytes
  rct_proof_client :: bytes
  rct_proof_consensus :: bytes
  rct_consensus_height :: "height option"
  rct_signer :: string
  rct_host_consensus_state_proof :: bytes

record raw_conn_open_ack =
  rca_connection_id :: string
  rca_counterparty_connection_id :: string
  rca_version :: "raw_version option"
  rca_client_state :: "raw_any option"
  rca_proof_height :: "height option"
  rca_proof_try :: bytes
  rca_proof_client :: bytes
  rca_proof_consensus :: bytes
  rca_consensus_height :: "height option"
  rca_signer :: string
  rca_host_consensus_state_proof :: bytes

record raw_conn_open_confirm =
  rcc_connection_id :: string
  rcc_proof_ack :: bytes
  rcc_proof_height :: "height option"
  rcc_signer :: string

definition transpose_opt :: "('a \<Rightarrow> ('b, 'e) res) \<Rightarrow> 'a option \<Rightarrow> ('b option, 'e) res" where
  "transpose_opt f x = (case x of None \<Rightarrow> Inr None | Some a \<Rightarrow> bind_res (f a) (\<lambda>b. Inr (Some b)))"

definition conn_open_init_try_from ::
    "(nat \<Rightarrow> bool) \<Rightarrow> raw_conn_open_init \<Rightarrow> (msg_conn_open_init, ics03_error) res" where
  "conn_open_init_try_from ua r =
     bind_res (map_err E03_InvalidIdentifier (client_id_from_str ua (rci_client_id r))) (\<lambda>i.
     bind_res (ok_or (rci_counterparty r) E03_MissingCounterparty) (\<lambda>rc.
     bind_res (conn_counterparty_try_from ua rc) (\<lambda>c.
     bind_res (transpose_opt version_try_from (rci_version r)) (\<lambda>v.
     bind_res (map_err (\<lambda>_. E03_Malformed E03_Signer) (signer_from_str (rci_signer r))) (\<lambda>s.
     Inr \<lparr>coi_client_id = i, coi_counterparty = c, coi_version = v,
          coi_delay_period = unat (rci_delay_period r), coi_signer = s\<rparr>)))))"

definition conn_open_init_into_raw :: "msg_conn_open_init \<Rightarrow> raw_conn_open_init" where
  "conn_open_init_into_raw m =
     \<lparr>rci_client_id = client_id_str (coi_client_id m),
      rci_counterparty = Some (conn_counterparty_into_raw (coi_counterparty m)),
      rci_version = coi_version m, rci_delay_period = of_nat (coi_delay_period m), rci_signer = coi_signer m\<rparr>"

text \<open>The consensus proof of a Try or Ack: absent without proof bytes or without a height.\<close>

definition consensus_proof_from_raw ::
    "bytes \<Rightarrow> height option \<Rightarrow> (consensus_proof option, ics03_error) res" where
  "consensus_proof_from_raw b h =
     (case (res_ok (commitment_proof_bytes_try_from b), h) of
        (Some p, Some k) \<Rightarrow> bind_res (map_err E03_InvalidProof (consensus_proof_new p k)) (\<lambda>c. Inr (Some c))
      | _ \<Rightarrow> Inr None)"

definition handshake_proofs ::
    "bytes \<Rightarrow> commitment_proof_bytes \<Rightarrow> consensus_proof option \<Rightarrow> height \<Rightarrow> (proofs, ics03_error) res" where
  "handshake_proofs b cl cons h =
     bind_res (map_err E03_InvalidProof (commitment_proof_bytes_try_from b)) (\<lambda>p.
     map_err E03_InvalidProof (proofs_new p (Some cl) cons None h))"

definition conn_open_try_try_from ::
    "(nat \<Rightarrow> bool) \<Rightarrow> 'cs any_codec \<Rightarrow> raw_conn_open_try \<Rightarrow> ('cs msg_conn_open_try, ics03_error) res" where
  "conn_open_try_try_from ua K r =
     bind_res (consensus_proof_from_raw (rct_proof_consensus r) (rct_consensus_height r)) (\<lambda>cons.
     bind_res (ok_or (rct_proof_height r) (E03_Malformed E03_MissingProofHeight)) (\<lambda>h.
     bind_res (map_err E03_InvalidProof (commitment_proof_bytes_try_from (rct_proof_client r))) (\<lambda>cl.
     bind_res (collect_res (map version_try_from (rct_counterparty_versions r))) (\<lambda>vs.
     if vs = [] then fail_with E03_EmptyVersions
     else
       bind_res (map_err E03_InvalidIdentifier (client_id_from_str ua (rct_client_id r))) (\<lambda>i.
       bind_res (map_err E03_Ics02Client (transpose_opt (from_any K) (rct_client_state r))) (\<lambda>st.
       bind_res (ok_or (rct_counterparty r) E03_MissingCounterparty) (\<lambda>rc.
       bind_res (conn_counterparty_try_from ua rc) (\<lambda>c.
       bind_res (handshake_proofs (rct_proof_init r) cl cons h) (\<lambda>ps.
       bind_res (map_err (\<lambda>_. E03_Malformed E03_Signer) (signer_from_str (rct_signer r))) (\<lambda>s.
       Inr \<lparr>cot_client_id = i, cot_client_state = st, cot_counterparty = c, cot_counterparty_versions = vs,
            cot_proofs = ps, cot_delay_period = unat (rct_delay_period r), cot_signer = s,
            cot_host_consensus_state_proof = rct_host_consensus_state_proof r\<rparr>))))))))))"

definition opt_proof_bytes :: "commitment_proof_bytes option \<Rightarrow> bytes" where
  "opt_proof_bytes p = (case p of None \<Rightarrow> [] | Some b \<Rightarrow> proof_bytes b)"

definition conn_open_try_into_raw :: "'cs any_codec \<Rightarrow> 'cs msg_conn_open_try \<Rightarrow> raw_conn_open_try" where
  "conn_open_try_into_raw K m =
     \<lparr>rct_client_id = client_id_str (cot_client_id m),
      rct_client_state = map_option (into_any K) (cot_client_state m),
      rct_counterparty = Some (conn_counterparty_into_raw (cot_counterparty m)),
      rct_delay_period = of_nat (cot_delay_period m), rct_counterparty_versions = cot_counterparty_versions m,
      rct_proof_height = Some (proof_height (cot_proofs m)),
      rct_proof_init = proof_bytes (object_proof (cot_proofs m)),
      rct_proof_client = opt_proof_bytes (client_proof (cot_proofs m)),
      rct_proof_consensus = opt_proof_bytes (map_option cp_proof (consensus_proof (cot_proofs m))),
      rct_consensus_height = map_option cp_height (consensus_proof (cot_proofs m)),
      rct_signer = cot_signer m, rct_host_consensus_state_proof = cot_host_consensus_state_proof m\<rparr>"

definition conn_open_ack_try_from ::
    "(nat \<Rightarrow> bool) \<Rightarrow> 'cs any_codec \<Rightarrow> raw_conn_open_ack \<Rightarrow> ('cs msg_conn_open_ack, ics03_error) res" where
  "conn_open_ack_try_from ua K r =
     bind_res (consensus_proof_from_raw (rca_proof_consensus r) (rca_consensus_height r)) (\<lambda>cons.
     bind_res (ok_or (rca_proof_height r) (E03_Malformed E03_MissingProofHeight)) (\<lambda>h.
     bind_res (map_err E03_InvalidProof (commitment_proof_bytes_try_from (rca_proof_client r))) (\<lambda>cl.
     bind_res (map_err E03_InvalidIdentifier (connection_id_from_str ua (rca_connection_id r))) (\<lambda>k.
     bind_res (map_err E03_InvalidIdentifier (connection_id_from_str ua (rca_counterparty_connection_id r))) (\<lambda>k'.
     bind_res (map_err E03_Ics02Client (transpose_opt (from_any K) (rca_client_state r))) (\<lambda>st.
     bind_res (ok_or (rca_version r) E03_EmptyVersions) (\<lambda>rv.
     bind_res (version_try_from rv) (\<lambda>v.
     bind_res (handshake_proofs (rca_proof_try r) cl cons h) (\<lambda>ps.
     bind_res (map_err (\<lambda>_. E03_Malformed E03_Signer) (signer_from_str (rca_signer r))) (\<lambda>s.
     Inr \<lparr>coa_connection_id = k, coa_counterparty_connection_id = k', coa_client_state = st, coa_proofs = ps,
          coa_host_consensus_state_proof = rca_host_consensus_state_proof r, coa_version = v,
          coa_signer = s\<rparr>))))))))))"

definition conn_open_ack_into_raw :: "'cs any_codec \<Rightarrow> 'cs msg_conn_open_ack \<Rightarrow> raw_conn_open_ack" where
  "conn_open_ack_into_raw K m =
     \<lparr>rca_connection_id = connection_id_str (coa_connection_id m),
      rca_counterparty_connection_id = connection_id_str (coa_counterparty_connection_id m),
      rca_version = Some (coa_version m), rca_client_state = map_option (into_any K) (coa_client_state m),
      rca_proof_height = Some (proof_height (coa_proofs m)),
      rca_proof_try = proof_bytes (object_proof (coa_proofs m)),
      rca_proof_client = opt_proof_bytes (client_proof (coa_proofs m)),
      rca_proof_consensus = opt_proof_bytes (map_option cp_proof (consensus_proof (coa_proofs m))),
      rca_consensus_height = map_option cp_height (consensus_proof (coa_proofs m)),
      rca_signer = coa_signer m, rca_host_consensus_state_proof = coa_host_consensus_state_proof m\<rparr>"

definition conn_open_confirm_try_from ::
    "(nat \<Rightarrow> bool) \<Rightarrow> raw_conn_open_confirm \<Rightarrow> (msg_conn_open_confirm, ics03_error) res" where
  "conn_open_confirm_try_from ua r =
     bind_res (ok_or (rcc_proof_height r) (E03_Malformed E03_MissingProofHeight)) (\<lambda>h.
     bind_res (map_err E03_InvalidIdentifier (connection_id_from_str ua (rcc_connection_id r))) (\<lambda>k.
     bind_res (object_proofs03 (rcc_proof_ack r) h) (\<lambda>ps.
     bind_res (map_err (\<lambda>_. E03_Malformed E03_Signer) (signer_from_str (rcc_signer r))) (\<lambda>s.
     Inr \<lparr>coc_connection_id = k, coc_proofs = ps, coc_signer = s\<rparr>))))"

definition conn_open_confirm_into_raw :: "msg_conn_open_confirm \<Rightarrow> raw_conn_open_confirm" where
  "conn_open_confirm_into_raw m =
     \<lparr>rcc_connection_id = connection_id_str (coc_connection_id m),
      rcc_proof_ack = proof_bytes (object_proof (coc_proofs m)),
      rcc_proof_height = Some (proof_height (coc_proofs m)), rcc_signer = coc_signer m\<rparr>"

section \<open>Channel messages\<close>

record raw_chan_open_init =
  rhi_port_id :: string
  rhi_channel :: "raw_channel option"
  rhi_signer :: string

record raw_chan_open_try =
  rht_port_id :: string
  rht_channel :: "raw_channel option"
  rht_counterparty_version :: string
  rht_proof_init :: bytes
  rht_proof_height :: "height option"
  rht_signer :: string

record raw_chan_open_ack =
  rha_port_id :: string
  rha_channel_id :: string
  rha_counterparty_channel_id :: string
  rha_counterparty_version :: string
  rha_proof_try :: bytes
  rha_proof_height :: "height option"
  rha_signer :: string

record raw_chan_open_confirm =
  rhc_port_id :: string
  rhc_channel_id :: string
  rhc_proof_ack :: bytes
  rhc_proof_height :: "height option"
  rhc_signer :: string

record raw_chan_close_init =
  rli_port_id :: string
  rli_channel_id :: string
  rli_signer :: string

record raw_chan_close_confirm =
  rlc_port_id :: string
  rlc_channel_id :: string
  rlc_proof_init :: bytes
  rlc_proof_height :: "height option"
  rlc_signer :: string

abbreviation signer04 :: "string \<Rightarrow> (string, ics04_error) res" where
  "signer04 s \<equiv> map_err (\<lambda>_. E04_Malformed E04_Signer) (signer_from_str s)"

abbreviation port04 :: "(nat \<Rightarrow> bool) \<Rightarrow> string \<Rightarrow> (port_id, ics04_error) res" where
  "port04 ua s \<equiv> map_err E04_Identifier (port_id_from_str ua s)"

abbreviation channel04 :: "string \<Rightarrow> (channel_id, ics04_error) res" where
  "channel04 s \<equiv> map_err E04_Identifier (channel_id_from_str s)"

definition chan_open_init_try_from ::
    "(nat \<Rightarrow> bool) \<Rightarrow> raw_chan_open_init \<Rightarrow> (msg_chan_open_init, ics04_error) res" where
  "chan_open_init_try_from ua r =
     bind_res (port04 ua (rhi_port_id r)) (\<lambda>p.
     bind_res (ok_or (rhi_channel r) (E04_Malformed E04_MissingChannel)) (\<lambda>rc.
     bind_res (channel_end_try_from ua rc) (\<lambda>e.
     bind_res (signer04 (rhi_signer r)) (\<lambda>s.
     Inr \<lparr>hoi_port_id = p, hoi_channel = e, hoi_signer = s\<rparr>))))"

definition chan_open_init_into_raw :: "msg_chan_open_init \<Rightarrow> raw_chan_open_init" where
  "chan_open_init_into_raw m =
     \<lparr>rhi_port_id = port_id_str (hoi_port_id m), rhi_channel = Some (channel_end_into_raw (hoi_channel m)),
      rhi_signer = hoi_signer m\<rparr>"

definition chan_open_try_validate_basic :: "msg_chan_open_try \<Rightarrow> (unit, validation_error) res" where
  "chan_open_try_validate_basic m =
     (case cpty_channel_id (chan_remote (hot_channel m)) of
        None \<Rightarrow> fail_with InvalidCounterpartyChannelId
      | Some _ \<Rightarrow> Inr ())"

definition chan_open_try_try_from ::
    "(nat \<Rightarrow> bool) \<Rightarrow> raw_chan_open_try \<Rightarrow> (msg_chan_open_try, ics04_error) res" where
  "chan_open_try_try_from ua r =
     bind_res (object_proofs04 (rht_proof_init r) (rht_proof_height r)) (\<lambda>ps.
     bind_res (port04 ua (rht_port_id r)) (\<lambda>p.
     bind_res (ok_or (rht_channel r) (E04_Malformed E04_MissingChannel)) (\<lambda>rc.
     bind_res (channel_end_try_from ua rc) (\<lambda>e.
     bind_res (signer04 (rht_signer r)) (\<lambda>s.
     let m = \<lparr>hot_port_id = p, hot_channel = e,
              hot_counterparty_version = ChannelVersion (rht_counterparty_version r),
              hot_proofs = ps, hot_signer = s\<rparr>
     in bind_res (map_err (\<lambda>e. E04_Malformed (E04_InvalidCounterpartyChannelId e)) (chan_open_try_validate_basic m))
          (\<lambda>_. Inr m))))))"

definition chan_open_try_into_raw :: "msg_chan_open_try \<Rightarrow> raw_chan_open_try" where
  "chan_open_try_into_raw m =
     \<lparr>rht_port_id = port_id_str (hot_port_id m), rht_channel = Some (channel_end_into_raw (hot_channel m)),
      rht_counterparty_version = channel_version_str (hot_counterparty_version m),
      rht_proof_init = proof_bytes (object_proof (hot_proofs m)),
      rht_proof_height = Some (proof_height (hot_proofs m)), rht_signer = hot_signer m\<rparr>"

definition chan_open_ack_try_from ::
    "(nat \<Rightarrow> bool) \<Rightarrow> raw_chan_open_ack \<Rightarrow> (msg_chan_open_ack, ics04_error) res" where
  "chan_open_ack_try_from ua r =
     bind_res (object_proofs04 (rha_proof_try r) (rha_proof_height r)) (\<lambda>ps.
     bind_res (port04 ua (rha_port_id r)) (\<lambda>p.
     bind_res (channel04 (rha_channel_id r)) (\<lambda>c.
     bind_res (channel04 (rha_counterparty_channel_id r)) (\<lambda>c'.
     bind_res (signer04 (rha_signer r)) (\<lambda>s.
     Inr \<lparr>hoa_port_id = p, hoa_channel_id = c, hoa_counterparty_channel_id = c',
          hoa_counterparty_version = ChannelVersion (rha_counterparty_version r),
          hoa_proofs = ps, hoa_signer = s\<rparr>)))))"

definition chan_open_ack_into_raw :: "msg_chan_open_ack \<Rightarrow> raw_chan_open_ack" where
  "chan_open_ack_into_raw m =
     \<lparr>rha_port_id = port_id_str (hoa_port_id m), rha_channel_id = channel_id_to_string (hoa_channel_id m),
      rha_counterparty_channel_id = channel_id_to_string (hoa_counterparty_channel_id m),
      rha_counterparty_version = channel_version_str (hoa_counterparty_version m),
      rha_proof_try = proof_bytes (object_proof (hoa_proofs m)),
      rha_proof_height = Some (proof_height (hoa_proofs m)), rha_signer = hoa_signer m\<rparr>"

definition chan_open_confirm_try_from ::
    "(nat \<Rightarrow> bool) \<Rightarrow> raw_chan_open_confirm \<Rightarrow> (msg_chan_open_confirm, ics04_error) res" where
  "chan_open_confirm_try_from ua r =
     bind_res (object_proofs04 (rhc_proof_ack r) (rhc_proof_height r)) (\<lambda>ps.
     bind_res (port04 ua (rhc_port_id r)) (\<lambda>p.
     bind_res (channel04 (rhc_channel_id r)) (\<lambda>c.
     bind_res (signer04 (rhc_signer r)) (\<lambda>s.
     Inr \<lparr>hoc_port_id = p, hoc_channel_id = c, hoc_proofs = ps, hoc_signer = s\<rparr>))))"

definition chan_open_confirm_into_raw :: "msg_chan_open_confirm \<Rightarrow> raw_chan_open_confirm" where
  "chan_open_confirm_into_raw m =
     \<lparr>rhc_port_id = port_id_str (hoc_port_id m), rhc_channel_id = channel_id_to_string (hoc_channel_id m),
      rhc_proof_ack = proof_bytes (object_proof (hoc_proofs m)),
      rhc_proof_height = Some (proof_height (hoc_proofs m)), rhc_signer = hoc_signer m\<rparr>"

definition chan_close_init_try_from ::
    "(nat \<Rightarrow> bool) \<Rightarrow> raw_chan_close_init \<Rightarrow> (msg_chan_close_init, ics04_error) res" where
  "chan_close_init_try_from ua r =
     bind_res (port04 ua (rli_port_id r)) (\<lambda>p.
     bind_res (channel04 (rli_channel_id r)) (\<lambda>c.
     bind_res (signer04 (rli_signer r)) (\<lambda>s.
     Inr \<lparr>hci_port_id = p, hci_channel_id = c, hci_signer = s\<rparr>)))"

definition chan_close_init_into_raw :: "msg_chan_close_init \<Rightarrow> raw_chan_close_init" where
  "chan_close_init_into_raw m =
     \<lparr>rli_port_id = port_id_str (hci_port_id m), rli_channel_id = channel_id_to_string (hci_channel_id m),
      rli_signer = hci_signer m\<rparr>"

definition chan_close_confirm_try_from ::
    "(nat \<Rightarrow> bool) \<Rightarrow> raw_chan_close_confirm \<Rightarrow> (msg_chan_close_confirm, ics04_error) res" where
  "chan_close_confirm_try_from ua r =
     bind_res (object_proofs04 (rlc_proof_init r) (rlc_proof_height r)) (\<lambda>ps.
     bind_res (port04 ua (rlc_port_id r)) (\<lambda>p.
     bind_res (channel04 (rlc_channel_id r)) (\<lambda>c.
     bind_res (signer04 (rlc_signer r)) (\<lambda>s.
     Inr \<lparr>hcc_port_id = p, hcc_channel_id = c, hcc_proofs = ps, hcc_signer = s\<rparr>))))"

definition chan_close_confirm_into_raw :: "msg_chan_close_confirm \<Rightarrow> raw_chan_close_confirm" where
  "chan_close_confirm_into_raw m =
     \<lparr>rlc_port_id = port_id_str (hcc_port_id m), rlc_channel_id = channel_id_to_string (hcc_channel_id m),
      rlc_proof_init = proof_bytes (object_proof (hcc_proofs m)),
      rlc_proof_height = Some (proof_height (hcc_proofs m)), rlc_signer = hcc_signer m\<rparr>"

section \<open>Packet messages\<close>

record raw_recv_packet =
  rrp_packet :: "raw_packet option"
  rrp_proof_commitment :: bytes
  rrp_proof_height :: "height option"
  rrp_signer :: string

record raw_acknowledgement =
  rak_packet :: "raw_packet option"
  rak_acknowledgement :: bytes
  rak_proof_acked :: bytes
  rak_proof_height :: "height option"
  rak_signer :: string

record raw_timeout =
  rto_packet :: "raw_packet option"
  rto_proof_unreceived :: bytes
  rto_proof_height :: "height option"
  rto_next_sequence_recv :: u64
  rto_signer :: string

record raw_timeout_on_close =
  rtc_packet :: "raw_packet option"
  rtc_proof_unreceived :: bytes
  rtc_proof_close :: bytes
  rtc_proof_height :: "height option"
  rtc_next_sequence_recv :: u64
  rtc_signer :: string

abbreviation packet04 ::
    "(nat \<Rightarrow> bool) \<Rightarrow> (int \<Rightarrow> bool) \<Rightarrow> raw_packet option \<Rightarrow> (packet, ics04_error) res" where
  "packet04 ua tm r \<equiv> bind_res (ok_or r (E04_Malformed E04_MissingPacket)) (packet_try_from ua tm)"

definition recv_packet_try_from ::
    "(nat \<Rightarrow> bool) \<Rightarrow> (int \<Rightarrow> bool) \<Rightarrow> raw_recv_packet \<Rightarrow> (msg_recv_packet, ics04_error) res" where
  "recv_packet_try_from ua tm r =
     bind_res (object_proofs04 (rrp_proof_commitment r) (rrp_proof_height r)) (\<lambda>ps.
     bind_res (packet04 ua tm (rrp_packet r)) (\<lambda>p.
     bind_res (signer04 (rrp_signer r)) (\<lambda>s.
     Inr \<lparr>mrp_packet = p, mrp_proofs = ps, mrp_signer = s\<rparr>)))"

definition recv_packet_into_raw :: "msg_recv_packet \<Rightarrow> (raw_recv_packet, 'e) res" where
  "recv_packet_into_raw m =
     bind_res (packet_into_raw (mrp_packet m)) (\<lambda>rp.
     Inr \<lparr>rrp_packet = Some rp, rrp_proof_commitment = proof_bytes (object_proof (mrp_proofs m)),
          rrp_proof_height = Some (proof_height (mrp_proofs m)), rrp_signer = mrp_signer m\<rparr>)"

definition acknowledgement_try_from ::
    "(nat \<Rightarrow> bool) \<Rightarrow> (int \<Rightarrow> bool) \<Rightarrow> raw_acknowledgement \<Rightarrow> (msg_acknowledgement, ics04_error) res" where
  "acknowledgement_try_from ua tm r =
     bind_res (object_proofs04 (rak_proof_acked r) (rak_proof_height r)) (\<lambda>ps.
     bind_res (packet04 ua tm (rak_packet r)) (\<lambda>p.
     bind_res (signer04 (rak_signer r)) (\<lambda>s.
     Inr \<lparr>mak_packet = p, mak_acknowledgement = rak_acknowledgement r, mak_proofs = ps, mak_signer = s\<rparr>)))"

definition acknowledgement_into_raw :: "msg_acknowledgement \<Rightarrow> (raw_acknowledgement, 'e) res" where
  "acknowledgement_into_raw m =
     bind_res (packet_into_raw (mak_packet m)) (\<lambda>rp.
     Inr \<lparr>rak_packet = Some rp, rak_acknowledgement = mak_acknowledgement m,
          rak_proof_acked = proof_bytes (object_proof (mak_proofs m)),
          rak_proof_height = Some (proof_height (mak_proofs m)), rak_signer = mak_signer m\<rparr>)"

definition timeout_try_from ::
    "(nat \<Rightarrow> bool) \<Rightarrow> (int \<Rightarrow> bool) \<Rightarrow> raw_timeout \<Rightarrow> (msg_timeout, ics04_error) res" where
  "timeout_try_from ua tm r =
     bind_res (object_proofs04 (rto_proof_unreceived r) (rto_proof_height r)) (\<lambda>ps.
     bind_res (packet04 ua tm (rto_packet r)) (\<lambda>p.
     bind_res (signer04 (rto_signer r)) (\<lambda>s.
     Inr \<lparr>mto_packet = p, mto_next_sequence_recv = rto_next_sequence_recv r, mto_proofs = ps, mto_signer = s\<rparr>)))"

definition timeout_into_raw :: "msg_timeout \<Rightarrow> (raw_timeout, 'e) res" where
  "timeout_into_raw m =
     bind_res (packet_into_raw (mto_packet m)) (\<lambda>rp.
     Inr \<lparr>rto_packet = Some rp, rto_proof_unreceived = proof_bytes (object_proof (mto_proofs m)),
          rto_proof_height = Some (proof_height (mto_proofs m)),
          rto_next_sequence_recv = mto_next_sequence_recv m, rto_signer = mto_signer m\<rparr>)"

definition timeout_on_close_try_from ::
    "(nat \<Rightarrow> bool) \<Rightarrow> (int \<Rightarrow> bool) \<Rightarrow> raw_timeout_on_close \<Rightarrow> (msg_timeout_on_close, ics04_error) res" where
  "timeout_on_close_try_from ua tm r =
     (let bad = (\<lambda>e. E04_Malformed (E04_InvalidProof e)) in
      bind_res (map_err bad (commitment_proof_bytes_try_from (rtc_proof_unreceived r))) (\<lambda>ob.
      bind_res (map_err bad (commitment_proof_bytes_try_from (rtc_proof_close r))) (\<lambda>ot.
      bind_res (ok_or (rtc_proof_height r) (E04_Malformed E04_MissingHeight)) (\<lambda>h.
      bind_res (map_err bad (proofs_new ob None None (Some ot) h)) (\<lambda>ps.
      bind_res (packet04 ua tm (rtc_packet r)) (\<lambda>p.
      bind_res (signer04 (rtc_signer r)) (\<lambda>s.
      Inr \<lparr>mtc_packet = p, mtc_next_sequence_recv = rtc_next_sequence_recv r, mtc_proofs = ps,
           mtc_signer = s\<rparr>)))))))"

definition timeout_on_close_into_raw :: "msg_timeout_on_close \<Rightarrow> (raw_timeout_on_close, 'e) res" where
  "timeout_on_close_into_raw m =
     bind_res (packet_into_raw (mtc_packet m)) (\<lambda>rp.
     Inr \<lparr>rtc_packet = Some rp, rtc_proof_unreceived = proof_bytes (object_proof (mtc_proofs m)),
          rtc_proof_close = opt_proof_bytes (other_proof (mtc_proofs m)),
          rtc_proof_height = Some (proof_height (mtc_proofs m)),
          rtc_next_sequence_recv = mtc_next_sequence_recv m, rtc_signer = mtc_signer m\<rparr>)"

section \<open>Well-formed messages\<close>

definition wf_handshake_proofs :: "proofs \<Rightarrow> bool" where
  "wf_handshake_proofs ps \<longleftrightarrow> wf_proof (object_proof ps) \<and> client_proof ps \<noteq> None
     \<and> pred_option wf_proof (client_proof ps)
     \<and> pred_option (\<lambda>c. wf_proof (cp_proof c) \<and> \<not> is_zero (cp_height c)) (consensus_proof ps)
     \<and> other_proof ps = None \<and> \<not> is_zero (proof_height ps)"

definition wf_close_proofs :: "proofs \<Rightarrow> bool" where
  "wf_close_proofs ps \<longleftrightarrow> wf_proof (object_proof ps) \<and> client_proof ps = None \<and> consensus_proof ps = None
     \<and> other_proof ps \<noteq> None \<and> pred_option wf_proof (other_proof ps) \<and> \<not> is_zero (proof_height ps)"

definition wf_conn_open_init :: "(nat \<Rightarrow> bool) \<Rightarrow> msg_conn_open_init \<Rightarrow> bool" where
  "wf_conn_open_init ua m \<longleftrightarrow> valid_client_id ua (coi_client_id m) \<and> wf_conn_counterparty ua (coi_counterparty m)
     \<and> pred_option wf_version (coi_version m) \<and> coi_delay_period m < 2 ^ 64 \<and> \<not> trim_is_empty (coi_signer m)"

definition wf_conn_open_try :: "(nat \<Rightarrow> bool) \<Rightarrow> 'cs msg_conn_open_try \<Rightarrow> bool" where
  "wf_conn_open_try ua m \<longleftrightarrow> valid_client_id ua (cot_client_id m) \<and> wf_conn_counterparty ua (cot_counterparty m)
     \<and> list_all wf_version (cot_counterparty_versions m) \<and> cot_counterparty_versions m \<noteq> []
     \<and> wf_handshake_proofs (cot_proofs m) \<and> cot_delay_period m < 2 ^ 64 \<and> \<not> trim_is_empty (cot_signer m)"

definition wf_conn_open_ack :: "(nat \<Rightarrow> bool) \<Rightarrow> 'cs msg_conn_open_ack \<Rightarrow> bool" where
  "wf_conn_open_ack ua m \<longleftrightarrow> valid_connection_id ua (coa_connection_id m)
     \<and> valid_connection_id ua (coa_counterparty_connection_id m) \<and> wf_version (coa_version m)
     \<and> wf_handshake_proofs (coa_proofs m) \<and> \<not> trim_is_empty (coa_signer m)"

definition wf_conn_open_confirm :: "(nat \<Rightarrow> bool) \<Rightarrow> msg_conn_open_confirm \<Rightarrow> bool" where
  "wf_conn_open_confirm ua m \<longleftrightarrow> valid_connection_id ua (coc_connection_id m)
     \<and> wf_object_proofs (coc_proofs m) \<and> \<not> trim_is_empty (coc_signer m)"

definition wf_chan_open_init :: "(nat \<Rightarrow> bool) \<Rightarrow> msg_chan_open_init \<Rightarrow> bool" where
  "wf_chan_open_init ua m \<longleftrightarrow> valid_port_id ua (hoi_port_id m) \<and> wf_channel_end ua (hoi_channel m)
     \<and> \<not> trim_is_empty (hoi_signer m)"

definition wf_chan_open_try :: "(nat \<Rightarrow> bool) \<Rightarrow> msg_chan_open_try \<Rightarrow> bool" where
  "wf_chan_open_try ua m \<longleftrightarrow> valid_port_id ua (hot_port_id m) \<and> wf_channel_end ua (hot_channel m)
     \<and> cpty_channel_id (chan_remote (hot_channel m)) \<noteq> None \<and> wf_object_proofs (hot_proofs m)
     \<and> \<not> trim_is_empty (hot_signer m)"

definition wf_chan_open_ack :: "(nat \<Rightarrow> bool) \<Rightarrow> msg_chan_open_ack \<Rightarrow> bool" where
  "wf_chan_open_ack ua m \<longleftrightarrow> valid_port_id ua (hoa_port_id m) \<and> wf_object_proofs (hoa_proofs m)
     \<and> \<not> trim_is_empty (hoa_signer m)"

definition wf_chan_open_confirm :: "(nat \<Rightarrow> bool) \<Rightarrow> msg_chan_open_confirm \<Rightarrow> bool" where
  "wf_chan_open_confirm ua m \<longleftrightarrow> valid_port_id ua (hoc_port_id m) \<and> wf_object_proofs (hoc_proofs m)
     \<and> \<not> trim_is_empty (hoc_signer m)"

definition wf_chan_close_init :: "(nat \<Rightarrow> bool) \<Rightarrow> msg_chan_close_init \<Rightarrow> bool" where
  "wf_chan_close_init ua m \<longleftrightarrow> valid_port_id ua (hci_port_id m) \<and> \<not> trim_is_empty (hci_signer m)"

definition wf_chan_close_confirm :: "(nat \<Rightarrow> bool) \<Rightarrow> msg_chan_close_confirm \<Rightarrow> bool" where
  "wf_chan_close_confirm ua m \<longleftrightarrow> valid_port_id ua (hcc_port_id m) \<and> wf_object_proofs (hcc_proofs m)
     \<and> \<not> trim_is_empty (hcc_signer m)"

definition wf_wire_packet :: "(nat \<Rightarrow> bool) \<Rightarrow> (int \<Rightarrow> bool) \<Rightarrow> packet \<Rightarrow> bool" where
  "wf_wire_packet ua tm p \<longleftrightarrow> wf_packet ua p \<and> pred_option tm (time (timeout_timestamp p))"

definition wf_recv_packet :: "(nat \<Rightarrow> bool) \<Rightarrow> (int \<Rightarrow> bool) \<Rightarrow> msg_recv_packet \<Rightarrow> bool" where
  "wf_recv_packet ua tm m \<longleftrightarrow> wf_wire_packet ua tm (mrp_packet m) \<and> wf_object_proofs (mrp_proofs m)
     \<and> \<not> trim_is_empty (mrp_signer m)"

definition wf_acknowledgement :: "(nat \<Rightarrow> bool) \<Rightarrow> (int \<Rightarrow> bool) \<Rightarrow> msg_acknowledgement \<Rightarrow> bool" where
  "wf_acknowledgement ua tm m \<longleftrightarrow> wf_wire_packet ua tm (mak_packet m) \<and> wf_object_proofs (mak_proofs m)
     \<and> \<not> trim_is_empty (mak_signer m)"

definition wf_timeout :: "(nat \<Rightarrow> bool) \<Rightarrow> (int \<Rightarrow> bool) \<Rightarrow> msg_timeout \<Rightarrow> bool" where
  "wf_timeout ua tm m \<longleftrightarrow> wf_wire_packet ua tm (mto_packet m) \<and> wf_object_proofs (mto_proofs m)
     \<and> \<not> trim_is_empty (mto_signer m)"

definition wf_timeout_on_close :: "(nat \<Rightarrow> bool) \<Rightarrow> (int \<Rightarrow> bool) \<Rightarrow> msg_timeout_on_close \<Rightarrow> bool" where
  "wf_timeout_on_close ua tm m \<longleftrightarrow> wf_wire_packet ua tm (mtc_packet m) \<and> wf_close_proofs (mtc_proofs m)
     \<and> \<not> trim_is_empty (mtc_signer m)"

section \<open>The conversions keep their promises\<close>

lemma object_proofs_roundtrip [simp]:
  assumes "wf_object_proofs ps"
  shows "object_proofs03 (proof_bytes (object_proof ps)) (proof_height ps) = Inr ps"
    and "object_proofs04 (proof_bytes (object_proof ps)) (Some (proof_height ps)) = Inr ps"
  using assms by (simp_all add: object_proofs_ok)

lemma wire_packet_roundtrip:
  assumes "wf_wire_packet ua tm p"
  obtains rp where "packet_into_raw p = (Inr rp :: (_, ics04_error) res)" and "packet_try_from ua tm rp = Inr p"
  using packet_roundtrip [of ua p tm] assms
  by (cases "packet_into_raw p :: (raw_packet, ics04_error) res") (auto simp: wf_wire_packet_def)

lemma wire_packet_decoded: "packet_try_from ua tm r = Inr p \<Longrightarrow> wf_wire_packet ua tm p"
  using packet_try_from_wf [of ua tm r p] by (simp add: wf_wire_packet_def)

lemmas wire_wf_defs = wf_chan_open_init_def wf_chan_open_try_def wf_chan_open_ack_def wf_chan_open_confirm_def
  wf_chan_close_init_def wf_chan_close_confirm_def wf_recv_packet_def wf_acknowledgement_def wf_timeout_def
  wf_conn_open_confirm_def

lemma object_proofs_decoded:
  "object_proofs03 b h' = Inr ps \<Longrightarrow> wf_object_proofs ps"
  "object_proofs04 b h = Inr ps \<Longrightarrow> wf_object_proofs ps"
  by (simp_all add: object_proofs_ok)

lemmas decoded = from_str_valid channel_end_try_from_wf wire_packet_decoded object_proofs_decoded

interpretation chan_init: wire_format "\<lambda>m. Inr (chan_open_init_into_raw m)" "chan_open_init_try_from ua"
    "wf_chan_open_init ua" for ua
  by unfold_locales
    (auto simp: chan_open_init_into_raw_def chan_open_init_try_from_def wire_wf_defs channel_end_roundtrip dest: decoded)

interpretation chan_try: wire_format "\<lambda>m. Inr (chan_open_try_into_raw m)" "chan_open_try_try_from ua"
    "wf_chan_open_try ua" for ua
  by unfold_locales
    (auto simp: chan_open_try_into_raw_def chan_open_try_try_from_def chan_open_try_validate_basic_def wire_wf_defs
      channel_end_roundtrip dest: decoded split: option.splits)

interpretation chan_ack: wire_format "\<lambda>m. Inr (chan_open_ack_into_raw m)" "chan_open_ack_try_from ua"
    "wf_chan_open_ack ua" for ua
  by unfold_locales
    (auto simp: chan_open_ack_into_raw_def chan_open_ack_try_from_def wire_wf_defs dest: decoded)

interpretation chan_confirm: wire_format "\<lambda>m. Inr (chan_open_confirm_into_raw m)" "chan_open_confirm_try_from ua"
    "wf_chan_open_confirm ua" for ua
  by unfold_locales
    (auto simp: chan_open_confirm_into_raw_def chan_open_confirm_try_from_def wire_wf_defs dest: decoded)

interpretation chan_close: wire_format "\<lambda>m. Inr (chan_close_init_into_raw m)" "chan_close_init_try_from ua"
    "wf_chan_close_init ua" for ua
  by unfold_locales
    (auto simp: chan_close_init_into_raw_def chan_close_init_try_from_def wire_wf_defs dest: decoded)

interpretation chan_closed: wire_format "\<lambda>m. Inr (chan_close_confirm_into_raw m)" "chan_close_confirm_try_from ua"
    "wf_chan_close_confirm ua" for ua
  by unfold_locales
    (auto simp: chan_close_confirm_into_raw_def chan_close_confirm_try_from_def wire_wf_defs dest: decoded)

interpretation pkt_recv: wire_format recv_packet_into_raw "recv_packet_try_from ua tm" "wf_recv_packet ua tm" for ua tm
  by unfold_locales
    (auto simp: recv_packet_into_raw_def recv_packet_try_from_def wire_wf_defs
      dest: decoded elim!: wire_packet_roundtrip)

interpretation pkt_ack: wire_format acknowledgement_into_raw "acknowledgement_try_from ua tm"
    "wf_acknowledgement ua tm" for ua tm
  by unfold_locales
    (auto simp: acknowledgement_into_raw_def acknowledgement_try_from_def wire_wf_defs
      dest: decoded elim!: wire_packet_roundtrip)

interpretation pkt_timeout: wire_format timeout_into_raw "timeout_try_from ua tm" "wf_timeout ua tm" for ua tm
  by unfold_locales
    (auto simp: timeout_into_raw_def timeout_try_from_def wire_wf_defs
      dest: decoded elim!: wire_packet_roundtrip)

interpretation conn_confirm: wire_format "\<lambda>m. Inr (conn_open_confirm_into_raw m)" "conn_open_confirm_try_from ua"
    "wf_conn_open_confirm ua" for ua
  by unfold_locales
    (auto simp: conn_open_confirm_into_raw_def conn_open_confirm_try_from_def wire_wf_defs dest: decoded)

lemma conn_counterparty_decoded: "conn_counterparty_try_from ua r = Inr c \<Longrightarrow> wf_conn_counterparty ua c"
  by (auto simp: conn_counterparty_try_from_def wf_conn_counterparty_def commitment_prefix_try_from_def
      dest: from_str_valid split: if_splits)

lemma unat_u64_less: "unat n < 2 ^ 64" for n :: u64
  using unsigned_less [of n] by simp

lemmas unat_u64_bound = unat_u64_less [simplified]

interpretation conn_init: wire_format "\<lambda>m. Inr (conn_open_init_into_raw m)" "conn_open_init_try_from ua"
    "wf_conn_open_init ua" for ua
  by unfold_locales
    (auto simp: conn_open_init_into_raw_def conn_open_init_try_from_def wf_conn_open_init_def transpose_opt_def
      version_try_from_ok conn_counterparty_roundtrip unat_of_nat unat_u64_bound
      dest: decoded conn_counterparty_decoded split: option.splits)

lemma handshake_proofs_roundtrip:
  assumes "wf_handshake_proofs ps"
  obtains cl where "client_proof ps = Some cl"
    and "commitment_proof_bytes_try_from (opt_proof_bytes (client_proof ps)) = Inr cl"
    and "consensus_proof_from_raw (opt_proof_bytes (map_option cp_proof (consensus_proof ps)))
           (map_option cp_height (consensus_proof ps)) = Inr (consensus_proof ps)"
    and "handshake_proofs (proof_bytes (object_proof ps)) cl (consensus_proof ps) (proof_height ps) = Inr ps"
proof -
  obtain cl where cl: "client_proof ps = Some cl" "wf_proof cl"
    using assms by (auto simp: wf_handshake_proofs_def)
  have "consensus_proof_from_raw (opt_proof_bytes (map_option cp_proof (consensus_proof ps)))
          (map_option cp_height (consensus_proof ps)) = Inr (consensus_proof ps)"
    using assms by (cases "consensus_proof ps"; cases "cp_proof (the (consensus_proof ps))")
      (auto simp: commitment_proof_bytes_try_from_def wf_handshake_proofs_def wf_proof_def opt_proof_bytes_def consensus_proof_from_raw_def)
  moreover have "handshake_proofs (proof_bytes (object_proof ps)) cl (consensus_proof ps) (proof_height ps) = Inr ps"
    using assms cl by (cases "object_proof ps") (auto simp: wf_handshake_proofs_def wf_proof_def handshake_proofs_def)
  ultimately show ?thesis
    using that cl by (cases cl) (auto simp: opt_proof_bytes_def wf_proof_def)
qed

lemma handshake_proofs_decoded:
  assumes "consensus_proof_from_raw b hc = Inr cons" and "commitment_proof_bytes_try_from bc = Inr cl"
    and "handshake_proofs bo cl cons h = Inr ps"
  shows "wf_handshake_proofs ps"
  using assms by (auto simp: consensus_proof_from_raw_def handshake_proofs_def wf_handshake_proofs_def wf_proof_def
      split: option.splits)

interpretation pkt_close: wire_format timeout_on_close_into_raw "timeout_on_close_try_from ua tm"
    "wf_timeout_on_close ua tm" for ua tm
proof (unfold_locales, goal_cases)
  case (1 m)
  then have wf: "wf_wire_packet ua tm (mtc_packet m)" "wf_close_proofs (mtc_proofs m)" "\<not> trim_is_empty (mtc_signer m)"
    by (simp_all add: wf_timeout_on_close_def)
  obtain rp where rp: "packet_into_raw (mtc_packet m) = (Inr rp :: (_, ics04_error) res)"
      "packet_try_from ua tm rp = Inr (mtc_packet m)"
    using wf(1) by (rule wire_packet_roundtrip)
  obtain ot where ot: "other_proof (mtc_proofs m) = Some ot" "proof_bytes ot \<noteq> []"
    using wf(2) by (auto simp: wf_close_proofs_def wf_proof_def)
  with wf rp show ?case
    by (simp add: timeout_on_close_into_raw_def timeout_on_close_try_from_def wf_close_proofs_def wf_proof_def
        opt_proof_bytes_def Let_def)
next
  case (2 r m)
  then show ?case
    by (auto simp: Let_def timeout_on_close_try_from_def wf_timeout_on_close_def wf_close_proofs_def wf_proof_def
        dest: wire_packet_decoded)
qed

text \<open>The messages that carry a client state rest on the conversions of the light clients.\<close>

definition codec_inverts :: "'a any_codec \<Rightarrow> 'a \<Rightarrow> bool" where
  "codec_inverts K c \<longleftrightarrow> from_any K (into_any K c) = Inr c"

lemma versions_roundtrip: "list_all wf_version vs \<Longrightarrow> collect_res (map version_try_from vs) = Inr vs"
  by (intro collect_res_ok) (auto simp: list_all_iff version_try_from_ok)

lemma client_state_roundtrip:
  "pred_option (codec_inverts K) st \<Longrightarrow> transpose_opt (from_any K) (map_option (into_any K) st) = Inr st"
  by (cases st) (simp_all add: transpose_opt_def codec_inverts_def)

interpretation conn_try: wire_encoding "\<lambda>m. Inr (conn_open_try_into_raw K m)" "conn_open_try_try_from ua K"
    "\<lambda>m. wf_conn_open_try ua m \<and> pred_option (codec_inverts K) (cot_client_state m)" for ua K
proof (unfold_locales, goal_cases)
  case (1 m)
  then have wf: "wf_handshake_proofs (cot_proofs m)" "pred_option (codec_inverts K) (cot_client_state m)"
    by (simp_all add: wf_conn_open_try_def)
  from wf(1) show ?case
    by (rule handshake_proofs_roundtrip)
      (use 1 in \<open>simp add: conn_open_try_into_raw_def conn_open_try_try_from_def wf_conn_open_try_def
        versions_roundtrip client_state_roundtrip conn_counterparty_roundtrip unat_of_nat\<close>)
qed

interpretation conn_ack: wire_encoding "\<lambda>m. Inr (conn_open_ack_into_raw K m)" "conn_open_ack_try_from ua K"
    "\<lambda>m. wf_conn_open_ack ua m \<and> pred_option (codec_inverts K) (coa_client_state m)" for ua K
proof (unfold_locales, goal_cases)
  case (1 m)
  then have wf: "wf_handshake_proofs (coa_proofs m)"
    by (simp add: wf_conn_open_ack_def)
  from wf show ?case
    by (rule handshake_proofs_roundtrip)
      (use 1 in \<open>simp add: conn_open_ack_into_raw_def conn_open_ack_try_from_def wf_conn_open_ack_def
        version_try_from_ok client_state_roundtrip\<close>)
qed

lemma versions_decoded: "collect_res (map version_try_from ws) = Inr vs \<Longrightarrow> list_all wf_version vs"
  by (induction ws arbitrary: vs) (auto simp: version_try_from_ok)

lemma conn_open_try_decoded: "conn_open_try_try_from ua K r = Inr m \<Longrightarrow> wf_conn_open_try ua m"
  by (auto simp: conn_open_try_try_from_def wf_conn_open_try_def unat_u64_bound
      dest: decoded conn_counterparty_decoded versions_decoded
      intro: handshake_proofs_decoded split: if_splits)

lemma conn_open_ack_decoded: "conn_open_ack_try_from ua K r = Inr m \<Longrightarrow> wf_conn_open_ack ua m"
  by (auto simp: conn_open_ack_try_from_def wf_conn_open_ack_def version_try_from_ok
      dest: decoded intro: handshake_proofs_decoded)

interpretation client_create: wire_encoding "\<lambda>m. Inr (create_client_into_raw K C m)" "create_client_try_from K C"
    "\<lambda>m. codec_inverts K (create_client_state m) \<and> codec_inverts C (create_consensus_state m)
       \<and> \<not> trim_is_empty (create_signer m)" for K C
  by unfold_locales (auto simp: create_client_into_raw_def create_client_try_from_def codec_inverts_def)

interpretation client_update: wire_encoding "\<lambda>m. Inr (update_client_into_raw N m)" "update_client_try_from ua N"
    "\<lambda>m. valid_client_id ua (update_client_id m) \<and> codec_inverts N (update_client_message m)
       \<and> \<not> trim_is_empty (update_signer m)" for ua N
  by unfold_locales (auto simp: update_client_into_raw_def update_client_try_from_def codec_inverts_def)

interpretation client_upgrade: wire_encoding "\<lambda>m. Inr (upgrade_client_into_raw K C m)"
    "upgrade_client_try_from ua K C"
    "\<lambda>m. valid_client_id ua (upgrade_client_id m) \<and> codec_inverts K (upgrade_client_state m)
       \<and> codec_inverts C (upgrade_consensus_state m) \<and> \<not> trim_is_empty (upgrade_signer m)" for ua K C
  by unfold_locales (auto simp: upgrade_client_into_raw_def upgrade_client_try_from_def codec_inverts_def)

end
