(* ===== verification/Transfer_Denom.thy ===== *)
theory Transfer_Denom
  imports Wire_Msgs
begin

text \<open>
  The data of the ICS20 token transfer application: errors (\<^verbatim>\<open>applications/transfer/error.rs\<close>),
  denominations with their trace paths, amounts and coins (\<^verbatim>\<open>denom.rs\<close>), the data of a transfer packet
  (\<^verbatim>\<open>packet.rs\<close>), acknowledgements (\<^verbatim>\<open>acknowledgement.rs\<close>) and the transfer message (\<^verbatim>\<open>msgs/transfer.rs\<close>).
  The lemmas show that printed denominations can be read back, so that different denominations have different
  names, and that a token which returns over the channel it came by has its first denomination again.
\<close>

section \<open>Errors\<close>

type_synonym u128 = "128 word"
type_synonym u256 = "256 word"

datatype ics20_error =
    E20_UnknowMessageTypeUrl string
  | E20_Ics04Channel ics04_error
  | E20_DestinationChannelNotFound port_id channel_id
  | E20_InvalidPortId string validation_error
  | E20_InvalidChannelId string validation_error
  | E20_InvalidPacketTimeoutHeight string
  | E20_InvalidPacketTimeoutTimestamp u64
  | E20_Utf8
  | E20_EmptyBaseDenom
  | E20_InvalidTracePortId nat validation_error
  | E20_InvalidTraceChannelId nat validation_error
  | E20_InvalidTraceLength nat
  | E20_InvalidAmount
  | E20_InvalidToken
  | E20_TokenBalanceChange
  | E20_Signer signer_error
  | E20_MissingDenomIbcPrefix
  | E20_MalformedHashDenom
  | E20_ParseHex
  | E20_ChanSeqExceedsLimit u64
  | E20_ChannelNotUnordered order
  | E20_InvalidVersion channel_version
  | E20_InvalidCounterpartyVersion channel_version
  | E20_CantCloseChannel
  | E20_PacketDataDeserialization
  | E20_AckDeserialization
  | E20_ReceiveDisabled
  | E20_SendDisabled
  | E20_ParseAccountFailure
  | E20_InvalidPort port_id port_id
  | E20_TraceNotFound
  | E20_DecodeRawMsg
  | E20_UnknownMsgType string
  | E20_ImplementationSpecific string

section \<open>Denominations\<close>

datatype base_denom = BaseDenom (base_denom_str: string)

definition base_denom_from_str :: "string \<Rightarrow> (base_denom, ics20_error) res" where
  "base_denom_from_str s = (if trim_is_empty s then fail_with E20_EmptyBaseDenom else Inr (BaseDenom s))"

record trace_prefix =
  tp_port_id :: port_id
  tp_channel_id :: channel_id

definition trace_prefix_new :: "port_id \<Rightarrow> channel_id \<Rightarrow> trace_prefix" where
  "trace_prefix_new p c = \<lparr>tp_port_id = p, tp_channel_id = c\<rparr>"

definition trace_prefix_to_string :: "trace_prefix \<Rightarrow> string" where
  "trace_prefix_to_string t = port_id_to_string (tp_port_id t) @ ''/'' @ channel_id_to_string (tp_channel_id t)"

text \<open>The vector of a trace path is reversed: the first prefix of the printed path is the last of the vector.\<close>

datatype trace_path = TracePath (trace_vec: "trace_prefix list")

definition trace_path_default :: trace_path where
  "trace_path_default = TracePath []"

definition starts_with :: "trace_path \<Rightarrow> trace_prefix \<Rightarrow> bool" where
  "starts_with t p \<longleftrightarrow> (if trace_vec t = [] then False else last (trace_vec t) = p)"

definition remove_prefix :: "trace_prefix \<Rightarrow> trace_path \<Rightarrow> trace_path" where
  "remove_prefix p t = (if starts_with t p then TracePath (butlast (trace_vec t)) else t)"

definition add_prefix :: "trace_prefix \<Rightarrow> trace_path \<Rightarrow> trace_path" where
  "add_prefix p t = TracePath (trace_vec t @ [p])"

definition trace_path_is_empty :: "trace_path \<Rightarrow> bool" where
  "trace_path_is_empty t \<longleftrightarrow> trace_vec t = []"

text \<open>\<^verbatim>\<open>chunks_exact(2)\<close>: a last part without partner is left out.\<close>

fun id_pairs :: "string list \<Rightarrow> (string \<times> string) list" where
  "id_pairs (p # c # ps) = (p, c) # id_pairs ps"
| "id_pairs _ = []"

fun trace_prefixes ::
    "(nat \<Rightarrow> bool) \<Rightarrow> nat \<Rightarrow> (string \<times> string) list \<Rightarrow> (trace_prefix list, ics20_error) res" where
  "trace_prefixes ua pos [] = Inr []"
| "trace_prefixes ua pos ((p, c) # ps) =
     bind_res (map_err (E20_InvalidTracePortId pos) (port_id_from_str ua p)) (\<lambda>port.
     bind_res (map_err (E20_InvalidTraceChannelId pos) (channel_id_from_str c)) (\<lambda>channel.
     bind_res (trace_prefixes ua (Suc pos) ps) (\<lambda>trace.
     Inr (\<lparr>tp_port_id = port, tp_channel_id = channel\<rparr> # trace))))"

definition trace_path_try_from :: "(nat \<Rightarrow> bool) \<Rightarrow> string list \<Rightarrow> (trace_path, ics20_error) res" where
  "trace_path_try_from ua v =
     (if length v mod 2 \<noteq> 0 then fail_with (E20_InvalidTraceLength (length v))
      else bind_res (trace_prefixes ua 0 (rev (id_pairs v))) (\<lambda>trace. Inr (TracePath trace)))"

definition trace_path_from_str :: "(nat \<Rightarrow> bool) \<Rightarrow> string \<Rightarrow> (trace_path, ics20_error) res" where
  "trace_path_from_str ua s =
     (let parts = split_on CHR ''/'' s in
      trace_path_try_from ua (if length parts = 1 \<and> trim_is_empty (hd parts) then [] else parts))"

definition trace_path_to_string :: "trace_path \<Rightarrow> string" where
  "trace_path_to_string t = join_with CHR ''/'' (map trace_prefix_to_string (rev (trace_vec t)))"

record prefixed_denom =
  trace_path :: trace_path
  base_denom :: base_denom

definition remove_trace_prefix :: "trace_prefix \<Rightarrow> prefixed_denom \<Rightarrow> prefixed_denom" where
  "remove_trace_prefix p d = d\<lparr>trace_path := remove_prefix p (trace_path d)\<rparr>"

definition add_trace_prefix :: "trace_prefix \<Rightarrow> prefixed_denom \<Rightarrow> prefixed_denom" where
  "add_trace_prefix p d = d\<lparr>trace_path := add_prefix p (trace_path d)\<rparr>"

definition is_receiver_chain_source :: "port_id \<Rightarrow> channel_id \<Rightarrow> prefixed_denom \<Rightarrow> bool" where
  "is_receiver_chain_source p c d = starts_with (trace_path d) (trace_prefix_new p c)"

definition is_sender_chain_source :: "port_id \<Rightarrow> channel_id \<Rightarrow> prefixed_denom \<Rightarrow> bool" where
  "is_sender_chain_source p c d \<longleftrightarrow> \<not> is_receiver_chain_source p c d"

definition prefixed_denom_from_str :: "(nat \<Rightarrow> bool) \<Rightarrow> string \<Rightarrow> (prefixed_denom, ics20_error) res" where
  "prefixed_denom_from_str ua s =
     (let parts = split_on CHR ''/'' s; last_part = last parts; parts = butlast parts in
      if last_part = s
      then bind_res (base_denom_from_str s) (\<lambda>b. Inr \<lparr>trace_path = trace_path_default, base_denom = b\<rparr>)
      else
        bind_res (base_denom_from_str last_part) (\<lambda>b.
        bind_res (trace_path_try_from ua parts) (\<lambda>t. Inr \<lparr>trace_path = t, base_denom = b\<rparr>)))"

definition prefixed_denom_to_string :: "prefixed_denom \<Rightarrow> string" where
  "prefixed_denom_to_string d =
     (if trace_path_is_empty (trace_path d) then base_denom_str (base_denom d)
      else trace_path_to_string (trace_path d) @ ''/'' @ base_denom_str (base_denom d))"

record raw_denom_trace =
  raw_path :: string
  raw_base_denom :: string

definition prefixed_denom_try_from_raw :: "(nat \<Rightarrow> bool) \<Rightarrow> raw_denom_trace \<Rightarrow> (prefixed_denom, ics20_error) res" where
  "prefixed_denom_try_from_raw ua r =
     bind_res (base_denom_from_str (raw_base_denom r)) (\<lambda>b.
     bind_res (trace_path_from_str ua (raw_path r)) (\<lambda>t.
     Inr \<lparr>trace_path = t, base_denom = b\<rparr>))"

definition prefixed_denom_into_raw :: "prefixed_denom \<Rightarrow> raw_denom_trace" where
  "prefixed_denom_into_raw d =
     \<lparr>raw_path = trace_path_to_string (trace_path d), raw_base_denom = base_denom_str (base_denom d)\<rparr>"

text \<open>The denominations that their \<^verbatim>\<open>from_str\<close> returns.\<close>

definition wf_denom :: "(nat \<Rightarrow> bool) \<Rightarrow> prefixed_denom \<Rightarrow> bool" where
  "wf_denom ua d \<longleftrightarrow> list_all (\<lambda>t. valid_port_id ua (tp_port_id t)) (trace_vec (trace_path d))
     \<and> \<not> trim_is_empty (base_denom_str (base_denom d)) \<and> CHR ''/'' \<notin> set (base_denom_str (base_denom d))"

section \<open>Trace prefixes\<close>

lemma prefix_laws [simp]:
  "starts_with (add_prefix p t) p"
  "remove_prefix p (add_prefix p t) = t"
  "starts_with t p \<Longrightarrow> add_prefix p (remove_prefix p t) = t"
  "\<not> starts_with t p \<Longrightarrow> remove_prefix p t = t"
  by (cases t; auto simp: starts_with_def add_prefix_def remove_prefix_def)+

lemma denom_prefix_laws [simp]:
  "is_receiver_chain_source p c (add_trace_prefix (trace_prefix_new p c) d)"
  "remove_trace_prefix x (add_trace_prefix x d) = d"
  "is_receiver_chain_source p c d \<Longrightarrow> add_trace_prefix (trace_prefix_new p c) (remove_trace_prefix (trace_prefix_new p c) d) = d"
  by (simp_all add: is_receiver_chain_source_def add_trace_prefix_def remove_trace_prefix_def)

lemma wf_denom_prefixes:
  "wf_denom ua (add_trace_prefix x d) \<longleftrightarrow> valid_port_id ua (tp_port_id x) \<and> wf_denom ua d"
  "wf_denom ua d \<Longrightarrow> wf_denom ua (remove_trace_prefix x d)"
  by (auto simp: wf_denom_def add_trace_prefix_def remove_trace_prefix_def add_prefix_def remove_prefix_def
      list_all_iff dest: in_set_butlastD)

section \<open>Printing and parsing\<close>

definition trace_parts :: "trace_prefix list \<Rightarrow> string list" where
  "trace_parts ts = concat (map (\<lambda>t. [port_id_str (tp_port_id t), channel_id_to_string (tp_channel_id t)]) ts)"

lemma trace_parts_simps [simp]:
  "trace_parts [] = []"
  "trace_parts (t # ts) = port_id_str (tp_port_id t) # channel_id_to_string (tp_channel_id t) # trace_parts ts"
  by (simp_all add: trace_parts_def)

lemma id_pairs_parts:
  "id_pairs (trace_parts ts) = map (\<lambda>t. (port_id_str (tp_port_id t), channel_id_to_string (tp_channel_id t))) ts"
  by (induction ts) simp_all

lemma trace_parts_length: "length (trace_parts ts) = 2 * length ts"
  by (induction ts) simp_all

lemma trace_parts_fresh:
  assumes "list_all (\<lambda>t. valid_port_id ua (tp_port_id t)) ts" and "p \<in> set (trace_parts ts)"
  shows "CHR ''/'' \<notin> set p"
  using assms by (induction ts) (auto simp: valid_id_no_separator(3))

lemma join_prefixes:
  assumes "ts \<noteq> []"
  shows "join_with CHR ''/'' (map trace_prefix_to_string ts) = join_with CHR ''/'' (trace_parts ts)"
  using assms
proof (induction ts)
  case (Cons t ts)
  then show ?case
    by (cases ts) (simp_all add: trace_prefix_to_string_def port_id_to_string_def)
qed simp

lemma trace_prefixes_parts:
  "list_all (\<lambda>t. valid_port_id ua (tp_port_id t)) ts \<Longrightarrow>
     trace_prefixes ua n (map (\<lambda>t. (port_id_str (tp_port_id t), channel_id_to_string (tp_channel_id t))) ts) = Inr ts"
  by (induction ts arbitrary: n) simp_all

lemma trace_path_parts:
  assumes "list_all (\<lambda>t. valid_port_id ua (tp_port_id t)) ts"
  shows "trace_path_try_from ua (trace_parts (rev ts)) = Inr (TracePath ts)"
  using trace_prefixes_parts [OF assms]
  by (simp add: trace_path_try_from_def trace_parts_length id_pairs_parts rev_map [symmetric])

lemma denom_display:
  "prefixed_denom_to_string d = join_with CHR ''/'' (trace_parts (rev (trace_vec (trace_path d))) @ [base_denom_str (base_denom d)])"
proof (cases "trace_vec (trace_path d)" rule: rev_cases)
  case Nil
  then show ?thesis by (simp add: prefixed_denom_to_string_def trace_path_is_empty_def)
next
  case (snoc ts t)
  have join: "xs \<noteq> [] \<Longrightarrow> join_with c (xs @ [x]) = join_with c xs @ c # x" for c xs x
    by (induction c xs rule: join_with.induct) simp_all
  from snoc have "trace_path_to_string (trace_path d) = join_with CHR ''/'' (trace_parts (rev (trace_vec (trace_path d))))"
    unfolding trace_path_to_string_def by (intro join_prefixes) simp
  with snoc show ?thesis
    by (simp add: prefixed_denom_to_string_def trace_path_is_empty_def join [of "trace_parts (t # rev ts)", simplified])
qed

lemma denom_split:
  assumes "wf_denom ua d"
  shows "split_on CHR ''/'' (prefixed_denom_to_string d)
     = trace_parts (rev (trace_vec (trace_path d))) @ [base_denom_str (base_denom d)]"
  unfolding denom_display
  by (rule split_on_join) (use assms trace_parts_fresh [of ua "rev (trace_vec (trace_path d))"] in \<open>auto simp: wf_denom_def\<close>)

lemma denom_print_parse:
  assumes "wf_denom ua d"
  shows "prefixed_denom_from_str ua (prefixed_denom_to_string d) = Inr d"
proof (cases "trace_vec (trace_path d)")
  case Nil
  with assms show ?thesis
    by (cases d; cases "trace_path d"; cases "base_denom d")
      (simp add: prefixed_denom_from_str_def denom_display base_denom_from_str_def wf_denom_def trace_path_default_def)
next
  case (Cons t ts)
  have ne: "base_denom_str (base_denom d) \<noteq> prefixed_denom_to_string d"
  proof
    assume "base_denom_str (base_denom d) = prefixed_denom_to_string d"
    then have "split_on CHR ''/'' (prefixed_denom_to_string d) = [base_denom_str (base_denom d)]"
      using assms by (metis split_on_fresh wf_denom_def)
    with denom_split [OF assms] Cons show False by (simp add: trace_parts_def)
  qed
  have "trace_path_try_from ua (trace_parts (rev (trace_vec (trace_path d)))) = Inr (trace_path d)"
    using assms trace_path_parts by (cases "trace_path d") (simp add: wf_denom_def)
  with ne assms show ?thesis
    by (cases "base_denom d")
      (simp add: prefixed_denom_from_str_def denom_split [OF assms] Let_def base_denom_from_str_def wf_denom_def)
qed

lemma trace_prefixes_valid:
  "trace_prefixes ua n ps = Inr ts \<Longrightarrow> list_all (\<lambda>t. valid_port_id ua (tp_port_id t)) ts"
  by (induction ua n ps arbitrary: ts rule: trace_prefixes.induct) (auto dest: from_str_valid(3))

lemma denom_from_str_wf:
  assumes "prefixed_denom_from_str ua s = Inr d"
  shows "wf_denom ua d"
proof -
  have "CHR ''/'' \<notin> set (last (split_on CHR ''/'' s))"
    using split_on_pieces last_in_set split_on_not_Nil by blast
  with assms show ?thesis
    by (auto simp: prefixed_denom_from_str_def Let_def base_denom_from_str_def wf_denom_def trace_path_default_def
        trace_path_try_from_def trace_prefixes_valid split: if_splits)
qed

lemma denom_display_inj:
  assumes "wf_denom ua d" and "wf_denom ua e" and "prefixed_denom_to_string d = prefixed_denom_to_string e"
  shows "d = e"
proof -
  have "(Inr d :: (_, ics20_error) res) = Inr e"
    by (simp only: denom_print_parse [OF assms(1), symmetric] denom_print_parse [OF assms(2), symmetric] assms(3))
  then show ?thesis by (simp only: sum.inject)
qed

end
