(* ===== verification/Transfer_Msgs.thy ===== *)
theory Transfer_Msgs
  imports Transfer_Denom
begin

text \<open>
  Amounts and coins (\<^verbatim>\<open>applications/transfer/denom.rs\<close>), the data of a transfer packet (\<^verbatim>\<open>packet.rs\<close>),
  acknowledgements (\<^verbatim>\<open>acknowledgement.rs\<close>) and the transfer message (\<^verbatim>\<open>msgs/transfer.rs\<close>) with their raw
  forms. The decimal text of a 256-bit number (crate \<^verbatim>\<open>primitive_types\<close>) is a parameter.
\<close>

section \<open>Amounts and coins\<close>

record u256_text =
  u256_from_dec :: "string \<Rightarrow> u256 option"
  u256_to_dec :: "u256 \<Rightarrow> string"

datatype amount = Amount (as_u256: u256)

definition amount_checked_add :: "amount \<Rightarrow> amount \<Rightarrow> amount option" where
  "amount_checked_add a b = map_option Amount (checked_add (as_u256 a) (as_u256 b))"

definition amount_checked_sub :: "amount \<Rightarrow> amount \<Rightarrow> amount option" where
  "amount_checked_sub a b = map_option Amount (checked_sub (as_u256 a) (as_u256 b))"

definition amount_from_str :: "u256_text \<Rightarrow> string \<Rightarrow> (amount, ics20_error) res" where
  "amount_from_str T s = bind_res (ok_or (u256_from_dec T s) E20_InvalidAmount) (\<lambda>n. Inr (Amount n))"

definition amount_to_string :: "u256_text \<Rightarrow> amount \<Rightarrow> string" where
  "amount_to_string T a = u256_to_dec T (as_u256 a)"

text \<open>\<^verbatim>\<open>U256::as_u128\<close> panics on a number that needs more than 128 bits, \<^verbatim>\<open>low_u128\<close> cuts it.\<close>

definition as_u128 :: "u256 \<Rightarrow> (u128, 'e) res" where
  "as_u128 n = (if unat n < 2 ^ 128 then Inr (ucast n) else panics)"

definition low_u128 :: "u256 \<Rightarrow> u128" where
  "low_u128 n = ucast n"

record prefixed_coin =
  coin_denom :: prefixed_denom
  coin_amount :: amount

record raw_coin =
  raw_coin_denom :: string
  raw_coin_amount :: string

definition coin_try_from :: "(nat \<Rightarrow> bool) \<Rightarrow> u256_text \<Rightarrow> raw_coin \<Rightarrow> (prefixed_coin, ics20_error) res" where
  "coin_try_from ua T r =
     bind_res (prefixed_denom_from_str ua (raw_coin_denom r)) (\<lambda>d.
     bind_res (amount_from_str T (raw_coin_amount r)) (\<lambda>a.
     Inr \<lparr>coin_denom = d, coin_amount = a\<rparr>))"

definition coin_into_raw :: "u256_text \<Rightarrow> prefixed_coin \<Rightarrow> raw_coin" where
  "coin_into_raw T c =
     \<lparr>raw_coin_denom = prefixed_denom_to_string (coin_denom c), raw_coin_amount = amount_to_string T (coin_amount c)\<rparr>"

definition coin_to_string :: "u256_text \<Rightarrow> prefixed_coin \<Rightarrow> string" where
  "coin_to_string T c = amount_to_string T (coin_amount c) @ ''-'' @ prefixed_denom_to_string (coin_denom c)"

section \<open>Packet data\<close>

record transfer_data =
  td_token :: prefixed_coin
  td_sender :: string
  td_receiver :: string
  td_memo :: string

record raw_transfer_data =
  rtd_denom :: string
  rtd_amount :: string
  rtd_sender :: string
  rtd_receiver :: string
  rtd_memo :: string

definition transfer_data_try_from ::
    "(nat \<Rightarrow> bool) \<Rightarrow> u256_text \<Rightarrow> raw_transfer_data \<Rightarrow> (transfer_data, ics20_error) res" where
  "transfer_data_try_from ua T r =
     bind_res (prefixed_denom_from_str ua (rtd_denom r)) (\<lambda>d.
     bind_res (amount_from_str T (rtd_amount r)) (\<lambda>a.
     bind_res (map_err E20_Signer (signer_from_str (rtd_sender r))) (\<lambda>se.
     bind_res (map_err E20_Signer (signer_from_str (rtd_receiver r))) (\<lambda>re.
     Inr \<lparr>td_token = \<lparr>coin_denom = d, coin_amount = a\<rparr>, td_sender = se, td_receiver = re, td_memo = rtd_memo r\<rparr>))))"

definition transfer_data_into_raw :: "u256_text \<Rightarrow> transfer_data \<Rightarrow> raw_transfer_data" where
  "transfer_data_into_raw T d =
     \<lparr>rtd_denom = prefixed_denom_to_string (coin_denom (td_token d)),
      rtd_amount = amount_to_string T (coin_amount (td_token d)),
      rtd_sender = td_sender d, rtd_receiver = td_receiver d, rtd_memo = td_memo d\<rparr>"

section \<open>Acknowledgements\<close>

definition ACK_ERR_STR :: string where
  "ACK_ERR_STR = ''error handling packet on destination chain: see events for details''"

definition ACK_SUCCESS_B64 :: string where
  "ACK_SUCCESS_B64 = ''AQ==''"

datatype transfer_ack = AckResult string | AckError string

definition ack_success :: transfer_ack where
  "ack_success = AckResult ACK_SUCCESS_B64"

definition ack_from_error :: "(ics20_error \<Rightarrow> string) \<Rightarrow> ics20_error \<Rightarrow> transfer_ack" where
  "ack_from_error show_error e = AckError (show_error e)"

fun ack_is_successful :: "transfer_ack \<Rightarrow> bool" where
  "ack_is_successful (AckError _) = False"
| "ack_is_successful (AckResult _) = True"

fun ack_into_result :: "transfer_ack \<Rightarrow> (string, string) res" where
  "ack_into_result (AckResult r) = Inr r"
| "ack_into_result (AckError e) = fail_with e"

section \<open>The transfer message\<close>

definition TRANSFER_URL :: string where
  "TRANSFER_URL = ''/ibc.applications.transfer.v1.MsgTransfer''"

record msg_transfer =
  mt_source_port :: port_id
  mt_source_channel :: channel_id
  mt_token :: prefixed_coin
  mt_sender :: string
  mt_receiver :: string
  mt_timeout_height :: height
  mt_timeout_timestamp :: timestamp
  mt_memo :: string

record raw_msg_transfer =
  rmt_source_port :: string
  rmt_source_channel :: string
  rmt_token :: "raw_coin option"
  rmt_sender :: string
  rmt_receiver :: string
  rmt_timeout_height :: "height option"
  rmt_timeout_timestamp :: u64
  rmt_memo :: string

definition msg_transfer_try_from ::
    "(nat \<Rightarrow> bool) \<Rightarrow> (int \<Rightarrow> bool) \<Rightarrow> u256_text \<Rightarrow> raw_msg_transfer \<Rightarrow> (msg_transfer, ics20_error) res" where
  "msg_transfer_try_from ua tm T r =
     bind_res (map_err (\<lambda>_. E20_InvalidPacketTimeoutTimestamp (rmt_timeout_timestamp r))
       (from_nanoseconds tm (rmt_timeout_timestamp r))) (\<lambda>ts.
     (let h = (case rmt_timeout_height r of None \<Rightarrow> height_zero | Some h \<Rightarrow> h) in
     bind_res (map_err (E20_InvalidPortId (rmt_source_port r)) (port_id_from_str ua (rmt_source_port r))) (\<lambda>p.
     bind_res (map_err (E20_InvalidChannelId (rmt_source_channel r)) (channel_id_from_str (rmt_source_channel r))) (\<lambda>c.
     bind_res (ok_or (rmt_token r) E20_InvalidToken) (\<lambda>raw_token.
     bind_res (coin_try_from ua T raw_token) (\<lambda>token.
     bind_res (map_err E20_Signer (signer_from_str (rmt_sender r))) (\<lambda>se.
     bind_res (map_err E20_Signer (signer_from_str (rmt_receiver r))) (\<lambda>re.
     Inr \<lparr>mt_source_port = p, mt_source_channel = c, mt_token = token, mt_sender = se, mt_receiver = re,
          mt_timeout_height = h, mt_timeout_timestamp = ts, mt_memo = rmt_memo r\<rparr>))))))))"

definition msg_transfer_into_raw :: "u256_text \<Rightarrow> msg_transfer \<Rightarrow> (raw_msg_transfer, 'e) res" where
  "msg_transfer_into_raw T m =
     bind_res (nanoseconds (mt_timeout_timestamp m)) (\<lambda>ns.
     Inr \<lparr>rmt_source_port = port_id_str (mt_source_port m),
          rmt_source_channel = channel_id_to_string (mt_source_channel m),
          rmt_token = Some (coin_into_raw T (mt_token m)), rmt_sender = mt_sender m, rmt_receiver = mt_receiver m,
          rmt_timeout_height = Some (mt_timeout_height m), rmt_timeout_timestamp = ns, rmt_memo = mt_memo m\<rparr>)"

section \<open>The conversions keep their promises\<close>

definition dec_inverts :: "u256_text \<Rightarrow> amount \<Rightarrow> bool" where
  "dec_inverts T a \<longleftrightarrow> u256_from_dec T (u256_to_dec T (as_u256 a)) = Some (as_u256 a)"

definition wf_coin :: "(nat \<Rightarrow> bool) \<Rightarrow> u256_text \<Rightarrow> prefixed_coin \<Rightarrow> bool" where
  "wf_coin ua T c \<longleftrightarrow> wf_denom ua (coin_denom c) \<and> dec_inverts T (coin_amount c)"

definition wf_msg_transfer :: "(nat \<Rightarrow> bool) \<Rightarrow> (int \<Rightarrow> bool) \<Rightarrow> u256_text \<Rightarrow> msg_transfer \<Rightarrow> bool" where
  "wf_msg_transfer ua tm T m \<longleftrightarrow> valid_port_id ua (mt_source_port m) \<and> wf_coin ua T (mt_token m)
     \<and> \<not> trim_is_empty (mt_sender m) \<and> \<not> trim_is_empty (mt_receiver m)
     \<and> pred_option (\<lambda>t. 0 < t \<and> t < 2 ^ 64 \<and> tm t) (time (mt_timeout_timestamp m))"

lemma amount_roundtrip [simp]: "dec_inverts T a \<Longrightarrow> amount_from_str T (amount_to_string T a) = Inr a"
  by (cases a) (simp add: dec_inverts_def amount_from_str_def amount_to_string_def)

interpretation raw_coin: wire_encoding "\<lambda>c. Inr (coin_into_raw T c)" "coin_try_from ua T" "wf_coin ua T" for ua T
  by unfold_locales (simp add: coin_into_raw_def coin_try_from_def wf_coin_def denom_print_parse)

interpretation raw_packet_data: wire_encoding "\<lambda>d. Inr (transfer_data_into_raw T d)" "transfer_data_try_from ua T"
    "\<lambda>d. wf_coin ua T (td_token d) \<and> \<not> trim_is_empty (td_sender d) \<and> \<not> trim_is_empty (td_receiver d)" for ua T
  by unfold_locales (simp add: transfer_data_into_raw_def transfer_data_try_from_def wf_coin_def denom_print_parse)

lemma timeout_roundtrip:
  assumes "pred_option (\<lambda>t. 0 < t \<and> t < 2 ^ 64 \<and> tm t) (time ts)"
  obtains n where "nanoseconds ts = Inr n" and "from_nanoseconds tm n = Inr ts"
proof -
  have "pred_option (\<lambda>t. 0 < t \<and> t < 2 ^ 64) (time ts)" using assms by (cases "time ts") auto
  then obtain n where n: "nanoseconds_opt ts = Some n"
    by (cases ts; cases "time ts") (auto simp: nanoseconds_opt_def)
  moreover have "from_nanoseconds tm n = Inr ts"
    using n assms by (intro from_nanoseconds_nanoseconds) (cases "time ts"; auto)+
  ultimately show ?thesis by (intro that) (simp add: nanoseconds_def)
qed

interpretation raw_transfer: wire_encoding "msg_transfer_into_raw T" "msg_transfer_try_from ua tm T"
    "wf_msg_transfer ua tm T" for ua tm T
proof (unfold_locales, goal_cases)
  case (1 m)
  then have ts: "pred_option (\<lambda>t. 0 < t \<and> t < 2 ^ 64 \<and> tm t) (time (mt_timeout_timestamp m))"
      and coin: "coin_try_from ua T (coin_into_raw T (mt_token m)) = Inr (mt_token m)"
    using raw_coin.dec_enc [of ua T "mt_token m"] by (simp_all add: wf_msg_transfer_def)
  from ts show ?case
    by (rule timeout_roundtrip)
      (use 1 coin in \<open>simp add: msg_transfer_into_raw_def msg_transfer_try_from_def wf_msg_transfer_def\<close>)
qed

end
