(* ===== verification/Ics26_Envelope.thy ===== *)
theory Ics26_Envelope
  imports Wire_Msgs
begin

text \<open>
  The envelope of ICS26 (\<^verbatim>\<open>ics26_routing/msgs.rs\<close>): which message the bytes of an \<^verbatim>\<open>Any\<close> stand for, by its type
  URL, and the encoding \<^verbatim>\<open>Msg::to_any\<close> of \<^verbatim>\<open>tx_msg.rs\<close>. The protobuf library and the conversions of the light
  clients are parameters; what is relied on is that decoding inverts encoding.
\<close>

text \<open>The variant for errors of the transfer application is left out: nothing here builds it.\<close>

datatype ics26_error =
    E26_Ics02Client ics02_error
  | E26_Ics03Connection ics03_error
  | E26_Ics04Channel ics04_error
  | E26_UnknownMessageTypeUrl string
  | E26_MalformedMessageBytes

datatype ('cs, 'cons, 'msg) envelope =
    Ics2Msg "('cs, 'cons, 'msg) client_msg"
  | Ics3Msg "'cs connection_msg"
  | Ics4ChannelMsg channel_msg
  | Ics4PacketMsg packet_msg

record 'r prost =
  prost_decode :: "bytes \<Rightarrow> 'r option"
  prost_encode :: "'r \<Rightarrow> bytes"

record ('cs, 'cons, 'msg) wire =
  cs_codec :: "'cs any_codec"
  cons_codec :: "'cons any_codec"
  msg_codec :: "'msg any_codec"
  pb_create :: "raw_create_client prost"
  pb_update :: "raw_update_client prost"
  pb_upgrade :: "raw_upgrade_client prost"
  pb_conn_init :: "raw_conn_open_init prost"
  pb_conn_try :: "raw_conn_open_try prost"
  pb_conn_ack :: "raw_conn_open_ack prost"
  pb_conn_confirm :: "raw_conn_open_confirm prost"
  pb_chan_init :: "raw_chan_open_init prost"
  pb_chan_try :: "raw_chan_open_try prost"
  pb_chan_ack :: "raw_chan_open_ack prost"
  pb_chan_confirm :: "raw_chan_open_confirm prost"
  pb_close_init :: "raw_chan_close_init prost"
  pb_close_confirm :: "raw_chan_close_confirm prost"
  pb_recv :: "raw_recv_packet prost"
  pb_ack :: "raw_acknowledgement prost"
  pb_timeout :: "raw_timeout prost"
  pb_timeout_close :: "raw_timeout_on_close prost"

section \<open>Type URLs\<close>

definition CREATE_CLIENT_URL :: string where
  "CREATE_CLIENT_URL = ''/ibc.core.client.v1.MsgCreateClient''"

definition UPDATE_CLIENT_URL :: string where
  "UPDATE_CLIENT_URL = ''/ibc.core.client.v1.MsgUpdateClient''"

definition UPGRADE_CLIENT_URL :: string where
  "UPGRADE_CLIENT_URL = ''/ibc.core.client.v1.MsgUpgradeClient''"

definition CONN_OPEN_INIT_URL :: string where
  "CONN_OPEN_INIT_URL = ''/ibc.core.connection.v1.MsgConnectionOpenInit''"

definition CONN_OPEN_TRY_URL :: string where
  "CONN_OPEN_TRY_URL = ''/ibc.core.connection.v1.MsgConnectionOpenTry''"

definition CONN_OPEN_ACK_URL :: string where
  "CONN_OPEN_ACK_URL = ''/ibc.core.connection.v1.MsgConnectionOpenAck''"

definition CONN_OPEN_CONFIRM_URL :: string where
  "CONN_OPEN_CONFIRM_URL = ''/ibc.core.connection.v1.MsgConnectionOpenConfirm''"

definition CHAN_OPEN_INIT_URL :: string where
  "CHAN_OPEN_INIT_URL = ''/ibc.core.channel.v1.MsgChannelOpenInit''"

definition CHAN_OPEN_TRY_URL :: string where
  "CHAN_OPEN_TRY_URL = ''/ibc.core.channel.v1.MsgChannelOpenTry''"

definition CHAN_OPEN_ACK_URL :: string where
  "CHAN_OPEN_ACK_URL = ''/ibc.core.channel.v1.MsgChannelOpenAck''"

definition CHAN_OPEN_CONFIRM_URL :: string where
  "CHAN_OPEN_CONFIRM_URL = ''/ibc.core.channel.v1.MsgChannelOpenConfirm''"

definition CHAN_CLOSE_INIT_URL :: string where
  "CHAN_CLOSE_INIT_URL = ''/ibc.core.channel.v1.MsgChannelCloseInit''"

definition CHAN_CLOSE_CONFIRM_URL :: string where
  "CHAN_CLOSE_CONFIRM_URL = ''/ibc.core.channel.v1.MsgChannelCloseConfirm''"

definition RECV_PACKET_URL :: string where
  "RECV_PACKET_URL = ''/ibc.core.channel.v1.MsgRecvPacket''"

definition ACKNOWLEDGEMENT_URL :: string where
  "ACKNOWLEDGEMENT_URL = ''/ibc.core.channel.v1.MsgAcknowledgement''"

definition TIMEOUT_URL :: string where
  "TIMEOUT_URL = ''/ibc.core.channel.v1.MsgTimeout''"

definition TIMEOUT_ON_CLOSE_URL :: string where
  "TIMEOUT_ON_CLOSE_URL = ''/ibc.core.channel.v1.MsgTimeoutOnClose''"

lemmas type_url_defs =
  CREATE_CLIENT_URL_def UPDATE_CLIENT_URL_def UPGRADE_CLIENT_URL_def CONN_OPEN_INIT_URL_def CONN_OPEN_TRY_URL_def CONN_OPEN_ACK_URL_def
  CONN_OPEN_CONFIRM_URL_def CHAN_OPEN_INIT_URL_def CHAN_OPEN_TRY_URL_def CHAN_OPEN_ACK_URL_def CHAN_OPEN_CONFIRM_URL_def CHAN_CLOSE_INIT_URL_def
  CHAN_CLOSE_CONFIRM_URL_def RECV_PACKET_URL_def ACKNOWLEDGEMENT_URL_def TIMEOUT_URL_def TIMEOUT_ON_CLOSE_URL_def

lemma type_urls_distinct: "distinct [CREATE_CLIENT_URL, UPDATE_CLIENT_URL, UPGRADE_CLIENT_URL, CONN_OPEN_INIT_URL, CONN_OPEN_TRY_URL, CONN_OPEN_ACK_URL, CONN_OPEN_CONFIRM_URL, CHAN_OPEN_INIT_URL, CHAN_OPEN_TRY_URL, CHAN_OPEN_ACK_URL, CHAN_OPEN_CONFIRM_URL, CHAN_CLOSE_INIT_URL, CHAN_CLOSE_CONFIRM_URL, RECV_PACKET_URL, ACKNOWLEDGEMENT_URL, TIMEOUT_URL, TIMEOUT_ON_CLOSE_URL]"
  unfolding type_url_defs by simp

lemma type_urls_distinct_rev: "distinct [TIMEOUT_ON_CLOSE_URL, TIMEOUT_URL, ACKNOWLEDGEMENT_URL, RECV_PACKET_URL, CHAN_CLOSE_CONFIRM_URL, CHAN_CLOSE_INIT_URL, CHAN_OPEN_CONFIRM_URL, CHAN_OPEN_ACK_URL, CHAN_OPEN_TRY_URL, CHAN_OPEN_INIT_URL, CONN_OPEN_CONFIRM_URL, CONN_OPEN_ACK_URL, CONN_OPEN_TRY_URL, CONN_OPEN_INIT_URL, UPGRADE_CLIENT_URL, UPDATE_CLIENT_URL, CREATE_CLIENT_URL]"
  using distinct_rev [THEN iffD2, OF type_urls_distinct] unfolding rev.simps append.simps .

lemmas type_url_neq [simp] = type_urls_distinct [simplified] type_urls_distinct_rev [simplified]

section \<open>Decoding and encoding\<close>

definition decode_vec :: "'r prost \<Rightarrow> ('r \<Rightarrow> ('m, 'e) res) \<Rightarrow> bytes \<Rightarrow> ('m, ics26_error) res" where
  "decode_vec P f b =
     bind_res (ok_or (prost_decode P b) E26_MalformedMessageBytes) (\<lambda>r. map_err (\<lambda>_. E26_MalformedMessageBytes) (f r))"

definition envelope_try_from ::
    "(nat \<Rightarrow> bool) \<Rightarrow> (int \<Rightarrow> bool) \<Rightarrow> ('cs, 'cons, 'msg) wire \<Rightarrow> raw_any
       \<Rightarrow> (('cs, 'cons, 'msg) envelope, ics26_error) res" where
  "envelope_try_from ua tm W a =
     (let url = any_type_url a; b = any_value a in
      if url = CREATE_CLIENT_URL then
        bind_res (decode_vec (pb_create W) (create_client_try_from (cs_codec W) (cons_codec W)) b) (\<lambda>m. Inr (Ics2Msg (CreateClient m)))
      else if url = UPDATE_CLIENT_URL then
        bind_res (decode_vec (pb_update W) (update_client_try_from ua (msg_codec W)) b) (\<lambda>m. Inr (Ics2Msg (UpdateClient m)))
      else if url = UPGRADE_CLIENT_URL then
        bind_res (decode_vec (pb_upgrade W) (upgrade_client_try_from ua (cs_codec W) (cons_codec W)) b) (\<lambda>m. Inr (Ics2Msg (UpgradeClient m)))
      else if url = CONN_OPEN_INIT_URL then
        bind_res (decode_vec (pb_conn_init W) (conn_open_init_try_from ua) b) (\<lambda>m. Inr (Ics3Msg (ConnectionOpenInit m)))
      else if url = CONN_OPEN_TRY_URL then
        bind_res (decode_vec (pb_conn_try W) (conn_open_try_try_from ua (cs_codec W)) b) (\<lambda>m. Inr (Ics3Msg (ConnectionOpenTry m)))
      else if url = CONN_OPEN_ACK_URL then
        bind_res (decode_vec (pb_conn_ack W) (conn_open_ack_try_from ua (cs_codec W)) b) (\<lambda>m. Inr (Ics3Msg (ConnectionOpenAck m)))
      else if url = CONN_OPEN_CONFIRM_URL then
        bind_res (decode_vec (pb_conn_confirm W) (conn_open_confirm_try_from ua) b) (\<lambda>m. Inr (Ics3Msg (ConnectionOpenConfirm m)))
      else if url = CHAN_OPEN_INIT_URL then
        bind_res (decode_vec (pb_chan_init W) (chan_open_init_try_from ua) b) (\<lambda>m. Inr (Ics4ChannelMsg (ChannelOpenInit m)))
      else if url = CHAN_OPEN_TRY_URL then
        bind_res (decode_vec (pb_chan_try W) (chan_open_try_try_from ua) b) (\<lambda>m. Inr (Ics4ChannelMsg (ChannelOpenTry m)))
      else if url = CHAN_OPEN_ACK_URL then
        bind_res (decode_vec (pb_chan_ack W) (chan_open_ack_try_from ua) b) (\<lambda>m. Inr (Ics4ChannelMsg (ChannelOpenAck m)))
      else if url = CHAN_OPEN_CONFIRM_URL then
        bind_res (decode_vec (pb_chan_confirm W) (chan_open_confirm_try_from ua) b) (\<lambda>m. Inr (Ics4ChannelMsg (ChannelOpenConfirm m)))
      else if url = CHAN_CLOSE_INIT_URL then
        bind_res (decode_vec (pb_close_init W) (chan_close_init_try_from ua) b) (\<lambda>m. Inr (Ics4ChannelMsg (ChannelCloseInit m)))
      else if url = CHAN_CLOSE_CONFIRM_URL then
        bind_res (decode_vec (pb_close_confirm W) (chan_close_confirm_try_from ua) b) (\<lambda>m. Inr (Ics4ChannelMsg (ChannelCloseConfirm m)))
      else if url = RECV_PACKET_URL then
        bind_res (decode_vec (pb_recv W) (recv_packet_try_from ua tm) b) (\<lambda>m. Inr (Ics4PacketMsg (RecvPacketMsg m)))
      else if url = ACKNOWLEDGEMENT_URL then
        bind_res (decode_vec (pb_ack W) (acknowledgement_try_from ua tm) b) (\<lambda>m. Inr (Ics4PacketMsg (AckPacketMsg m)))
      else if url = TIMEOUT_URL then
        bind_res (decode_vec (pb_timeout W) (timeout_try_from ua tm) b) (\<lambda>m. Inr (Ics4PacketMsg (ToPacketMsg m)))
      else if url = TIMEOUT_ON_CLOSE_URL then
        bind_res (decode_vec (pb_timeout_close W) (timeout_on_close_try_from ua tm) b) (\<lambda>m. Inr (Ics4PacketMsg (ToClosePacketMsg m)))
      else fail_with (E26_UnknownMessageTypeUrl url))"

definition to_any :: "string \<Rightarrow> 'r prost \<Rightarrow> ('r, 'e) res \<Rightarrow> (raw_any, 'e) res" where
  "to_any url P r = bind_res r (\<lambda>raw. Inr \<lparr>any_type_url = url, any_value = prost_encode P raw\<rparr>)"

fun envelope_to_any :: "('cs, 'cons, 'msg) wire \<Rightarrow> ('cs, 'cons, 'msg) envelope \<Rightarrow> (raw_any, ics26_error) res" where
  "envelope_to_any W (Ics2Msg (CreateClient m)) = to_any CREATE_CLIENT_URL (pb_create W) (Inr (create_client_into_raw (cs_codec W) (cons_codec W) m))"
| "envelope_to_any W (Ics2Msg (UpdateClient m)) = to_any UPDATE_CLIENT_URL (pb_update W) (Inr (update_client_into_raw (msg_codec W) m))"
| "envelope_to_any W (Ics2Msg (UpgradeClient m)) = to_any UPGRADE_CLIENT_URL (pb_upgrade W) (Inr (upgrade_client_into_raw (cs_codec W) (cons_codec W) m))"
| "envelope_to_any W (Ics3Msg (ConnectionOpenInit m)) = to_any CONN_OPEN_INIT_URL (pb_conn_init W) (Inr (conn_open_init_into_raw m))"
| "envelope_to_any W (Ics3Msg (ConnectionOpenTry m)) = to_any CONN_OPEN_TRY_URL (pb_conn_try W) (Inr (conn_open_try_into_raw (cs_codec W) m))"
| "envelope_to_any W (Ics3Msg (ConnectionOpenAck m)) = to_any CONN_OPEN_ACK_URL (pb_conn_ack W) (Inr (conn_open_ack_into_raw (cs_codec W) m))"
| "envelope_to_any W (Ics3Msg (ConnectionOpenConfirm m)) = to_any CONN_OPEN_CONFIRM_URL (pb_conn_confirm W) (Inr (conn_open_confirm_into_raw m))"
| "envelope_to_any W (Ics4ChannelMsg (ChannelOpenInit m)) = to_any CHAN_OPEN_INIT_URL (pb_chan_init W) (Inr (chan_open_init_into_raw m))"
| "envelope_to_any W (Ics4ChannelMsg (ChannelOpenTry m)) = to_any CHAN_OPEN_TRY_URL (pb_chan_try W) (Inr (chan_open_try_into_raw m))"
| "envelope_to_any W (Ics4ChannelMsg (ChannelOpenAck m)) = to_any CHAN_OPEN_ACK_URL (pb_chan_ack W) (Inr (chan_open_ack_into_raw m))"
| "envelope_to_any W (Ics4ChannelMsg (ChannelOpenConfirm m)) = to_any CHAN_OPEN_CONFIRM_URL (pb_chan_confirm W) (Inr (chan_open_confirm_into_raw m))"
| "envelope_to_any W (Ics4ChannelMsg (ChannelCloseInit m)) = to_any CHAN_CLOSE_INIT_URL (pb_close_init W) (Inr (chan_close_init_into_raw m))"
| "envelope_to_any W (Ics4ChannelMsg (ChannelCloseConfirm m)) = to_any CHAN_CLOSE_CONFIRM_URL (pb_close_confirm W) (Inr (chan_close_confirm_into_raw m))"
| "envelope_to_any W (Ics4PacketMsg (RecvPacketMsg m)) = to_any RECV_PACKET_URL (pb_recv W) (recv_packet_into_raw m)"
| "envelope_to_any W (Ics4PacketMsg (AckPacketMsg m)) = to_any ACKNOWLEDGEMENT_URL (pb_ack W) (acknowledgement_into_raw m)"
| "envelope_to_any W (Ics4PacketMsg (ToPacketMsg m)) = to_any TIMEOUT_URL (pb_timeout W) (timeout_into_raw m)"
| "envelope_to_any W (Ics4PacketMsg (ToClosePacketMsg m)) = to_any TIMEOUT_ON_CLOSE_URL (pb_timeout_close W) (timeout_on_close_into_raw m)"

section \<open>Well-formed envelopes\<close>

fun wf_envelope :: "(nat \<Rightarrow> bool) \<Rightarrow> (int \<Rightarrow> bool) \<Rightarrow> ('cs, 'cons, 'msg) envelope \<Rightarrow> bool" where
  "wf_envelope ua tm (Ics2Msg (CreateClient m)) \<longleftrightarrow> \<not> trim_is_empty (create_signer m)"
| "wf_envelope ua tm (Ics2Msg (UpdateClient m)) \<longleftrightarrow> valid_client_id ua (update_client_id m) \<and> \<not> trim_is_empty (update_signer m)"
| "wf_envelope ua tm (Ics2Msg (UpgradeClient m)) \<longleftrightarrow> valid_client_id ua (upgrade_client_id m) \<and> \<not> trim_is_empty (upgrade_signer m)"
| "wf_envelope ua tm (Ics3Msg (ConnectionOpenInit m)) \<longleftrightarrow> wf_conn_open_init ua m"
| "wf_envelope ua tm (Ics3Msg (ConnectionOpenTry m)) \<longleftrightarrow> wf_conn_open_try ua m"
| "wf_envelope ua tm (Ics3Msg (ConnectionOpenAck m)) \<longleftrightarrow> wf_conn_open_ack ua m"
| "wf_envelope ua tm (Ics3Msg (ConnectionOpenConfirm m)) \<longleftrightarrow> wf_conn_open_confirm ua m"
| "wf_envelope ua tm (Ics4ChannelMsg (ChannelOpenInit m)) \<longleftrightarrow> wf_chan_open_init ua m"
| "wf_envelope ua tm (Ics4ChannelMsg (ChannelOpenTry m)) \<longleftrightarrow> wf_chan_open_try ua m"
| "wf_envelope ua tm (Ics4ChannelMsg (ChannelOpenAck m)) \<longleftrightarrow> wf_chan_open_ack ua m"
| "wf_envelope ua tm (Ics4ChannelMsg (ChannelOpenConfirm m)) \<longleftrightarrow> wf_chan_open_confirm ua m"
| "wf_envelope ua tm (Ics4ChannelMsg (ChannelCloseInit m)) \<longleftrightarrow> wf_chan_close_init ua m"
| "wf_envelope ua tm (Ics4ChannelMsg (ChannelCloseConfirm m)) \<longleftrightarrow> wf_chan_close_confirm ua m"
| "wf_envelope ua tm (Ics4PacketMsg (RecvPacketMsg m)) \<longleftrightarrow> wf_recv_packet ua tm m"
| "wf_envelope ua tm (Ics4PacketMsg (AckPacketMsg m)) \<longleftrightarrow> wf_acknowledgement ua tm m"
| "wf_envelope ua tm (Ics4PacketMsg (ToPacketMsg m)) \<longleftrightarrow> wf_timeout ua tm m"
| "wf_envelope ua tm (Ics4PacketMsg (ToClosePacketMsg m)) \<longleftrightarrow> wf_timeout_on_close ua tm m"

text \<open>
  What is relied on of the protobuf library and of the light clients for one message: decoding its bytes
  gives back what was encoded.
\<close>

definition prost_inverts :: "'r prost \<Rightarrow> ('r, ics26_error) res \<Rightarrow> bool" where
  "prost_inverts P r \<longleftrightarrow> (\<forall>raw. r = Inr raw \<longrightarrow> prost_decode P (prost_encode P raw) = Some raw)"

fun wire_inverts :: "('cs, 'cons, 'msg) wire \<Rightarrow> ('cs, 'cons, 'msg) envelope \<Rightarrow> bool" where
  "wire_inverts W (Ics2Msg (CreateClient m)) \<longleftrightarrow> prost_inverts (pb_create W) (Inr (create_client_into_raw (cs_codec W) (cons_codec W) m)) \<and> codec_inverts (cs_codec W) (create_client_state m) \<and> codec_inverts (cons_codec W) (create_consensus_state m)"
| "wire_inverts W (Ics2Msg (UpdateClient m)) \<longleftrightarrow> prost_inverts (pb_update W) (Inr (update_client_into_raw (msg_codec W) m)) \<and> codec_inverts (msg_codec W) (update_client_message m)"
| "wire_inverts W (Ics2Msg (UpgradeClient m)) \<longleftrightarrow> prost_inverts (pb_upgrade W) (Inr (upgrade_client_into_raw (cs_codec W) (cons_codec W) m)) \<and> codec_inverts (cs_codec W) (upgrade_client_state m) \<and> codec_inverts (cons_codec W) (upgrade_consensus_state m)"
| "wire_inverts W (Ics3Msg (ConnectionOpenInit m)) \<longleftrightarrow> prost_inverts (pb_conn_init W) (Inr (conn_open_init_into_raw m))"
| "wire_inverts W (Ics3Msg (ConnectionOpenTry m)) \<longleftrightarrow> prost_inverts (pb_conn_try W) (Inr (conn_open_try_into_raw (cs_codec W) m)) \<and> pred_option (codec_inverts (cs_codec W)) (cot_client_state m)"
| "wire_inverts W (Ics3Msg (ConnectionOpenAck m)) \<longleftrightarrow> prost_inverts (pb_conn_ack W) (Inr (conn_open_ack_into_raw (cs_codec W) m)) \<and> pred_option (codec_inverts (cs_codec W)) (coa_client_state m)"
| "wire_inverts W (Ics3Msg (ConnectionOpenConfirm m)) \<longleftrightarrow> prost_inverts (pb_conn_confirm W) (Inr (conn_open_confirm_into_raw m))"
| "wire_inverts W (Ics4ChannelMsg (ChannelOpenInit m)) \<longleftrightarrow> prost_inverts (pb_chan_init W) (Inr (chan_open_init_into_raw m))"
| "wire_inverts W (Ics4ChannelMsg (ChannelOpenTry m)) \<longleftrightarrow> prost_inverts (pb_chan_try W) (Inr (chan_open_try_into_raw m))"
| "wire_inverts W (Ics4ChannelMsg (ChannelOpenAck m)) \<longleftrightarrow> prost_inverts (pb_chan_ack W) (Inr (chan_open_ack_into_raw m))"
| "wire_inverts W (Ics4ChannelMsg (ChannelOpenConfirm m)) \<longleftrightarrow> prost_inverts (pb_chan_confirm W) (Inr (chan_open_confirm_into_raw m))"
| "wire_inverts W (Ics4ChannelMsg (ChannelCloseInit m)) \<longleftrightarrow> prost_inverts (pb_close_init W) (Inr (chan_close_init_into_raw m))"
| "wire_inverts W (Ics4ChannelMsg (ChannelCloseConfirm m)) \<longleftrightarrow> prost_inverts (pb_close_confirm W) (Inr (chan_close_confirm_into_raw m))"
| "wire_inverts W (Ics4PacketMsg (RecvPacketMsg m)) \<longleftrightarrow> prost_inverts (pb_recv W) (recv_packet_into_raw m)"
| "wire_inverts W (Ics4PacketMsg (AckPacketMsg m)) \<longleftrightarrow> prost_inverts (pb_ack W) (acknowledgement_into_raw m)"
| "wire_inverts W (Ics4PacketMsg (ToPacketMsg m)) \<longleftrightarrow> prost_inverts (pb_timeout W) (timeout_into_raw m)"
| "wire_inverts W (Ics4PacketMsg (ToClosePacketMsg m)) \<longleftrightarrow> prost_inverts (pb_timeout_close W) (timeout_on_close_into_raw m)"

lemma decode_vec_ok: "decode_vec P f b = Inr m \<longleftrightarrow> (\<exists>r. prost_decode P b = Some r \<and> f r = Inr m)"
  by (auto simp: decode_vec_def)

lemma envelope_try_from_cases:
  assumes "envelope_try_from ua tm W a = Inr env"
  obtains (create) m where "env = Ics2Msg (CreateClient m)" and "decode_vec (pb_create W) (create_client_try_from (cs_codec W) (cons_codec W)) (any_value a) = Inr m"
  | (update) m where "env = Ics2Msg (UpdateClient m)" and "decode_vec (pb_update W) (update_client_try_from ua (msg_codec W)) (any_value a) = Inr m"
  | (upgrade) m where "env = Ics2Msg (UpgradeClient m)" and "decode_vec (pb_upgrade W) (upgrade_client_try_from ua (cs_codec W) (cons_codec W)) (any_value a) = Inr m"
  | (conn_init) m where "env = Ics3Msg (ConnectionOpenInit m)" and "decode_vec (pb_conn_init W) (conn_open_init_try_from ua) (any_value a) = Inr m"
  | (conn_try) m where "env = Ics3Msg (ConnectionOpenTry m)" and "decode_vec (pb_conn_try W) (conn_open_try_try_from ua (cs_codec W)) (any_value a) = Inr m"
  | (conn_ack) m where "env = Ics3Msg (ConnectionOpenAck m)" and "decode_vec (pb_conn_ack W) (conn_open_ack_try_from ua (cs_codec W)) (any_value a) = Inr m"
  | (conn_confirm) m where "env = Ics3Msg (ConnectionOpenConfirm m)" and "decode_vec (pb_conn_confirm W) (conn_open_confirm_try_from ua) (any_value a) = Inr m"
  | (chan_init) m where "env = Ics4ChannelMsg (ChannelOpenInit m)" and "decode_vec (pb_chan_init W) (chan_open_init_try_from ua) (any_value a) = Inr m"
  | (chan_try) m where "env = Ics4ChannelMsg (ChannelOpenTry m)" and "decode_vec (pb_chan_try W) (chan_open_try_try_from ua) (any_value a) = Inr m"
  | (chan_ack) m where "env = Ics4ChannelMsg (ChannelOpenAck m)" and "decode_vec (pb_chan_ack W) (chan_open_ack_try_from ua) (any_value a) = Inr m"
  | (chan_confirm) m where "env = Ics4ChannelMsg (ChannelOpenConfirm m)" and "decode_vec (pb_chan_confirm W) (chan_open_confirm_try_from ua) (any_value a) = Inr m"
  | (close_init) m where "env = Ics4ChannelMsg (ChannelCloseInit m)" and "decode_vec (pb_close_init W) (chan_close_init_try_from ua) (any_value a) = Inr m"
  | (close_confirm) m where "env = Ics4ChannelMsg (ChannelCloseConfirm m)" and "decode_vec (pb_close_confirm W) (chan_close_confirm_try_from ua) (any_value a) = Inr m"
  | (recv) m where "env = Ics4PacketMsg (RecvPacketMsg m)" and "decode_vec (pb_recv W) (recv_packet_try_from ua tm) (any_value a) = Inr m"
  | (ack) m where "env = Ics4PacketMsg (AckPacketMsg m)" and "decode_vec (pb_ack W) (acknowledgement_try_from ua tm) (any_value a) = Inr m"
  | (timeout) m where "env = Ics4PacketMsg (ToPacketMsg m)" and "decode_vec (pb_timeout W) (timeout_try_from ua tm) (any_value a) = Inr m"
  | (timeout_close) m where "env = Ics4PacketMsg (ToClosePacketMsg m)" and "decode_vec (pb_timeout_close W) (timeout_on_close_try_from ua tm) (any_value a) = Inr m"
proof -
  have "(if any_type_url a = u then x else y) = Inr env \<longleftrightarrow>
      (any_type_url a = u \<and> x = Inr env) \<or> (any_type_url a \<noteq> u \<and> y = Inr env)" for u x y
    by simp
  note split = this
  show ?thesis
    using assms unfolding envelope_try_from_def Let_def split
    by (elim disjE conjE) (auto intro: that)
qed

section \<open>What decoding promises\<close>

lemmas wire_decoded = chan_init.dec_wf chan_try.dec_wf chan_ack.dec_wf chan_confirm.dec_wf chan_close.dec_wf
  chan_closed.dec_wf pkt_recv.dec_wf pkt_ack.dec_wf pkt_timeout.dec_wf pkt_close.dec_wf conn_init.dec_wf
  conn_confirm.dec_wf conn_open_try_decoded conn_open_ack_decoded

lemma client_messages_decoded:
  "create_client_try_from K C r = Inr m \<Longrightarrow> \<not> trim_is_empty (create_signer m)"
  "update_client_try_from ua N r' = Inr m' \<Longrightarrow> valid_client_id ua (update_client_id m') \<and> \<not> trim_is_empty (update_signer m')"
  "upgrade_client_try_from ua K C r'' = Inr m''
     \<Longrightarrow> valid_client_id ua (upgrade_client_id m'') \<and> \<not> trim_is_empty (upgrade_signer m'')"
  by (auto simp: create_client_try_from_def update_client_try_from_def upgrade_client_try_from_def dest: from_str_valid)

lemma envelope_decoded_wf:
  assumes "envelope_try_from ua tm W a = Inr env"
  shows "wf_envelope ua tm env"
  using assms
  by (cases rule: envelope_try_from_cases) (auto simp: decode_vec_ok dest: wire_decoded client_messages_decoded)

lemmas wire_roundtrips = chan_init.dec_enc [simplified] chan_try.dec_enc [simplified] chan_ack.dec_enc [simplified]
  chan_confirm.dec_enc [simplified] chan_close.dec_enc [simplified] chan_closed.dec_enc [simplified]
  conn_init.dec_enc [simplified] conn_try.dec_enc [simplified] conn_ack.dec_enc [simplified]
  conn_confirm.dec_enc [simplified] client_create.dec_enc [simplified] client_update.dec_enc [simplified]
  client_upgrade.dec_enc [simplified]

text \<open>The encoding of a packet message fails only by a panic, whatever the error type it is used at.\<close>

lemma packet_into_raw_any: "packet_into_raw p = (Inr r :: (_, 'e) res) \<Longrightarrow> packet_into_raw p = (Inr r :: (_, 'f) res)"
  by (auto simp: packet_into_raw_def nanoseconds_def unwrap_opt_def split: option.splits)

lemma into_raw_any:
  "recv_packet_into_raw m = (Inr r :: (_, 'e) res) \<Longrightarrow> recv_packet_into_raw m = (Inr r :: (_, 'f) res)"
  "acknowledgement_into_raw m1 = (Inr r1 :: (_, 'e) res) \<Longrightarrow> acknowledgement_into_raw m1 = (Inr r1 :: (_, 'f) res)"
  "timeout_into_raw m2 = (Inr r2 :: (_, 'e) res) \<Longrightarrow> timeout_into_raw m2 = (Inr r2 :: (_, 'f) res)"
  "timeout_on_close_into_raw m3 = (Inr r3 :: (_, 'e) res) \<Longrightarrow> timeout_on_close_into_raw m3 = (Inr r3 :: (_, 'f) res)"
  by (auto simp: recv_packet_into_raw_def acknowledgement_into_raw_def timeout_into_raw_def
      timeout_on_close_into_raw_def dest: packet_into_raw_any)

lemma packet_into_raw_total:
  "wf_recv_packet ua tm m \<Longrightarrow> \<exists>r. recv_packet_into_raw m = (Inr r :: (_, 'e) res) \<and> recv_packet_try_from ua tm r = Inr m"
  "wf_acknowledgement ua tm m1
     \<Longrightarrow> \<exists>r. acknowledgement_into_raw m1 = (Inr r :: (_, 'e) res) \<and> acknowledgement_try_from ua tm r = Inr m1"
  "wf_timeout ua tm m2 \<Longrightarrow> \<exists>r. timeout_into_raw m2 = (Inr r :: (_, 'e) res) \<and> timeout_try_from ua tm r = Inr m2"
  "wf_timeout_on_close ua tm m3
     \<Longrightarrow> \<exists>r. timeout_on_close_into_raw m3 = (Inr r :: (_, 'e) res) \<and> timeout_on_close_try_from ua tm r = Inr m3"
  by (auto dest!: pkt_recv.enc_total pkt_ack.enc_total pkt_timeout.enc_total pkt_close.enc_total dest: into_raw_any)

lemma to_any_decoded:
  assumes "\<exists>r. e = (Inr r :: (_, ics26_error) res) \<and> f r = Inr m" and "prost_inverts P e"
  obtains b where "to_any url P e = Inr \<lparr>any_type_url = url, any_value = b\<rparr>" and "decode_vec P f b = Inr m"
  using assms by (auto simp: to_any_def prost_inverts_def decode_vec_def)

lemma packet_urls:
  "envelope_try_from ua tm W \<lparr>any_type_url = RECV_PACKET_URL, any_value = b\<rparr>
     = bind_res (decode_vec (pb_recv W) (recv_packet_try_from ua tm) b) (\<lambda>m. Inr (Ics4PacketMsg (RecvPacketMsg m)))"
  "envelope_try_from ua tm W \<lparr>any_type_url = ACKNOWLEDGEMENT_URL, any_value = b\<rparr>
     = bind_res (decode_vec (pb_ack W) (acknowledgement_try_from ua tm) b) (\<lambda>m. Inr (Ics4PacketMsg (AckPacketMsg m)))"
  "envelope_try_from ua tm W \<lparr>any_type_url = TIMEOUT_URL, any_value = b\<rparr>
     = bind_res (decode_vec (pb_timeout W) (timeout_try_from ua tm) b) (\<lambda>m. Inr (Ics4PacketMsg (ToPacketMsg m)))"
  "envelope_try_from ua tm W \<lparr>any_type_url = TIMEOUT_ON_CLOSE_URL, any_value = b\<rparr>
     = bind_res (decode_vec (pb_timeout_close W) (timeout_on_close_try_from ua tm) b)
         (\<lambda>m. Inr (Ics4PacketMsg (ToClosePacketMsg m)))"
  by (simp_all add: envelope_try_from_def Let_def)

lemma packet_envelope_encoded:
  assumes "wf_envelope ua tm (Ics4PacketMsg m)" and "wire_inverts W (Ics4PacketMsg m)"
  shows "\<exists>a. envelope_to_any W (Ics4PacketMsg m) = Inr a \<and> envelope_try_from ua tm W a = Inr (Ics4PacketMsg m)"
proof (cases m)
  case (RecvPacketMsg i)
  with assms have wf: "prost_inverts (pb_recv W) (recv_packet_into_raw i)" "wf_recv_packet ua tm i" by simp_all
  show ?thesis
    by (rule to_any_decoded [OF packet_into_raw_total(1) [OF wf(2)] wf(1), of RECV_PACKET_URL])
      (auto simp: RecvPacketMsg packet_urls intro!: exI)
next
  case (AckPacketMsg i)
  with assms have wf: "prost_inverts (pb_ack W) (acknowledgement_into_raw i)" "wf_acknowledgement ua tm i" by simp_all
  show ?thesis
    by (rule to_any_decoded [OF packet_into_raw_total(2) [OF wf(2)] wf(1), of ACKNOWLEDGEMENT_URL])
      (auto simp: AckPacketMsg packet_urls intro!: exI)
next
  case (ToPacketMsg i)
  with assms have wf: "prost_inverts (pb_timeout W) (timeout_into_raw i)" "wf_timeout ua tm i" by simp_all
  show ?thesis
    by (rule to_any_decoded [OF packet_into_raw_total(3) [OF wf(2)] wf(1), of TIMEOUT_URL])
      (auto simp: ToPacketMsg packet_urls intro!: exI)
next
  case (ToClosePacketMsg i)
  with assms have wf: "prost_inverts (pb_timeout_close W) (timeout_on_close_into_raw i)" "wf_timeout_on_close ua tm i" by simp_all
  show ?thesis
    by (rule to_any_decoded [OF packet_into_raw_total(4) [OF wf(2)] wf(1), of TIMEOUT_ON_CLOSE_URL])
      (auto simp: ToClosePacketMsg packet_urls intro!: exI)
qed

lemma envelope_encoded:
  assumes "wf_envelope ua tm env" and "wire_inverts W env"
  shows "\<exists>a. envelope_to_any W env = Inr a \<and> envelope_try_from ua tm W a = Inr env"
proof (cases env)
  case (Ics4PacketMsg m)
  with packet_envelope_encoded assms show ?thesis by blast
next
  case (Ics2Msg m)
  with assms show ?thesis
    by (cases m) (auto simp: to_any_def envelope_try_from_def decode_vec_def prost_inverts_def Let_def wire_roundtrips)
next
  case (Ics3Msg m)
  with assms show ?thesis
    by (cases m) (auto simp: to_any_def envelope_try_from_def decode_vec_def prost_inverts_def Let_def wire_roundtrips)
next
  case (Ics4ChannelMsg m)
  with assms show ?thesis
    by (cases m) (auto simp: to_any_def envelope_try_from_def decode_vec_def prost_inverts_def Let_def wire_roundtrips)
qed

section \<open>Properties\<close>

text \<open>C32: every decoded message is well formed. Whatever bytes an \<^verbatim>\<open>Any\<close> carries, and whatever the protobuf library
  and the light clients make of them, a message that decoding accepts has valid identifiers, proofs that
  are not empty at a height that is not zero, well-formed channel ends, versions and packets, and a signer.\<close>

theorem decoded_message_wf:
  assumes "envelope_try_from ua tm W a = Inr env"
  shows "wf_envelope ua tm env"
  using assms by (rule envelope_decoded_wf)

definition sample_close :: msg_chan_close_init where
  "sample_close = \<lparr>hci_port_id = PortId ''transfer'', hci_channel_id = ChannelId 3, hci_signer = ''relayer''\<rparr>"

definition only_prost :: "'r \<Rightarrow> 'r prost" where
  "only_prost r = \<lparr>prost_decode = (\<lambda>b. if b = [1] then Some r else None), prost_encode = (\<lambda>_. [1])\<rparr>"

definition no_prost :: "'r prost" where
  "no_prost = \<lparr>prost_decode = (\<lambda>_. None), prost_encode = (\<lambda>_. [])\<rparr>"

definition no_codec :: "'a any_codec" where
  "no_codec = \<lparr>from_any = (\<lambda>_. fail_with (E02_Undecodable E02_Decode)), into_any = (\<lambda>_. \<lparr>any_type_url = [], any_value = []\<rparr>)\<rparr>"

definition sample_wire :: "('cs, 'cons, 'msg) wire" where
  "sample_wire =
     \<lparr>cs_codec = no_codec, cons_codec = no_codec, msg_codec = no_codec, pb_create = no_prost, pb_update = no_prost,
      pb_upgrade = no_prost, pb_conn_init = no_prost, pb_conn_try = no_prost, pb_conn_ack = no_prost,
      pb_conn_confirm = no_prost, pb_chan_init = no_prost, pb_chan_try = no_prost, pb_chan_ack = no_prost,
      pb_chan_confirm = no_prost, pb_close_init = only_prost (chan_close_init_into_raw sample_close),
      pb_close_confirm = no_prost, pb_recv = no_prost, pb_ack = no_prost, pb_timeout = no_prost,
      pb_timeout_close = no_prost\<rparr>"

lemma sample_close_wf: "wf_chan_close_init (\<lambda>_. False) sample_close"
  by (simp add: wf_chan_close_init_def sample_close_def valid_port_id_def) code_simp

lemma sample_close_decodes:
  "envelope_try_from (\<lambda>_. False) (\<lambda>_. True) sample_wire \<lparr>any_type_url = CHAN_CLOSE_INIT_URL, any_value = [1]\<rparr>
     = Inr (Ics4ChannelMsg (ChannelCloseInit sample_close) :: (unit, unit, unit) envelope)"
  using chan_close.dec_enc [OF sample_close_wf]
  by (simp add: envelope_try_from_def sample_wire_def decode_vec_def only_prost_def)

theorem decoded_message_wf_witness:
  "wf_envelope (\<lambda>_. False) (\<lambda>_. True) (Ics4ChannelMsg (ChannelCloseInit sample_close) :: (unit, unit, unit) envelope)"
  by (rule decoded_message_wf [OF sample_close_decodes])

text \<open>C33: messages survive the wire. Given that the protobuf library and the light clients decode what they have
  encoded, every well-formed message can be encoded, and routing decodes it to the same message.\<close>

theorem envelope_roundtrip:
  assumes "wf_envelope ua tm env" and "wire_inverts W env"
  shows "\<exists>a. envelope_to_any W env = Inr a \<and> envelope_try_from ua tm W a = Inr env"
  using assms by (rule envelope_encoded)

theorem envelope_roundtrip_witness:
  "\<exists>a. envelope_to_any (sample_wire :: (unit, unit, unit) wire) (Ics4ChannelMsg (ChannelCloseInit sample_close)) = Inr a
     \<and> envelope_try_from (\<lambda>_. False) (\<lambda>_. True) (sample_wire :: (unit, unit, unit) wire) a = Inr (Ics4ChannelMsg (ChannelCloseInit sample_close))"
  by (rule envelope_roundtrip)
    (simp_all add: sample_close_wf prost_inverts_def sample_wire_def only_prost_def)

end
