(* ===== verification/Connection_Handler.thy ===== *)
theory Connection_Handler
  imports Mock_Client Handler_Output Handler_Msgs
begin

text \<open>
  The connection handshake of \<^verbatim>\<open>ics03_connection/handler\<close>: proof verification (\<^verbatim>\<open>verify.rs\<close>), the four
  message handlers, their dispatcher, and the storing of a result
  (\<^verbatim>\<open>ConnectionKeeper::store_connection_result\<close> in \<^verbatim>\<open>context.rs\<close>). The lemmas show how a connection end
  can evolve, what was proved to the light client before it opens, and that identifiers stay unique.
\<close>

section \<open>Verification\<close>

definition verify_connection_proof ::
    "('cs, 'cons, 'msg, 'app) env \<Rightarrow> ('cs, 'cons, 'app) host \<Rightarrow> height \<Rightarrow> connection_end \<Rightarrow> connection_end
       \<Rightarrow> height \<Rightarrow> commitment_proof_bytes \<Rightarrow> (unit, ics03_error) res" where
  "verify_connection_proof E s h conn expected ph pf =
     (let i = conn_client_id conn in
      bind_res (map_err E03_Ics02Client (get_client_state s i)) (\<lambda>cs.
      if is_frozen E cs s i then fail_with (E03_FrozenClient i)
      else
        bind_res (map_err (E03_ConsensusStateVerificationFailure ph)
          (get_consensus_state s i ph)) (\<lambda>cons.
        bind_res (ok_or (cpty_connection_id (conn_counterparty conn)) E03_InvalidCounterparty) (\<lambda>k.
        map_err E03_VerifyConnectionState
          (def_verify_connection_state E s i cs h (cpty_prefix (conn_counterparty conn)) pf
            (cons_root E cons) k expected)))))"

definition verify_client_proof ::
    "('cs, 'cons, 'msg, 'app) env \<Rightarrow> ('cs, 'cons, 'app) host \<Rightarrow> height \<Rightarrow> connection_end \<Rightarrow> 'cs
       \<Rightarrow> height \<Rightarrow> commitment_proof_bytes \<Rightarrow> (unit, ics03_error) res" where
  "verify_client_proof E s h conn expected ph pf =
     (let i = conn_client_id conn in
      bind_res (map_err E03_Ics02Client (get_client_state s i)) (\<lambda>cs.
      if is_frozen E cs s i then fail_with (E03_FrozenClient i)
      else
        bind_res (map_err (E03_ConsensusStateVerificationFailure ph)
          (get_consensus_state s i ph)) (\<lambda>cons.
        map_err (E03_ClientStateVerificationFailure i)
          (def_verify_client_full_state E s cs h (cpty_prefix (conn_counterparty conn)) pf
            (cons_root E cons) (cpty_client_id (conn_counterparty conn)) expected))))"

definition verify_consensus_proof ::
    "('cs, 'cons, 'msg, 'app) env \<Rightarrow> ('cs, 'cons, 'app) host \<Rightarrow> height \<Rightarrow> connection_end
       \<Rightarrow> consensus_proof \<Rightarrow> bytes \<Rightarrow> (unit, ics03_error) res" where
  "verify_consensus_proof E s h conn pf host_proof =
     (let i = conn_client_id conn in
      bind_res (map_err E03_Ics02Client (get_client_state s i)) (\<lambda>cs.
      if is_frozen E cs s i then fail_with (E03_FrozenClient i)
      else
        bind_res (map_err (E03_ConsensusStateVerificationFailure h)
          (get_consensus_state s i h)) (\<lambda>cons.
        bind_res (map_err (E03_ConsensusStateVerificationFailure (cp_height pf))
          (if host_proof \<noteq> [] then host_consensus_state_fn E s (cp_height pf) (Some host_proof) cs
           else host_consensus_state_fn E s (cp_height pf) None cs)) (\<lambda>expected.
        map_err (E03_ConsensusStateVerificationFailure (cp_height pf))
          (def_verify_client_consensus_state E s cs h (cpty_prefix (conn_counterparty conn))
            (cp_proof pf) (cons_root E cons) (cpty_client_id (conn_counterparty conn))
            (cp_height pf) expected)))))"

definition check_client_consensus_height ::
    "('cs, 'cons, 'app) host \<Rightarrow> height \<Rightarrow> (unit, ics03_error) res" where
  "check_client_consensus_height s claimed =
     (if claimed > host_height s then fail_with (E03_InvalidConsensusHeight claimed (host_height s))
      else if claimed < host_oldest_height s
      then fail_with (E03_StaleConsensusHeight claimed (host_oldest_height s))
      else Inr ())"

section \<open>Handlers\<close>

datatype id_state = Generated | Reused

record connection_result =
  cnr_connection_id :: connection_id
  cnr_id_state :: id_state
  cnr_connection_end :: connection_end

definition conn_event :: "('cs, 'cons, 'app) host \<Rightarrow> connection_id \<Rightarrow> connection_end \<Rightarrow> conn_attributes" where
  "conn_event s k conn =
     \<lparr>cn_height = host_height s, cn_connection_id = Some k, cn_client_id = conn_client_id conn,
      cn_counterparty_connection_id = cpty_connection_id (conn_counterparty conn),
      cn_counterparty_client_id = cpty_client_id (conn_counterparty conn)\<rparr>"

definition conn_open_init_process ::
    "('cs, 'cons, 'msg, 'app) env \<Rightarrow> ('cs, 'cons, 'app) host \<Rightarrow> msg_conn_open_init
       \<Rightarrow> (connection_result handler_output, ics03_error) res" where
  "conn_open_init_process E s msg =
     (let output = builder_new in
      bind_res (ensure (minimum_delay_period s \<le> coi_delay_period msg)
        (E03_ImplementationSpecific ''Connection delay is too low. Got: '')) (\<lambda>_.
      bind_res (map_err E03_Ics02Client (get_client_state s (coi_client_id msg))) (\<lambda>_.
      bind_res (case coi_version msg of
          Some v \<Rightarrow> if v \<in> set get_compatible_versions then Inr [v] else fail_with (E03_VersionNotSupported v)
        | None \<Rightarrow> Inr get_compatible_versions) (\<lambda>versions.
      (let new_connection_end =
         \<lparr>conn_state = ConnInit, conn_client_id = coi_client_id msg,
          conn_counterparty = coi_counterparty msg, conn_versions = versions,
          conn_delay_period = coi_delay_period msg\<rparr> in
      bind_res (get_connection_counter s) (\<lambda>id_counter.
      bind_res (connection_id_new (unicode_alnum E) id_counter) (\<lambda>conn_id.
      (let output = builder_add_log
             (''success: generated new connection identifier: '' @ connection_id_to_string conn_id) output;
           output = builder_emit (OpenInitConnectionEvent (conn_event s conn_id new_connection_end)) output in
      Inr (with_result output
        \<lparr>cnr_connection_id = conn_id, cnr_id_state = Generated,
         cnr_connection_end = new_connection_end\<rparr>)))))))))"

definition conn_open_try_process ::
    "('cs, 'cons, 'msg, 'app) env \<Rightarrow> ('cs, 'cons, 'app) host \<Rightarrow> 'cs msg_conn_open_try
       \<Rightarrow> (connection_result handler_output, ics03_error) res" where
  "conn_open_try_process E s msg =
     (let output = builder_new; ps = cot_proofs msg in
      bind_res (ensure (minimum_delay_period s \<le> cot_delay_period msg)
        (E03_ImplementationSpecific ''Connection delay is too low. Got: '')) (\<lambda>_.
      bind_res (if consensus_proof ps \<noteq> None
                then check_client_consensus_height s (consensus_height ps) else Inr ()) (\<lambda>_.
      (let new_connection_end =
         \<lparr>conn_state = ConnInit, conn_client_id = cot_client_id msg,
          conn_counterparty = cot_counterparty msg, conn_versions = cot_counterparty_versions msg,
          conn_delay_period = cot_delay_period msg\<rparr> in
      bind_res (get_connection_counter s) (\<lambda>id_counter.
      bind_res (connection_id_new (unicode_alnum E) id_counter) (\<lambda>conn_id.
      (let output = builder_add_log
             (''success: new connection end and identifier '' @ connection_id_to_string conn_id
              @ '' generated'') output in
      bind_res (commitment_prefix_of s) (\<lambda>prefix.
      (let expected_conn =
         \<lparr>conn_state = ConnInit, conn_client_id = cpty_client_id (cot_counterparty msg),
          conn_counterparty = \<lparr>cpty_client_id = cot_client_id msg, cpty_connection_id = None,
                               cpty_prefix = prefix\<rparr>,
          conn_versions = cot_counterparty_versions msg,
          conn_delay_period = cot_delay_period msg\<rparr> in
      bind_res (ok_or (cot_client_state msg)
        (E03_ImplementationSpecific ''client state is required in connOpenTry'')) (\<lambda>client_state.
      bind_res (ok_or (client_proof ps)
        (E03_ImplementationSpecific ''client proof is required in connOpenTry'')) (\<lambda>the_client_proof.
      bind_res (ok_or (consensus_proof ps)
        (E03_ImplementationSpecific ''consensus proof is required in connOpenTry'')) (\<lambda>the_consensus_proof.
      bind_res (map_err E03_Ics02Client (validate_self_client_fn E s client_state)) (\<lambda>_.
      bind_res (verify_connection_proof E s (proof_height ps) new_connection_end expected_conn
        (proof_height ps) (object_proof ps)) (\<lambda>_.
      bind_res (verify_client_proof E s (proof_height ps) new_connection_end client_state
        (proof_height ps) the_client_proof) (\<lambda>_.
      bind_res (verify_consensus_proof E s (proof_height ps) new_connection_end the_consensus_proof
        (cot_host_consensus_state_proof msg)) (\<lambda>_.
      bind_res (pick_version get_compatible_versions (cot_counterparty_versions msg)) (\<lambda>v.
      (let new_connection_end = set_conn_version v (new_connection_end\<lparr>conn_state := ConnTryOpen\<rparr>) in
      if length (conn_versions new_connection_end) \<noteq> 1 then panics
      else
        (let output = builder_add_log ''success: connection verification passed'' output;
             output = builder_emit (OpenTryConnectionEvent (conn_event s conn_id new_connection_end)) output in
         Inr (with_result output
           \<lparr>cnr_connection_id = conn_id, cnr_id_state = Generated,
            cnr_connection_end = new_connection_end\<rparr>))))))))))))))))))))"

text \<open>
  The first alternative of the ack's state check is a connection in Init that offered the version,
  the second one in TryOpen whose first version it is.
\<close>

definition conn_open_ack_process ::
    "('cs, 'cons, 'msg, 'app) env \<Rightarrow> ('cs, 'cons, 'app) host \<Rightarrow> 'cs msg_conn_open_ack
       \<Rightarrow> (connection_result handler_output, ics03_error) res" where
  "conn_open_ack_process E s msg =
     (let output = builder_new; ps = coa_proofs msg in
      bind_res (if consensus_proof ps \<noteq> None
                then check_client_consensus_height s (consensus_height ps) else Inr ()) (\<lambda>_.
      bind_res (get_connection_end E s (coa_connection_id msg)) (\<lambda>conn_end.
      (let state_is_consistent =
             conn_state conn_end = ConnInit \<and> coa_version msg \<in> set (conn_versions conn_end)
             \<or> conn_state conn_end = ConnTryOpen
               \<and> (case conn_versions conn_end of [] \<Rightarrow> False | v # _ \<Rightarrow> v = coa_version msg) in
      if \<not> state_is_consistent then fail_with (E03_ConnectionMismatch (coa_connection_id msg))
      else
        (let prev = conn_counterparty conn_end;
             counterparty = \<lparr>cpty_client_id = cpty_client_id prev,
                             cpty_connection_id = Some (coa_counterparty_connection_id msg),
                             cpty_prefix = cpty_prefix prev\<rparr>;
             conn_end = (set_conn_version (coa_version msg) (conn_end\<lparr>conn_state := ConnOpen\<rparr>))
                          \<lparr>conn_counterparty := counterparty\<rparr> in
      bind_res (commitment_prefix_of s) (\<lambda>prefix.
      (let expected_conn =
         \<lparr>conn_state = ConnTryOpen, conn_client_id = cpty_client_id (conn_counterparty conn_end),
          conn_counterparty = \<lparr>cpty_client_id = conn_client_id conn_end,
                               cpty_connection_id = Some (coa_connection_id msg),
                               cpty_prefix = prefix\<rparr>,
          conn_versions = [coa_version msg],
          conn_delay_period = conn_delay_period conn_end\<rparr> in
      bind_res (ok_or (coa_client_state msg)
        (E03_ImplementationSpecific ''client state is required in connOpenTry'')) (\<lambda>client_state.
      bind_res (ok_or (client_proof ps)
        (E03_ImplementationSpecific ''client proof is required in connOpenTry'')) (\<lambda>the_client_proof.
      bind_res (ok_or (consensus_proof ps)
        (E03_ImplementationSpecific ''consensus proof is required in connOpenTry'')) (\<lambda>the_consensus_proof.
      bind_res (map_err E03_Ics02Client (validate_self_client_fn E s client_state)) (\<lambda>_.
      bind_res (verify_connection_proof E s (proof_height ps) conn_end expected_conn
        (proof_height ps) (object_proof ps)) (\<lambda>_.
      bind_res (verify_client_proof E s (proof_height ps) conn_end client_state
        (proof_height ps) the_client_proof) (\<lambda>_.
      bind_res (verify_consensus_proof E s (proof_height ps) conn_end the_consensus_proof
        (coa_host_consensus_state_proof msg)) (\<lambda>_.
      (let output = builder_add_log ''success: connection verification passed'' output;
           output = builder_emit (OpenAckConnectionEvent
             (conn_event s (coa_connection_id msg) conn_end)) output in
       Inr (with_result output
         \<lparr>cnr_connection_id = coa_connection_id msg, cnr_id_state = Reused,
          cnr_connection_end = conn_end\<rparr>))))))))))))))))"

definition conn_open_confirm_process ::
    "('cs, 'cons, 'msg, 'app) env \<Rightarrow> ('cs, 'cons, 'app) host \<Rightarrow> msg_conn_open_confirm
       \<Rightarrow> (connection_result handler_output, ics03_error) res" where
  "conn_open_confirm_process E s msg =
     (let output = builder_new; ps = coc_proofs msg in
      bind_res (get_connection_end E s (coc_connection_id msg)) (\<lambda>conn_end.
      if conn_state conn_end \<noteq> ConnTryOpen then fail_with (E03_ConnectionMismatch (coc_connection_id msg))
      else
        bind_res (commitment_prefix_of s) (\<lambda>prefix.
        (let expected_conn =
           \<lparr>conn_state = ConnOpen, conn_client_id = cpty_client_id (conn_counterparty conn_end),
            conn_counterparty = \<lparr>cpty_client_id = conn_client_id conn_end,
                                 cpty_connection_id = Some (coc_connection_id msg),
                                 cpty_prefix = prefix\<rparr>,
            conn_versions = conn_versions conn_end,
            conn_delay_period = conn_delay_period conn_end\<rparr> in
        bind_res (verify_connection_proof E s (proof_height ps) conn_end expected_conn
          (proof_height ps) (object_proof ps)) (\<lambda>_.
        (let output = builder_add_log ''success: connection verification passed'' output;
             conn_end = conn_end\<lparr>conn_state := ConnOpen\<rparr>;
             output = builder_emit (OpenConfirmConnectionEvent
               (conn_event s (coc_connection_id msg) conn_end)) output in
         Inr (with_result output
           \<lparr>cnr_connection_id = coc_connection_id msg, cnr_id_state = Reused,
            cnr_connection_end = conn_end\<rparr>)))))))"

fun connection_dispatch ::
    "('cs, 'cons, 'msg, 'app) env \<Rightarrow> ('cs, 'cons, 'app) host \<Rightarrow> 'cs connection_msg
       \<Rightarrow> (connection_result handler_output, ics03_error) res" where
  "connection_dispatch E s (ConnectionOpenInit msg) = conn_open_init_process E s msg"
| "connection_dispatch E s (ConnectionOpenTry msg) = conn_open_try_process E s msg"
| "connection_dispatch E s (ConnectionOpenAck msg) = conn_open_ack_process E s msg"
| "connection_dispatch E s (ConnectionOpenConfirm msg) = conn_open_confirm_process E s msg"

section \<open>Storing a result\<close>

definition store_connection_result ::
    "connection_result \<Rightarrow> (('cs, 'cons, 'app) host, unit, ics03_error) op" where
  "store_connection_result r =
     op_then (store_connection (cnr_connection_id r) (cnr_connection_end r))
       (if cnr_id_state r = Generated then
          op_then (op_update increase_connection_counter)
            (store_connection_to_client (cnr_connection_id r) (conn_client_id (cnr_connection_end r)))
        else op_return ())"

section \<open>What the handlers return\<close>

text \<open>The messages whose identifiers and versions have passed the conversions from the wire.\<close>

fun wf_connection_msg :: "(nat \<Rightarrow> bool) \<Rightarrow> 'cs connection_msg \<Rightarrow> bool" where
  "wf_connection_msg ua (ConnectionOpenInit m) \<longleftrightarrow>
     valid_client_id ua (coi_client_id m) \<and> wf_conn_counterparty ua (coi_counterparty m)
     \<and> coi_delay_period m < 2 ^ 64"
| "wf_connection_msg ua (ConnectionOpenTry m) \<longleftrightarrow>
     valid_client_id ua (cot_client_id m) \<and> wf_conn_counterparty ua (cot_counterparty m)
     \<and> cot_delay_period m < 2 ^ 64"
| "wf_connection_msg ua (ConnectionOpenAck m) \<longleftrightarrow>
     valid_connection_id ua (coa_counterparty_connection_id m)"
| "wf_connection_msg ua (ConnectionOpenConfirm m) \<longleftrightarrow> True"

text \<open>How the handshake may change a stored connection end: it opens it, and keeps everything else
  but the negotiated version and the counterparty's connection identifier.\<close>

definition conn_evolves :: "connection_end \<Rightarrow> connection_end \<Rightarrow> bool" where
  "conn_evolves c c' \<longleftrightarrow> conn_state c \<in> {ConnInit, ConnTryOpen} \<and> conn_state c' = ConnOpen
     \<and> conn_client_id c' = conn_client_id c \<and> conn_delay_period c' = conn_delay_period c
     \<and> cpty_client_id (conn_counterparty c') = cpty_client_id (conn_counterparty c)
     \<and> cpty_prefix (conn_counterparty c') = cpty_prefix (conn_counterparty c)
     \<and> set (conn_versions c') \<subseteq> set (conn_versions c)"

lemma compatible_versions_wf: "list_all wf_version get_compatible_versions"
  by (simp add: get_compatible_versions_def version_default_def wf_version_def trim_is_empty_def
      is_whitespace_def chars_def)

lemma conn_open_init_ok:
  assumes "conn_open_init_process E s m = Inr out"
  obtains vs where "out_result out =
      \<lparr>cnr_connection_id = ConnectionId (''connection-'' @ show_u64 (ucast (ConnectionCounter s))),
       cnr_id_state = Generated,
       cnr_connection_end = \<lparr>conn_state = ConnInit, conn_client_id = coi_client_id m,
         conn_counterparty = coi_counterparty m, conn_versions = vs,
         conn_delay_period = coi_delay_period m\<rparr>\<rparr>"
    and "vs \<noteq> []" and "set vs \<subseteq> set get_compatible_versions"
    and "client_states_get s (coi_client_id m) \<noteq> None"
    and "minimum_delay_period s \<le> coi_delay_period m"
  using assms
  by (auto simp: conn_open_init_process_def Let_def get_connection_counter_def reader_oks
      get_compatible_versions_def split: option.splits if_splits)

lemma conn_open_try_ok:
  assumes "conn_open_try_process E s m = Inr out"
  obtains v c prefix where "out_result out =
      \<lparr>cnr_connection_id = ConnectionId (''connection-'' @ show_u64 (ucast (ConnectionCounter s))),
       cnr_id_state = Generated,
       cnr_connection_end = \<lparr>conn_state = ConnTryOpen, conn_client_id = cot_client_id m,
         conn_counterparty = cot_counterparty m, conn_versions = [v],
         conn_delay_period = cot_delay_period m\<rparr>\<rparr>"
    and "pick_version get_compatible_versions (cot_counterparty_versions m) = Inr v"
    and "commitment_prefix_of s = (Inr prefix :: (_, ics03_error) res)"
    and "verify_connection_proof E s (proof_height (cot_proofs m))
       \<lparr>conn_state = ConnInit, conn_client_id = cot_client_id m,
        conn_counterparty = cot_counterparty m, conn_versions = cot_counterparty_versions m,
        conn_delay_period = cot_delay_period m\<rparr>
       \<lparr>conn_state = ConnInit, conn_client_id = cpty_client_id (cot_counterparty m),
        conn_counterparty = \<lparr>cpty_client_id = cot_client_id m, cpty_connection_id = None,
                             cpty_prefix = prefix\<rparr>,
        conn_versions = cot_counterparty_versions m, conn_delay_period = cot_delay_period m\<rparr>
       (proof_height (cot_proofs m)) (object_proof (cot_proofs m)) = Inr ()"
    and "cot_client_state m = Some c" and "validate_self_client_fn E s c = Inr ()"
  using assms
  by (auto simp: conn_open_try_process_def Let_def get_connection_counter_def set_conn_version_def
      split: if_splits)

lemma conn_open_ack_ok:
  assumes "conn_open_ack_process E s m = Inr out"
  obtains c c' prefix where "get_connection_end E s (coa_connection_id m) = Inr c"
    and "conn_state c = ConnInit \<and> coa_version m \<in> set (conn_versions c)
      \<or> conn_state c = ConnTryOpen \<and> conn_versions c \<noteq> [] \<and> hd (conn_versions c) = coa_version m"
    and "c' = c\<lparr>conn_state := ConnOpen, conn_versions := [coa_version m],
        conn_counterparty := (conn_counterparty c)
          \<lparr>cpty_connection_id := Some (coa_counterparty_connection_id m)\<rparr>\<rparr>"
    and "out_result out = \<lparr>cnr_connection_id = coa_connection_id m, cnr_id_state = Reused,
       cnr_connection_end = c'\<rparr>"
    and "commitment_prefix_of s = (Inr prefix :: (_, ics03_error) res)"
    and "verify_connection_proof E s (proof_height (coa_proofs m)) c'
       \<lparr>conn_state = ConnTryOpen, conn_client_id = cpty_client_id (conn_counterparty c),
        conn_counterparty = \<lparr>cpty_client_id = conn_client_id c,
          cpty_connection_id = Some (coa_connection_id m), cpty_prefix = prefix\<rparr>,
        conn_versions = [coa_version m], conn_delay_period = conn_delay_period c\<rparr>
       (proof_height (coa_proofs m)) (object_proof (coa_proofs m)) = Inr ()"
proof -
  from assms obtain c prefix where c: "get_connection_end E s (coa_connection_id m) = Inr c"
    and st: "conn_state c = ConnInit \<and> coa_version m \<in> set (conn_versions c)
      \<or> conn_state c = ConnTryOpen \<and> conn_versions c \<noteq> [] \<and> hd (conn_versions c) = coa_version m"
    and p: "commitment_prefix_of s = (Inr prefix :: (_, ics03_error) res)"
    by (auto simp: conn_open_ack_process_def Let_def split: if_splits list.splits)
  have cp: "\<lparr>cpty_client_id = cpty_client_id d, cpty_connection_id = x, cpty_prefix = cpty_prefix d\<rparr>
      = d\<lparr>cpty_connection_id := x\<rparr>" for d :: conn_counterparty and x
    by simp
  from assms c p show ?thesis
    by (intro that [OF c st refl _ p])
      (auto simp: conn_open_ack_process_def Let_def set_conn_version_def cp split: if_splits)
qed

lemma conn_open_confirm_ok:
  assumes "conn_open_confirm_process E s m = Inr out"
  obtains c prefix where "get_connection_end E s (coc_connection_id m) = Inr c"
    and "conn_state c = ConnTryOpen"
    and "out_result out = \<lparr>cnr_connection_id = coc_connection_id m, cnr_id_state = Reused,
       cnr_connection_end = c\<lparr>conn_state := ConnOpen\<rparr>\<rparr>"
    and "commitment_prefix_of s = (Inr prefix :: (_, ics03_error) res)"
    and "verify_connection_proof E s (proof_height (coc_proofs m)) c
       \<lparr>conn_state = ConnOpen, conn_client_id = cpty_client_id (conn_counterparty c),
        conn_counterparty = \<lparr>cpty_client_id = conn_client_id c,
          cpty_connection_id = Some (coc_connection_id m), cpty_prefix = prefix\<rparr>,
        conn_versions = conn_versions c, conn_delay_period = conn_delay_period c\<rparr>
       (proof_height (coc_proofs m)) (object_proof (coc_proofs m)) = Inr ()"
  using assms by (auto simp: conn_open_confirm_process_def Let_def split: if_splits)

lemma connection_dispatch_cases:
  assumes "connection_dispatch E s m = Inr out"
  obtains (generated) c where "out_result out =
      \<lparr>cnr_connection_id = ConnectionId (''connection-'' @ show_u64 (ucast (ConnectionCounter s))),
       cnr_id_state = Generated, cnr_connection_end = c\<rparr>"
    and "conn_state c \<in> {ConnInit, ConnTryOpen}"
    and "wf_connection_msg (unicode_alnum E) m \<Longrightarrow> wf_connection_end (unicode_alnum E) c"
  | (reused) k c c' where "out_result out =
      \<lparr>cnr_connection_id = k, cnr_id_state = Reused, cnr_connection_end = c'\<rparr>"
    and "get_connection_end E s k = Inr c" and "conn_evolves c c'"
    and "wf_connection_msg (unicode_alnum E) m \<Longrightarrow> wf_connection_end (unicode_alnum E) c'"
proof (cases m)
  case (ConnectionOpenInit i)
  with assms have "conn_open_init_process E s i = Inr out" by simp
  then show ?thesis
    by (rule conn_open_init_ok)
      (rule generated, assumption,
        use ConnectionOpenInit compatible_versions_wf in \<open>auto simp: wf_connection_end_def list_all_iff\<close>)
next
  case (ConnectionOpenTry i)
  with assms have "conn_open_try_process E s i = Inr out" by simp
  then show ?thesis
  proof (rule conn_open_try_ok, goal_cases)
    case (1 v c prefix)
    have "wf_version v"
      using pick_version_sound [OF 1(2)] compatible_versions_wf by (auto simp: list_all_iff)
    with 1(1) show ?thesis
      by (intro generated) (use ConnectionOpenTry in \<open>auto simp: wf_connection_end_def\<close>)
  qed
next
  case (ConnectionOpenAck i)
  with assms have "conn_open_ack_process E s i = Inr out" by simp
  then show ?thesis
  proof (rule conn_open_ack_ok, goal_cases)
    case (1 c c' prefix)
    have "wf_connection_end (unicode_alnum E) c"
      using get_connection_end_wf [OF 1(1)] 1(2) by (auto simp: connection_end_default_def)
    with 1(1,2,4) show ?thesis
      unfolding 1(3)
      by (intro reused [OF 1(4) [unfolded 1(3)]])
        (use ConnectionOpenAck in \<open>auto simp: wf_connection_end_def wf_conn_counterparty_def conn_evolves_def list_all_iff neq_Nil_conv\<close>)
  qed
next
  case (ConnectionOpenConfirm i)
  with assms have "conn_open_confirm_process E s i = Inr out" by simp
  then show ?thesis
  proof (rule conn_open_confirm_ok, goal_cases)
    case (1 c prefix)
    have "wf_connection_end (unicode_alnum E) c"
      using get_connection_end_wf [OF 1(1)] 1(2) by (auto simp: connection_end_default_def)
    with 1 show ?thesis
      by (intro reused) (auto simp: wf_connection_end_def conn_evolves_def)
  qed
qed

section \<open>Effect of storing a result\<close>

lemma store_connection_result_effect:
  assumes "store_connection_result r s = (res, s')"
  shows "res = Inr ()"
    and "connections_get s' k =
      (if k = cnr_connection_id r then Some (connection_end_into_raw (cnr_connection_end r))
       else connections_get s k)"
    and "ConnectionCounter s' = (if cnr_id_state r = Generated
      then (case checked_add (ConnectionCounter s) 1 of Some n \<Rightarrow> n | None \<Rightarrow> ConnectionCounter s)
      else ConnectionCounter s)"
    and "ConnectionClient s' = (if cnr_id_state r = Generated
      then (ConnectionClient s)(conn_client_id (cnr_connection_end r) :=
        ConnectionClient s (conn_client_id (cnr_connection_end r)) @ [cnr_connection_id r])
      else ConnectionClient s)"
  using assms
  by (auto simp: store_connection_result_def store_connection_def store_connection_to_client_def
      increase_connection_counter_def connections_get_def
      view_puts child_get_put split: option.splits if_splits)

lemma store_connection_result_reads:
  assumes "store_connection_result r s = (res, s')" and "wf_connection_end (unicode_alnum E) (cnr_connection_end r)"
  shows "get_connection_end E s' k =
    (if k = cnr_connection_id r then Inr (cnr_connection_end r) else get_connection_end E s k)"
  using assms(2) store_connection_result_effect(2) [OF assms(1)]
  by (simp add: get_connection_end_def connection_end_roundtrip)

lemma store_connection_result_keeps_path:
  assumes "in_language q" and "q \<noteq> ConnectionsPath (cnr_connection_id r)"
  shows "keeps (\<lambda>s. child_get s q) (store_connection_result r)"
  using assms
  by (auto simp: store_connection_result_def store_connection_def store_connection_to_client_def
      increase_connection_counter_def view_puts view_paths child_get_put
      split: option.splits intro!: keeps_then keeps_update)

section \<open>Runs of the handshake\<close>

inductive conn_step ::
    "('cs, 'cons, 'msg, 'app) env \<Rightarrow> ('cs, 'cons, 'app) host \<Rightarrow> ('cs, 'cons, 'app) host \<Rightarrow> bool" for E where
  conn_handled: "connection_dispatch E s m = Inr out \<Longrightarrow> wf_connection_msg (unicode_alnum E) m
     \<Longrightarrow> store_connection_result (out_result out) s = (Inr (), s') \<Longrightarrow> conn_step E s s'"

inductive_cases conn_stepE: "conn_step E s s'"

lemma conn_step_cases:
  assumes "conn_step E s s'"
  obtains (opened) c where "\<And>k. get_connection_end E s' k =
      (if k = ConnectionId (''connection-'' @ show_u64 (ucast (ConnectionCounter s))) then Inr c
       else get_connection_end E s k)"
    and "\<And>k. connections_get s' k \<noteq> None \<longleftrightarrow>
      k = ConnectionId (''connection-'' @ show_u64 (ucast (ConnectionCounter s))) \<or> connections_get s k \<noteq> None"
    and "ConnectionCounter s' =
      (case checked_add (ConnectionCounter s) 1 of Some n \<Rightarrow> n | None \<Rightarrow> ConnectionCounter s)"
  | (advanced) k c c' where "get_connection_end E s k = Inr c" and "conn_evolves c c'"
    and "\<And>j. get_connection_end E s' j = (if j = k then Inr c' else get_connection_end E s j)"
    and "\<And>j. connections_get s' j \<noteq> None \<longleftrightarrow> connections_get s j \<noteq> None"
    and "ConnectionCounter s' = ConnectionCounter s"
proof -
  obtain m out where d: "connection_dispatch E s m = Inr out" and wf: "wf_connection_msg (unicode_alnum E) m"
    and st: "store_connection_result (out_result out) s = (Inr (), s')"
    using assms by (rule conn_stepE)
  note stored = store_connection_result_effect(2) [OF st]
    and counter = store_connection_result_effect(3) [OF st]
  from d show ?thesis
  proof (cases rule: connection_dispatch_cases)
    case (generated c)
    with wf have "wf_connection_end (unicode_alnum E) (cnr_connection_end (out_result out))"
      by simp
    from store_connection_result_reads [OF st this] stored counter show ?thesis
      by (intro opened) (auto simp: generated(1))
  next
    case (reused k c c')
    with wf have "wf_connection_end (unicode_alnum E) (cnr_connection_end (out_result out))"
      by simp
    from store_connection_result_reads [OF st this] stored counter reused(2,3) show ?thesis
      by (intro advanced [of k c c']) (auto simp: reused(1) get_connection_end_def)
  qed
qed

lemma fresh_connection:
  "connection_ids_below s \<Longrightarrow>
     connections_get s (ConnectionId (''connection-'' @ show_u64 (ucast (ConnectionCounter s)))) = None"
  using connection_ids.fresh [of s] by (auto simp: connection_ids_below_def connection_numbered_def)

lemma counter_full: "checked_add (- 1 :: u32) 1 = None"
  by (simp add: checked_add_def word_gt_0)

lemma conn_step_counter:
  assumes "conn_step E s s'" and "ConnectionCounter s' \<noteq> - 1"
  shows "ConnectionCounter s \<noteq> - 1"
  using assms(1)
proof (cases rule: conn_step_cases)
  case (opened c)
  show ?thesis
  proof
    assume "ConnectionCounter s = - 1"
    with opened(3) assms(2) show False by (simp add: counter_full)
  qed
next
  case (advanced k c c')
  with assms(2) show ?thesis by simp
qed

lemma conn_step_ids:
  assumes "conn_step E s s'" and "connection_ids_below s" and "ConnectionCounter s \<noteq> - 1"
  shows "connection_ids_below s'"
  using assms(1)
proof (cases rule: conn_step_cases)
  case (opened c)
  from opened(3) have "ConnectionCounter s' = ConnectionCounter s + 1"
    by (simp add: counter_step(1) [OF assms(3)])
  from connection_ids.allocate [OF assms(2) [unfolded connection_ids_below_def] _ assms(3) this, of
      "ConnectionId (''connection-'' @ show_u64 (ucast (ConnectionCounter s)))"]
  show ?thesis
    unfolding connection_ids_below_def by (simp only: connection_numbered_def opened(2))
next
  case (advanced k c c')
  with assms(2) show ?thesis
    unfolding connection_ids_below_def by (intro connection_ids.unchanged [of s s']) simp_all
qed

lemma conn_step_evolves:
  assumes "conn_step E s s'" and "connection_ids_below s" and "get_connection_end E s k = Inr c"
  shows "\<exists>c'. get_connection_end E s' k = Inr c' \<and> (c' = c \<or> conn_evolves c c')"
  using assms(1)
proof (cases rule: conn_step_cases)
  case (opened d)
  have "k \<noteq> ConnectionId (''connection-'' @ show_u64 (ucast (ConnectionCounter s)))"
    using fresh_connection [OF assms(2)] assms(3) by (auto simp: get_connection_end_def)
  with opened(1) assms(3) show ?thesis by simp
next
  case (advanced j d d')
  with assms(3) show ?thesis by auto
qed

lemma conn_evolves_once: "conn_evolves c d \<Longrightarrow> \<not> conn_evolves d e"
  by (auto simp: conn_evolves_def)

section \<open>Properties\<close>

text \<open>A connection identifier is never given twice. While the 32-bit counter has not run out, the
  identifier that Init or Try allocates is unused, the new connection end can be read back under it, and
  the connection is listed once more under its client.\<close>

theorem new_connection_stored:
  assumes "connection_dispatch E s m = Inr out" and "wf_connection_msg (unicode_alnum E) m"
    and "cnr_id_state (out_result out) = Generated"
    and "connection_ids_below s" and "ConnectionCounter s \<noteq> - 1"
    and "store_connection_result (out_result out) s = (res, s')"
  shows "res = Inr () \<and> connections_get s (cnr_connection_id (out_result out)) = None
    \<and> get_connection_end E s' (cnr_connection_id (out_result out)) = Inr (cnr_connection_end (out_result out))
    \<and> conn_state (cnr_connection_end (out_result out)) \<in> {ConnInit, ConnTryOpen}
    \<and> ConnectionClient s' (conn_client_id (cnr_connection_end (out_result out))) =
        ConnectionClient s (conn_client_id (cnr_connection_end (out_result out)))
          @ [cnr_connection_id (out_result out)]
    \<and> connection_ids_below s'"
proof -
  note eff = store_connection_result_effect [OF assms(6)]
  have "conn_step E s s'"
    using conn_handled [OF assms(1,2)] assms(6) eff(1) by simp
  from conn_step_ids [OF this assms(4,5)] have "connection_ids_below s'" .
  from assms(1) show ?thesis
  proof (cases rule: connection_dispatch_cases)
    case (generated c)
    with assms(2) have "wf_connection_end (unicode_alnum E) (cnr_connection_end (out_result out))" by simp
    from store_connection_result_reads [OF assms(6) this]
    show ?thesis
      using \<open>connection_ids_below s'\<close> generated(1,2) eff(1,4) fresh_connection [OF assms(4)] by simp
  next
    case (reused k c c')
    with assms(3) show ?thesis by simp
  qed
qed

text \<open>
  The documented contract of \<^verbatim>\<open>ClientDef::verify_connection_state\<close>: an accepted proof shows that the
  chain which the client follows held exactly that connection end. \<open>remote i h k\<close> is the connection
  \<open>k\<close> on the chain that client \<open>i\<close> follows, at height \<open>h\<close>.
\<close>

definition proves_connections ::
    "('cs, 'cons, 'msg, 'app) env \<Rightarrow> (client_id \<Rightarrow> height \<Rightarrow> connection_id \<Rightarrow> connection_end option) \<Rightarrow> bool" where
  "proves_connections E remote \<longleftrightarrow>
     (\<forall>s i cs h p q r k e. def_verify_connection_state E s i cs h p q r k e = Inr () \<longrightarrow> remote i h k = Some e)"

text \<open>The two ends of a connection point at each other and agree on version and delay.\<close>

definition ends_mirror :: "connection_id \<Rightarrow> connection_end \<Rightarrow> connection_id \<Rightarrow> connection_end \<Rightarrow> bool" where
  "ends_mirror k c k' c' \<longleftrightarrow>
     cpty_connection_id (conn_counterparty c) = Some k' \<and> cpty_connection_id (conn_counterparty c') = Some k
     \<and> cpty_client_id (conn_counterparty c) = conn_client_id c'
     \<and> cpty_client_id (conn_counterparty c') = conn_client_id c
     \<and> conn_versions c = conn_versions c' \<and> conn_delay_period c = conn_delay_period c'"

lemma verify_connection_proof_ok:
  assumes "verify_connection_proof E s h conn expected ph pf = Inr ()" and "proves_connections E remote"
  obtains k where "cpty_connection_id (conn_counterparty conn) = Some k"
    and "remote (conn_client_id conn) h k = Some expected"
  using assms by (auto simp: verify_connection_proof_def Let_def proves_connections_def split: if_splits)


subsection \<open>A sample handshake\<close>

text \<open>A host that has answered an Init with connection-0 in TryOpen, the matching end connection-5 of
  the other chain, and a light client that accepts exactly the ends of a given chain.\<close>

definition sample_client :: client_id where
  "sample_client = ClientId ''9999-mock-0''"

definition sample_try_end :: connection_end where
  "sample_try_end =
     \<lparr>conn_state = ConnTryOpen, conn_client_id = sample_client,
      conn_counterparty = \<lparr>cpty_client_id = ClientId ''9999-mock-3'',
        cpty_connection_id = Some (ConnectionId ''connection-5''), cpty_prefix = CommitmentPrefix [1]\<rparr>,
      conn_versions = [version_default], conn_delay_period = 0\<rparr>"

definition sample_remote_end :: connection_end where
  "sample_remote_end =
     \<lparr>conn_state = ConnOpen, conn_client_id = ClientId ''9999-mock-3'',
      conn_counterparty = \<lparr>cpty_client_id = sample_client,
        cpty_connection_id = Some (ConnectionId ''connection-0''),
        cpty_prefix = CommitmentPrefix (as_bytes ''ibc/'')\<rparr>,
      conn_versions = [version_default], conn_delay_period = 0\<rparr>"

definition sample_remote :: "client_id \<Rightarrow> height \<Rightarrow> connection_id \<Rightarrow> connection_end option" where
  "sample_remote i h k =
     (if i = sample_client \<and> k = ConnectionId ''connection-5'' then Some sample_remote_end else None)"

definition checking_env ::
    "(mock_client_state, mock_consensus_state, mock_client_message, unit) env" where
  "checking_env = mock_env\<lparr>def_verify_connection_state :=
     (\<lambda>s i cs h p q r k e. if sample_remote i h k = Some e then Inr ()
        else fail_with (E02_ImplementationSpecific ''proof''))\<rparr>"

definition sample_conn_host :: "(mock_client_state, mock_consensus_state, unit) host" where
  "sample_conn_host =
     connections_insert (ConnectionId ''connection-0'') (connection_end_into_raw sample_try_end)
       (consensus_states_insert (sample_client, Height 0 7) (mock_consensus_state_new (mock_header_at 7))
         (client_states_insert sample_client (mock_client_state_new (MockHeaderMsg (mock_header_at 7)))
           (empty_host\<lparr>ConnectionCounter := 1\<rparr>)))"

definition sample_confirm :: "mock_client_state connection_msg" where
  "sample_confirm = ConnectionOpenConfirm
     \<lparr>coc_connection_id = ConnectionId ''connection-0'',
      coc_proofs = \<lparr>object_proof = CommitmentProofBytes [1], client_proof = None, consensus_proof = None,
                    other_proof = None, proof_height = Height 0 7\<rparr>,
      coc_signer = ''relayer''\<rparr>"

lemma sample_ids_valid:
  "valid_client_id ua sample_client"
  "valid_client_id ua (ClientId ''9999-mock-3'')"
  "valid_connection_id ua (ConnectionId ''connection-5'')"
  "valid_connection_id ua (ConnectionId ''connection-0'')"
  by (simp_all add: valid_client_id_def valid_connection_id_def sample_client_def validator_defs
      validate_identifier_ok_iff chars_def valid_identifier_char_def is_alphanumeric_def
      ascii_alphanumeric_def VALID_SPECIAL_CHARS_def PATH_SEPARATOR_def)

lemma sample_try_end_wf: "wf_connection_end ua sample_try_end"
  using compatible_versions_wf
  by (simp add: wf_connection_end_def sample_try_end_def wf_conn_counterparty_def sample_ids_valid
      get_compatible_versions_def)

lemma sample_try_end_stored:
  "get_connection_end E sample_conn_host (ConnectionId ''connection-0'') = Inr sample_try_end"
  unfolding sample_conn_host_def by (simp add: get_connection_end_written sample_try_end_wf)

lemma checking_env_sound: "proves_connections checking_env sample_remote"
  by (simp add: proves_connections_def checking_env_def)

definition sample_confirmed :: "connection_result handler_output" where
  "sample_confirmed =
     (let c = sample_try_end\<lparr>conn_state := ConnOpen\<rparr> in
      with_result (builder_emit (OpenConfirmConnectionEvent
          (conn_event sample_conn_host (ConnectionId ''connection-0'') c))
          (builder_add_log ''success: connection verification passed'' builder_new))
        \<lparr>cnr_connection_id = ConnectionId ''connection-0'', cnr_id_state = Reused, cnr_connection_end = c\<rparr>)"

lemma sample_confirm_runs:
  "connection_dispatch checking_env sample_conn_host sample_confirm = Inr sample_confirmed"
proof -
  have cl: "client_states_get sample_conn_host sample_client
      = Some (mock_client_state_new (MockHeaderMsg (mock_header_at 7)))"
    and cons: "consensus_states_get sample_conn_host (sample_client, Height 0 7)
      = Some (mock_consensus_state_new (mock_header_at 7))"
    by (simp_all add: sample_conn_host_def view_laws)
  have prefix: "commitment_prefix_of sample_conn_host
      = (Inr (CommitmentPrefix (as_bytes ''ibc/'')) :: (_, ics03_error) res)"
    by (simp add: sample_conn_host_def commitment_prefix_of_def commitment_prefix_try_from_def view_puts
        empty_host_def child_put_def as_bytes_def)
  have "conn_client_id sample_try_end = sample_client"
    by (simp add: sample_try_end_def)
  with cl cons show ?thesis
    by (simp add: sample_confirm_def sample_confirmed_def conn_open_confirm_process_def Let_def
        sample_try_end_stored prefix verify_connection_proof_def reader_oks is_frozen_def
        checking_env_def default_status_def mock_client_state_new_def sample_remote_def
        sample_remote_end_def)
      (simp add: sample_try_end_def)
qed

lemma sample_conn_ids: "connection_ids_below sample_conn_host"
  unfolding connection_ids_below_def ids_below_def
proof (intro allI impI)
  fix k
  assume "connections_get sample_conn_host k \<noteq> None"
  then have "k = ConnectionId ''connection-0''"
    by (simp add: sample_conn_host_def view_laws split: if_splits)
  moreover have "show_u64 0 = ''0''"
    by code_simp
  moreover have "ConnectionCounter sample_conn_host = 1"
    by (simp add: sample_conn_host_def view_puts child_put_def)
  ultimately show "\<exists>n. connection_numbered k n \<and> n < ucast (ConnectionCounter sample_conn_host)"
    by (intro exI [of _ 0]) (simp add: connection_numbered_def)
qed


definition sample_init :: "mock_client_state connection_msg" where
  "sample_init = ConnectionOpenInit
     \<lparr>coi_client_id = sample_client,
      coi_counterparty = \<lparr>cpty_client_id = ClientId ''9999-mock-3'', cpty_connection_id = None,
                          cpty_prefix = CommitmentPrefix [1]\<rparr>,
      coi_version = None, coi_delay_period = 0, coi_signer = ''relayer''\<rparr>"

lemma sample_init_runs:
  "\<exists>out. connection_dispatch checking_env sample_conn_host sample_init = Inr out
     \<and> cnr_id_state (out_result out) = Generated"
proof -
  have "client_states_get sample_conn_host sample_client
      = Some (mock_client_state_new (MockHeaderMsg (mock_header_at 7)))"
    by (simp add: sample_conn_host_def view_laws)
  moreover have "minimum_delay_period sample_conn_host = 0"
    by (simp add: minimum_delay_period_def sample_conn_host_def view_puts child_put_def empty_host_def)
  ultimately show ?thesis
    by (simp add: sample_init_def conn_open_init_process_def Let_def reader_oks get_connection_counter_def)
qed

theorem new_connection_stored_witness:
  "\<exists>out s'. connection_dispatch checking_env sample_conn_host sample_init = Inr out
     \<and> store_connection_result (out_result out) sample_conn_host = (Inr (), s')
     \<and> connections_get sample_conn_host (cnr_connection_id (out_result out)) = None
     \<and> connection_ids_below s'"
proof -
  obtain out where out: "connection_dispatch checking_env sample_conn_host sample_init = Inr out"
    and gen: "cnr_id_state (out_result out) = Generated"
    using sample_init_runs by blast
  have wf: "wf_connection_msg (unicode_alnum checking_env) sample_init"
    by (simp add: sample_init_def wf_conn_counterparty_def sample_ids_valid)
  have counter: "ConnectionCounter sample_conn_host \<noteq> - 1"
    by (simp add: sample_conn_host_def view_puts child_put_def)
  obtain res s' where "store_connection_result (out_result out) sample_conn_host = (res, s')"
    by fastforce
  with new_connection_stored [OF out wf gen sample_conn_ids counter this] out show ?thesis
    by blast
qed

end
