(* ===== verification/Channel_Handler.thy ===== *)
theory Channel_Handler
  imports Connection_Handler
begin

text \<open>
  The channel handshake of \<^verbatim>\<open>ics04_channel/handler\<close>: \<^verbatim>\<open>verify_channel_proofs\<close> (\<^verbatim>\<open>verify.rs\<close>), the six
  message handlers that open and close a channel, their dispatcher, and the storing of a result
  (\<^verbatim>\<open>ChannelKeeper::store_channel_result\<close> in \<^verbatim>\<open>context.rs\<close>). The lemmas show how a channel end can
  evolve, what was proved to the light client before it opens or closes, and that new channels start
  with fresh identifiers and sequence numbers.
\<close>

section \<open>Verification\<close>

definition verify_channel_proofs ::
    "('cs, 'cons, 'msg, 'app) env \<Rightarrow> ('cs, 'cons, 'app) host \<Rightarrow> height \<Rightarrow> channel_end \<Rightarrow> connection_end
       \<Rightarrow> channel_end \<Rightarrow> commitment_proof_bytes \<Rightarrow> (unit, ics04_error) res" where
  "verify_channel_proofs E s h chan conn expected pf =
     (let i = conn_client_id conn in
      bind_res (map_err E04_Ics02Client (get_client_state s i)) (\<lambda>cs.
      if is_frozen E cs s i then fail_with (E04_FrozenClient i)
      else
        bind_res (map_err (\<lambda>_. E04_Packet E04_ErrorInvalidConsensusState)
          (get_consensus_state s i h)) (\<lambda>cons.
        bind_res (ok_or (cpty_channel_id (chan_remote chan)) (E04_Malformed E04_MissingChannelId)) (\<lambda>c.
        map_err E04_VerifyChannelFailed
          (def_verify_channel_state E s i cs h (cpty_prefix (conn_counterparty conn)) pf
            (cons_root E cons) (cpty_port_id (chan_remote chan)) c expected)))))"

section \<open>Handlers\<close>

record channel_result =
  chr_port_id :: port_id
  chr_channel_id :: channel_id
  chr_id_state :: id_state
  chr_channel_end :: channel_end

definition chan_event ::
    "('cs, 'cons, 'app) host \<Rightarrow> port_id \<Rightarrow> channel_id \<Rightarrow> channel_end \<Rightarrow> chan_attributes" where
  "chan_event s p c e =
     \<lparr>ch_height = host_height s, ch_port_id = p, ch_channel_id = Some c,
      ch_connection_id = chan_connection_hops e ! 0,
      ch_counterparty_port_id = cpty_port_id (chan_remote e),
      ch_counterparty_channel_id = cpty_channel_id (chan_remote e)\<rparr>"

text \<open>The checks on the connection under a channel that the handlers share: one hop, and it exists.\<close>

definition hop_connection ::
    "('cs, 'cons, 'msg, 'app) env \<Rightarrow> ('cs, 'cons, 'app) host \<Rightarrow> channel_end
       \<Rightarrow> (connection_end, ics04_error) res" where
  "hop_connection E s e =
     (if length (chan_connection_hops e) \<noteq> 1
      then fail_with (E04_InvalidConnectionHopsLength 1 (length (chan_connection_hops e)))
      else map_err E04_Ics03Connection (get_connection_end E s (chan_connection_hops e ! 0)))"

definition open_hop_connection ::
    "('cs, 'cons, 'msg, 'app) env \<Rightarrow> ('cs, 'cons, 'app) host \<Rightarrow> channel_end
       \<Rightarrow> (connection_end, ics04_error) res" where
  "open_hop_connection E s e =
     bind_res (hop_connection E s e) (\<lambda>conn.
     if conn_state conn \<noteq> ConnOpen then fail_with (E04_ConnectionNotOpen (chan_connection_hops e ! 0))
     else Inr conn)"

text \<open>The connection has one version, and it supports the ordering of the channel.\<close>

definition check_channel_feature :: "connection_end \<Rightarrow> channel_end \<Rightarrow> (unit, ics04_error) res" where
  "check_channel_feature conn e =
     (case conn_versions conn of
        [v] \<Rightarrow> (if is_supported_feature v (order_as_str (chan_ordering e)) then Inr ()
                else fail_with E04_ChannelFeatureNotSuportedByConnection)
      | _ \<Rightarrow> fail_with E04_InvalidVersionLengthConnection)"

definition counterparty_hops :: "connection_end \<Rightarrow> channel_end \<Rightarrow> (connection_id list, ics04_error) res" where
  "counterparty_hops conn e =
     bind_res (ok_or (cpty_connection_id (conn_counterparty conn))
       (E04_UndefinedConnectionCounterparty (chan_connection_hops e ! 0))) (\<lambda>ccid. Inr [ccid])"

definition chan_open_init_process ::
    "('cs, 'cons, 'msg, 'app) env \<Rightarrow> ('cs, 'cons, 'app) host \<Rightarrow> msg_chan_open_init
       \<Rightarrow> (channel_result handler_output, ics04_error) res" where
  "chan_open_init_process E s msg =
     (let output = builder_new; e = hoi_channel msg in
      bind_res (hop_connection E s e) (\<lambda>conn.
      bind_res (check_channel_feature conn e) (\<lambda>_.
      bind_res (get_channel_counter s) (\<lambda>id_counter.
      (let chan_id = ChannelId id_counter;
           output = builder_add_log
             (''success: generated new channel identifier: '' @ channel_id_to_string chan_id) output;
           new_channel_end =
             \<lparr>chan_state = ChanInit, chan_ordering = chan_ordering e, chan_remote = chan_remote e,
              chan_connection_hops = chan_connection_hops e, chan_version = chan_version e\<rparr>;
           output = builder_add_log ''success: no channel found'' output;
           output = builder_emit
             (OpenInitChannelEvent (chan_event s (hoi_port_id msg) chan_id new_channel_end)) output in
       Inr (with_result output
         \<lparr>chr_port_id = hoi_port_id msg, chr_channel_id = chan_id, chr_id_state = Generated,
          chr_channel_end = new_channel_end\<rparr>))))))"

definition chan_open_try_process ::
    "('cs, 'cons, 'msg, 'app) env \<Rightarrow> ('cs, 'cons, 'app) host \<Rightarrow> msg_chan_open_try
       \<Rightarrow> (channel_result handler_output, ics04_error) res" where
  "chan_open_try_process E s msg =
     (let output = builder_new; e = hot_channel msg;
          new_channel_end =
            \<lparr>chan_state = ChanInit, chan_ordering = chan_ordering e, chan_remote = chan_remote e,
             chan_connection_hops = chan_connection_hops e,
             chan_version = hot_counterparty_version msg\<rparr> in
      bind_res (get_channel_counter s) (\<lambda>id_counter.
      (let chan_id = ChannelId id_counter;
           output = builder_add_log
             (''success: generated new channel identifier: '' @ channel_id_to_string chan_id) output in
      bind_res (open_hop_connection E s e) (\<lambda>conn.
      bind_res (check_channel_feature conn e) (\<lambda>_.
      bind_res (counterparty_hops conn e) (\<lambda>hops.
      (let expected =
             \<lparr>chan_state = ChanInit, chan_ordering = chan_ordering e,
              chan_remote = \<lparr>cpty_port_id = hot_port_id msg, cpty_channel_id = None\<rparr>,
              chan_connection_hops = hops, chan_version = hot_counterparty_version msg\<rparr> in
      bind_res (verify_channel_proofs E s (proof_height (hot_proofs msg)) new_channel_end conn expected
        (object_proof (hot_proofs msg))) (\<lambda>_.
      (let output = builder_add_log ''success: channel open try '' output;
           new_channel_end = new_channel_end\<lparr>chan_state := ChanTryOpen\<rparr>;
           output = builder_emit
             (OpenTryChannelEvent (chan_event s (hot_port_id msg) chan_id new_channel_end)) output in
       Inr (with_result output
         \<lparr>chr_port_id = hot_port_id msg, chr_channel_id = chan_id, chr_id_state = Generated,
          chr_channel_end = new_channel_end\<rparr>))))))))))"

definition chan_open_ack_process ::
    "('cs, 'cons, 'msg, 'app) env \<Rightarrow> ('cs, 'cons, 'app) host \<Rightarrow> msg_chan_open_ack
       \<Rightarrow> (channel_result handler_output, ics04_error) res" where
  "chan_open_ack_process E s msg =
     (let output = builder_new; p = hoa_port_id msg; c = hoa_channel_id msg in
      bind_res (get_channel_end E s (p, c)) (\<lambda>e.
      if chan_state e \<noteq> ChanInit \<and> chan_state e \<noteq> ChanTryOpen
      then fail_with (E04_InvalidChannelState c (chan_state e))
      else
        bind_res (open_hop_connection E s e) (\<lambda>conn.
        bind_res (counterparty_hops conn e) (\<lambda>hops.
        (let expected =
               \<lparr>chan_state = ChanTryOpen, chan_ordering = chan_ordering e,
                chan_remote = \<lparr>cpty_port_id = p, cpty_channel_id = Some c\<rparr>,
                chan_connection_hops = hops, chan_version = hoa_counterparty_version msg\<rparr>;
             e = set_counterparty_channel_id (hoa_counterparty_channel_id msg) e in
        bind_res (verify_channel_proofs E s (proof_height (hoa_proofs msg)) e conn expected
          (object_proof (hoa_proofs msg))) (\<lambda>_.
        (let output = builder_add_log ''success: channel open ack '' output;
             e = e\<lparr>chan_state := ChanOpen, chan_version := hoa_counterparty_version msg\<rparr>;
             output = builder_emit (OpenAckChannelEvent (chan_event s p c e)) output in
         Inr (with_result output
           \<lparr>chr_port_id = p, chr_channel_id = c, chr_id_state = Reused, chr_channel_end = e\<rparr>))))))))"

text \<open>The trace that \<^verbatim>\<open>chan_open_confirm_proof_verification\<close> adds to an error is only text.\<close>

definition chan_open_confirm_process ::
    "('cs, 'cons, 'msg, 'app) env \<Rightarrow> ('cs, 'cons, 'app) host \<Rightarrow> msg_chan_open_confirm
       \<Rightarrow> (channel_result handler_output, ics04_error) res" where
  "chan_open_confirm_process E s msg =
     (let output = builder_new; p = hoc_port_id msg; c = hoc_channel_id msg in
      bind_res (get_channel_end E s (p, c)) (\<lambda>e.
      if chan_state e \<noteq> ChanTryOpen then fail_with (E04_InvalidChannelState c (chan_state e))
      else
        bind_res (open_hop_connection E s e) (\<lambda>conn.
        bind_res (counterparty_hops conn e) (\<lambda>hops.
        (let expected =
               \<lparr>chan_state = ChanOpen, chan_ordering = chan_ordering e,
                chan_remote = \<lparr>cpty_port_id = p, cpty_channel_id = Some c\<rparr>,
                chan_connection_hops = hops, chan_version = chan_version e\<rparr> in
        bind_res (verify_channel_proofs E s (proof_height (hoc_proofs msg)) e conn expected
          (object_proof (hoc_proofs msg))) (\<lambda>_.
        (let output = builder_add_log ''success: channel open confirm '' output;
             e = e\<lparr>chan_state := ChanOpen\<rparr>;
             output = builder_emit (OpenConfirmChannelEvent (chan_event s p c e)) output in
         Inr (with_result output
           \<lparr>chr_port_id = p, chr_channel_id = c, chr_id_state = Reused, chr_channel_end = e\<rparr>))))))))"

definition chan_close_init_process ::
    "('cs, 'cons, 'msg, 'app) env \<Rightarrow> ('cs, 'cons, 'app) host \<Rightarrow> msg_chan_close_init
       \<Rightarrow> (channel_result handler_output, ics04_error) res" where
  "chan_close_init_process E s msg =
     (let output = builder_new; p = hci_port_id msg; c = hci_channel_id msg in
      bind_res (get_channel_end E s (p, c)) (\<lambda>e.
      if chan_state e = ChanClosed then fail_with (E04_InvalidChannelState c (chan_state e))
      else
        bind_res (open_hop_connection E s e) (\<lambda>conn.
        (let output = builder_add_log ''success: channel close init '' output;
             e = e\<lparr>chan_state := ChanClosed\<rparr>;
             output = builder_emit (CloseInitChannelEvent (chan_event s p c e)) output in
         Inr (with_result output
           \<lparr>chr_port_id = p, chr_channel_id = c, chr_id_state = Reused, chr_channel_end = e\<rparr>)))))"

definition chan_close_confirm_process ::
    "('cs, 'cons, 'msg, 'app) env \<Rightarrow> ('cs, 'cons, 'app) host \<Rightarrow> msg_chan_close_confirm
       \<Rightarrow> (channel_result handler_output, ics04_error) res" where
  "chan_close_confirm_process E s msg =
     (let output = builder_new; p = hcc_port_id msg; c = hcc_channel_id msg in
      bind_res (get_channel_end E s (p, c)) (\<lambda>e.
      if chan_state e = ChanClosed then fail_with (E04_ChannelClosed c)
      else
        bind_res (open_hop_connection E s e) (\<lambda>conn.
        bind_res (counterparty_hops conn e) (\<lambda>hops.
        (let expected =
               \<lparr>chan_state = ChanClosed, chan_ordering = chan_ordering e,
                chan_remote = \<lparr>cpty_port_id = p, cpty_channel_id = Some c\<rparr>,
                chan_connection_hops = hops, chan_version = chan_version e\<rparr> in
        bind_res (verify_channel_proofs E s (proof_height (hcc_proofs msg)) e conn expected
          (object_proof (hcc_proofs msg))) (\<lambda>_.
        (let output = builder_add_log ''success: channel close confirm '' output;
             e = e\<lparr>chan_state := ChanClosed\<rparr>;
             output = builder_emit (CloseConfirmChannelEvent (chan_event s p c e)) output in
         Inr (with_result output
           \<lparr>chr_port_id = p, chr_channel_id = c, chr_id_state = Reused, chr_channel_end = e\<rparr>))))))))"

text \<open>\<^verbatim>\<open>channel_dispatch\<close> hands the log and events back in a builder of their own.\<close>

definition channel_dispatch ::
    "('cs, 'cons, 'msg, 'app) env \<Rightarrow> ('cs, 'cons, 'app) host \<Rightarrow> channel_msg
       \<Rightarrow> (output_builder \<times> channel_result, ics04_error) res" where
  "channel_dispatch E s msg =
     bind_res (case msg of
         ChannelOpenInit m \<Rightarrow> chan_open_init_process E s m
       | ChannelOpenTry m \<Rightarrow> chan_open_try_process E s m
       | ChannelOpenAck m \<Rightarrow> chan_open_ack_process E s m
       | ChannelOpenConfirm m \<Rightarrow> chan_open_confirm_process E s m
       | ChannelCloseInit m \<Rightarrow> chan_close_init_process E s m
       | ChannelCloseConfirm m \<Rightarrow> chan_close_confirm_process E s m) (\<lambda>out.
     Inr (with_events (out_events out) (with_log (out_log out) builder_new), out_result out))"

section \<open>Storing a result\<close>

definition store_channel_result ::
    "channel_result \<Rightarrow> (('cs, 'cons, 'app) host, unit, ics04_error) op" where
  "store_channel_result r =
     (let k = (chr_port_id r, chr_channel_id r) in
      op_then (store_channel k (chr_channel_end r))
        (if chr_id_state r = Generated then
           op_then (op_update increase_channel_counter)
           (op_bind (op_lift (case chan_connection_hops (chr_channel_end r) of [] \<Rightarrow> panics | h # _ \<Rightarrow> Inr h)) (\<lambda>h.
            op_then (store_connection_channels h k)
            (op_then (store_next_sequence_send k 1)
            (op_then (store_next_sequence_recv k 1)
              (store_next_sequence_ack k 1)))))
         else op_return ()))"

section \<open>What the handlers return\<close>

lemmas chan_process_defs =
  chan_open_init_process_def chan_open_try_process_def chan_open_ack_process_def
  chan_open_confirm_process_def chan_close_init_process_def chan_close_confirm_process_def

text \<open>The messages whose channel end has passed the conversion from the wire.\<close>

fun wf_channel_msg :: "(nat \<Rightarrow> bool) \<Rightarrow> channel_msg \<Rightarrow> bool" where
  "wf_channel_msg ua (ChannelOpenInit m) \<longleftrightarrow> wf_channel_end ua (hoi_channel m)"
| "wf_channel_msg ua (ChannelOpenTry m) \<longleftrightarrow> wf_channel_end ua (hot_channel m)"
| "wf_channel_msg ua m \<longleftrightarrow> True"

text \<open>How one message may change a stored channel end: it opens one in Init or TryOpen, setting the
  version and the counterparty's channel identifier, or closes one and changes nothing else.\<close>

definition chan_evolves :: "channel_end \<Rightarrow> channel_end \<Rightarrow> bool" where
  "chan_evolves e e' \<longleftrightarrow>
     chan_state e \<in> {ChanInit, ChanTryOpen}
       \<and> (\<exists>v c. e' = e\<lparr>chan_remote := (chan_remote e)\<lparr>cpty_channel_id := c\<rparr>, chan_state := ChanOpen,
                        chan_version := v\<rparr>)
     \<or> chan_state e \<noteq> ChanClosed \<and> e' = e\<lparr>chan_state := ChanClosed\<rparr>"

lemma hop_connection_ok:
  "hop_connection E s e = Inr conn \<longleftrightarrow>
     (\<exists>k. chan_connection_hops e = [k] \<and> get_connection_end E s k = Inr conn)"
  by (auto simp: hop_connection_def length_Suc_conv split: if_splits)

lemma open_hop_connection_ok:
  "open_hop_connection E s e = Inr conn \<longleftrightarrow>
     (\<exists>k. chan_connection_hops e = [k] \<and> get_connection_end E s k = Inr conn) \<and> conn_state conn = ConnOpen"
  by (auto simp: open_hop_connection_def hop_connection_ok split: if_splits)

lemma counterparty_hops_ok:
  "counterparty_hops conn e = Inr hops \<longleftrightarrow>
     (\<exists>k. cpty_connection_id (conn_counterparty conn) = Some k \<and> hops = [k])"
  by (auto simp: counterparty_hops_def)

lemma check_channel_feature_ok:
  "check_channel_feature conn e = Inr u \<longleftrightarrow>
     (\<exists>v. conn_versions conn = [v] \<and> order_as_str (chan_ordering e) \<in> set (version_features v))"
  by (auto simp: check_channel_feature_def is_supported_feature_def split: list.splits if_splits)

lemma chan_open_init_ok:
  assumes "chan_open_init_process E s m = Inr out"
  obtains k conn v where "chan_connection_hops (hoi_channel m) = [k]" and "get_connection_end E s k = Inr conn"
    and "conn_versions conn = [v]" and "order_as_str (chan_ordering (hoi_channel m)) \<in> set (version_features v)"
    and "out_result out = \<lparr>chr_port_id = hoi_port_id m, chr_channel_id = ChannelId (ucast (ChannelCounter s)),
      chr_id_state = Generated, chr_channel_end = (hoi_channel m)\<lparr>chan_state := ChanInit\<rparr>\<rparr>"
  using assms
  by (auto simp: chan_open_init_process_def Let_def get_channel_counter_def hop_connection_ok
      check_channel_feature_ok)

lemma chan_open_try_ok:
  assumes "chan_open_try_process E s m = Inr out"
  obtains k conn v k' e where "chan_connection_hops (hot_channel m) = [k]" and "get_connection_end E s k = Inr conn"
    and "conn_state conn = ConnOpen" and "cpty_connection_id (conn_counterparty conn) = Some k'"
    and "conn_versions conn = [v]" and "order_as_str (chan_ordering (hot_channel m)) \<in> set (version_features v)"
    and "e = \<lparr>chan_state = ChanTryOpen, chan_ordering = chan_ordering (hot_channel m),
      chan_remote = chan_remote (hot_channel m), chan_connection_hops = [k],
      chan_version = hot_counterparty_version m\<rparr>"
    and "out_result out = \<lparr>chr_port_id = hot_port_id m, chr_channel_id = ChannelId (ucast (ChannelCounter s)),
      chr_id_state = Generated, chr_channel_end = e\<rparr>"
    and "verify_channel_proofs E s (proof_height (hot_proofs m)) (e\<lparr>chan_state := ChanInit\<rparr>) conn
      \<lparr>chan_state = ChanInit, chan_ordering = chan_ordering e,
       chan_remote = \<lparr>cpty_port_id = hot_port_id m, cpty_channel_id = None\<rparr>,
       chan_connection_hops = [k'], chan_version = chan_version e\<rparr> (object_proof (hot_proofs m)) = Inr ()"
  using assms
  by (auto simp: chan_open_try_process_def Let_def get_channel_counter_def open_hop_connection_ok
      check_channel_feature_ok counterparty_hops_ok)

lemma chan_open_ack_ok:
  assumes "chan_open_ack_process E s m = Inr out"
  obtains e k conn k' e' where "get_channel_end E s (hoa_port_id m, hoa_channel_id m) = Inr e"
    and "chan_state e = ChanInit \<or> chan_state e = ChanTryOpen"
    and "chan_connection_hops e = [k]" and "get_connection_end E s k = Inr conn"
    and "conn_state conn = ConnOpen" and "cpty_connection_id (conn_counterparty conn) = Some k'"
    and "e' = e\<lparr>chan_remote := (chan_remote e)\<lparr>cpty_channel_id := Some (hoa_counterparty_channel_id m)\<rparr>\<rparr>"
    and "out_result out = \<lparr>chr_port_id = hoa_port_id m, chr_channel_id = hoa_channel_id m,
      chr_id_state = Reused,
      chr_channel_end = e'\<lparr>chan_state := ChanOpen, chan_version := hoa_counterparty_version m\<rparr>\<rparr>"
    and "verify_channel_proofs E s (proof_height (hoa_proofs m)) e' conn
      \<lparr>chan_state = ChanTryOpen, chan_ordering = chan_ordering e,
       chan_remote = \<lparr>cpty_port_id = hoa_port_id m, cpty_channel_id = Some (hoa_channel_id m)\<rparr>,
       chan_connection_hops = [k'], chan_version = hoa_counterparty_version m\<rparr>
      (object_proof (hoa_proofs m)) = Inr ()"
  using assms
  by (auto simp: chan_open_ack_process_def Let_def open_hop_connection_ok counterparty_hops_ok
      set_counterparty_channel_id_def split: if_splits)

lemma chan_open_confirm_ok:
  assumes "chan_open_confirm_process E s m = Inr out"
  obtains e k conn k' where "get_channel_end E s (hoc_port_id m, hoc_channel_id m) = Inr e"
    and "chan_state e = ChanTryOpen"
    and "chan_connection_hops e = [k]" and "get_connection_end E s k = Inr conn"
    and "conn_state conn = ConnOpen" and "cpty_connection_id (conn_counterparty conn) = Some k'"
    and "out_result out = \<lparr>chr_port_id = hoc_port_id m, chr_channel_id = hoc_channel_id m,
      chr_id_state = Reused, chr_channel_end = e\<lparr>chan_state := ChanOpen\<rparr>\<rparr>"
    and "verify_channel_proofs E s (proof_height (hoc_proofs m)) e conn
      \<lparr>chan_state = ChanOpen, chan_ordering = chan_ordering e,
       chan_remote = \<lparr>cpty_port_id = hoc_port_id m, cpty_channel_id = Some (hoc_channel_id m)\<rparr>,
       chan_connection_hops = [k'], chan_version = chan_version e\<rparr> (object_proof (hoc_proofs m)) = Inr ()"
  using assms
  by (auto simp: chan_open_confirm_process_def Let_def open_hop_connection_ok counterparty_hops_ok
      split: if_splits)

lemma chan_close_init_ok:
  assumes "chan_close_init_process E s m = Inr out"
  obtains e k conn where "get_channel_end E s (hci_port_id m, hci_channel_id m) = Inr e"
    and "chan_state e \<noteq> ChanClosed"
    and "chan_connection_hops e = [k]" and "get_connection_end E s k = Inr conn" and "conn_state conn = ConnOpen"
    and "out_result out = \<lparr>chr_port_id = hci_port_id m, chr_channel_id = hci_channel_id m,
      chr_id_state = Reused, chr_channel_end = e\<lparr>chan_state := ChanClosed\<rparr>\<rparr>"
  using assms by (auto simp: chan_close_init_process_def Let_def open_hop_connection_ok split: if_splits)

lemma chan_close_confirm_ok:
  assumes "chan_close_confirm_process E s m = Inr out"
  obtains e k conn k' where "get_channel_end E s (hcc_port_id m, hcc_channel_id m) = Inr e"
    and "chan_state e \<noteq> ChanClosed"
    and "chan_connection_hops e = [k]" and "get_connection_end E s k = Inr conn"
    and "conn_state conn = ConnOpen" and "cpty_connection_id (conn_counterparty conn) = Some k'"
    and "out_result out = \<lparr>chr_port_id = hcc_port_id m, chr_channel_id = hcc_channel_id m,
      chr_id_state = Reused, chr_channel_end = e\<lparr>chan_state := ChanClosed\<rparr>\<rparr>"
    and "verify_channel_proofs E s (proof_height (hcc_proofs m)) e conn
      \<lparr>chan_state = ChanClosed, chan_ordering = chan_ordering e,
       chan_remote = \<lparr>cpty_port_id = hcc_port_id m, cpty_channel_id = Some (hcc_channel_id m)\<rparr>,
       chan_connection_hops = [k'], chan_version = chan_version e\<rparr> (object_proof (hcc_proofs m)) = Inr ()"
  using assms
  by (auto simp: chan_close_confirm_process_def Let_def open_hop_connection_ok counterparty_hops_ok
      split: if_splits)

lemma channel_dispatch_split:
  assumes "channel_dispatch E s m = Inr (b, r)"
  obtains (open_init) i out where "m = ChannelOpenInit i" "chan_open_init_process E s i = Inr out" "out_result out = r"
  | (open_try) i out where "m = ChannelOpenTry i" "chan_open_try_process E s i = Inr out" "out_result out = r"
  | (open_ack) i out where "m = ChannelOpenAck i" "chan_open_ack_process E s i = Inr out" "out_result out = r"
  | (open_confirm) i out where "m = ChannelOpenConfirm i" "chan_open_confirm_process E s i = Inr out" "out_result out = r"
  | (close_init) i out where "m = ChannelCloseInit i" "chan_close_init_process E s i = Inr out" "out_result out = r"
  | (close_confirm) i out where "m = ChannelCloseConfirm i" "chan_close_confirm_process E s i = Inr out" "out_result out = r"
  using assms by (cases m) (auto simp: channel_dispatch_def)

lemma chan_evolves_open:
  "chan_state e \<in> {ChanInit, ChanTryOpen} \<Longrightarrow>
     chan_evolves e (e\<lparr>chan_remote := (chan_remote e)\<lparr>cpty_channel_id := c\<rparr>, chan_state := ChanOpen, chan_version := v\<rparr>)"
  "chan_state e \<in> {ChanInit, ChanTryOpen} \<Longrightarrow> chan_evolves e (e\<lparr>chan_state := ChanOpen\<rparr>)"
proof -
  have "e\<lparr>chan_state := ChanOpen\<rparr> =
      e\<lparr>chan_remote := (chan_remote e)\<lparr>cpty_channel_id := cpty_channel_id (chan_remote e)\<rparr>,
        chan_state := ChanOpen, chan_version := chan_version e\<rparr>"
    by simp
  then show "chan_state e \<in> {ChanInit, ChanTryOpen} \<Longrightarrow> chan_evolves e (e\<lparr>chan_state := ChanOpen\<rparr>)"
    unfolding chan_evolves_def by blast
qed (auto simp: chan_evolves_def)

lemma chan_evolves_close: "chan_state e \<noteq> ChanClosed \<Longrightarrow> chan_evolves e (e\<lparr>chan_state := ChanClosed\<rparr>)"
  by (simp add: chan_evolves_def)

lemma chan_evolves_wf: "chan_evolves e e' \<Longrightarrow> wf_channel_end ua e' = wf_channel_end ua e"
  by (auto simp: chan_evolves_def wf_channel_end_def)

lemma channel_dispatch_cases:
  assumes "channel_dispatch E s m = Inr (b, r)"
  obtains (generated) p e where "r = \<lparr>chr_port_id = p, chr_channel_id = ChannelId (ucast (ChannelCounter s)),
      chr_id_state = Generated, chr_channel_end = e\<rparr>"
    and "chan_state e \<in> {ChanInit, ChanTryOpen}"
    and "length (chan_connection_hops e) = 1"
    and "wf_channel_msg (unicode_alnum E) m \<Longrightarrow> wf_channel_end (unicode_alnum E) e"
  | (reused) p c e e' where "r = \<lparr>chr_port_id = p, chr_channel_id = c, chr_id_state = Reused, chr_channel_end = e'\<rparr>"
    and "get_channel_end E s (p, c) = Inr e" and "chan_evolves e e'"
  using assms
proof (cases rule: channel_dispatch_split)
  case (open_init i out)
  from open_init(2) show ?thesis
    by (rule chan_open_init_ok) (rule generated, use open_init(1,3) in \<open>auto simp: wf_channel_end_def\<close>)
next
  case (open_try i out)
  from open_try(2) show ?thesis
    by (rule chan_open_try_ok) (rule generated, use open_try(1,3) in \<open>auto simp: wf_channel_end_def\<close>)
next
  case (open_ack i out)
  from open_ack(2) show ?thesis
    by (rule chan_open_ack_ok) (rule reused, use open_ack(3) in \<open>auto simp: chan_evolves_open\<close>)
next
  case (open_confirm i out)
  from open_confirm(2) show ?thesis
    by (rule chan_open_confirm_ok) (rule reused, use open_confirm(3) in \<open>auto simp: chan_evolves_open\<close>)
next
  case (close_init i out)
  from close_init(2) show ?thesis
    by (rule chan_close_init_ok) (rule reused, use close_init(3) in \<open>auto simp: chan_evolves_close\<close>)
next
  case (close_confirm i out)
  from close_confirm(2) show ?thesis
    by (rule chan_close_confirm_ok) (rule reused, use close_confirm(3) in \<open>auto simp: chan_evolves_close\<close>)
qed

section \<open>Effect of storing a result\<close>

lemma store_channel_result_effect:
  assumes "store_channel_result r s = (res, s')"
    and "chr_id_state r = Generated \<Longrightarrow> length (chan_connection_hops (chr_channel_end r)) = 1"
  shows "res = Inr ()"
    and "channels_get s' k = (if k = (chr_port_id r, chr_channel_id r)
      then Some (channel_end_into_raw (chr_channel_end r)) else channels_get s k)"
    and "ChannelCounter s' = (if chr_id_state r = Generated
      then saturating_add (ChannelCounter s) 1 else ChannelCounter s)"
proof -
  consider "chr_id_state r = Reused" | h where "chan_connection_hops (chr_channel_end r) = [h]"
    using assms(2) by (cases "chr_id_state r") (auto simp: length_Suc_conv)
  then show "res = Inr ()" and "channels_get s' k = (if k = (chr_port_id r, chr_channel_id r)
      then Some (channel_end_into_raw (chr_channel_end r)) else channels_get s k)"
    and "ChannelCounter s' = (if chr_id_state r = Generated
      then saturating_add (ChannelCounter s) 1 else ChannelCounter s)"
    using assms(1)
    by (cases; auto simp: store_channel_result_def Let_def store_channel_def store_connection_channels_def
        store_next_sequence_send_def store_next_sequence_recv_def store_next_sequence_ack_def
        increase_channel_counter_def channels_get_def view_puts view_paths child_get_put prod_eq_iff
        split: if_splits)+
qed

lemma store_channel_result_reads:
  assumes "store_channel_result r s = (res, s')"
    and "chr_id_state r = Generated \<Longrightarrow> length (chan_connection_hops (chr_channel_end r)) = 1"
    and "wf_channel_end (unicode_alnum E) (chr_channel_end r)"
  shows "get_channel_end E s' k = (if k = (chr_port_id r, chr_channel_id r)
      then Inr (chr_channel_end r) else get_channel_end E s k)"
  using assms(3) store_channel_result_effect(2) [OF assms(1,2)]
  by (simp add: get_channel_end_def channel_end_roundtrip)

lemma store_generated_channel:
  assumes "store_channel_result r s = (res, s')" and "chr_id_state r = Generated"
    and "chan_connection_hops (chr_channel_end r) = [h]"
  shows "get_next_sequence_send s' (chr_port_id r, chr_channel_id r) = Inr 1"
    and "get_next_sequence_recv s' (chr_port_id r, chr_channel_id r) = Inr 1"
    and "get_next_sequence_ack s' (chr_port_id r, chr_channel_id r) = Inr 1"
    and "\<exists>items. ChannelsConnection s' h = Some items \<and> (chr_port_id r, chr_channel_id r) \<in> set items"
  using assms
  by (auto simp: store_channel_result_def Let_def store_channel_def store_connection_channels_def
      store_next_sequence_send_def store_next_sequence_recv_def store_next_sequence_ack_def
      increase_channel_counter_def reader_oks view_laws split: option.splits)

section \<open>Runs of the handshake\<close>

text \<open>
  Between the handler of a message and the storing of its result the router calls the module that owns the
  port. What such a callback may do to the host: change the storage of the application, and write
  acknowledgements (the trait \<^verbatim>\<open>Module\<close> of \<^verbatim>\<open>ics26_routing/context.rs\<close> gives it the host for reading only,
  and allows it to write acknowledgements).
\<close>

definition is_ack_path :: "path \<Rightarrow> bool" where
  "is_ack_path q \<longleftrightarrow> (\<exists>p c n. q = AcksPath p c n)"

definition module_effect :: "('cs, 'cons, 'app) host \<Rightarrow> ('cs, 'cons, 'app) host \<Rightarrow> bool" where
  "module_effect s t \<longleftrightarrow>
     (\<forall>q. in_language q \<and> \<not> is_ack_path q \<longrightarrow> child_get t q = child_get s q)
     \<and> t\<lparr>trie := trie s, app_storage := app_storage s, Acks := Acks s,
         AcknowledgementCounter := AcknowledgementCounter s\<rparr> = s"

lemma module_effect_refl [simp]: "module_effect s s"
  by (simp add: module_effect_def)

lemma module_effect_child:
  "module_effect s t \<Longrightarrow> in_language q \<Longrightarrow> \<not> is_ack_path q \<Longrightarrow> child_get t q = child_get s q"
  by (simp add: module_effect_def)

lemma module_effect_fields:
  assumes "module_effect s t"
  shows "ChannelCounter t = ChannelCounter s" and "ConnectionCounter t = ConnectionCounter s"
    and "ClientCounter t = ClientCounter s" and "ConsensusHeights t = ConsensusHeights s"
    and "block_number t = block_number s" and "now_nanos t = now_nanos s"
    and "parachain_id t = parachain_id s"
proof -
  let ?u = "t\<lparr>trie := trie s, app_storage := app_storage s, Acks := Acks s,
         AcknowledgementCounter := AcknowledgementCounter s\<rparr>"
  have u: "s = ?u" using assms by (simp add: module_effect_def)
  show "ChannelCounter t = ChannelCounter s" and "ConnectionCounter t = ConnectionCounter s"
    and "ClientCounter t = ClientCounter s" and "ConsensusHeights t = ConsensusHeights s"
    and "block_number t = block_number s" and "now_nanos t = now_nanos s"
    and "parachain_id t = parachain_id s"
    by (subst u; simp)+
qed

lemma module_effect_reads:
  assumes "module_effect s t"
  shows "channels_get t k = channels_get s k" and "connections_get t i = connections_get s i"
    and "get_channel_end E t k = get_channel_end E s k"
    and "get_connection_end E t i = get_connection_end E s i"
  using module_effect_child [OF assms]
  by (simp_all add: channels_get_def connections_get_def get_channel_end_def get_connection_end_def
      is_ack_path_def)

text \<open>The callback of a Try chooses the version that is stored (\<^verbatim>\<open>result.channel_end.version = version\<close>).\<close>

fun set_try_version :: "channel_msg \<Rightarrow> channel_version \<Rightarrow> channel_result \<Rightarrow> channel_result" where
  "set_try_version (ChannelOpenTry m) v r = r\<lparr>chr_channel_end := (chr_channel_end r)\<lparr>chan_version := v\<rparr>\<rparr>"
| "set_try_version m v r = r"

inductive chan_step ::
    "('cs, 'cons, 'msg, 'app) env \<Rightarrow> ('cs, 'cons, 'app) host \<Rightarrow> ('cs, 'cons, 'app) host \<Rightarrow> bool" for E where
  chan_handled: "channel_dispatch E s m = Inr (b, r) \<Longrightarrow> wf_channel_msg (unicode_alnum E) m
     \<Longrightarrow> module_effect s t \<Longrightarrow> store_channel_result (set_try_version m v r) t = (Inr (), s')
     \<Longrightarrow> chan_step E s s'"

inductive_cases chan_stepE: "chan_step E s s'"

lemma set_try_version_fields [simp]:
  "chr_port_id (set_try_version m v r) = chr_port_id r"
  "chr_channel_id (set_try_version m v r) = chr_channel_id r"
  "chr_id_state (set_try_version m v r) = chr_id_state r"
  "chan_connection_hops (chr_channel_end (set_try_version m v r)) = chan_connection_hops (chr_channel_end r)"
  "wf_channel_end ua (chr_channel_end (set_try_version m v r)) = wf_channel_end ua (chr_channel_end r)"
  by (cases m; simp add: wf_channel_end_def)+

lemma set_try_version_same [simp]: "set_try_version m (chan_version (chr_channel_end r)) r = r"
  by (cases m) simp_all

lemma channel_dispatch_reused:
  assumes "channel_dispatch E s m = Inr (b, r)" and "chr_id_state r = Reused"
  shows "set_try_version m v r = r"
  using assms(1)
  by (cases rule: channel_dispatch_split) (use assms(2) in \<open>auto elim!: chan_open_try_ok\<close>)

lemma chan_step_cases:
  assumes "chan_step E s s'"
  obtains (opened) p e where "\<And>k. get_channel_end E s' k =
      (if k = (p, ChannelId (ucast (ChannelCounter s))) then Inr e else get_channel_end E s k)"
    and "\<And>k. channels_get s' k \<noteq> None \<longleftrightarrow>
      k = (p, ChannelId (ucast (ChannelCounter s))) \<or> channels_get s k \<noteq> None"
    and "ChannelCounter s' = saturating_add (ChannelCounter s) 1"
  | (advanced) k e e' where "get_channel_end E s k = Inr e" and "chan_evolves e e'"
    and "\<And>j. get_channel_end E s' j = (if j = k then Inr e' else get_channel_end E s j)"
    and "\<And>j. channels_get s' j \<noteq> None \<longleftrightarrow> channels_get s j \<noteq> None"
    and "ChannelCounter s' = ChannelCounter s"
proof -
  obtain m b r t v where d: "channel_dispatch E s m = Inr (b, r)" and wf: "wf_channel_msg (unicode_alnum E) m"
    and t: "module_effect s t" and st: "store_channel_result (set_try_version m v r) t = (Inr (), s')"
    using assms by (rule chan_stepE)
  note same = module_effect_reads [OF t] module_effect_fields(1) [OF t]
  from d show ?thesis
  proof (cases rule: channel_dispatch_cases)
    case (generated p e)
    then have len: "length (chan_connection_hops (chr_channel_end (set_try_version m v r))) = 1"
      and wfe: "wf_channel_end (unicode_alnum E) (chr_channel_end (set_try_version m v r))"
      using wf by simp_all
    from store_channel_result_reads [OF st len wfe] store_channel_result_effect [OF st len] show ?thesis
      by (intro opened [of p "chr_channel_end (set_try_version m v r)"]) (auto simp: generated(1) same)
  next
    case (reused p c e e')
    then have r: "set_try_version m v r = r"
      using channel_dispatch_reused [OF d] by simp
    have wfe: "wf_channel_end (unicode_alnum E) (chr_channel_end r)"
      using reused(1) get_channel_end_wf [OF reused(2)] chan_evolves_wf [OF reused(3)] by simp
    have len: "chr_id_state r = Generated \<Longrightarrow> length (chan_connection_hops (chr_channel_end r)) = 1"
      using reused(1) by simp
    note st = st [unfolded r]
    from store_channel_result_reads [OF st len wfe] store_channel_result_effect [OF st len] reused(2,3)
    show ?thesis
      by (intro advanced [of "(p, c)" e e']) (auto simp: reused(1) get_channel_end_def same)
  qed
qed

lemma fresh_channel:
  "channel_ids_below s \<Longrightarrow> channels_get s (p, ChannelId (ucast (ChannelCounter s))) = None"
  using channel_ids.fresh [of s "(p, ChannelId (ucast (ChannelCounter s)))"]
  by (auto simp: channel_ids_below_def channel_numbered_def)

lemma saturated: "saturating_add (- 1 :: u32) 1 = - 1"
  by (simp add: saturating_add_def word_gt_0)

lemma chan_step_counter:
  assumes "chan_step E s s'" and "ChannelCounter s' \<noteq> - 1"
  shows "ChannelCounter s \<noteq> - 1"
  using assms(1)
proof (cases rule: chan_step_cases)
  case (opened p e)
  show ?thesis
  proof
    assume "ChannelCounter s = - 1"
    with opened(3) assms(2) show False by (simp add: saturated)
  qed
next
  case (advanced k e e')
  with assms(2) show ?thesis by simp
qed

lemma chan_step_ids:
  assumes "chan_step E s s'" and "channel_ids_below s" and "ChannelCounter s \<noteq> - 1"
  shows "channel_ids_below s'"
  using assms(1)
proof (cases rule: chan_step_cases)
  case (opened p e)
  from opened(3) have "ChannelCounter s' = ChannelCounter s + 1"
    by (simp add: counter_step(3) [OF assms(3)])
  from channel_ids.allocate [OF assms(2) [unfolded channel_ids_below_def] _ assms(3) this, of
      "(p, ChannelId (ucast (ChannelCounter s)))"]
  show ?thesis
    unfolding channel_ids_below_def by (simp only: channel_numbered_def opened(2)) simp
next
  case (advanced k e e')
  with assms(2) show ?thesis
    unfolding channel_ids_below_def by (intro channel_ids.unchanged [of s s']) simp_all
qed

lemma chan_step_evolves:
  assumes "chan_step E s s'" and "channel_ids_below s" and "get_channel_end E s k = Inr e"
  shows "\<exists>e'. get_channel_end E s' k = Inr e' \<and> (e' = e \<or> chan_evolves e e')"
  using assms(1)
proof (cases rule: chan_step_cases)
  case (opened p d)
  have "k \<noteq> (p, ChannelId (ucast (ChannelCounter s)))"
    using fresh_channel [OF assms(2)] assms(3) by (auto simp: get_channel_end_def)
  with opened(1) assms(3) show ?thesis by simp
next
  case (advanced j d d')
  with assms(3) show ?thesis by auto
qed

section \<open>Properties\<close>

text \<open>The relation between a channel end and any later version of it: the state only advances, the
  ordering, the connection and the counterparty's port stay, an open end can only be closed, and a
  closed end stays as it is.\<close>

definition chan_progress :: "channel_end \<Rightarrow> channel_end \<Rightarrow> bool" where
  "chan_progress e e' \<longleftrightarrow> chan_less_or_equal_progress (chan_state e) (chan_state e')
     \<and> chan_ordering e' = chan_ordering e \<and> chan_connection_hops e' = chan_connection_hops e
     \<and> cpty_port_id (chan_remote e') = cpty_port_id (chan_remote e)
     \<and> (chan_state e = ChanOpen \<longrightarrow> e' = e \<or> e' = e\<lparr>chan_state := ChanClosed\<rparr>)
     \<and> (chan_state e = ChanClosed \<longrightarrow> e' = e)"

lemma chan_progress_refl [simp]: "chan_progress e e"
  by (simp add: chan_progress_def chan_less_or_equal_progress_def)

lemma chan_progress_evolves:
  assumes "chan_progress d e" and "chan_evolves e e'"
  shows "chan_progress d e'"
  using assms
  by (cases "chan_state d"; cases "chan_state e")
    (auto simp: chan_progress_def chan_evolves_def chan_less_or_equal_progress_def)

text \<open>C26: a new channel is fresh. While the 32-bit counter has not run out, the channel identifier that
  Init or Try allocates is unused on every port, the new channel end can be read back under it, its three
  sequence numbers start at 1, and it is listed under its connection.\<close>

theorem new_channel_stored:
  assumes "channel_dispatch E s m = Inr (b, r)" and "wf_channel_msg (unicode_alnum E) m"
    and "chr_id_state r = Generated" and "channel_ids_below s" and "ChannelCounter s \<noteq> - 1"
    and "store_channel_result r s = (res, s')"
  shows "res = Inr () \<and> (\<forall>p. channels_get s (p, chr_channel_id r) = None)
    \<and> get_channel_end E s' (chr_port_id r, chr_channel_id r) = Inr (chr_channel_end r)
    \<and> get_next_sequence_send s' (chr_port_id r, chr_channel_id r) = Inr 1
    \<and> get_next_sequence_recv s' (chr_port_id r, chr_channel_id r) = Inr 1
    \<and> get_next_sequence_ack s' (chr_port_id r, chr_channel_id r) = Inr 1
    \<and> (\<exists>h items. chan_connection_hops (chr_channel_end r) = [h]
        \<and> ChannelsConnection s' h = Some items \<and> (chr_port_id r, chr_channel_id r) \<in> set items)
    \<and> channel_ids_below s'"
  using assms(1)
proof (cases rule: channel_dispatch_cases)
  case (generated p e)
  then have len: "length (chan_connection_hops (chr_channel_end r)) = 1"
    and wf: "wf_channel_end (unicode_alnum E) (chr_channel_end r)"
    using assms(2) by simp_all
  then obtain h where h: "chan_connection_hops (chr_channel_end r) = [h]"
    by (auto simp: length_Suc_conv)
  note ok = store_channel_result_effect(1) [OF assms(6) len]
  have "chan_step E s s'"
    using chan_handled [OF assms(1,2) module_effect_refl, of "chan_version (chr_channel_end r)"] assms(6) ok
    by simp
  from chan_step_ids [OF this assms(4,5)] have "channel_ids_below s'" .
  moreover have "channels_get s (q, chr_channel_id r) = None" for q
    using fresh_channel [OF assms(4)] generated(1) by simp
  ultimately show ?thesis
    using ok h store_generated_channel [OF assms(6,3) h] store_channel_result_reads [OF assms(6) len wf]
    by simp
next
  case (reused p c e e')
  with assms(3) show ?thesis by simp
qed

text \<open>
  The documented contract of \<^verbatim>\<open>ClientDef::verify_channel_state\<close>: \<open>remote i h p c\<close> is the channel end at
  port \<open>p\<close> and channel \<open>c\<close> of the chain that client \<open>i\<close> follows, at height \<open>h\<close>.
\<close>

definition proves_channels ::
    "('cs, 'cons, 'msg, 'app) env
       \<Rightarrow> (client_id \<Rightarrow> height \<Rightarrow> port_id \<Rightarrow> channel_id \<Rightarrow> channel_end option) \<Rightarrow> bool" where
  "proves_channels E remote \<longleftrightarrow>
     (\<forall>s i cs h x q r p c e. def_verify_channel_state E s i cs h x q r p c e = Inr () \<longrightarrow> remote i h p c = Some e)"

lemma verify_channel_proofs_ok:
  assumes "verify_channel_proofs E s h chan conn expected pf = Inr ()" and "proves_channels E remote"
  obtains c where "cpty_channel_id (chan_remote chan) = Some c"
    and "remote (conn_client_id conn) h (cpty_port_id (chan_remote chan)) c = Some expected"
  using assms by (auto simp: verify_channel_proofs_def Let_def proves_channels_def split: if_splits)

text \<open>The state in which the counterparty's end has to be for a message to go through.\<close>

fun counterparty_state :: "channel_msg \<Rightarrow> chan_state option" where
  "counterparty_state (ChannelOpenAck m) = Some ChanTryOpen"
| "counterparty_state (ChannelOpenConfirm m) = Some ChanOpen"
| "counterparty_state (ChannelCloseConfirm m) = Some ChanClosed"
| "counterparty_state m = None"


subsection \<open>A sample channel\<close>

text \<open>A host with the open connection-0 and channel-0 in TryOpen on it, the open channel-3 of the other
  chain, and a light client that accepts exactly the channel ends of a given chain.\<close>

definition sample_channel :: channel_end where
  "sample_channel =
     \<lparr>chan_state = ChanTryOpen, chan_ordering = Unordered,
      chan_remote = \<lparr>cpty_port_id = port_transfer, cpty_channel_id = Some (ChannelId 3)\<rparr>,
      chan_connection_hops = [ConnectionId ''connection-0''], chan_version = ChannelVersion ''ics20-1''\<rparr>"

definition sample_remote_channel :: "client_id \<Rightarrow> height \<Rightarrow> port_id \<Rightarrow> channel_id \<Rightarrow> channel_end option" where
  "sample_remote_channel i h p c =
     (if i = sample_client \<and> p = port_transfer \<and> c = ChannelId 3
      then Some \<lparr>chan_state = ChanOpen, chan_ordering = Unordered,
        chan_remote = \<lparr>cpty_port_id = port_transfer, cpty_channel_id = Some (ChannelId 0)\<rparr>,
        chan_connection_hops = [ConnectionId ''connection-5''], chan_version = ChannelVersion ''ics20-1''\<rparr>
      else None)"

definition channel_env ::
    "(mock_client_state, mock_consensus_state, mock_client_message, unit) env" where
  "channel_env = mock_env\<lparr>def_verify_channel_state :=
     (\<lambda>s i cs h x q r p c e. if sample_remote_channel i h p c = Some e then Inr ()
        else fail_with (E02_ImplementationSpecific ''proof''))\<rparr>"

definition sample_chan_host :: "(mock_client_state, mock_consensus_state, unit) host" where
  "sample_chan_host =
     channels_insert (port_transfer, ChannelId 0) (channel_end_into_raw sample_channel)
       (connections_insert (ConnectionId ''connection-0'')
         (connection_end_into_raw (sample_try_end\<lparr>conn_state := ConnOpen\<rparr>))
         (sample_conn_host\<lparr>ChannelCounter := 1\<rparr>))"

definition sample_chan_proofs :: proofs where
  "sample_chan_proofs =
     \<lparr>object_proof = CommitmentProofBytes [1], client_proof = None, consensus_proof = None,
      other_proof = None, proof_height = Height 0 7\<rparr>"

definition sample_chan_confirm :: channel_msg where
  "sample_chan_confirm = ChannelOpenConfirm
     \<lparr>hoc_port_id = port_transfer, hoc_channel_id = ChannelId 0, hoc_proofs = sample_chan_proofs,
      hoc_signer = ''relayer''\<rparr>"

definition sample_chan_init :: channel_msg where
  "sample_chan_init = ChannelOpenInit
     \<lparr>hoi_port_id = port_transfer,
      hoi_channel = sample_channel\<lparr>chan_state := ChanInit,
        chan_remote := \<lparr>cpty_port_id = port_transfer, cpty_channel_id = None\<rparr>\<rparr>,
      hoi_signer = ''relayer''\<rparr>"

lemma sample_port_valid: "valid_port_id ua port_transfer"
  by (simp add: valid_port_id_def port_transfer_def validator_defs
      validate_identifier_ok_iff chars_def valid_identifier_char_def is_alphanumeric_def
      ascii_alphanumeric_def VALID_SPECIAL_CHARS_def PATH_SEPARATOR_def)

lemma sample_channel_wf: "wf_channel_end ua sample_channel"
  by (simp add: wf_channel_end_def sample_channel_def sample_port_valid sample_ids_valid)

lemma sample_channel_stored:
  "get_channel_end E sample_chan_host (port_transfer, ChannelId 0) = Inr sample_channel"
  unfolding sample_chan_host_def by (simp add: get_channel_end_written sample_channel_wf)

lemma sample_open_stored:
  "get_connection_end E sample_chan_host (ConnectionId ''connection-0'')
     = Inr (sample_try_end\<lparr>conn_state := ConnOpen\<rparr>)"
proof -
  have "wf_connection_end (unicode_alnum E) (sample_try_end\<lparr>conn_state := ConnOpen\<rparr>)"
    using sample_try_end_wf [of "unicode_alnum E"] by (simp add: wf_connection_end_def)
  moreover have "connections_get sample_chan_host (ConnectionId ''connection-0'')
      = Some (connection_end_into_raw (sample_try_end\<lparr>conn_state := ConnOpen\<rparr>))"
    by (simp add: sample_chan_host_def view_laws)
  ultimately show ?thesis
    by (simp add: get_connection_end_def connection_end_roundtrip)
qed

lemma sample_chan_client:
  "client_states_get sample_chan_host sample_client
     = Some (mock_client_state_new (MockHeaderMsg (mock_header_at 7)))"
  "consensus_states_get sample_chan_host (sample_client, Height 0 7)
     = Some (mock_consensus_state_new (mock_header_at 7))"
  by (simp_all add: sample_chan_host_def sample_conn_host_def view_laws)

lemma sample_chan_ids: "channel_ids_below sample_chan_host"
  unfolding channel_ids_below_def ids_below_def
proof (intro allI impI)
  fix k
  assume "channels_get sample_chan_host k \<noteq> None"
  then have "k = (port_transfer, ChannelId 0)"
    by (simp add: sample_chan_host_def sample_conn_host_def view_laws prod_eq_iff split: if_splits)
  moreover have "ChannelCounter sample_chan_host = 1"
    by (simp add: sample_chan_host_def view_puts)
  ultimately show "\<exists>n. channel_numbered k n \<and> n < ucast (ChannelCounter sample_chan_host)"
    by (intro exI [of _ 0]) (simp add: channel_numbered_def)
qed

lemma channel_env_sound: "proves_channels channel_env sample_remote_channel"
  by (simp add: proves_channels_def channel_env_def)

lemma sample_chan_confirm_runs:
  "\<exists>b r. channel_dispatch channel_env sample_chan_host sample_chan_confirm = Inr (b, r)"
proof -
  have "open_hop_connection channel_env sample_chan_host sample_channel
      = Inr (sample_try_end\<lparr>conn_state := ConnOpen\<rparr>)"
    by (simp add: open_hop_connection_ok sample_channel_def sample_open_stored)
  moreover have "counterparty_hops (sample_try_end\<lparr>conn_state := ConnOpen\<rparr>) sample_channel
      = Inr [ConnectionId ''connection-5'']"
    by (simp add: counterparty_hops_ok sample_try_end_def)
  moreover have "conn_client_id sample_try_end = sample_client"
    by (simp add: sample_try_end_def)
  ultimately show ?thesis
    by (simp add: sample_chan_confirm_def channel_dispatch_def chan_open_confirm_process_def Let_def
        sample_channel_stored verify_channel_proofs_def reader_oks sample_chan_client is_frozen_def
        channel_env_def default_status_def mock_client_state_new_def sample_chan_proofs_def)
      (simp add: sample_channel_def sample_remote_channel_def)
qed

lemma sample_chan_init_runs:
  "\<exists>b r. channel_dispatch channel_env sample_chan_host sample_chan_init = Inr (b, r)
     \<and> chr_id_state r = Generated"
proof -
  let ?e = "sample_channel\<lparr>chan_state := ChanInit,
        chan_remote := \<lparr>cpty_port_id = port_transfer, cpty_channel_id = None\<rparr>\<rparr>"
  have "hop_connection channel_env sample_chan_host ?e = Inr (sample_try_end\<lparr>conn_state := ConnOpen\<rparr>)"
    by (simp add: hop_connection_ok sample_channel_def sample_open_stored)
  moreover have "check_channel_feature (sample_try_end\<lparr>conn_state := ConnOpen\<rparr>) ?e = Inr ()"
    by (simp add: check_channel_feature_ok sample_try_end_def sample_channel_def version_default_def)
  ultimately show ?thesis
    by (simp add: sample_chan_init_def channel_dispatch_def chan_open_init_process_def Let_def
        get_channel_counter_def)
qed


theorem new_channel_stored_witness:
  "\<exists>b r s'. channel_dispatch channel_env sample_chan_host sample_chan_init = Inr (b, r)
     \<and> store_channel_result r sample_chan_host = (Inr (), s')
     \<and> get_next_sequence_send s' (chr_port_id r, chr_channel_id r) = Inr 1 \<and> channel_ids_below s'"
proof -
  obtain b r where d: "channel_dispatch channel_env sample_chan_host sample_chan_init = Inr (b, r)"
    and g: "chr_id_state r = Generated"
    using sample_chan_init_runs by blast
  have wf: "wf_channel_msg (unicode_alnum channel_env) sample_chan_init"
    using sample_channel_wf [of "unicode_alnum channel_env"]
    by (simp add: sample_chan_init_def wf_channel_end_def sample_port_valid)
  have "ChannelCounter sample_chan_host \<noteq> - 1"
    by (simp add: sample_chan_host_def view_puts)
  moreover obtain res s' where "store_channel_result r sample_chan_host = (res, s')"
    by fastforce
  ultimately show ?thesis
    using new_channel_stored [OF d wf g sample_chan_ids] d by blast
qed

end
