(* ===== verification/Packet_Handler.thy ===== *)
theory Packet_Handler
  imports Channel_Handler
begin

text \<open>
  The packet life cycle of \<^verbatim>\<open>ics04_channel/handler\<close>: the proof verifications of \<^verbatim>\<open>verify.rs\<close>, the handlers
  that send, receive, acknowledge and time out a packet and the one that writes an acknowledgement, their
  dispatcher, and the storing of a result (\<^verbatim>\<open>ChannelKeeper::store_packet_result\<close> in \<^verbatim>\<open>context.rs\<close>). The
  lemmas say what a handler that returns has checked, on every kind of channel, and what storing its result
  does to each path of the trie; \<open>Packet_Delivery\<close> builds on them.
\<close>

section \<open>Verification\<close>

text \<open>The steps that all packet verifications share: the client, not frozen, and its consensus state.\<close>

definition with_verifier ::
    "('cs, 'cons, 'msg, 'app) env \<Rightarrow> ('cs, 'cons, 'app) host \<Rightarrow> connection_end \<Rightarrow> height
       \<Rightarrow> (client_id \<Rightarrow> 'cs \<Rightarrow> commitment_root \<Rightarrow> (unit, ics04_error) res) \<Rightarrow> (unit, ics04_error) res" where
  "with_verifier E s conn h check =
     (let i = conn_client_id conn in
      bind_res (map_err E04_Ics02Client (get_client_state s i)) (\<lambda>cs.
      if is_frozen E cs s i then fail_with (E04_FrozenClient i)
      else
        bind_res (map_err (\<lambda>_. E04_Packet E04_ErrorInvalidConsensusState)
          (get_consensus_state s i h)) (\<lambda>cons. check i cs (cons_root E cons))))"

definition verify_packet_recv_proofs ::
    "('cs, 'cons, 'msg, 'app) env \<Rightarrow> ('cs, 'cons, 'app) host \<Rightarrow> height \<Rightarrow> packet \<Rightarrow> connection_end
       \<Rightarrow> proofs \<Rightarrow> (unit, ics04_error) res" where
  "verify_packet_recv_proofs E s h p conn ps =
     with_verifier E s conn (proof_height ps) (\<lambda>i cs root.
     bind_res (packet_commitment (sha2_256 E) (packet_data p) (timeout_height p) (timeout_timestamp p)) (\<lambda>c.
     map_err (\<lambda>e. E04_Packet (E04_PacketVerificationFailed (pkt_sequence p) e))
       (def_verify_packet_data E s i cs h conn (object_proof ps) root (source_port p) (source_channel p)
         (pkt_sequence p) c)))"

definition verify_packet_acknowledgement_proofs ::
    "('cs, 'cons, 'msg, 'app) env \<Rightarrow> ('cs, 'cons, 'app) host \<Rightarrow> height \<Rightarrow> packet \<Rightarrow> bytes \<Rightarrow> connection_end
       \<Rightarrow> proofs \<Rightarrow> (unit, ics04_error) res" where
  "verify_packet_acknowledgement_proofs E s h p ack conn ps =
     with_verifier E s conn (proof_height ps) (\<lambda>i cs root.
     map_err (\<lambda>e. E04_Packet (E04_PacketVerificationFailed (pkt_sequence p) e))
       (def_verify_packet_acknowledgement E s i cs h conn (object_proof ps) root (destination_port p)
         (destination_channel p) (pkt_sequence p) (ack_commitment (sha2_256 E) ack)))"

text \<open>The sequence \<open>sq\<close> claimed by the message only appears in the error; the sequence of the packet is
  the one that is verified.\<close>

definition verify_next_sequence_recv ::
    "('cs, 'cons, 'msg, 'app) env \<Rightarrow> ('cs, 'cons, 'app) host \<Rightarrow> height \<Rightarrow> connection_end \<Rightarrow> packet
       \<Rightarrow> sequence \<Rightarrow> proofs \<Rightarrow> (unit, ics04_error) res" where
  "verify_next_sequence_recv E s h conn p sq ps =
     with_verifier E s conn (proof_height ps) (\<lambda>i cs root.
     map_err (\<lambda>e. E04_Packet (E04_PacketVerificationFailed sq e))
       (def_verify_next_sequence_recv E s i cs h conn (object_proof ps) root (destination_port p)
         (destination_channel p) (pkt_sequence p)))"

definition verify_packet_receipt_absence ::
    "('cs, 'cons, 'msg, 'app) env \<Rightarrow> ('cs, 'cons, 'app) host \<Rightarrow> height \<Rightarrow> connection_end \<Rightarrow> packet
       \<Rightarrow> proofs \<Rightarrow> (unit, ics04_error) res" where
  "verify_packet_receipt_absence E s h conn p ps =
     with_verifier E s conn (proof_height ps) (\<lambda>i cs root.
     map_err (\<lambda>e. E04_Packet (E04_PacketVerificationFailed (pkt_sequence p) e))
       (def_verify_packet_receipt_absence E s i cs h conn (object_proof ps) root (destination_port p)
         (destination_channel p) (pkt_sequence p)))"

section \<open>Results\<close>

record send_packet_result =
  sp_port_id :: port_id
  sp_channel_id :: channel_id
  sp_seq :: sequence
  sp_seq_number :: sequence
  sp_commitment :: bytes
  sp_packet :: packet

datatype recv_packet_result =
    RecvNoOp
  | RecvUnordered port_id channel_id sequence receipt packet
  | RecvOrdered port_id channel_id sequence packet

record write_ack_packet_result =
  wa_port_id :: port_id
  wa_channel_id :: channel_id
  wa_seq :: sequence
  wa_ack :: bytes

record ack_packet_result =
  ap_port_id :: port_id
  ap_channel_id :: channel_id
  ap_seq :: sequence
  ap_seq_number :: "sequence option"

record timeout_packet_result =
  tp_port_id :: port_id
  tp_channel_id :: channel_id
  tp_seq :: sequence
  tp_channel :: "channel_end option"

datatype packet_result =
    SendResult send_packet_result
  | RecvResult recv_packet_result
  | WriteAckResult write_ack_packet_result
  | AckResult ack_packet_result
  | TimeoutResult timeout_packet_result

section \<open>Handlers\<close>

abbreviation source_key :: "packet \<Rightarrow> port_id \<times> channel_id" where
  "source_key p \<equiv> (source_port p, source_channel p)"

abbreviation dest_key :: "packet \<Rightarrow> port_id \<times> channel_id" where
  "dest_key p \<equiv> (destination_port p, destination_channel p)"

abbreviation source_packet_key :: "packet \<Rightarrow> packet_key" where
  "source_packet_key p \<equiv> (source_port p, source_channel p, pkt_sequence p)"

abbreviation dest_packet_key :: "packet \<Rightarrow> packet_key" where
  "dest_packet_key p \<equiv> (destination_port p, destination_channel p, pkt_sequence p)"

text \<open>\<^verbatim>\<open>connection_hops()[0]\<close> panics on a channel end without hops.\<close>

definition first_hop :: "channel_end \<Rightarrow> (connection_id, 'e) res" where
  "first_hop e = (case chan_connection_hops e of [] \<Rightarrow> panics | k # _ \<Rightarrow> Inr k)"

definition sent_commitment ::
    "('cs, 'cons, 'msg, 'app) env \<Rightarrow> packet \<Rightarrow> (bytes, 'e) res" where
  "sent_commitment E p =
     packet_commitment (sha2_256 E) (packet_data p) (timeout_height p) (timeout_timestamp p)"

definition send_packet ::
    "('cs, 'cons, 'msg, 'app) env \<Rightarrow> ('cs, 'cons, 'app) host \<Rightarrow> packet
       \<Rightarrow> (packet_result handler_output, ics04_error) res" where
  "send_packet E s p =
     (let output = builder_new in
      bind_res (get_channel_end E s (source_key p)) (\<lambda>e.
      if chan_state e = ChanClosed then fail_with (E04_ChannelClosed (source_channel p))
      else if chan_remote e \<noteq> \<lparr>cpty_port_id = destination_port p, cpty_channel_id = Some (destination_channel p)\<rparr>
      then fail_with (E04_Packet (E04_InvalidPacketCounterparty (destination_port p) (destination_channel p)))
      else
        bind_res (first_hop e) (\<lambda>k.
        bind_res (map_err E04_Ics03Connection (get_connection_end E s k)) (\<lambda>conn.
        (let i = conn_client_id conn in
        bind_res (map_err E04_Shown02 (get_client_state s i)) (\<lambda>cs.
        if is_frozen E cs s i then fail_with (E04_FrozenClient i)
        else
          (let latest_height = cs_latest_height E cs in
          if \<not> is_zero (timeout_height p) \<and> timeout_height p \<le> latest_height
          then fail_with (E04_Packet (E04_LowPacketHeight latest_height (timeout_height p)))
          else
            bind_res (map_err (\<lambda>_. E04_Packet E04_ErrorInvalidConsensusState)
              (get_consensus_state s i latest_height)) (\<lambda>cons.
            if check_expiry (cons_timestamp E cons) (timeout_timestamp p) = Expired
            then fail_with (E04_Packet E04_LowPacketTimestamp)
            else
              bind_res (get_next_sequence_send s (source_key p)) (\<lambda>next_seq_send.
              if pkt_sequence p \<noteq> next_seq_send
              then fail_with (E04_Packet (E04_InvalidPacketSequence (pkt_sequence p) next_seq_send))
              else
                (let output = builder_add_log ''success: packet send '' output in
                bind_res (seq_increment next_seq_send) (\<lambda>seq_number.
                bind_res (sent_commitment E p) (\<lambda>c.
                (let output = builder_emit (SendPacketEvent (host_height s) p) output in
                 Inr (with_result output (SendResult
                   \<lparr>sp_port_id = source_port p, sp_channel_id = source_channel p,
                    sp_seq = pkt_sequence p, sp_seq_number = seq_number, sp_commitment = c,
                    sp_packet = p\<rparr>)))))))))))))))"

definition recv_packet_process ::
    "('cs, 'cons, 'msg, 'app) env \<Rightarrow> ('cs, 'cons, 'app) host \<Rightarrow> msg_recv_packet
       \<Rightarrow> (packet_result handler_output, ics04_error) res" where
  "recv_packet_process E s msg =
     (let output = builder_new; p = mrp_packet msg in
      bind_res (get_channel_end E s (dest_key p)) (\<lambda>e.
      if chan_state e \<noteq> ChanOpen
      then fail_with (E04_InvalidChannelState (source_channel p) (chan_state e))
      else if chan_remote e \<noteq> \<lparr>cpty_port_id = source_port p, cpty_channel_id = Some (source_channel p)\<rparr>
      then fail_with (E04_Packet (E04_InvalidPacketCounterparty (source_port p) (source_channel p)))
      else
        bind_res (first_hop e) (\<lambda>k.
        bind_res (map_err E04_Ics03Connection (get_connection_end E s k)) (\<lambda>conn.
        if conn_state conn \<noteq> ConnOpen then fail_with (E04_ConnectionNotOpen k)
        else if \<not> is_zero (timeout_height p) \<and> timeout_height p \<le> host_height s
        then fail_with (E04_Packet (E04_LowPacketHeight (host_height s) (timeout_height p)))
        else
          bind_res (host_timestamp E s) (\<lambda>latest_timestamp.
          if check_expiry latest_timestamp (timeout_timestamp p) = Expired
          then fail_with (E04_Packet E04_LowPacketTimestamp)
          else
            bind_res (verify_packet_recv_proofs E s (proof_height (mrp_proofs msg)) p conn (mrp_proofs msg)) (\<lambda>_.
            (let noop = Inr (with_result
                   (builder_emit (ReceivePacketEvent height_zero p) output) (RecvResult RecvNoOp));
                 received = (\<lambda>r. Inr (with_result
                   (builder_emit (ReceivePacketEvent (host_height s) p)
                     (builder_add_log ''success: packet receive'' output)) (RecvResult r))) in
             if chan_ordering e = Ordered then
               bind_res (get_next_sequence_recv s (dest_key p)) (\<lambda>next_seq_recv.
               if pkt_sequence p < next_seq_recv then noop
               else if pkt_sequence p \<noteq> next_seq_recv
               then fail_with (E04_Packet (E04_InvalidPacketSequence (pkt_sequence p) next_seq_recv))
               else
                 bind_res (seq_increment next_seq_recv) (\<lambda>n.
                 received (RecvOrdered (destination_port p) (destination_channel p) n p)))
             else
               (case get_packet_receipt s (dest_packet_key p) of
                  Inr _ \<Rightarrow> noop
                | Inl (Err err) \<Rightarrow>
                    if err = E04_Packet (E04_PacketReceiptNotFound (pkt_sequence p))
                    then received (RecvUnordered (destination_port p) (destination_channel p)
                      (pkt_sequence p) ReceiptOk p)
                    else fail_with (E04_Shown04 err)
                | Inl Panic \<Rightarrow> panics))))))))"

definition write_acknowledgement_process ::
    "('cs, 'cons, 'msg, 'app) env \<Rightarrow> ('cs, 'cons, 'app) host \<Rightarrow> packet \<Rightarrow> bytes
       \<Rightarrow> (packet_result handler_output, ics04_error) res" where
  "write_acknowledgement_process E s p ack =
     (let output = builder_new in
      bind_res (get_channel_end E s (dest_key p)) (\<lambda>e.
      if chan_state e \<noteq> ChanOpen
      then fail_with (E04_InvalidChannelState (source_channel p) (chan_state e))
      else
        bind_res (case get_packet_acknowledgement s (dest_packet_key p) of
            Inr _ \<Rightarrow> fail_with (E04_Packet (E04_AcknowledgementExists (pkt_sequence p)))
          | Inl (Err err) \<Rightarrow>
              if err = E04_Packet (E04_PacketAcknowledgementNotFound (pkt_sequence p)) then Inr ()
              else fail_with err
          | Inl Panic \<Rightarrow> panics) (\<lambda>_.
        if ack = [] then fail_with (E04_Packet E04_InvalidAcknowledgement)
        else
          (let output = builder_add_log ''success: packet write acknowledgement'' output;
               output = builder_emit (WriteAcknowledgementEvent (host_height s) p ack) output in
           Inr (with_result output (WriteAckResult
             \<lparr>wa_port_id = source_port p, wa_channel_id = source_channel p, wa_seq = pkt_sequence p,
              wa_ack = ack\<rparr>))))))"

definition acknowledgement_process ::
    "('cs, 'cons, 'msg, 'app) env \<Rightarrow> ('cs, 'cons, 'app) host \<Rightarrow> msg_acknowledgement
       \<Rightarrow> (packet_result handler_output, ics04_error) res" where
  "acknowledgement_process E s msg =
     (let output = builder_new; p = mak_packet msg in
      bind_res (get_channel_end E s (source_key p)) (\<lambda>e.
      if chan_state e \<noteq> ChanOpen then fail_with (E04_ChannelClosed (source_channel p))
      else if chan_remote e \<noteq> \<lparr>cpty_port_id = destination_port p, cpty_channel_id = Some (destination_channel p)\<rparr>
      then fail_with (E04_Packet (E04_InvalidPacketCounterparty (destination_port p) (destination_channel p)))
      else
        bind_res (first_hop e) (\<lambda>k.
        bind_res (map_err E04_Ics03Connection (get_connection_end E s k)) (\<lambda>conn.
        if conn_state conn \<noteq> ConnOpen then fail_with (E04_ConnectionNotOpen k)
        else
          bind_res (get_packet_commitment s (source_packet_key p)) (\<lambda>stored.
          bind_res (sent_commitment E p) (\<lambda>c.
          if stored \<noteq> c then fail_with (E04_Packet (E04_IncorrectPacketCommitment (pkt_sequence p)))
          else
            bind_res (verify_packet_acknowledgement_proofs E s (proof_height (mak_proofs msg)) p
              (mak_acknowledgement msg) conn (mak_proofs msg)) (\<lambda>_.
            bind_res
              (if chan_ordering e = Ordered then
                 bind_res (get_next_sequence_ack s (source_key p)) (\<lambda>next_seq_ack.
                 if pkt_sequence p \<noteq> next_seq_ack
                 then fail_with (E04_Packet (E04_InvalidPacketSequence (pkt_sequence p) next_seq_ack))
                 else bind_res (seq_increment next_seq_ack) (\<lambda>n. Inr (Some n)))
               else Inr None) (\<lambda>seq_number.
            (let output = builder_add_log ''success: packet ack'' output;
                 output = builder_emit (AcknowledgePacketEvent (host_height s) p) output in
             Inr (with_result output (AckResult
               \<lparr>ap_port_id = source_port p, ap_channel_id = source_channel p, ap_seq = pkt_sequence p,
                ap_seq_number = seq_number\<rparr>)))))))))))"

definition timeout_process ::
    "('cs, 'cons, 'msg, 'app) env \<Rightarrow> ('cs, 'cons, 'app) host \<Rightarrow> msg_timeout
       \<Rightarrow> (packet_result handler_output, ics04_error) res" where
  "timeout_process E s msg =
     (let output = builder_new; p = mto_packet msg; ps = mto_proofs msg in
      bind_res (get_channel_end E s (source_key p)) (\<lambda>e.
      if chan_state e \<noteq> ChanOpen then fail_with (E04_ChannelClosed (source_channel p))
      else if chan_remote e \<noteq> \<lparr>cpty_port_id = destination_port p, cpty_channel_id = Some (destination_channel p)\<rparr>
      then fail_with (E04_Packet (E04_InvalidPacketCounterparty (destination_port p) (destination_channel p)))
      else
        bind_res (first_hop e) (\<lambda>k.
        bind_res (map_err E04_Ics03Connection (get_connection_end E s k)) (\<lambda>conn.
        bind_res (map_err (\<lambda>_. E04_Packet E04_ErrorInvalidConsensusState)
          (get_consensus_state s (conn_client_id conn) (proof_height ps))) (\<lambda>cons.
        (let proof_timestamp = cons_timestamp E cons in
        if \<not> timed_out p proof_timestamp (proof_height ps)
        then fail_with (E04_Packet (E04_PacketTimeoutNotReached (timeout_height p) (proof_height ps)
          (timeout_timestamp p) proof_timestamp))
        else
          bind_res (get_packet_commitment s (source_packet_key p)) (\<lambda>stored.
          bind_res (sent_commitment E p) (\<lambda>c.
          if stored \<noteq> c then fail_with (E04_Packet (E04_IncorrectPacketCommitment (pkt_sequence p)))
          else
            bind_res
              (if chan_ordering e = Ordered then
                 if pkt_sequence p < mto_next_sequence_recv msg
                 then fail_with (E04_Packet (E04_InvalidPacketSequence (pkt_sequence p) (mto_next_sequence_recv msg)))
                 else
                   bind_res (verify_next_sequence_recv E s (proof_height ps) conn p
                     (mto_next_sequence_recv msg) ps) (\<lambda>_.
                   Inr (Some (e\<lparr>chan_state := ChanClosed\<rparr>)))
               else
                 bind_res (verify_packet_receipt_absence E s (proof_height ps) conn p ps) (\<lambda>_.
                 Inr None)) (\<lambda>chan.
            (let output = builder_add_log ''success: packet timeout '' output;
                 output = builder_emit (TimeoutPacketEvent (host_height s) p) output in
             Inr (with_result output (TimeoutResult
               \<lparr>tp_port_id = source_port p, tp_channel_id = source_channel p, tp_seq = pkt_sequence p,
                tp_channel = chan\<rparr>))))))))))))"

text \<open>For an ordered channel the channel end is handed on as it is.\<close>

definition timeout_on_close_process ::
    "('cs, 'cons, 'msg, 'app) env \<Rightarrow> ('cs, 'cons, 'app) host \<Rightarrow> msg_timeout_on_close
       \<Rightarrow> (packet_result handler_output, ics04_error) res" where
  "timeout_on_close_process E s msg =
     (let output = builder_new; p = mtc_packet msg; ps = mtc_proofs msg in
      bind_res (get_channel_end E s (source_key p)) (\<lambda>e.
      if chan_remote e \<noteq> \<lparr>cpty_port_id = destination_port p, cpty_channel_id = Some (destination_channel p)\<rparr>
      then fail_with (E04_Packet (E04_InvalidPacketCounterparty (destination_port p) (destination_channel p)))
      else
        bind_res (first_hop e) (\<lambda>k.
        bind_res (map_err E04_Ics03Connection (get_connection_end E s k)) (\<lambda>conn.
        bind_res (get_packet_commitment s (source_packet_key p)) (\<lambda>stored.
        bind_res (sent_commitment E p) (\<lambda>c.
        if stored \<noteq> c then fail_with (E04_Packet (E04_IncorrectPacketCommitment (pkt_sequence p)))
        else
          bind_res (counterparty_hops conn e) (\<lambda>hops.
          (let expected =
             \<lparr>chan_state = ChanClosed, chan_ordering = chan_ordering e,
              chan_remote = \<lparr>cpty_port_id = source_port p, cpty_channel_id = Some (source_channel p)\<rparr>,
              chan_connection_hops = hops, chan_version = chan_version e\<rparr> in
          bind_res (ok_or (other_proof ps) (E04_Malformed E04_MissingChannelProof)) (\<lambda>close_proof.
          bind_res (verify_channel_proofs E s (proof_height ps) e conn expected close_proof) (\<lambda>_.
          bind_res
            (if chan_ordering e = Ordered then
               if pkt_sequence p < mtc_next_sequence_recv msg
               then fail_with (E04_Packet (E04_InvalidPacketSequence (pkt_sequence p) (mtc_next_sequence_recv msg)))
               else
                 bind_res (verify_next_sequence_recv E s (proof_height ps) conn p
                   (mtc_next_sequence_recv msg) ps) (\<lambda>_.
                 Inr (Some e))
             else
               bind_res (verify_packet_receipt_absence E s (proof_height ps) conn p ps) (\<lambda>_.
               Inr None)) (\<lambda>chan.
          (let output = builder_add_log ''success: packet timeout '' output;
               output = builder_emit (TimeoutOnClosePacketEvent (host_height s) p) output in
           Inr (with_result output (TimeoutResult
             \<lparr>tp_port_id = source_port p, tp_channel_id = source_channel p, tp_seq = pkt_sequence p,
              tp_channel = chan\<rparr>))))))))))))))"

definition packet_dispatch ::
    "('cs, 'cons, 'msg, 'app) env \<Rightarrow> ('cs, 'cons, 'app) host \<Rightarrow> packet_msg
       \<Rightarrow> (output_builder \<times> packet_result, ics04_error) res" where
  "packet_dispatch E s msg =
     bind_res (case msg of
         RecvPacketMsg m \<Rightarrow> recv_packet_process E s m
       | AckPacketMsg m \<Rightarrow> acknowledgement_process E s m
       | ToPacketMsg m \<Rightarrow> timeout_process E s m
       | ToClosePacketMsg m \<Rightarrow> timeout_on_close_process E s m) (\<lambda>out.
     Inr (with_events (out_events out) (with_log (out_log out) builder_new), out_result out))"

section \<open>Storing a result\<close>

fun store_packet_result ::
    "('cs, 'cons, 'msg, 'app) env \<Rightarrow> packet_result \<Rightarrow> (('cs, 'cons, 'app) host, unit, ics04_error) op" where
  "store_packet_result E (SendResult r) =
     op_then (store_next_sequence_send (sp_port_id r, sp_channel_id r) (sp_seq_number r))
     (op_then (store_packet_commitment (sp_port_id r, sp_channel_id r, sp_seq r) (sp_commitment r))
       (store_send_packet E (sp_port_id r, sp_channel_id r, sp_seq r) (sp_packet r)))"
| "store_packet_result E (RecvResult (RecvOrdered p c n pkt)) =
     op_then (store_next_sequence_recv (p, c) n)
       (store_recv_packet E (p, c, pkt_sequence pkt) pkt)"
| "store_packet_result E (RecvResult (RecvUnordered p c sq r pkt)) =
     op_then (store_packet_receipt (p, c, sq) r)
       (store_recv_packet E (p, c, pkt_sequence pkt) pkt)"
| "store_packet_result E (RecvResult RecvNoOp) = op_lift panics"
| "store_packet_result E (WriteAckResult r) =
     op_then (store_packet_acknowledgement (wa_port_id r, wa_channel_id r, wa_seq r)
         (ack_commitment (sha2_256 E) (wa_ack r)))
       (store_raw_acknowledgement (wa_port_id r, wa_channel_id r, wa_seq r) (wa_ack r))"
| "store_packet_result E (AckResult r) =
     op_then (case ap_seq_number r of
         Some n \<Rightarrow> store_next_sequence_ack (ap_port_id r, ap_channel_id r) n
       | None \<Rightarrow> op_return ())
       (delete_packet_commitment (ap_port_id r, ap_channel_id r, ap_seq r))"
| "store_packet_result E (TimeoutResult r) =
     op_then (case tp_channel r of
         Some c \<Rightarrow> store_channel (tp_port_id r, tp_channel_id r) c
       | None \<Rightarrow> op_return ())
       (delete_packet_commitment (tp_port_id r, tp_channel_id r, tp_seq r))"

section \<open>What the handlers return\<close>

abbreviation remote_is :: "channel_end \<Rightarrow> port_id \<Rightarrow> channel_id \<Rightarrow> bool" where
  "remote_is e p c \<equiv> chan_remote e = \<lparr>cpty_port_id = p, cpty_channel_id = Some c\<rparr>"

lemma first_hop_ok [simp]: "first_hop e = Inr k \<longleftrightarrow> (\<exists>ks. chan_connection_hops e = k # ks)"
  by (simp add: first_hop_def split: list.splits)

lemma with_verifier_ok:
  "with_verifier E s conn h check = Inr () \<longleftrightarrow>
     (\<exists>cs cons. client_states_get s (conn_client_id conn) = Some cs
        \<and> \<not> is_frozen E cs s (conn_client_id conn)
        \<and> consensus_states_get s (conn_client_id conn, h) = Some cons
        \<and> check (conn_client_id conn) cs (cons_root E cons) = Inr ())"
  by (auto simp: with_verifier_def Let_def reader_oks split: if_splits)

lemma send_packet_ok:
  assumes "send_packet E s p = Inr out"
  obtains e c where "get_channel_end E s (source_key p) = Inr e" and "chan_state e \<noteq> ChanClosed"
    and "remote_is e (destination_port p) (destination_channel p)"
    and "next_seq_send_get s (source_key p) = Some (pkt_sequence p)" and "pkt_sequence p \<noteq> - 1"
    and "sent_commitment E p = (Inr c :: (_, ics04_error) res)"
    and "out_result out = SendResult
      \<lparr>sp_port_id = source_port p, sp_channel_id = source_channel p, sp_seq = pkt_sequence p,
       sp_seq_number = pkt_sequence p + 1, sp_commitment = c, sp_packet = p\<rparr>"
  using assms by (auto simp: send_packet_def Let_def reader_oks split: if_splits)

lemma recv_packet_ok:
  assumes "recv_packet_process E s m = Inr out"
  obtains (ordered) e k ks conn where
    "get_channel_end E s (dest_key (mrp_packet m)) = Inr e" and "chan_state e = ChanOpen"
    and "remote_is e (source_port (mrp_packet m)) (source_channel (mrp_packet m))"
    and "chan_connection_hops e = k # ks" and "get_connection_end E s k = Inr conn"
    and "verify_packet_recv_proofs E s (proof_height (mrp_proofs m)) (mrp_packet m) conn (mrp_proofs m) = Inr ()"
    and "chan_ordering e = Ordered" and "pkt_sequence (mrp_packet m) \<noteq> - 1"
    and "next_seq_recv_get s (dest_key (mrp_packet m)) = Some (pkt_sequence (mrp_packet m))"
    and "out_result out = RecvResult (RecvOrdered (destination_port (mrp_packet m))
      (destination_channel (mrp_packet m)) (pkt_sequence (mrp_packet m) + 1) (mrp_packet m))"
  | (unordered) e k ks conn where
    "get_channel_end E s (dest_key (mrp_packet m)) = Inr e" and "chan_state e = ChanOpen"
    and "remote_is e (source_port (mrp_packet m)) (source_channel (mrp_packet m))"
    and "chan_connection_hops e = k # ks" and "get_connection_end E s k = Inr conn"
    and "verify_packet_recv_proofs E s (proof_height (mrp_proofs m)) (mrp_packet m) conn (mrp_proofs m) = Inr ()"
    and "chan_ordering e = Unordered"
    and "packet_receipt_get s (dest_packet_key (mrp_packet m)) \<noteq> Some (as_bytes ''Ok'')"
    and "out_result out = RecvResult (RecvUnordered (destination_port (mrp_packet m))
      (destination_channel (mrp_packet m)) (pkt_sequence (mrp_packet m)) ReceiptOk (mrp_packet m))"
  | (noop) e where "get_channel_end E s (dest_key (mrp_packet m)) = Inr e"
    and "out_result out = RecvResult RecvNoOp"
    and "chan_ordering e = Ordered \<Longrightarrow> \<exists>n. next_seq_recv_get s (dest_key (mrp_packet m)) = Some n
      \<and> pkt_sequence (mrp_packet m) < n"
    and "chan_ordering e = Unordered \<Longrightarrow>
      packet_receipt_get s (dest_packet_key (mrp_packet m)) = Some (as_bytes ''Ok'')"
proof -
  let ?p = "mrp_packet m"
  from assms obtain e k ks conn where e: "get_channel_end E s (dest_key ?p) = Inr e" "chan_state e = ChanOpen"
      "remote_is e (source_port ?p) (source_channel ?p)" "chan_connection_hops e = k # ks"
      "get_connection_end E s k = Inr conn"
      "verify_packet_recv_proofs E s (proof_height (mrp_proofs m)) ?p conn (mrp_proofs m) = Inr ()"
    by (auto simp: recv_packet_process_def Let_def split: if_splits)
  have ok: "get_packet_receipt s (dest_packet_key ?p) = Inr r \<Longrightarrow>
      packet_receipt_get s (dest_packet_key ?p) = Some (as_bytes ''Ok'')" for r
    by (simp add: reader_oks)
  have no: "get_packet_receipt s (dest_packet_key ?p) = Inl f \<Longrightarrow>
      packet_receipt_get s (dest_packet_key ?p) \<noteq> Some (as_bytes ''Ok'')" for f
    using get_packet_receipt_ok [of s "dest_packet_key ?p" ReceiptOk] by auto
  show ?thesis
  proof (cases "chan_ordering e")
    case Ordered
    with assms e show ?thesis
      by (auto simp: recv_packet_process_def Let_def reader_oks split: if_splits
          intro: ordered [OF e] noop [OF e(1)])
  next
    case Unordered
    with assms e show ?thesis
      by (auto simp: recv_packet_process_def Let_def split: if_splits sum.splits fault.splits
          dest!: ok no intro: unordered [OF e] noop [OF e(1)])
  qed
qed

lemma acknowledgement_ok:
  assumes "acknowledgement_process E s m = Inr out"
  obtains e k ks conn c sq where "get_channel_end E s (source_key (mak_packet m)) = Inr e"
    and "chan_state e = ChanOpen"
    and "remote_is e (destination_port (mak_packet m)) (destination_channel (mak_packet m))"
    and "chan_connection_hops e = k # ks" and "get_connection_end E s k = Inr conn"
    and "packet_commitment_get s (source_packet_key (mak_packet m)) = Some c"
    and "sent_commitment E (mak_packet m) = (Inr c :: (_, ics04_error) res)"
    and "verify_packet_acknowledgement_proofs E s (proof_height (mak_proofs m)) (mak_packet m)
      (mak_acknowledgement m) conn (mak_proofs m) = Inr ()"
    and "chan_ordering e = Ordered \<Longrightarrow> next_seq_ack_get s (source_key (mak_packet m)) = Some (pkt_sequence (mak_packet m))
      \<and> pkt_sequence (mak_packet m) \<noteq> - 1 \<and> sq = Some (pkt_sequence (mak_packet m) + 1)"
    and "chan_ordering e = Unordered \<Longrightarrow> sq = None"
    and "out_result out = AckResult
      \<lparr>ap_port_id = source_port (mak_packet m), ap_channel_id = source_channel (mak_packet m),
       ap_seq = pkt_sequence (mak_packet m), ap_seq_number = sq\<rparr>"
proof -
  from assms obtain e k ks conn c where e: "get_channel_end E s (source_key (mak_packet m)) = Inr e"
      "chan_state e = ChanOpen"
      "remote_is e (destination_port (mak_packet m)) (destination_channel (mak_packet m))"
      "chan_connection_hops e = k # ks" "get_connection_end E s k = Inr conn"
      "packet_commitment_get s (source_packet_key (mak_packet m)) = Some c"
      "sent_commitment E (mak_packet m) = (Inr c :: (_, ics04_error) res)"
      "verify_packet_acknowledgement_proofs E s (proof_height (mak_proofs m)) (mak_packet m)
      (mak_acknowledgement m) conn (mak_proofs m) = Inr ()"
    by (auto simp: acknowledgement_process_def Let_def reader_oks split: if_splits)
  show ?thesis
    by (cases "chan_ordering e = Ordered"; rule that [OF e])
      (use assms e in \<open>auto simp: acknowledgement_process_def Let_def reader_oks split: if_splits\<close>)
qed

lemma timeout_ok:
  assumes "timeout_process E s m = Inr out"
  obtains e k ks conn cons c chan where "get_channel_end E s (source_key (mto_packet m)) = Inr e"
    and "chan_state e = ChanOpen"
    and "remote_is e (destination_port (mto_packet m)) (destination_channel (mto_packet m))"
    and "chan_connection_hops e = k # ks" and "get_connection_end E s k = Inr conn"
    and "consensus_states_get s (conn_client_id conn, proof_height (mto_proofs m)) = Some cons"
    and "timed_out (mto_packet m) (cons_timestamp E cons) (proof_height (mto_proofs m))"
    and "packet_commitment_get s (source_packet_key (mto_packet m)) = Some c"
    and "sent_commitment E (mto_packet m) = (Inr c :: (_, ics04_error) res)"
    and "chan_ordering e = Ordered \<Longrightarrow> verify_next_sequence_recv E s (proof_height (mto_proofs m)) conn
        (mto_packet m) (mto_next_sequence_recv m) (mto_proofs m) = Inr ()
      \<and> mto_next_sequence_recv m \<le> pkt_sequence (mto_packet m) \<and> chan = Some (e\<lparr>chan_state := ChanClosed\<rparr>)"
    and "chan_ordering e = Unordered \<Longrightarrow> verify_packet_receipt_absence E s (proof_height (mto_proofs m)) conn
        (mto_packet m) (mto_proofs m) = Inr () \<and> chan = None"
    and "out_result out = TimeoutResult
      \<lparr>tp_port_id = source_port (mto_packet m), tp_channel_id = source_channel (mto_packet m),
       tp_seq = pkt_sequence (mto_packet m), tp_channel = chan\<rparr>"
proof -
  from assms obtain e k ks conn cons c where e: "get_channel_end E s (source_key (mto_packet m)) = Inr e"
      "chan_state e = ChanOpen"
      "remote_is e (destination_port (mto_packet m)) (destination_channel (mto_packet m))"
      "chan_connection_hops e = k # ks" "get_connection_end E s k = Inr conn"
      "consensus_states_get s (conn_client_id conn, proof_height (mto_proofs m)) = Some cons"
      "timed_out (mto_packet m) (cons_timestamp E cons) (proof_height (mto_proofs m))"
      "packet_commitment_get s (source_packet_key (mto_packet m)) = Some c"
      "sent_commitment E (mto_packet m) = (Inr c :: (_, ics04_error) res)"
    by (auto simp: timeout_process_def Let_def reader_oks split: if_splits)
  show ?thesis
    by (cases "chan_ordering e = Ordered"; rule that [OF e])
      (use assms e in \<open>auto simp: timeout_process_def Let_def reader_oks not_less split: if_splits\<close>)
qed

lemma timeout_on_close_ok:
  assumes "timeout_on_close_process E s m = Inr out"
  obtains e k ks conn c k' pf chan where "get_channel_end E s (source_key (mtc_packet m)) = Inr e"
    and "remote_is e (destination_port (mtc_packet m)) (destination_channel (mtc_packet m))"
    and "chan_connection_hops e = k # ks" and "get_connection_end E s k = Inr conn"
    and "packet_commitment_get s (source_packet_key (mtc_packet m)) = Some c"
    and "sent_commitment E (mtc_packet m) = (Inr c :: (_, ics04_error) res)"
    and "other_proof (mtc_proofs m) = Some pf"
    and "verify_channel_proofs E s (proof_height (mtc_proofs m)) e conn
      \<lparr>chan_state = ChanClosed, chan_ordering = chan_ordering e,
       chan_remote = \<lparr>cpty_port_id = source_port (mtc_packet m), cpty_channel_id = Some (source_channel (mtc_packet m))\<rparr>,
       chan_connection_hops = [k'], chan_version = chan_version e\<rparr> pf = Inr ()"
    and "chan_ordering e = Ordered \<Longrightarrow> verify_next_sequence_recv E s (proof_height (mtc_proofs m)) conn
        (mtc_packet m) (mtc_next_sequence_recv m) (mtc_proofs m) = Inr ()
      \<and> mtc_next_sequence_recv m \<le> pkt_sequence (mtc_packet m) \<and> chan = Some e"
    and "chan_ordering e = Unordered \<Longrightarrow> verify_packet_receipt_absence E s (proof_height (mtc_proofs m)) conn
        (mtc_packet m) (mtc_proofs m) = Inr () \<and> chan = None"
    and "out_result out = TimeoutResult
      \<lparr>tp_port_id = source_port (mtc_packet m), tp_channel_id = source_channel (mtc_packet m),
       tp_seq = pkt_sequence (mtc_packet m), tp_channel = chan\<rparr>"
proof -
  from assms obtain e k ks conn c k' pf where e: "get_channel_end E s (source_key (mtc_packet m)) = Inr e"
      "remote_is e (destination_port (mtc_packet m)) (destination_channel (mtc_packet m))"
      "chan_connection_hops e = k # ks" "get_connection_end E s k = Inr conn"
      "packet_commitment_get s (source_packet_key (mtc_packet m)) = Some c"
      "sent_commitment E (mtc_packet m) = (Inr c :: (_, ics04_error) res)"
      "other_proof (mtc_proofs m) = Some pf"
      "verify_channel_proofs E s (proof_height (mtc_proofs m)) e conn
      \<lparr>chan_state = ChanClosed, chan_ordering = chan_ordering e,
       chan_remote = \<lparr>cpty_port_id = source_port (mtc_packet m), cpty_channel_id = Some (source_channel (mtc_packet m))\<rparr>,
       chan_connection_hops = [k'], chan_version = chan_version e\<rparr> pf = Inr ()"
    by (auto simp: timeout_on_close_process_def Let_def reader_oks counterparty_hops_ok split: if_splits)
  show ?thesis
    by (cases "chan_ordering e = Ordered"; rule that [OF e])
      (use assms e in \<open>auto simp: timeout_on_close_process_def Let_def reader_oks not_less split: if_splits\<close>)
qed

lemma get_packet_acknowledgement_eq:
  "get_packet_acknowledgement s k =
     ok_or (acknowledgements_get s k) (E04_Packet (E04_PacketAcknowledgementNotFound (snd (snd k))))"
  by (auto simp: get_packet_acknowledgement_def view_gets)

lemma write_acknowledgement_ok:
  "write_acknowledgement_process E s p ack = Inr out \<longleftrightarrow>
     (\<exists>e. get_channel_end E s (dest_key p) = Inr e \<and> chan_state e = ChanOpen)
     \<and> acknowledgements_get s (dest_packet_key p) = None \<and> ack \<noteq> []
     \<and> out = with_result (builder_emit (WriteAcknowledgementEvent (host_height s) p ack)
         (builder_add_log ''success: packet write acknowledgement'' builder_new))
       (WriteAckResult \<lparr>wa_port_id = source_port p, wa_channel_id = source_channel p,
          wa_seq = pkt_sequence p, wa_ack = ack\<rparr>)"
  by (cases "acknowledgements_get s (dest_packet_key p)")
    (auto simp: write_acknowledgement_process_def Let_def get_packet_acknowledgement_eq fail_with_def
      split: if_splits)

section \<open>Effect of storing a result\<close>

text \<open>
  The two last writes, to the copies kept for relayers, can fail, but leave the trie as it is: what
  storing a result does to the trie does not depend on its outcome.
\<close>

lemmas packet_store_defs =
  store_next_sequence_send_def store_next_sequence_recv_def store_next_sequence_ack_def
  store_packet_commitment_def store_packet_receipt_def store_packet_acknowledgement_def
  store_raw_acknowledgement_def delete_packet_commitment_def store_channel_def

lemma child_get_store_send_packet:
  "child_get (snd (store_send_packet E k p s)) q = child_get s q"
  by (cases "packet_info_at E k p s") (simp_all add: store_send_packet_def)

lemma child_get_store_recv_packet:
  "child_get (snd (store_recv_packet E k p s)) q = child_get s q"
  by (cases "packet_info_at E k p s") (simp_all add: store_recv_packet_def)

lemma child_get_store_packet_result:
  assumes "in_language q"
  shows "child_get (snd (store_packet_result E (SendResult r) s)) q =
      (if q = CommitmentsPath (sp_port_id r) (sp_channel_id r) (sp_seq r) then Some (SCommitment (sp_commitment r))
       else if q = SeqSendsPath (sp_port_id r) (sp_channel_id r) then Some (SSequence (sp_seq_number r))
       else child_get s q)"
    and "child_get (snd (store_packet_result E (RecvResult (RecvOrdered p c n pkt)) s)) q =
      (if q = SeqRecvsPath p c then Some (SSequence n) else child_get s q)"
    and "child_get (snd (store_packet_result E (RecvResult (RecvUnordered p c sq ReceiptOk pkt)) s)) q =
      (if q = ReceiptsPath p c sq then Some (SReceipt (as_bytes ''Ok'')) else child_get s q)"
    and "child_get (snd (store_packet_result E (RecvResult RecvNoOp) s)) q = child_get s q"
    and "child_get (snd (store_packet_result E (WriteAckResult w) s)) q =
      (if q = AcksPath (wa_port_id w) (wa_channel_id w) (wa_seq w)
       then Some (SAck (ack_commitment (sha2_256 E) (wa_ack w))) else child_get s q)"
    and "child_get (snd (store_packet_result E (AckResult a) s)) q =
      (if q = CommitmentsPath (ap_port_id a) (ap_channel_id a) (ap_seq a) then None
       else if q = SeqAcksPath (ap_port_id a) (ap_channel_id a) \<and> ap_seq_number a \<noteq> None
       then map_option SSequence (ap_seq_number a)
       else child_get s q)"
    and "child_get (snd (store_packet_result E (TimeoutResult t) s)) q =
      (if q = CommitmentsPath (tp_port_id t) (tp_channel_id t) (tp_seq t) then None
       else if q = ChannelEndsPath (tp_port_id t) (tp_channel_id t) \<and> tp_channel t \<noteq> None
       then map_option (\<lambda>e. SChannel (channel_end_into_raw e)) (tp_channel t)
       else child_get s q)"
proof -
  note simps = packet_store_defs Let_def view_puts view_paths child_get_put child_get_kill
    child_get_store_send_packet child_get_store_recv_packet assms
  show "child_get (snd (store_packet_result E (SendResult r) s)) q =
      (if q = CommitmentsPath (sp_port_id r) (sp_channel_id r) (sp_seq r) then Some (SCommitment (sp_commitment r))
       else if q = SeqSendsPath (sp_port_id r) (sp_channel_id r) then Some (SSequence (sp_seq_number r))
       else child_get s q)"
    by (cases "checked_add (PacketCounter s) 1") (auto simp: simps)
  show "child_get (snd (store_packet_result E (RecvResult (RecvOrdered p c n pkt)) s)) q =
      (if q = SeqRecvsPath p c then Some (SSequence n) else child_get s q)"
    by (auto simp: simps)
  show "child_get (snd (store_packet_result E (RecvResult (RecvUnordered p c sq ReceiptOk pkt)) s)) q =
      (if q = ReceiptsPath p c sq then Some (SReceipt (as_bytes ''Ok'')) else child_get s q)"
    by (cases "checked_add (PacketReceiptCounter s) 1") (auto simp: simps)
  show "child_get (snd (store_packet_result E (RecvResult RecvNoOp) s)) q = child_get s q"
    by simp
  show "child_get (snd (store_packet_result E (WriteAckResult w) s)) q =
      (if q = AcksPath (wa_port_id w) (wa_channel_id w) (wa_seq w)
       then Some (SAck (ack_commitment (sha2_256 E) (wa_ack w))) else child_get s q)"
    by (cases "checked_add (AcknowledgementCounter s) 1") (auto simp: simps)
  show "child_get (snd (store_packet_result E (AckResult a) s)) q =
      (if q = CommitmentsPath (ap_port_id a) (ap_channel_id a) (ap_seq a) then None
       else if q = SeqAcksPath (ap_port_id a) (ap_channel_id a) \<and> ap_seq_number a \<noteq> None
       then map_option SSequence (ap_seq_number a)
       else child_get s q)"
    by (cases "checked_sub (PacketCounter s) 1"; cases "ap_seq_number a") (auto simp: simps)
  show "child_get (snd (store_packet_result E (TimeoutResult t) s)) q =
      (if q = CommitmentsPath (tp_port_id t) (tp_channel_id t) (tp_seq t) then None
       else if q = ChannelEndsPath (tp_port_id t) (tp_channel_id t) \<and> tp_channel t \<noteq> None
       then map_option (\<lambda>e. SChannel (channel_end_into_raw e)) (tp_channel t)
       else child_get s q)"
    by (cases "checked_sub (PacketCounter s) 1"; cases "tp_channel t") (auto simp: simps)
qed

declare store_packet_result.simps [simp del]

end
