(* ===== verification/Host_Runs.thy ===== *)
theory Host_Runs
  imports Packet_Handler Client_Handler
begin

text \<open>
  Runs of a host: the steps that the handlers of clients, connections, channels and packets take on its
  state, with the callbacks of modules and the passing of blocks in between. The lemmas say what one step
  does to each part of the provable store; the invariant \<open>host_inv\<close> holds along runs, and with it follow
  the histories of connection and channel ends.
\<close>

section \<open>Runs of the packet handlers\<close>

text \<open>
  A step of the packet handlers is a packet message that was not already handled, with the callback of the
  module between handler and storing, a packet sent, or an acknowledgement written by a module. It leaves
  the state that storing its result leaves, whatever the outcome of that.
\<close>

inductive packet_step ::
    "('cs, 'cons, 'msg, 'app) env \<Rightarrow> ('cs, 'cons, 'app) host \<Rightarrow> packet_result \<Rightarrow> ('cs, 'cons, 'app) host \<Rightarrow> bool"
  for E where
  packet_handled: "packet_dispatch E s m = Inr (b, r) \<Longrightarrow> r \<noteq> RecvResult RecvNoOp
     \<Longrightarrow> module_effect s t \<Longrightarrow> store_packet_result E r t = (res, s') \<Longrightarrow> packet_step E s r s'"
| packet_sent: "send_packet E s p = Inr out \<Longrightarrow> store_packet_result E (out_result out) s = (res, s')
     \<Longrightarrow> packet_step E s (out_result out) s'"
| ack_written: "write_acknowledgement_process E s p ack = Inr out
     \<Longrightarrow> store_packet_result E (out_result out) s = (res, s') \<Longrightarrow> packet_step E s (out_result out) s'"

inductive_cases packet_stepE: "packet_step E s r s'"

text \<open>What a step says of the state it starts in.\<close>

lemma packet_dispatch_split:
  assumes "packet_dispatch E s m = Inr (b, r)"
  obtains (recv) i out where "m = RecvPacketMsg i" "recv_packet_process E s i = Inr out" "r = out_result out"
  | (ack) i out where "m = AckPacketMsg i" "acknowledgement_process E s i = Inr out" "r = out_result out"
  | (tout) i out where "m = ToPacketMsg i" "timeout_process E s i = Inr out" "r = out_result out"
  | (tclose) i out where "m = ToClosePacketMsg i" "timeout_on_close_process E s i = Inr out" "r = out_result out"
  using assms by (cases m) (auto simp: packet_dispatch_def)

lemma packet_step_cases:
  assumes "packet_step E s r s'"
  obtains (send) p c where "r = SendResult
      \<lparr>sp_port_id = source_port p, sp_channel_id = source_channel p, sp_seq = pkt_sequence p,
       sp_seq_number = pkt_sequence p + 1, sp_commitment = c, sp_packet = p\<rparr>"
    and "next_seq_send_get s (source_key p) = Some (pkt_sequence p)" and "pkt_sequence p \<noteq> - 1"
  | (recv_ordered) p e where "r = RecvResult (RecvOrdered (destination_port p) (destination_channel p) (pkt_sequence p + 1) p)"
    and "get_channel_end E s (dest_key p) = Inr e" and "chan_ordering e = Ordered"
    and "next_seq_recv_get s (dest_key p) = Some (pkt_sequence p)" and "pkt_sequence p \<noteq> - 1"
  | (recv_unordered) p e where "r = RecvResult (RecvUnordered (destination_port p) (destination_channel p) (pkt_sequence p) ReceiptOk p)"
    and "get_channel_end E s (dest_key p) = Inr e" and "chan_ordering e = Unordered"
    and "packet_receipt_get s (dest_packet_key p) \<noteq> Some (as_bytes ''Ok'')"
  | (write_ack) w where "r = WriteAckResult w"
  | (ack) p n where "r = AckResult \<lparr>ap_port_id = source_port p, ap_channel_id = source_channel p,
      ap_seq = pkt_sequence p, ap_seq_number = n\<rparr>"
    and "packet_commitment_get s (source_packet_key p) \<noteq> None"
    and "n \<noteq> None \<Longrightarrow> next_seq_ack_get s (source_key p) = Some (pkt_sequence p) \<and> pkt_sequence p \<noteq> - 1
      \<and> n = Some (pkt_sequence p + 1)"
  | (tmout) p e chan where "r = TimeoutResult \<lparr>tp_port_id = source_port p, tp_channel_id = source_channel p,
      tp_seq = pkt_sequence p, tp_channel = chan\<rparr>"
    and "get_channel_end E s (source_key p) = Inr e"
    and "packet_commitment_get s (source_packet_key p) \<noteq> None"
    and "chan = None \<or> chan = Some e \<or> chan_state e = ChanOpen \<and> chan = Some (e\<lparr>chan_state := ChanClosed\<rparr>)"
  using assms
proof (cases rule: packet_step.cases)
  case (packet_handled m b t res)
  from packet_handled(1) show ?thesis
  proof (cases rule: packet_dispatch_split)
    case (recv i out)
    from recv(2) show ?thesis
      by (cases rule: recv_packet_ok)
        (use recv(3) packet_handled(2) in \<open>auto intro: recv_ordered recv_unordered\<close>)
  next
    case (ack i out)
    from ack(2) show ?thesis
    proof (rule acknowledgement_ok, goal_cases)
      case (1 e k ks conn c sq)
      show ?case
        by (rule that(5) [of "mak_packet i" sq])
          (use 1(6,9,10,11) ack(3) in \<open>auto intro: order.exhaust [of "chan_ordering e"]\<close>)
    qed
  next
    case (tout i out)
    from tout(2) show ?thesis
    proof (rule timeout_ok, goal_cases)
      case (1 e k ks conn cons c chan)
      show ?case
        by (rule tmout [of "mto_packet i" chan e])
          (use 1(1,2,8,10,11,12) tout(3) in \<open>auto intro: order.exhaust [of "chan_ordering e"]\<close>)
    qed
  next
    case (tclose i out)
    from tclose(2) show ?thesis
    proof (rule timeout_on_close_ok, goal_cases)
      case (1 e k ks conn c k' pf chan)
      show ?case
        by (rule tmout [of "mtc_packet i" chan e])
          (use 1(1,5,9,10,11) tclose(3) in \<open>auto intro: order.exhaust [of "chan_ordering e"]\<close>)
    qed
  qed
next
  case (packet_sent p out res)
  from packet_sent(2) show ?thesis
    by (rule send_packet_ok) (use packet_sent(1) in \<open>auto intro: send\<close>)
next
  case (ack_written p ack out res)
  then show ?thesis
    by (auto simp: write_acknowledgement_ok intro: write_ack)
qed

lemma packet_step_module:
  assumes "packet_step E s r s'"
  obtains t where "s' = snd (store_packet_result E r t)" and "module_effect s t"
proof -
  have "\<exists>t. s' = snd (store_packet_result E r t) \<and> module_effect s t"
    using assms by (elim packet_stepE) (metis module_effect_refl snd_conv)+
  with that show ?thesis by blast
qed

lemma packet_step_state:
  assumes "packet_step E s r s'"
  obtains t where "s' = snd (store_packet_result E r t)"
    and "\<forall>q. in_language q \<and> \<not> is_ack_path q \<longrightarrow> child_get t q = child_get s q"
  by (rule packet_step_module [OF assms]) (auto dest: module_effect_child intro: that)

lemmas packet_views =
  next_seq_send_get_def next_seq_recv_get_def next_seq_ack_get_def packet_commitment_get_def
  packet_receipt_get_def acknowledgements_get_def channels_get_def connections_get_def view_paths
  child_get_store_packet_result

lemma packet_step_next_recv:
  assumes "packet_step E s r s'"
  shows "next_seq_recv_get s' k =
    (case r of RecvResult (RecvOrdered p c n pkt) \<Rightarrow> if k = (p, c) then Some n else next_seq_recv_get s k
     | _ \<Rightarrow> next_seq_recv_get s k)"
proof -
  obtain t where t: "s' = snd (store_packet_result E r t)"
      "\<forall>q. in_language q \<and> \<not> is_ack_path q \<longrightarrow> child_get t q = child_get s q"
    by (rule packet_step_state [OF assms])
  show ?thesis
    using assms unfolding t(1)
    by (cases rule: packet_step_cases) (auto simp: packet_views prod_eq_iff t(2) is_ack_path_def)
qed

lemma packet_step_receipt:
  assumes "packet_step E s r s'"
  shows "packet_receipt_get s' k =
    (case r of RecvResult (RecvUnordered p c sq rc pkt) \<Rightarrow>
       if k = (p, c, sq) then Some (as_bytes ''Ok'') else packet_receipt_get s k
     | _ \<Rightarrow> packet_receipt_get s k)"
proof -
  obtain t where t: "s' = snd (store_packet_result E r t)"
      "\<forall>q. in_language q \<and> \<not> is_ack_path q \<longrightarrow> child_get t q = child_get s q"
    by (rule packet_step_state [OF assms])
  show ?thesis
    using assms unfolding t(1)
    by (cases rule: packet_step_cases) (auto simp: packet_views prod_eq_iff t(2) is_ack_path_def)
qed

lemma packet_step_next_send:
  assumes "packet_step E s r s'"
  shows "next_seq_send_get s' k =
    (case r of SendResult q \<Rightarrow> if k = (sp_port_id q, sp_channel_id q) then Some (sp_seq_number q) else next_seq_send_get s k
     | _ \<Rightarrow> next_seq_send_get s k)"
proof -
  obtain t where t: "s' = snd (store_packet_result E r t)"
      "\<forall>q. in_language q \<and> \<not> is_ack_path q \<longrightarrow> child_get t q = child_get s q"
    by (rule packet_step_state [OF assms])
  show ?thesis
    using assms unfolding t(1)
    by (cases rule: packet_step_cases) (auto simp: packet_views prod_eq_iff t(2) is_ack_path_def)
qed

lemma packet_step_commitment:
  assumes "packet_step E s r s'"
  shows "packet_commitment_get s' k =
    (case r of
       SendResult q \<Rightarrow> if k = (sp_port_id q, sp_channel_id q, sp_seq q) then Some (sp_commitment q)
         else packet_commitment_get s k
     | AckResult q \<Rightarrow> if k = (ap_port_id q, ap_channel_id q, ap_seq q) then None else packet_commitment_get s k
     | TimeoutResult q \<Rightarrow> if k = (tp_port_id q, tp_channel_id q, tp_seq q) then None else packet_commitment_get s k
     | _ \<Rightarrow> packet_commitment_get s k)"
proof -
  obtain t where t: "s' = snd (store_packet_result E r t)"
      "\<forall>q. in_language q \<and> \<not> is_ack_path q \<longrightarrow> child_get t q = child_get s q"
    by (rule packet_step_state [OF assms])
  show ?thesis
    using assms unfolding t(1)
    by (cases rule: packet_step_cases) (auto simp: packet_views prod_eq_iff t(2) is_ack_path_def)
qed

lemma packet_step_connections:
  assumes "packet_step E s r s'"
  shows "get_connection_end E s' k = get_connection_end E s k"
proof -
  obtain t where t: "s' = snd (store_packet_result E r t)"
      "\<forall>q. in_language q \<and> \<not> is_ack_path q \<longrightarrow> child_get t q = child_get s q"
    by (rule packet_step_state [OF assms])
  show ?thesis
    using assms unfolding t(1)
    by (cases rule: packet_step_cases) (simp_all add: get_connection_end_def packet_views t(2) is_ack_path_def)
qed

lemma packet_step_channel:
  assumes "packet_step E s r s'" and "get_channel_end E s k = Inr e"
  shows "\<exists>e'. get_channel_end E s' k = Inr e' \<and> (e' = e \<or> chan_state e = ChanOpen \<and> e' = e\<lparr>chan_state := ChanClosed\<rparr>)"
proof -
  have wf: "wf_channel_end (unicode_alnum E) e" "wf_channel_end (unicode_alnum E) (e\<lparr>chan_state := ChanClosed\<rparr>)"
    using get_channel_end_wf [OF assms(2)] by (simp_all add: wf_channel_end_def)
  obtain t where s': "s' = snd (store_packet_result E r t)"
      and t: "\<forall>q. in_language q \<and> \<not> is_ack_path q \<longrightarrow> child_get t q = child_get s q"
    by (rule packet_step_state [OF assms(1)])
  have same: "get_channel_end E s' k = Inr e" if "channels_get s' k = channels_get s k"
    using that assms(2) by (simp add: get_channel_end_def)
  from assms(1) show ?thesis
  proof (cases rule: packet_step_cases)
    case (tmout p d chan)
    show ?thesis
    proof (cases "k = source_key p \<and> chan \<noteq> None")
      case True
      with tmout assms(2) have "d = e" by simp
      with True have "channels_get s' k = map_option channel_end_into_raw chan"
        unfolding s' by (auto simp: tmout(1) packet_views t is_ack_path_def)
      with True tmout(4) wf \<open>d = e\<close> show ?thesis
        by (auto simp: get_channel_end_def channel_end_roundtrip)
    next
      case False
      then have "channels_get s' k = channels_get s k"
        unfolding s' by (auto simp: tmout(1) packet_views prod_eq_iff t is_ack_path_def)
      with same show ?thesis by blast
    qed
  qed (use same s' in \<open>auto simp: packet_views t is_ack_path_def\<close>)
qed

lemma keeps_packet_result:
  shows "keeps ChannelCounter (store_packet_result E r)" and "keeps ConnectionCounter (store_packet_result E r)"
  by (cases "(E, r)" rule: store_packet_result.cases;
      auto simp: store_packet_result.simps packet_store_defs store_send_packet_def store_recv_packet_def Let_def
        view_puts split: option.splits intro!: keeps_then keeps_bind keeps_update)+

lemma packet_step_counters:
  assumes "packet_step E s r s'"
  shows "ChannelCounter s' = ChannelCounter s" and "ConnectionCounter s' = ConnectionCounter s"
proof -
  obtain t where t: "s' = snd (store_packet_result E r t)" "module_effect s t"
    by (rule packet_step_module [OF assms])
  show "ChannelCounter s' = ChannelCounter s"
    using keeps_packet_result(1) [of E r] module_effect_fields(1) [OF t(2)] unfolding t(1) keeps_def by simp
  show "ConnectionCounter s' = ConnectionCounter s"
    using keeps_packet_result(2) [of E r] module_effect_fields(2) [OF t(2)] unfolding t(1) keeps_def by simp
qed

lemma packet_step_channels_get:
  assumes "packet_step E s r s'"
  shows "channels_get s' k \<noteq> None \<longleftrightarrow> channels_get s k \<noteq> None"
proof -
  obtain t where t: "s' = snd (store_packet_result E r t)"
      "\<forall>q. in_language q \<and> \<not> is_ack_path q \<longrightarrow> child_get t q = child_get s q"
    by (rule packet_step_state [OF assms])
  show ?thesis
    using assms unfolding t(1)
    by (cases rule: packet_step_cases)
      (auto simp: packet_views t(2) is_ack_path_def get_channel_end_def split: option.splits if_splits)
qed

section \<open>Steps of the host\<close>

inductive host_step ::
    "('cs, 'cons, 'msg, 'app) env \<Rightarrow> ('cs, 'cons, 'app) host \<Rightarrow> packet_result list \<Rightarrow> ('cs, 'cons, 'app) host \<Rightarrow> bool"
  for E where
  packet_stepped: "packet_step E s r s' \<Longrightarrow> host_step E s [r] s'"
| channel_stepped: "chan_step E s s' \<Longrightarrow> host_step E s [] s'"
| connection_stepped: "conn_step E s s' \<Longrightarrow> host_step E s [] s'"
| client_stepped: "client_dispatch E s m = Inr out \<Longrightarrow> store_client_result E (out_result out) s = (res, s')
     \<Longrightarrow> host_step E s [] s'"
| module_stepped: "module_effect s s' \<Longrightarrow> host_step E s [] s'"
| block_stepped: "block_number s \<le> n \<Longrightarrow> now_nanos s \<le> t
     \<Longrightarrow> host_step E s [] (s\<lparr>block_number := n, now_nanos := t, BlockHash := hs\<rparr>)"

inductive_cases host_stepE: "host_step E s rs s'"

inductive host_run ::
    "('cs, 'cons, 'msg, 'app) env \<Rightarrow> ('cs, 'cons, 'app) host \<Rightarrow> packet_result list \<Rightarrow> ('cs, 'cons, 'app) host \<Rightarrow> bool"
  for E where
  run_start: "host_run E s [] s"
| run_step: "host_run E s rs t \<Longrightarrow> host_step E t r u \<Longrightarrow> host_run E s (rs @ r) u"

lemma host_run_append:
  assumes "host_run E t rs' u" and "host_run E s rs t"
  shows "host_run E s (rs @ rs') u"
  using assms
proof (induction)
  case (run_step t rs' v r u)
  from run_step.IH [OF run_step.prems] run_step.hyps(2) show ?case
    by (metis append.assoc host_run.run_step)
qed simp

lemma host_run_single: "host_step E s r s' \<Longrightarrow> host_run E s r s'"
  using run_step [OF run_start] by fastforce

subsection \<open>What a step leaves alone\<close>

text \<open>The paths that only the packet handlers write, and those that a new channel also writes.\<close>

fun packet_path :: "path \<Rightarrow> bool" where
  "packet_path (CommitmentsPath p c n) \<longleftrightarrow> True"
| "packet_path (ReceiptsPath p c n) \<longleftrightarrow> True"
| "packet_path q \<longleftrightarrow> False"

fun sequence_path :: "path \<Rightarrow> (port_id \<times> channel_id) option" where
  "sequence_path (SeqSendsPath p c) = Some (p, c)"
| "sequence_path (SeqRecvsPath p c) = Some (p, c)"
| "sequence_path (SeqAcksPath p c) = Some (p, c)"
| "sequence_path q = None"

lemma store_channel_result_path:
  assumes "in_language q" and "q \<noteq> ChannelEndsPath (chr_port_id r) (chr_channel_id r)"
    and "sequence_path q = Some (chr_port_id r, chr_channel_id r) \<Longrightarrow> chr_id_state r \<noteq> Generated"
  shows "child_get (snd (store_channel_result r s)) q = child_get s q"
  using assms
  by (cases q; cases "chan_connection_hops (chr_channel_end r)")
    (auto simp: store_channel_result_def Let_def packet_store_defs store_connection_channels_def
      increase_channel_counter_def view_puts view_paths child_get_put panics_def)

lemma chan_step_path:
  assumes "chan_step E s s'" and "channel_ids_below s"
    and "packet_path q \<or> (\<exists>k. sequence_path q = Some k \<and> channels_get s k \<noteq> None) \<or> (\<exists>i. q = ConnectionsPath i)"
  shows "child_get s' q = child_get s q"
  using assms(1)
proof (cases rule: chan_step.cases)
  case (chan_handled m b r t v)
  have q: "in_language q" "\<not> is_ack_path q" "\<And>p c. q \<noteq> ChannelEndsPath p c"
    using assms(3) by (cases q; auto simp: is_ack_path_def)+
  have "chr_id_state r \<noteq> Generated" if "sequence_path q = Some (chr_port_id r, chr_channel_id r)"
  proof
    assume "chr_id_state r = Generated"
    with chan_handled(1) have "chr_channel_id r = ChannelId (ucast (ChannelCounter s))"
      by (cases rule: channel_dispatch_cases) auto
    with fresh_channel [OF assms(2)] assms(3) that show False
      by (cases q) auto
  qed
  then have "child_get (snd (store_channel_result (set_try_version m v r) t)) q = child_get t q"
    by (intro store_channel_result_path) (simp_all add: q)
  with chan_handled(4) module_effect_child [OF chan_handled(3) q(1,2)] show ?thesis by simp
qed

lemma conn_step_path:
  assumes "conn_step E s s'" and "in_language q" and "\<And>i. q \<noteq> ConnectionsPath i"
  shows "child_get s' q = child_get s q"
  using assms(1)
proof (cases rule: conn_step.cases)
  case (conn_handled m out)
  show ?thesis
    by (rule keepsD [OF store_connection_result_keeps_path conn_handled(3)]) (use assms(2,3) in auto)
qed

lemma client_store_path:
  assumes "store_client_result E r s = (res, s')" and "in_language q" and "\<And>i. \<not> client_owned i q"
  shows "child_get s' q = child_get s q"
  by (rule keepsD [OF store_client_result_keeps_path assms(1)]) (use assms(2,3) in auto)

text \<open>A step that handles no packet leaves commitments, receipts and the sequence numbers of known channels.\<close>

lemma host_step_path:
  assumes "host_step E s [] s'" and "channel_ids_below s"
    and "packet_path q \<or> (\<exists>k. sequence_path q = Some k \<and> channels_get s k \<noteq> None)"
  shows "child_get s' q = child_get s q"
proof -
  have q: "in_language q" "\<not> is_ack_path q" "\<And>i. q \<noteq> ConnectionsPath i" "\<And>i. \<not> client_owned i q"
    using assms(3) by (cases q; auto simp: is_ack_path_def)+
  from assms(1) show ?thesis
  proof (cases rule: host_step.cases)
    case channel_stepped
    from chan_step_path [OF this assms(2)] assms(3) show ?thesis by blast
  next
    case connection_stepped
    from conn_step_path [OF this q(1,3)] show ?thesis .
  next
    case (client_stepped m out res)
    from client_store_path [OF client_stepped(2) q(1,4)] show ?thesis .
  next
    case module_stepped
    from module_effect_child [OF this q(1,2)] show ?thesis .
  qed auto
qed

subsection \<open>The invariant\<close>

text \<open>Every commitment belongs to a sequence number that was already sent.\<close>

definition commitments_below :: "('cs, 'cons, 'app) host \<Rightarrow> bool" where
  "commitments_below s \<longleftrightarrow> (\<forall>p c sq. packet_commitment_get s (p, c, sq) \<noteq> None \<longrightarrow>
     (\<exists>n. next_seq_send_get s (p, c) = Some n \<and> sq < n))"

text \<open>Channel and connection identifiers are below their counters, and only known channels have sequence
  numbers.\<close>

definition host_inv :: "('cs, 'cons, 'app) host \<Rightarrow> bool" where
  "host_inv s \<longleftrightarrow> channel_ids_below s \<and> connection_ids_below s \<and> commitments_below s
     \<and> (\<forall>k. next_seq_send_get s k \<noteq> None \<longrightarrow> channels_get s k \<noteq> None)"

text \<open>The 32-bit counters that name channels and connections have not run out.\<close>

definition counters_left :: "('cs, 'cons, 'app) host \<Rightarrow> bool" where
  "counters_left s \<longleftrightarrow> ChannelCounter s \<noteq> - 1 \<and> ConnectionCounter s \<noteq> - 1"

lemma client_ops_counters:
  shows "keeps (\<lambda>s. (ChannelCounter s, ConnectionCounter s)) (store_client_type i ty)"
    and "keeps (\<lambda>s. (ChannelCounter s, ConnectionCounter s)) (store_client_state i c)"
    and "keeps (\<lambda>s. (ChannelCounter s, ConnectionCounter s)) (store_consensus_state i h k)"
    and "keeps (\<lambda>s. (ChannelCounter s, ConnectionCounter s)) (store_update_time i h ts)"
    and "keeps (\<lambda>s. (ChannelCounter s, ConnectionCounter s)) (store_update_height i h hh)"
    and "keeps (\<lambda>s. (ChannelCounter s, ConnectionCounter s)) (op_update increase_client_counter)"
  by (auto simp: store_client_type_def store_client_state_def store_consensus_state_def
      store_update_time_def store_update_height_def view_puts increase_client_counter_def
      split: option.splits intro!: keeps_then keeps_bind keeps_update)

lemma keeps_client_counters:
  "keeps (\<lambda>s. (ChannelCounter s, ConnectionCounter s)) (store_client_result E r)"
  by (cases r) (auto simp: store_consensus_update_def client_ops_counters
      split: option.splits consensus_update.splits intro!: keeps_then keeps_each)

lemma keeps_connection_counter: "keeps ChannelCounter (store_connection_result r)"
  by (auto simp: store_connection_result_def store_connection_def store_connection_to_client_def
      increase_connection_counter_def view_puts split: option.splits intro!: keeps_then keeps_update)

lemma keeps_channel_counter: "keeps ConnectionCounter (store_channel_result r)"
  by (auto simp: store_channel_result_def Let_def packet_store_defs store_connection_channels_def
      increase_channel_counter_def view_puts split: option.splits intro!: keeps_then keeps_bind keeps_update)

lemma host_step_counters:
  assumes "host_step E s rs s'"
  shows "(ChannelCounter s' = ChannelCounter s \<or> chan_step E s s')
    \<and> (ConnectionCounter s' = ConnectionCounter s \<or> conn_step E s s')"
  using assms
proof (cases rule: host_step.cases)
  case channel_stepped
  from channel_stepped(2) have "ConnectionCounter s' = ConnectionCounter s"
  proof (cases rule: chan_step.cases)
    case (chan_handled m b r t v)
    from keepsD [OF keeps_channel_counter chan_handled(4)] module_effect_fields(2) [OF chan_handled(3)]
    show ?thesis by simp
  qed
  with channel_stepped(2) show ?thesis by simp
next
  case connection_stepped
  from connection_stepped(2) have "ChannelCounter s' = ChannelCounter s"
  proof (cases rule: conn_step.cases)
    case (conn_handled m out)
    from keepsD [OF keeps_connection_counter conn_handled(3)] show ?thesis .
  qed
  with connection_stepped(2) show ?thesis by simp
next
  case (client_stepped m out res)
  from keepsD [OF keeps_client_counters client_stepped(3)] show ?thesis by simp
qed (auto simp: packet_step_counters module_effect_fields)

lemma host_step_counters_left:
  assumes "host_step E s rs s'" and "counters_left s'"
  shows "counters_left s"
  using host_step_counters [OF assms(1)] assms(2) chan_step_counter [of E s s'] conn_step_counter [of E s s']
  unfolding counters_left_def by auto

lemma host_step_ends:
  assumes "host_step E s rs s'"
  obtains (same) "channels_get s' = channels_get s" and "connections_get s' = connections_get s"
  | (packets) r where "rs = [r]" and "packet_step E s r s'"
  | (channels) "chan_step E s s'"
  | (connections) "conn_step E s s'" and "channels_get s' = channels_get s"
  using assms
proof (cases rule: host_step.cases)
  case connection_stepped
  have "channels_get s' k = channels_get s k" for k
    using conn_step_path [OF connection_stepped(2), of "ChannelEndsPath (fst k) (snd k)"]
    by (simp add: channels_get_def)
  with connections connection_stepped(2) show ?thesis by blast
next
  case (client_stepped m out res)
  have "channels_get s' k = channels_get s k" "connections_get s' i = connections_get s i" for k i
    using client_store_path [OF client_stepped(3), of "ChannelEndsPath (fst k) (snd k)"]
      client_store_path [OF client_stepped(3), of "ConnectionsPath i"]
    by (simp_all add: channels_get_def connections_get_def)
  with same show ?thesis by blast
next
  case module_stepped
  with same module_effect_reads [OF module_stepped(2)] show ?thesis by blast
next
  case (block_stepped n t hs)
  then show ?thesis
    by (intro same ext) (simp_all add: channels_get_def connections_get_def)
qed (blast intro: packets channels)+

lemma host_step_channel:
  assumes "host_step E s rs s'" and "channel_ids_below s" and "get_channel_end E s k = Inr e"
  shows "\<exists>e'. get_channel_end E s' k = Inr e' \<and> (e' = e \<or> chan_evolves e e')"
proof -
  consider "channels_get s' = channels_get s" | r where "packet_step E s r s'" | "chan_step E s s'"
    by (cases rule: host_step_ends [OF assms(1)])
  then show ?thesis
  proof cases
    case 1
    then have "get_channel_end E s' k = get_channel_end E s k" by (simp add: get_channel_end_def)
    with assms(3) show ?thesis by simp
  next
    case (2 r)
    from packet_step_channel [OF 2 assms(3)] show ?thesis
      using chan_evolves_close [of e] by auto
  next
    case 3
    from chan_step_evolves [OF 3 assms(2,3)] show ?thesis .
  qed
qed

lemma chan_step_connections:
  assumes "chan_step E s s'" and "channel_ids_below s"
  shows "connections_get s' = connections_get s"
  using chan_step_path [OF assms, of "ConnectionsPath k" for k] by (simp add: connections_get_def fun_eq_iff)

lemma host_step_connection:
  assumes "host_step E s rs s'" and "channel_ids_below s" and "connection_ids_below s"
    and "get_connection_end E s k = Inr c"
  shows "\<exists>c'. get_connection_end E s' k = Inr c' \<and> (c' = c \<or> conn_evolves c c')"
proof -
  consider "connections_get s' = connections_get s" | r where "packet_step E s r s'" | "conn_step E s s'"
    by (cases rule: host_step_ends [OF assms(1)]) (use chan_step_connections [OF _ assms(2)] in blast)+
  then show ?thesis
  proof cases
    case 1
    then have "get_connection_end E s' k = get_connection_end E s k" by (simp add: get_connection_end_def)
    with assms(4) show ?thesis by simp
  next
    case (2 r)
    from packet_step_connections [OF 2] assms(4) show ?thesis by simp
  next
    case 3
    from conn_step_evolves [OF 3 assms(3,4)] show ?thesis .
  qed
qed

lemma host_step_channel_ids:
  assumes "host_step E s rs s'" and "channel_ids_below s" and "ChannelCounter s \<noteq> - 1"
  shows "channel_ids_below s'"
proof (cases "chan_step E s s'")
  case True
  from chan_step_ids [OF True assms(2,3)] show ?thesis .
next
  case False
  then consider "channels_get s' = channels_get s" | r where "packet_step E s r s'"
    by (cases rule: host_step_ends [OF assms(1)]) blast+
  then have "channels_get s' j \<noteq> None \<Longrightarrow> channels_get s j \<noteq> None" for j
    by cases (simp_all only: packet_step_channels_get not_False_eq_True)
  moreover have "ChannelCounter s' = ChannelCounter s"
    using host_step_counters [OF assms(1)] False by blast
  ultimately show ?thesis
    using assms(2) unfolding channel_ids_below_def by (intro channel_ids.unchanged [of s s'])
qed

lemma packet_step_connections_get:
  assumes "packet_step E s r s'"
  shows "connections_get s' = connections_get s"
proof -
  obtain t where t: "s' = snd (store_packet_result E r t)"
      "\<forall>q. in_language q \<and> \<not> is_ack_path q \<longrightarrow> child_get t q = child_get s q"
    by (rule packet_step_state [OF assms])
  show ?thesis
    using assms unfolding t(1)
    by (cases rule: packet_step_cases) (simp_all add: fun_eq_iff packet_views t(2) is_ack_path_def)
qed

lemma host_step_connection_ids:
  assumes "host_step E s rs s'" and "channel_ids_below s" and "connection_ids_below s"
    and "ConnectionCounter s \<noteq> - 1"
  shows "connection_ids_below s'"
proof (cases "conn_step E s s'")
  case True
  from conn_step_ids [OF True assms(3,4)] show ?thesis .
next
  case False
  then consider "connections_get s' = connections_get s" | r where "packet_step E s r s'" | "chan_step E s s'"
    by (cases rule: host_step_ends [OF assms(1)]) blast+
  then have "connections_get s' = connections_get s"
  proof cases
    case (2 r)
    from packet_step_connections_get [OF 2] show ?thesis .
  next
    case 3
    from chan_step_connections [OF 3 assms(2)] show ?thesis .
  qed
  moreover have "ConnectionCounter s' = ConnectionCounter s"
    using host_step_counters [OF assms(1)] False by blast
  ultimately show ?thesis
    using assms(3) unfolding connection_ids_below_def by (intro connection_ids.unchanged [of s s']) simp_all
qed

lemma unat_next_sequence:
  assumes "(m :: sequence) \<noteq> - 1"
  shows "unat (m + 1) = Suc (unat m)"
proof -
  have "seq_increment m = (Inr (m + 1) :: (_, unit) res)"
    using assms by simp
  then have "checked_add m 1 = Some (m + 1)"
    unfolding seq_increment_def by (simp only: plus_or_panic_eq_Inr)
  from checked_add_unat [OF this] show ?thesis by simp
qed

lemma next_sequence_less: "(m :: sequence) \<noteq> - 1 \<Longrightarrow> m < m + 1"
  using unat_next_sequence [of m] by (simp add: word_less_nat_alt)

lemma packet_step_next_send_mono:
  assumes "packet_step E s r s'" and "next_seq_send_get s k = Some n"
  shows "\<exists>n'. next_seq_send_get s' k = Some n' \<and> n \<le> n'"
  using assms(1)
proof (cases rule: packet_step_cases)
  case (send p c)
  show ?thesis
  proof (cases "k = source_key p")
    case True
    with send(2) assms(2) have "n = pkt_sequence p" by simp
    with True next_sequence_less [OF send(3)] show ?thesis
      by (simp add: packet_step_next_send [OF assms(1)] send(1) less_imp_le)
  qed (use assms(2) in \<open>auto simp: packet_step_next_send [OF assms(1)] send(1)\<close>)
qed (use assms(2) in \<open>auto simp: packet_step_next_send [OF assms(1)]\<close>)

lemma packet_step_commitments_below:
  assumes "packet_step E s r s'" and "commitments_below s"
  shows "commitments_below s'"
  unfolding commitments_below_def
proof (intro allI impI)
  fix p c sq
  assume present: "packet_commitment_get s' (p, c, sq) \<noteq> None"
  show "\<exists>n. next_seq_send_get s' (p, c) = Some n \<and> sq < n"
  proof (cases "packet_commitment_get s (p, c, sq)")
    case (Some b)
    then obtain n where "next_seq_send_get s (p, c) = Some n" "sq < n"
      using assms(2) unfolding commitments_below_def by blast
    with packet_step_next_send_mono [OF assms(1)] show ?thesis
      by (meson less_le_trans)
  next
    case None
    from assms(1) show ?thesis
    proof (cases rule: packet_step_cases)
      case (send q b)
      with None present have "(p, c, sq) = source_packet_key q"
        by (auto simp: packet_step_commitment [OF assms(1)] split: if_splits)
      with next_sequence_less [OF send(3)] show ?thesis
        by (simp add: packet_step_next_send [OF assms(1)] send(1))
    qed (use None present in \<open>auto simp: packet_step_commitment [OF assms(1)] split: if_splits\<close>)
  qed
qed

lemma host_step_quiet:
  assumes "host_step E s [] s'" and "channel_ids_below s"
  shows "packet_commitment_get s' j = packet_commitment_get s j"
    and "packet_receipt_get s' j = packet_receipt_get s j"
    and "channels_get s k \<noteq> None \<Longrightarrow> next_seq_send_get s' k = next_seq_send_get s k"
    and "channels_get s k \<noteq> None \<Longrightarrow> next_seq_recv_get s' k = next_seq_recv_get s k"
    and "channels_get s k \<noteq> None \<Longrightarrow> next_seq_ack_get s' k = next_seq_ack_get s k"
proof -
  note path = host_step_path [OF assms]
  show "packet_commitment_get s' j = packet_commitment_get s j"
    using path [of "commitment_path j"] by (simp add: packet_commitment_get_def commitment_path_def)
  show "packet_receipt_get s' j = packet_receipt_get s j"
    using path [of "receipt_path j"] by (simp add: packet_receipt_get_def receipt_path_def)
  show "next_seq_send_get s' k = next_seq_send_get s k" if "channels_get s k \<noteq> None"
    using path [of "SeqSendsPath (fst k) (snd k)"] that by (simp add: next_seq_send_get_def)
  show "next_seq_recv_get s' k = next_seq_recv_get s k" if "channels_get s k \<noteq> None"
    using path [of "SeqRecvsPath (fst k) (snd k)"] that by (simp add: next_seq_recv_get_def)
  show "next_seq_ack_get s' k = next_seq_ack_get s k" if "channels_get s k \<noteq> None"
    using path [of "SeqAcksPath (fst k) (snd k)"] that by (simp add: next_seq_ack_get_def)
qed

text \<open>A step that handles no packet gives a sequence number to no channel but the one it creates.\<close>

lemma chan_step_new_sequence:
  assumes "chan_step E s s'" and "next_seq_send_get s' k \<noteq> None" and "next_seq_send_get s k = None"
  shows "channels_get s' k \<noteq> None"
  using assms(1)
proof (cases rule: chan_step.cases)
  case (chan_handled m b r t v)
  let ?r = "set_try_version m v r"
  show ?thesis
  proof (cases "k = (chr_port_id r, chr_channel_id r)")
    case True
    have "length (chan_connection_hops (chr_channel_end ?r)) = 1" if "chr_id_state ?r = Generated"
      using chan_handled(1) that by (cases rule: channel_dispatch_cases) auto
    from store_channel_result_effect(2) [OF chan_handled(4) this, of k] True show ?thesis by simp
  next
    case False
    have "child_get (snd (store_channel_result ?r t)) (SeqSendsPath (fst k) (snd k))
        = child_get t (SeqSendsPath (fst k) (snd k))"
      by (rule store_channel_result_path) (use False in \<open>auto simp: prod_eq_iff\<close>)
    with chan_handled(4) module_effect_child [OF chan_handled(3), of "SeqSendsPath (fst k) (snd k)"] assms(2,3)
    show ?thesis by (simp add: next_seq_send_get_def is_ack_path_def)
  qed
qed

lemma host_step_new_sequence:
  assumes "host_step E s [] s'" and "next_seq_send_get s' k \<noteq> None" and "next_seq_send_get s k = None"
  shows "channels_get s' k \<noteq> None"
  using assms(1)
proof (cases rule: host_step.cases)
  case channel_stepped
  from chan_step_new_sequence [OF this assms(2,3)] show ?thesis .
next
  case connection_stepped
  from conn_step_path [OF this, of "SeqSendsPath (fst k) (snd k)"] assms(2,3) show ?thesis
    by (simp add: next_seq_send_get_def)
next
  case (client_stepped m out res)
  from client_store_path [OF client_stepped(2), of "SeqSendsPath (fst k) (snd k)"] assms(2,3) show ?thesis
    by (simp add: next_seq_send_get_def)
next
  case module_stepped
  from module_effect_child [OF this, of "SeqSendsPath (fst k) (snd k)"] assms(2,3) show ?thesis
    by (simp add: next_seq_send_get_def is_ack_path_def)
qed (use assms(2,3) in \<open>simp_all add: next_seq_send_get_def\<close>)

lemma host_step_channels_persist:
  assumes "host_step E s rs s'" and "channels_get s k \<noteq> None"
  shows "channels_get s' k \<noteq> None"
  using assms(1)
proof (cases rule: host_step_ends)
  case (packets r)
  with packet_step_channels_get [OF packets(2), of k] assms(2) show ?thesis by blast
next
  case channels
  then show ?thesis
    by (cases rule: chan_step_cases) (use assms(2) in blast)+
qed (use assms(2) in simp_all)

lemma host_step_shape:
  assumes "host_step E s rs s'"
  obtains (packet) r where "rs = [r]" and "packet_step E s r s'" | (quiet) "rs = []" and "host_step E s [] s'"
  using assms by (cases rule: host_step.cases) (use assms in auto)

lemma packet_step_sequence_old:
  assumes "packet_step E s r s'" and "next_seq_send_get s' k \<noteq> None"
  shows "next_seq_send_get s k \<noteq> None"
  using assms(1)
  by (cases rule: packet_step_cases)
    (use assms(2) packet_step_next_send [OF assms(1), of k] in \<open>auto split: if_splits\<close>)

lemma host_step_sequences:
  assumes "host_step E s rs s'" and "\<And>k. next_seq_send_get s k \<noteq> None \<Longrightarrow> channels_get s k \<noteq> None"
    and "next_seq_send_get s' k \<noteq> None"
  shows "channels_get s' k \<noteq> None"
proof (cases "next_seq_send_get s k = None")
  case True
  from assms(1) show ?thesis
    by (cases rule: host_step_shape)
      (use packet_step_sequence_old host_step_new_sequence True assms(3) in blast)+
next
  case False
  with assms(2) host_step_channels_persist [OF assms(1)] show ?thesis by blast
qed

lemma host_step_commitments_below:
  assumes "host_step E s rs s'" and "host_inv s"
  shows "commitments_below s'"
  using assms(1)
proof (cases rule: host_step_shape)
  case (packet r)
  with packet_step_commitments_below [OF packet(2)] assms(2) show ?thesis by (simp add: host_inv_def)
next
  case quiet
  have ids: "channel_ids_below s" using assms(2) by (simp add: host_inv_def)
  note quiet_gets = host_step_quiet [OF quiet(2) ids]
  show ?thesis
    unfolding commitments_below_def
  proof (intro allI impI)
    fix p c sq
    assume "packet_commitment_get s' (p, c, sq) \<noteq> None"
    then obtain n where "next_seq_send_get s (p, c) = Some n" "sq < n"
      using assms(2) unfolding host_inv_def commitments_below_def quiet_gets(1) by blast
    moreover from this have "channels_get s (p, c) \<noteq> None"
      using assms(2) unfolding host_inv_def by (metis option.distinct(1))
    ultimately show "\<exists>n. next_seq_send_get s' (p, c) = Some n \<and> sq < n"
      using quiet_gets(3) by simp
  qed
qed

lemma host_step_inv:
  assumes "host_step E s rs s'" and "host_inv s" and "counters_left s"
  shows "host_inv s'"
proof -
  have "channel_ids_below s'" "connection_ids_below s'"
    using host_step_channel_ids [OF assms(1)] host_step_connection_ids [OF assms(1)] assms(2,3)
    by (simp_all add: host_inv_def counters_left_def)
  moreover have "channels_get s' k \<noteq> None" if "next_seq_send_get s' k \<noteq> None" for k
    by (rule host_step_sequences [OF assms(1) _ that]) (use assms(2) in \<open>unfold host_inv_def, blast\<close>)
  ultimately show ?thesis
    using host_step_commitments_below [OF assms(1,2)] unfolding host_inv_def by blast
qed

lemma host_run_counters_left: "host_run E s rs s' \<Longrightarrow> counters_left s' \<Longrightarrow> counters_left s"
  by (induction rule: host_run.induct) (auto dest: host_step_counters_left)

text \<open>Induction over a run from a state that satisfies the invariant.\<close>

lemma host_run_induct [consumes 3, case_names start step]:
  assumes "host_run E s rs s'" and "host_inv s" and "counters_left s'"
    and "P [] s"
    and "\<And>rs t r u. host_run E s rs t \<Longrightarrow> host_step E t r u \<Longrightarrow> host_inv t \<Longrightarrow> counters_left t
       \<Longrightarrow> host_inv u \<Longrightarrow> P rs t \<Longrightarrow> P (rs @ r) u"
  shows "P rs s'"
proof -
  have "host_inv s' \<and> P rs s'"
    using assms
  proof (induction)
    case (run_step s rs t r u)
    note left = host_step_counters_left [OF run_step.hyps(2) run_step.prems(2)]
    have IH: "host_inv t \<and> P rs t"
      by (rule run_step.IH) (use run_step.prems left in auto)
    with host_step_inv [OF run_step.hyps(2)] left run_step.prems(4) [OF run_step.hyps] show ?case
      by blast
  qed auto
  then show ?thesis by blast
qed

lemma host_run_inv:
  assumes "host_run E s rs s'" and "host_inv s" and "counters_left s'"
  shows "host_inv s'"
  by (rule host_run_induct [OF assms]) (use assms(2) in simp_all)

section \<open>Properties\<close>


text \<open>C7: the life of a channel end. Over any run of the host, while its 32-bit counters have not run out, a
  stored channel is never lost: its state only advances, its ordering, connection and counterparty port
  stay, an open end can only be closed and a closed end never changes again.\<close>

theorem channel_history:
  assumes "host_run E s rs s'" and "host_inv s" and "counters_left s'"
    and "get_channel_end E s k = Inr e"
  shows "\<exists>e'. get_channel_end E s' k = Inr e' \<and> chan_progress e e'"
  using assms(1-3)
proof (induction rule: host_run_induct)
  case start
  with assms(4) show ?case by auto
next
  case (step rs t r u)
  then obtain d where d: "get_channel_end E t k = Inr d" "chan_progress e d" by blast
  have "channel_ids_below t" using step.hyps by (simp add: host_inv_def)
  from host_step_channel [OF step.hyps(2) this d(1)] d(2) chan_progress_evolves [of e d]
  show ?case by auto
qed

text \<open>C8: the life of a connection end. Over any run of the host, while its 32-bit counters have not run out,
  a stored connection is never lost: it is as it was, or it has gone from Init or TryOpen to Open with the
  same client, counterparty client, prefix and delay and a version it had offered. An open connection
  therefore never changes again.\<close>

theorem connection_history:
  assumes "host_run E s rs s'" and "host_inv s" and "counters_left s'"
    and "get_connection_end E s k = Inr c"
  shows "\<exists>c'. get_connection_end E s' k = Inr c' \<and> (c' = c \<or> conn_evolves c c')
    \<and> (conn_state c = ConnOpen \<longrightarrow> c' = c)"
proof -
  have "\<exists>c'. get_connection_end E s' k = Inr c' \<and> (c' = c \<or> conn_evolves c c')"
    using assms(1-3)
  proof (induction rule: host_run_induct)
    case start
    with assms(4) show ?case by auto
  next
    case (step rs t r u)
    then obtain d where d: "get_connection_end E t k = Inr d" "d = c \<or> conn_evolves c d" by blast
    have "channel_ids_below t" "connection_ids_below t" using step.hyps by (simp_all add: host_inv_def)
    from host_step_connection [OF step.hyps(2) this d(1)] d(2) conn_evolves_once [of c d]
    show ?case by auto
  qed
  then show ?thesis
    by (auto simp: conn_evolves_def)
qed

section \<open>Sample runs\<close>

lemma sample_conn_host_inv: "host_inv sample_conn_host" and sample_conn_host_counters: "counters_left sample_conn_host"
proof -
  have "channel_ids_below sample_conn_host"
    by (simp add: channel_ids_below_def ids_below_def sample_conn_host_def view_laws)
  with sample_conn_ids show "host_inv sample_conn_host"
    by (simp add: host_inv_def commitments_below_def) (simp add: sample_conn_host_def view_laws)
  show "counters_left sample_conn_host"
    by (simp add: counters_left_def sample_conn_host_def view_puts empty_host_def child_put_def)
qed

lemma sample_chan_host_inv: "host_inv sample_chan_host" and sample_chan_host_counters: "counters_left sample_chan_host"
proof -
  have "connection_ids_below sample_chan_host"
    unfolding connection_ids_below_def ids_below_def
  proof (intro allI impI)
    fix k
    assume "connections_get sample_chan_host k \<noteq> None"
    then have "k = ConnectionId ''connection-0''"
      by (simp add: sample_chan_host_def sample_conn_host_def view_laws split: if_splits)
    moreover have "ConnectionCounter sample_chan_host = 1"
      by (simp add: sample_chan_host_def sample_conn_host_def view_puts)
    moreover have "show_u64 0 = ''0''" by code_simp
    ultimately show "\<exists>n. connection_numbered k n \<and> n < ucast (ConnectionCounter sample_chan_host)"
      by (intro exI [of _ 0]) (simp add: connection_numbered_def)
  qed
  with sample_chan_ids show "host_inv sample_chan_host"
    by (simp add: host_inv_def commitments_below_def) (simp add: sample_chan_host_def sample_conn_host_def view_laws)
  show "counters_left sample_chan_host"
    by (simp add: counters_left_def sample_chan_host_def sample_conn_host_def view_puts)
qed

lemma sample_chan_run:
  obtains s' where "host_run channel_env sample_chan_host [] s'" and "counters_left s'"
proof -
  obtain b r where d: "channel_dispatch channel_env sample_chan_host sample_chan_confirm = Inr (b, r)"
    using sample_chan_confirm_runs by blast
  then have r: "chr_id_state r = Reused"
    by (cases rule: channel_dispatch_split)
      (auto simp: sample_chan_confirm_def elim!: chan_open_confirm_ok)
  obtain res s' where st: "store_channel_result r sample_chan_host = (res, s')"
    by fastforce
  note eff = store_channel_result_effect [OF st]
  from r eff(1) have "res = Inr ()" by simp
  with st have step: "chan_step channel_env sample_chan_host s'"
    using chan_handled [OF d _ module_effect_refl, of "chan_version (chr_channel_end r)" s']
    by (simp add: sample_chan_confirm_def)
  have "ChannelCounter s' = ChannelCounter sample_chan_host"
    using eff(3) r by simp
  moreover have "ConnectionCounter s' = ConnectionCounter sample_chan_host"
    using keepsD [OF keeps_channel_counter st] .
  ultimately have "counters_left s'"
    using sample_chan_host_counters by (simp add: counters_left_def)
  with that host_run_single [OF channel_stepped [OF step]] show ?thesis by blast
qed


theorem channel_history_witness:
  "\<exists>s' e'. host_run channel_env sample_chan_host [] s'
     \<and> get_channel_end channel_env s' (port_transfer, ChannelId 0) = Inr e' \<and> chan_progress sample_channel e'"
proof (rule sample_chan_run)
  fix s'
  assume "host_run channel_env sample_chan_host [] s'" and "counters_left s'"
  with channel_history [OF this(1) sample_chan_host_inv this(2) sample_channel_stored] show ?thesis by blast
qed

theorem connection_history_witness:
  "\<exists>s' c'. host_run checking_env sample_conn_host [] s'
    \<and> get_connection_end checking_env s' (ConnectionId ''connection-0'') = Inr c'
    \<and> (c' = sample_try_end \<or> conn_evolves sample_try_end c')"
proof -
  let ?s' = "snd (store_connection_result (out_result sample_confirmed) sample_conn_host)"
  have st: "store_connection_result (out_result sample_confirmed) sample_conn_host = (Inr (), ?s')"
    using store_connection_result_effect(1) [OF prod.collapse [symmetric]] by (intro prod_eqI) simp_all
  have "conn_step checking_env sample_conn_host ?s'"
    by (rule conn_handled [OF sample_confirm_runs _ st]) (simp add: sample_confirm_def)
  from host_run_single [OF connection_stepped [OF this]]
  have run: "host_run checking_env sample_conn_host [] ?s'" .
  have "cnr_id_state (out_result sample_confirmed) = Reused"
    by (simp add: sample_confirmed_def Let_def)
  then have "ConnectionCounter ?s' = ConnectionCounter sample_conn_host"
    using store_connection_result_effect(3) [OF st] by simp
  then have "counters_left ?s'"
    using keepsD [OF keeps_connection_counter st] sample_conn_host_counters by (simp add: counters_left_def)
  from connection_history [OF run sample_conn_host_inv this sample_try_end_stored] show ?thesis
    using run by blast
qed

end
