(* ===== verification/Packet_Delivery.thy ===== *)
theory Packet_Delivery
  imports Host_Runs
begin

text \<open>
  What the packet handlers guarantee over runs of the host: a packet is received at most once and, on an
  ordered channel, in order; a commitment is made once, released at most once, only for the packet that was
  sent and only against a proof; and the places where the code departs from this.
\<close>

text \<open>The sequence number that a step receives on a channel of this host.\<close>

fun received :: "port_id \<times> channel_id \<Rightarrow> packet_result \<Rightarrow> sequence list" where
  "received k (RecvResult (RecvOrdered p c n pkt)) = (if k = (p, c) then [pkt_sequence pkt] else [])"
| "received k (RecvResult (RecvUnordered p c sq rc pkt)) = (if k = (p, c) then [sq] else [])"
| "received k r = []"

text \<open>The commitment that a step releases.\<close>

fun released :: "packet_result \<Rightarrow> packet_key list" where
  "released (AckResult a) = [(ap_port_id a, ap_channel_id a, ap_seq a)]"
| "released (TimeoutResult t) = [(tp_port_id t, tp_channel_id t, tp_seq t)]"
| "released r = []"

lemma host_run_ordering:
  assumes "host_run E s rs s'" and "host_inv s" and "counters_left s'" and "get_channel_end E s k = Inr e"
  shows "\<exists>d. get_channel_end E s' k = Inr d \<and> chan_ordering d = chan_ordering e"
  using assms(1-3)
proof (induction rule: host_run_induct)
  case start
  with assms(4) show ?case by auto
next
  case (step rs t r u)
  then obtain d where d: "get_channel_end E t k = Inr d" "chan_ordering d = chan_ordering e" by blast
  have "channel_ids_below t" using step.hyps by (simp add: host_inv_def)
  from host_step_channel [OF step.hyps(2) this d(1)] d(2) show ?case
    by (auto simp: chan_evolves_def)
qed

lemma ordered_run:
  assumes "host_run E s rs s'" and "host_inv s" and "counters_left s'"
    and "get_channel_end E s k = Inr e" and "chan_ordering e = Ordered"
    and "next_seq_recv_get s k = Some n"
  shows "\<exists>n'. next_seq_recv_get s' k = Some n'
    \<and> map unat (concat (map (received k) rs)) = [unat n ..< unat n'] \<and> n \<le> n'"
  using assms(1-3)
proof (induction rule: host_run_induct)
  case start
  with assms(6) show ?case by auto
next
  case (step rs t r u)
  then obtain m where m: "next_seq_recv_get t k = Some m"
      "map unat (concat (map (received k) rs)) = [unat n ..< unat m]" "n \<le> m"
    by auto
  obtain d where d: "get_channel_end E t k = Inr d" "chan_ordering d = Ordered"
    using host_run_ordering [OF step.hyps(1) assms(2) step.hyps(4) assms(4)] assms(5) by auto
  from step.hyps(2) show ?case
  proof (cases rule: host_step_shape)
    case (packet a)
    note next_recv = packet_step_next_recv [OF packet(2), of k]
    from packet(2) show ?thesis
    proof (cases rule: packet_step_cases)
      case (recv_ordered p x)
      show ?thesis
      proof (cases "k = dest_key p")
        case True
        with recv_ordered(4) m(1) have "m = pkt_sequence p" by simp
        moreover have "unat (m + 1) = Suc (unat m)"
          using recv_ordered(5) calculation by (simp add: unat_next_sequence)
        ultimately show ?thesis
          using m(2,3) True next_recv by (auto simp: packet(1) recv_ordered(1) word_le_nat_alt)
      qed (use m next_recv in \<open>auto simp: packet(1) recv_ordered(1)\<close>)
    next
      case (recv_unordered p x)
      with d have "k \<noteq> dest_key p" by auto
      with m next_recv show ?thesis by (auto simp: packet(1) recv_unordered(1))
    qed (use m next_recv packet(1) in auto)
  next
    case quiet
    have "channel_ids_below t" using step.hyps by (simp add: host_inv_def)
    from host_step_quiet(4) [OF quiet(2) this, of k] d(1) m quiet(1) show ?thesis
      by (auto simp: get_channel_end_def)
  qed
qed

lemma unordered_run:
  assumes "host_run E s rs s'" and "host_inv s" and "counters_left s'"
    and "get_channel_end E s (p, c) = Inr e" and "chan_ordering e = Unordered"
  shows "distinct (concat (map (received (p, c)) rs))
    \<and> (\<forall>sq \<in> set (concat (map (received (p, c)) rs)).
         packet_receipt_get s (p, c, sq) \<noteq> Some (as_bytes ''Ok'') \<and> packet_receipt_get s' (p, c, sq) = Some (as_bytes ''Ok''))
    \<and> (\<forall>sq. packet_receipt_get s (p, c, sq) = Some (as_bytes ''Ok'') \<longrightarrow> packet_receipt_get s' (p, c, sq) = Some (as_bytes ''Ok''))"
  using assms(1-3)
proof (induction rule: host_run_induct)
  case start
  show ?case by simp
next
  case (step rs t r u)
  obtain d where d: "get_channel_end E t (p, c) = Inr d" "chan_ordering d = Unordered"
    using host_run_ordering [OF step.hyps(1) assms(2) step.hyps(4) assms(4)] assms(5) by auto
  from step.hyps(2) show ?case
  proof (cases rule: host_step_shape)
    case (packet a)
    note receipt = packet_step_receipt [OF packet(2)]
    from packet(2) show ?thesis
    proof (cases rule: packet_step_cases)
      case (recv_ordered q x)
      with d have "(p, c) \<noteq> dest_key q" by auto
      with step.IH show ?thesis by (auto simp: packet(1) recv_ordered(1) receipt)
    next
      case (recv_unordered q x)
      show ?thesis
      proof (cases "(p, c) = dest_key q")
        case True
        with recv_unordered(4) step.IH show ?thesis
          by (auto simp: packet(1) recv_unordered(1) receipt)
      next
        case False
        with step.IH show ?thesis
          by (auto simp: packet(1) recv_unordered(1) receipt)
      qed
    qed (use step.IH in \<open>auto simp: packet(1) receipt\<close>)
  next
    case quiet
    have "channel_ids_below t" using step.hyps by (simp add: host_inv_def)
    from host_step_quiet(2) [OF quiet(2) this] step.IH quiet(1) show ?thesis by simp
  qed
qed

section \<open>Properties: delivery\<close>

text \<open>C1: an ordered channel delivers every packet exactly once and in order. Over any run of the host, the
  sequence numbers received on it are consecutive, from the next expected number at the start to the one
  before the next expected number at the end.\<close>

theorem ordered_delivery:
  assumes "host_run E s rs s'" and "host_inv s" and "counters_left s'"
    and "get_channel_end E s k = Inr e" and "chan_ordering e = Ordered"
    and "next_seq_recv_get s k = Some n"
  shows "\<exists>n'. next_seq_recv_get s' k = Some n'
    \<and> map unat (concat (map (received k) rs)) = [unat n ..< unat n'] \<and> n \<le> n'"
  using assms by (rule ordered_run)

text \<open>C3: an unordered channel delivers every packet at most once. Over any run of the host, the sequence
  numbers received on it are distinct and none of them had a receipt at the start; at the end all of them
  do, and no receipt is ever lost.\<close>

theorem unordered_delivery:
  assumes "host_run E s rs s'" and "host_inv s" and "counters_left s'"
    and "get_channel_end E s (p, c) = Inr e" and "chan_ordering e = Unordered"
  shows "distinct (concat (map (received (p, c)) rs))
    \<and> (\<forall>sq \<in> set (concat (map (received (p, c)) rs)).
         packet_receipt_get s (p, c, sq) \<noteq> Some (as_bytes ''Ok'') \<and> packet_receipt_get s' (p, c, sq) = Some (as_bytes ''Ok''))
    \<and> (\<forall>sq. packet_receipt_get s (p, c, sq) = Some (as_bytes ''Ok'') \<longrightarrow> packet_receipt_get s' (p, c, sq) = Some (as_bytes ''Ok''))"
  using assms by (rule unordered_run)

section \<open>Properties: commitments\<close>

text \<open>A packet that was sent and whose commitment is gone.\<close>

definition settled :: "('cs, 'cons, 'app) host \<Rightarrow> packet_key \<Rightarrow> bool" where
  "settled s k \<longleftrightarrow> packet_commitment_get s k = None
     \<and> (\<exists>n. next_seq_send_get s (fst k, fst (snd k)) = Some n \<and> snd (snd k) < n)"

lemma settled_step:
  assumes "host_step E s rs s'" and "host_inv s" and "settled s k"
  shows "settled s' k"
proof -
  obtain p c sq where k: "k = (p, c, sq)" by (cases k)
  obtain n where n: "packet_commitment_get s k = None" "next_seq_send_get s (p, c) = Some n" "sq < n"
    using assms(3) by (auto simp: settled_def k)
  from assms(1) show ?thesis
  proof (cases rule: host_step_shape)
    case (packet r)
    obtain n' where n': "next_seq_send_get s' (p, c) = Some n'" "n \<le> n'"
      using packet_step_next_send_mono [OF packet(2) n(2)] by blast
    have "packet_commitment_get s' k = None"
      using packet(2)
      by (cases rule: packet_step_cases)
        (use n in \<open>auto simp: packet_step_commitment [OF packet(2)] k\<close>)
    with n' n(3) show ?thesis by (auto simp: settled_def k)
  next
    case quiet
    have ids: "channel_ids_below s" and "channels_get s (p, c) \<noteq> None"
      using assms(2) n(2) unfolding host_inv_def by (blast, metis option.distinct(1))
    with host_step_quiet(1,3) [OF quiet(2) ids] n show ?thesis by (simp add: settled_def k)
  qed
qed

lemma released_settled:
  assumes "packet_step E s r s'" and "commitments_below s" and "released r = [k]"
    and "packet_commitment_get s k \<noteq> None"
  shows "settled s' k"
proof -
  obtain p c sq where k: "k = (p, c, sq)" by (cases k)
  then obtain n where "next_seq_send_get s (p, c) = Some n" "sq < n"
    using assms(2,4) unfolding commitments_below_def by blast
  moreover from this(1) obtain n' where "next_seq_send_get s' (p, c) = Some n'" "n \<le> n'"
    using packet_step_next_send_mono [OF assms(1)] by blast
  moreover have "packet_commitment_get s' k = None"
    using assms(3) by (cases r rule: released.cases) (auto simp: packet_step_commitment [OF assms(1)])
  ultimately show ?thesis by (auto simp: settled_def k)
qed

text \<open>C25: sending a packet commits to it under a sequence number never used before on the channel: the
  commitment of its content is stored where there was none, the next sequence number is one higher, every
  other path of the provable store is as before, and the invariant that gives this is kept.\<close>

theorem send_packet_commits:
  assumes "send_packet E s p = Inr out" and "commitments_below s"
    and "store_packet_result E (out_result out) s = (res, s')"
  shows "packet_commitment_get s (source_packet_key p) = None
    \<and> (\<exists>c. sent_commitment E p = (Inr c :: (bytes, ics04_error) res)
         \<and> get_packet_commitment s' (source_packet_key p) = Inr c)
    \<and> get_next_sequence_send s (source_key p) = Inr (pkt_sequence p)
    \<and> get_next_sequence_send s' (source_key p) = Inr (pkt_sequence p + 1) \<and> pkt_sequence p < pkt_sequence p + 1
    \<and> (\<forall>q. in_language q \<and> q \<noteq> commitment_path (source_packet_key p)
          \<and> q \<noteq> SeqSendsPath (source_port p) (source_channel p) \<longrightarrow> child_get s' q = child_get s q)
    \<and> commitments_below s'"
proof -
  have step: "packet_step E s (out_result out) s'"
    using packet_sent [OF assms(1,3)] .
  note below = packet_step_commitments_below [OF step assms(2)]
  from assms(1) show ?thesis
  proof (rule send_packet_ok, goal_cases)
    case (1 e c)
    have "packet_commitment_get s (source_packet_key p) = None"
      using assms(2) 1(4) unfolding commitments_below_def by (metis option.inject order.irrefl)
    moreover have "child_get s' q = child_get s q"
      if "in_language q" "q \<noteq> commitment_path (source_packet_key p)" "q \<noteq> SeqSendsPath (source_port p) (source_channel p)" for q
    proof -
      have "s' = snd (store_packet_result E (out_result out) s)" using assms(3) by simp
      with that show ?thesis by (simp add: 1(7) child_get_store_packet_result view_paths)
    qed
    ultimately show ?case
      using 1(4-6) below next_sequence_less [OF 1(5)]
      by (simp add: reader_oks packet_step_commitment [OF step] packet_step_next_send [OF step] 1(7))
  qed
qed

text \<open>C4: a packet is settled at most once. Over any run of the host, no commitment is released twice: a
  packet is acknowledged or timed out, never both and never again.\<close>

theorem packet_settled_once:
  assumes "host_run E s rs s'" and "host_inv s" and "counters_left s'"
  shows "distinct (concat (map released rs))"
proof -
  have "distinct (concat (map released rs)) \<and> (\<forall>k \<in> set (concat (map released rs)). settled s' k)"
    using assms
  proof (induction rule: host_run_induct)
    case (step rs t r u)
    note keep = settled_step [OF step.hyps(2,3)]
    have below: "commitments_below t" using step.hyps(3) by (simp add: host_inv_def)
    from step.hyps(2) show ?case
    proof (cases rule: host_step_shape)
      case (packet a)
      from packet(2) show ?thesis
      proof (cases rule: packet_step_cases)
        case (ack q n)
        from released_settled [OF packet(2) below] ack(1,2) keep step.IH packet(1) show ?thesis
          by (auto simp: settled_def)
      next
        case (tmout q d chan)
        from released_settled [OF packet(2) below] tmout(1,3) keep step.IH packet(1) show ?thesis
          by (auto simp: settled_def)
      qed (use packet(1) keep step.IH in auto)
    next
      case quiet
      with keep step.IH show ?thesis by auto
    qed
  qed simp
  then show ?thesis by blast
qed

fun msg_packet :: "packet_msg \<Rightarrow> packet" where
  "msg_packet (RecvPacketMsg m) = mrp_packet m"
| "msg_packet (AckPacketMsg m) = mak_packet m"
| "msg_packet (ToPacketMsg m) = mto_packet m"
| "msg_packet (ToClosePacketMsg m) = mtc_packet m"

text \<open>The bytes that are hashed into the commitment of a packet.\<close>

definition packet_input :: "('cs, 'cons, 'msg, 'app) env \<Rightarrow> packet \<Rightarrow> bytes" where
  "packet_input E p =
     commitment_input (sha2_256 E) (packet_data p) (timeout_height p) (timeout_timestamp p)"

lemma released_ok:
  assumes "packet_dispatch E s m = Inr (b, r)" and "released r \<noteq> []"
  obtains e c where "released r = [source_packet_key (msg_packet m)]"
    and "get_channel_end E s (source_key (msg_packet m)) = Inr e"
    and "remote_is e (destination_port (msg_packet m)) (destination_channel (msg_packet m))"
    and "packet_commitment_get s (source_packet_key (msg_packet m)) = Some c"
    and "sent_commitment E (msg_packet m) = (Inr c :: (_, ics04_error) res)"
  using assms(1)
proof (cases rule: packet_dispatch_split)
  case (recv i out)
  from recv(2) show ?thesis
    by (cases rule: recv_packet_ok) (use recv(3) assms(2) in auto)
next
  case (ack i out)
  from ack(2) show ?thesis
    by (rule acknowledgement_ok) (rule that, use ack(1,3) in auto)
next
  case (tout i out)
  from tout(2) show ?thesis
    by (rule timeout_ok) (rule that, use tout(1,3) in auto)
next
  case (tclose i out)
  from tclose(2) show ?thesis
    by (rule timeout_on_close_ok) (rule that, use tclose(1,3) in auto)
qed

text \<open>C12: only the packet that was sent can be settled. An acknowledgement or timeout that releases the
  commitment of a sent packet carries exactly that packet, the same ports, channels, sequence number, data
  and timeouts, unless its data or its commitment collides with that of the sent packet under the hash.\<close>

theorem settled_packet_is_sent:
  assumes "packet_dispatch E s m = Inr (b, r)" and "released r = [source_packet_key p]"
    and "packet_commitment_get s (source_packet_key p) = Some c"
    and "sent_commitment E p = (Inr c :: (bytes, ics04_error) res)"
    and "get_channel_end E s (source_key p) = Inr e"
    and "remote_is e (destination_port p) (destination_channel p)"
    and "inj_on (sha2_256 E) {packet_data p, packet_data (msg_packet m), packet_input E p, packet_input E (msg_packet m)}"
    and "wf_packet ua p" and "wf_packet ua (msg_packet m)"
  shows "msg_packet m = p"
proof -
  have times: "time (timeout_timestamp p) \<noteq> Some 0" "time (timeout_timestamp (msg_packet m)) \<noteq> Some 0"
    using assms(8,9) by (auto simp: wf_packet_def)
  have nonempty: "released r \<noteq> []" using assms(2) by simp
  show ?thesis
  proof (rule released_ok [OF assms(1) nonempty])
    fix d b
    assume key: "released r = [source_packet_key (msg_packet m)]"
      and d: "get_channel_end E s (source_key (msg_packet m)) = Inr d"
        "remote_is d (destination_port (msg_packet m)) (destination_channel (msg_packet m))"
      and b: "packet_commitment_get s (source_packet_key (msg_packet m)) = Some b"
        "sent_commitment E (msg_packet m) = (Inr b :: (bytes, ics04_error) res)"
    from key assms(2) have same: "source_packet_key (msg_packet m) = source_packet_key p" by simp
    with b(1) assms(3) have "b = c" by simp
    with b(2) assms(4) packet_commitment_binding [OF _ _ times assms(7) [unfolded packet_input_def]]
    have "packet_data p = packet_data (msg_packet m) \<and> timeout_height p = timeout_height (msg_packet m)
        \<and> timeout_timestamp p = timeout_timestamp (msg_packet m)"
      unfolding sent_commitment_def by blast
    moreover have "d = e"
      using d(1) same assms(5) by simp
    ultimately show "msg_packet m = p"
      using same d(2) assms(6) by (simp add: packet.equality)
  qed
qed

text \<open>
  The documented contracts of \<^verbatim>\<open>ClientDef::verify_packet_acknowledgement\<close> and
  \<^verbatim>\<open>ClientDef::verify_packet_receipt_absence\<close>: \<open>acks i h k\<close> and \<open>receipts i h k\<close> are what the chain that
  client \<open>i\<close> follows holds at height \<open>h\<close> for the packet \<open>k\<close>.
\<close>

definition proves_acks ::
    "('cs, 'cons, 'msg, 'app) env \<Rightarrow> (client_id \<Rightarrow> height \<Rightarrow> packet_key \<Rightarrow> bytes option) \<Rightarrow> bool" where
  "proves_acks E acks \<longleftrightarrow>
     (\<forall>s i cs h conn q r p c sq b. def_verify_packet_acknowledgement E s i cs h conn q r p c sq b = Inr ()
        \<longrightarrow> acks i h (p, c, sq) = Some b)"

definition proves_absence ::
    "('cs, 'cons, 'msg, 'app) env \<Rightarrow> (client_id \<Rightarrow> height \<Rightarrow> packet_key \<Rightarrow> bytes option) \<Rightarrow> bool" where
  "proves_absence E receipts \<longleftrightarrow>
     (\<forall>s i cs h conn q r p c sq. def_verify_packet_receipt_absence E s i cs h conn q r p c sq = Inr ()
        \<longrightarrow> receipts i h (p, c, sq) = None)"


section \<open>Properties: timeouts\<close>

text \<open>Time on a chain does not run backwards: a later timestamp is also past what an earlier one was past.\<close>

lemma check_expiry_mono:
  assumes "check_expiry ts t = Expired" and "time ts = Some a" and "time now = Some b" and "a \<le> b"
  shows "check_expiry now t = Expired"
  using assms by (cases "time t") (auto simp: check_expiry_def split: if_splits)

text \<open>C13: what has timed out can no longer be received. If a packet has timed out at some height and time of
  the destination chain, that chain refuses it at every height and time from then on, given that its timeout
  height is either zero or has a block number.\<close>

theorem timed_out_not_receivable:
  assumes "timed_out (mrp_packet m) ts h" and "h \<le> host_height s"
    and "host_timestamp E s = (Inr now :: (timestamp, ics04_error) res)"
    and "time ts = Some a" and "time now = Some b" and "a \<le> b"
    and "is_zero (timeout_height (mrp_packet m)) \<longrightarrow> timeout_height (mrp_packet m) = height_zero"
  shows "\<nexists>out. recv_packet_process E s m = Inr out"
proof
  assume "\<exists>out. recv_packet_process E s m = Inr out"
  then obtain now' where
      height: "is_zero (timeout_height (mrp_packet m)) \<or> \<not> timeout_height (mrp_packet m) \<le> host_height s"
    and now': "host_timestamp E s = (Inr now' :: (timestamp, ics04_error) res)"
    and stamp: "check_expiry now' (timeout_timestamp (mrp_packet m)) \<noteq> Expired"
    by (auto simp: recv_packet_process_def Let_def split: if_splits)
  have "now' = now" using now' assms(3) by simp
  from assms(1) show False
    unfolding timed_out_def
  proof (elim disjE conjE)
    assume "timeout_height (mrp_packet m) \<noteq> height_zero" and "timeout_height (mrp_packet m) \<le> h"
    with height assms(2,7) show False by (meson order_trans)
  next
    assume "check_expiry ts (timeout_timestamp (mrp_packet m)) = Expired"
    from check_expiry_mono [OF this assms(4-6)] stamp \<open>now' = now\<close> show False by simp
  qed
qed

text \<open>The documented contract of \<^verbatim>\<open>ClientDef::verify_next_sequence_recv\<close>: \<open>next_recv i h k\<close> is the next sequence
  number that the chain behind client \<open>i\<close> expects on channel \<open>k\<close> at height \<open>h\<close>.\<close>

definition proves_next_recv ::
    "('cs, 'cons, 'msg, 'app) env \<Rightarrow> (client_id \<Rightarrow> height \<Rightarrow> port_id \<times> channel_id \<Rightarrow> sequence option) \<Rightarrow> bool" where
  "proves_next_recv E next_recv \<longleftrightarrow>
     (\<forall>s i cs h conn q r p c sq. def_verify_next_sequence_recv E s i cs h conn q r p c sq = Inr ()
        \<longrightarrow> next_recv i h (p, c) = Some sq)"


text \<open>A timeout on close leaves the channel of the packet as it is. On an ordered channel, where a timeout
  closes the channel, it stores the channel end it has read: an open channel stays open although the
  counterparty has closed its end.\<close>

theorem timeout_on_close_keeps_channel:
  assumes "timeout_on_close_process E s m = Inr out"
    and "get_channel_end E s (source_key (mtc_packet m)) = Inr e"
    and "store_packet_result E (out_result out) s = (res, s')"
  shows "get_channel_end E s' (source_key (mtc_packet m)) = Inr e"
  using assms(1)
proof (rule timeout_on_close_ok, goal_cases)
  case (1 d k ks conn c k' pf chan)
  have "d = e" using 1(1) assms(2) by simp
  with 1(9,10) have "chan = None \<or> chan = Some e" by (cases "chan_ordering e") auto
  moreover have "s' = snd (store_packet_result E (out_result out) s)" using assms(3) by simp
  ultimately show ?case
    using assms(2) channel_end_roundtrip [OF get_channel_end_wf [OF assms(2)]]
    by (auto simp: 1(11) get_channel_end_def channels_get_def child_get_store_packet_result)
qed

text \<open>C29: an acknowledgement can be written twice. The handler that writes an acknowledgement looks for an
  earlier one under the destination of the packet, but its result is stored under the source: unless the two
  coincide, a second acknowledgement for the same packet is accepted, whatever it is.\<close>

theorem acknowledgement_written_twice:
  assumes "write_acknowledgement_process E s p ack = Inr out"
    and "store_packet_result E (out_result out) s = (res, s')"
    and "source_packet_key p \<noteq> dest_packet_key p" and "ack' \<noteq> []"
  shows "acknowledgements_get s' (dest_packet_key p) = None
    \<and> (\<exists>out'. write_acknowledgement_process E s' p ack' = Inr out')"
proof -
  have s': "s' = snd (store_packet_result E (out_result out) s)" using assms(2) by simp
  obtain e where e: "get_channel_end E s (dest_key p) = Inr e" "chan_state e = ChanOpen"
    and none: "acknowledgements_get s (dest_packet_key p) = None"
    and out: "out_result out = WriteAckResult \<lparr>wa_port_id = source_port p, wa_channel_id = source_channel p,
      wa_seq = pkt_sequence p, wa_ack = ack\<rparr>"
    using assms(1) by (auto simp: write_acknowledgement_ok)
  have "channels_get s' (dest_key p) = channels_get s (dest_key p)"
    by (simp add: s' out channels_get_def child_get_store_packet_result)
  with e have "get_channel_end E s' (dest_key p) = Inr e" by (simp add: get_channel_end_def)
  moreover have "acknowledgements_get s' (dest_packet_key p) = None"
    using none assms(3)
    by (auto simp: s' out acknowledgements_get_def ack_path_def child_get_store_packet_result)
  ultimately show ?thesis
    using e(2) assms(4) by (simp add: write_acknowledgement_ok)
qed

section \<open>Sample packets\<close>

text \<open>A host with one open channel, whose counterparty has acknowledged packet 1 and has no receipt for
  packet 2.\<close>

definition sample_key :: "port_id \<times> channel_id" where
  "sample_key = (port_transfer, ChannelId 0)"

definition open_channel :: "order \<Rightarrow> channel_end" where
  "open_channel ord = sample_channel\<lparr>chan_state := ChanOpen, chan_ordering := ord\<rparr>"

definition packet_host :: "order \<Rightarrow> (mock_client_state, mock_consensus_state, unit) host" where
  "packet_host ord =
     next_seq_send_insert sample_key 1 (next_seq_recv_insert sample_key 1 (next_seq_ack_insert sample_key 1
       (channels_insert sample_key (channel_end_into_raw (open_channel ord))
         (consensus_states_insert (sample_client, Height 0 12) (mock_consensus_state_new (mock_header_at 12))
           sample_chan_host))))"

definition out_packet :: "sequence \<Rightarrow> packet" where
  "out_packet n =
     \<lparr>pkt_sequence = n, source_port = port_transfer, source_channel = ChannelId 0,
      destination_port = port_transfer, destination_channel = ChannelId 3, packet_data = [5],
      timeout_height = Height 0 9, timeout_timestamp = Timestamp None\<rparr>"

definition in_packet :: packet where
  "in_packet =
     \<lparr>pkt_sequence = 1, source_port = port_transfer, source_channel = ChannelId 3,
      destination_port = port_transfer, destination_channel = ChannelId 0, packet_data = [5],
      timeout_height = Height 2000 50, timeout_timestamp = Timestamp None\<rparr>"

definition remote_acks :: "client_id \<Rightarrow> height \<Rightarrow> packet_key \<Rightarrow> bytes option" where
  "remote_acks i h k = (if k = (port_transfer, ChannelId 3, 1) then Some [7] else None)"

definition remote_receipts :: "client_id \<Rightarrow> height \<Rightarrow> packet_key \<Rightarrow> bytes option" where
  "remote_receipts i h k = (if k = (port_transfer, ChannelId 3, 1) then Some (as_bytes ''Ok'') else None)"

definition remote_next_recv :: "client_id \<Rightarrow> height \<Rightarrow> port_id \<times> channel_id \<Rightarrow> sequence option" where
  "remote_next_recv i h k = (if k = (port_transfer, ChannelId 3) then Some 2 else None)"

definition packet_env :: "(mock_client_state, mock_consensus_state, mock_client_message, unit) env" where
  "packet_env = mock_env
     \<lparr>def_verify_packet_acknowledgement := (\<lambda>s i c h e q r po ch sq b.
        if remote_acks i h (po, ch, sq) = Some b then Inr () else fail_with (E02_ImplementationSpecific ''ack'')),
      def_verify_packet_receipt_absence := (\<lambda>s i c h e q r po ch sq.
        if remote_receipts i h (po, ch, sq) = None then Inr () else fail_with (E02_ImplementationSpecific ''receipt'')),
      def_verify_next_sequence_recv := (\<lambda>s i c h e q r po ch sq.
        if remote_next_recv i h (po, ch) = Some sq then Inr () else fail_with (E02_ImplementationSpecific ''next''))\<rparr>"

definition committed_host :: "order \<Rightarrow> (mock_client_state, mock_consensus_state, unit) host" where
  "committed_host ord =
     packet_commitment_insert (source_packet_key (out_packet 1)) (packet_input packet_env (out_packet 1))
       (packet_commitment_insert (source_packet_key (out_packet 2)) (packet_input packet_env (out_packet 2))
         (next_seq_send_insert sample_key 3 (packet_host ord)))"

definition packet_proofs :: proofs where
  "packet_proofs = sample_chan_proofs\<lparr>proof_height := Height 0 12, other_proof := Some (CommitmentProofBytes [1])\<rparr>"

definition sample_recv :: msg_recv_packet where
  "sample_recv = \<lparr>mrp_packet = in_packet, mrp_proofs = packet_proofs, mrp_signer = ''relayer''\<rparr>"

definition sample_ack :: msg_acknowledgement where
  "sample_ack = \<lparr>mak_packet = out_packet 1, mak_acknowledgement = [7], mak_proofs = packet_proofs,
     mak_signer = ''relayer''\<rparr>"

definition sample_timeout :: msg_timeout where
  "sample_timeout = \<lparr>mto_packet = out_packet 2, mto_next_sequence_recv = 1, mto_proofs = packet_proofs,
     mto_signer = ''relayer''\<rparr>"

definition sample_timeout_on_close :: msg_timeout_on_close where
  "sample_timeout_on_close = \<lparr>mtc_packet = out_packet 2, mtc_next_sequence_recv = 1, mtc_proofs = packet_proofs,
     mtc_signer = ''relayer''\<rparr>"

lemma sample_packet_fields [simp]:
  "pkt_sequence (out_packet n) = n" "source_port (out_packet n) = port_transfer"
  "source_channel (out_packet n) = ChannelId 0" "destination_port (out_packet n) = port_transfer"
  "destination_channel (out_packet n) = ChannelId 3" "timeout_height (out_packet n) = Height 0 9"
  "timeout_timestamp (out_packet n) = Timestamp None" "packet_data (out_packet n) = [5]"
  "pkt_sequence in_packet = 1" "source_port in_packet = port_transfer" "source_channel in_packet = ChannelId 3"
  "destination_port in_packet = port_transfer" "destination_channel in_packet = ChannelId 0"
  "timeout_height in_packet = Height 2000 50" "timeout_timestamp in_packet = Timestamp None"
  by (simp_all add: out_packet_def in_packet_def)

lemma sample_msg_fields [simp]:
  "mrp_packet sample_recv = in_packet" "mrp_proofs sample_recv = packet_proofs"
  "mak_packet sample_ack = out_packet 1" "mak_proofs sample_ack = packet_proofs" "mak_acknowledgement sample_ack = [7]"
  "mto_packet sample_timeout = out_packet 2" "mto_proofs sample_timeout = packet_proofs"
  "mto_next_sequence_recv sample_timeout = 1" "mtc_packet sample_timeout_on_close = out_packet 2"
  "mtc_proofs sample_timeout_on_close = packet_proofs" "mtc_next_sequence_recv sample_timeout_on_close = 1"
  "proof_height packet_proofs = Height 0 12" "other_proof packet_proofs = Some (CommitmentProofBytes [1])"
  by (simp_all add: sample_recv_def sample_ack_def sample_timeout_def sample_timeout_on_close_def packet_proofs_def)

lemma packet_env_simps [simp]:
  "unicode_alnum packet_env = (\<lambda>_. False)" "tm_representable packet_env = (\<lambda>_. True)" "sha2_256 packet_env = (\<lambda>b. b)"
  "cs_latest_height packet_env c = mh_height (mcs_header c)"
  "cs_status packet_env c s i = default_status (mcs_frozen_height c)" "cons_root packet_env k = mcons_root k"
  "cons_timestamp packet_env k = mh_timestamp (mcons_header k)"
  by (simp_all add: packet_env_def)

lemma packet_env_proofs [simp]:
  "def_verify_packet_data packet_env s i c h e q r po ch sq b = Inr ()"
  "def_verify_channel_state packet_env s i c h x q r po ch ce = Inr ()"
  "def_verify_packet_acknowledgement packet_env s i c h e q r po ch sq b
     = (if remote_acks i h (po, ch, sq) = Some b then Inr () else fail_with (E02_ImplementationSpecific ''ack''))"
  "def_verify_packet_receipt_absence packet_env s i c h e q r po ch sq
     = (if remote_receipts i h (po, ch, sq) = None then Inr () else fail_with (E02_ImplementationSpecific ''receipt''))"
  "def_verify_next_sequence_recv packet_env s i c h e q r po ch sq
     = (if remote_next_recv i h (po, ch) = Some sq then Inr () else fail_with (E02_ImplementationSpecific ''next''))"
  by (simp_all add: packet_env_def)

lemma packet_env_sound:
  shows "proves_acks packet_env remote_acks" and "proves_absence packet_env remote_receipts"
    and "proves_next_recv packet_env remote_next_recv"
  by (simp_all add: proves_acks_def proves_absence_def proves_next_recv_def)

lemma open_channel_fields [simp]:
  "chan_state (open_channel ord) = ChanOpen" "chan_ordering (open_channel ord) = ord"
  "chan_remote (open_channel ord) = \<lparr>cpty_port_id = port_transfer, cpty_channel_id = Some (ChannelId 3)\<rparr>"
  "chan_connection_hops (open_channel ord) = [ConnectionId ''connection-0'']"
  by (simp_all add: open_channel_def sample_channel_def)

lemma open_channel_wf: "wf_channel_end ua (open_channel ord)"
  using sample_channel_wf [of ua] by (simp add: wf_channel_end_def open_channel_def)

text \<open>The two hosts, with or without the commitments, answer the same reads.\<close>

definition sample_host :: "bool \<Rightarrow> order \<Rightarrow> (mock_client_state, mock_consensus_state, unit) host" where
  "sample_host committed ord = (if committed then committed_host ord else packet_host ord)"

lemmas sample_host_defs = sample_host_def committed_host_def packet_host_def sample_key_def

lemma sample_host_chan_path:
  assumes "in_language q" and "\<not> packet_path q" and "sequence_path q = None" and "q \<noteq> ChannelEndsPath port_transfer (ChannelId 0)"
    and "q \<noteq> consensus_path (sample_client, Height 0 12)"
  shows "child_get (sample_host b ord) q = child_get sample_chan_host q"
  using assms by (cases q) (auto simp: sample_host_defs view_puts view_paths child_get_put out_packet_def)

lemma sample_host_channel: "get_channel_end E (sample_host b ord) (port_transfer, ChannelId 0) = Inr (open_channel ord)"
proof -
  have "channels_get (sample_host b ord) (port_transfer, ChannelId 0) = Some (channel_end_into_raw (open_channel ord))"
    by (simp add: sample_host_defs view_laws)
  then show ?thesis by (simp add: get_channel_end_def channel_end_roundtrip open_channel_wf)
qed

lemma sample_host_connection:
  "get_connection_end E (sample_host b ord) (ConnectionId ''connection-0'') = Inr (sample_try_end\<lparr>conn_state := ConnOpen\<rparr>)"
  using sample_open_stored [of E] sample_host_chan_path [of "ConnectionsPath (ConnectionId ''connection-0'')" b ord]
  by (simp add: get_connection_end_def connections_get_def consensus_path_def)

lemma sample_host_client:
  "client_states_get (sample_host b ord) sample_client = Some (mock_client_state_new (MockHeaderMsg (mock_header_at 7)))"
  "consensus_states_get (sample_host b ord) (sample_client, Height 0 12) = Some (mock_consensus_state_new (mock_header_at 12))"
  "consensus_states_get (sample_host b ord) (sample_client, Height 0 7) = Some (mock_consensus_state_new (mock_header_at 7))"
  by (simp_all add: sample_host_defs sample_chan_host_def sample_conn_host_def view_laws)

lemma sample_host_sequences:
  "next_seq_send_get (sample_host b ord) (port_transfer, ChannelId 0) = Some (if b then 3 else 1)"
  "next_seq_recv_get (sample_host b ord) (port_transfer, ChannelId 0) = Some 1"
  "next_seq_ack_get (sample_host b ord) (port_transfer, ChannelId 0) = Some 1"
  "packet_receipt_get (sample_host b ord) k = None"
  "acknowledgements_get (sample_host b ord) k = None"
  "packet_commitment_get (sample_host False ord) k = None"
  "packet_commitment_get (sample_host True ord) (port_transfer, ChannelId 0, 1) = Some (packet_input packet_env (out_packet 1))"
  "packet_commitment_get (sample_host True ord) (port_transfer, ChannelId 0, 2) = Some (packet_input packet_env (out_packet 2))"
  by (simp_all add: sample_host_defs sample_chan_host_def sample_conn_host_def view_laws out_packet_def)

lemma sample_host_runtime:
  "host_height (sample_host b ord) = Height 2000 10" "now_nanos (sample_host b ord) = 1000"
  "ChannelCounter (sample_host b ord) = 1" "ConnectionCounter (sample_host b ord) = 1"
proof -
  have "parachain_id empty_host = 2000" "block_number empty_host = 10" "now_nanos empty_host = 1000"
    by (simp_all add: empty_host_def)
  then show "host_height (sample_host b ord) = Height 2000 10" "now_nanos (sample_host b ord) = 1000"
    "ChannelCounter (sample_host b ord) = 1" "ConnectionCounter (sample_host b ord) = 1"
    by (simp_all add: host_height_def sample_host_defs sample_chan_host_def sample_conn_host_def view_puts)
qed

lemmas sample_host_reads =
  sample_host_channel sample_host_connection sample_host_client sample_host_sequences sample_host_runtime

lemma sample_host_counters: "counters_left (sample_host b ord)"
  by (simp add: counters_left_def sample_host_runtime)

lemma sample_host_inv: "host_inv (sample_host b ord)"
proof -
  have chans: "k = sample_key" if "channels_get (sample_host b ord) k \<noteq> None" for k
    using that by (simp add: sample_host_defs sample_chan_host_def sample_conn_host_def view_laws prod_eq_iff
        split: if_splits)
  have "channel_ids_below (sample_host b ord)"
    using chans by (force simp: channel_ids_below_def ids_below_def channel_numbered_def sample_host_runtime
        sample_key_def)
  moreover have "connection_ids_below (sample_host b ord)"
    using sample_chan_host_inv sample_host_chan_path [of "ConnectionsPath k" b ord for k]
    by (simp add: host_inv_def connection_ids_below_def ids_below_def connections_get_def consensus_path_def
        sample_host_runtime sample_chan_host_def sample_conn_host_def view_puts)
  moreover have "commitments_below (sample_host b ord)"
    by (auto simp: commitments_below_def sample_host_defs sample_chan_host_def sample_conn_host_def view_laws
        out_packet_def split: if_splits)
  moreover have "channels_get (sample_host b ord) k \<noteq> None" if "next_seq_send_get (sample_host b ord) k \<noteq> None" for k
    using that by (simp add: sample_host_defs sample_chan_host_def sample_conn_host_def view_laws prod_eq_iff
        split: if_splits)
  ultimately show ?thesis unfolding host_inv_def by blast
qed

subsection \<open>The handlers on the samples\<close>

lemma sample_commitment:
  "sent_commitment packet_env (out_packet n) = Inr (packet_input packet_env (out_packet n))"
  by (simp add: sent_commitment_def packet_commitment_def packet_input_def commitment_input_def out_packet_def
      nanoseconds_def nanoseconds_opt_def)

lemma sample_verifier:
  assumes "h \<in> {Height 0 7, Height 0 12}"
  shows "with_verifier packet_env (sample_host b ord) (sample_try_end\<lparr>conn_state := ConnOpen\<rparr>) h check
    = check sample_client (mock_client_state_new (MockHeaderMsg (mock_header_at 7))) (CommitmentRoot [0])"
proof -
  have "conn_client_id sample_try_end = sample_client" by (simp add: sample_try_end_def)
  with assms show ?thesis
    by (auto simp: with_verifier_def Let_def reader_oks sample_host_client is_frozen_def default_status_def
        mock_client_state_new_def mock_consensus_state_new_def)
qed

lemma sample_hop: "first_hop (open_channel ord) = Inr (ConnectionId ''connection-0'')"
  by (simp add: first_hop_def)

lemma sample_verified:
  shows "timeout_timestamp p = Timestamp None \<Longrightarrow>
      verify_packet_recv_proofs packet_env (sample_host b ord) h p (sample_try_end\<lparr>conn_state := ConnOpen\<rparr>)
        packet_proofs = Inr ()"
    and "verify_packet_acknowledgement_proofs packet_env (sample_host b ord) (Height 0 12) (out_packet 1) [7]
        (sample_try_end\<lparr>conn_state := ConnOpen\<rparr>) packet_proofs = Inr ()"
    and "verify_packet_receipt_absence packet_env (sample_host b ord) (Height 0 12)
        (sample_try_end\<lparr>conn_state := ConnOpen\<rparr>) (out_packet 2) packet_proofs = Inr ()"
    and "verify_next_sequence_recv packet_env (sample_host b ord) (Height 0 12)
        (sample_try_end\<lparr>conn_state := ConnOpen\<rparr>) (out_packet 2) sq packet_proofs = Inr ()"
  by (simp_all add: verify_packet_recv_proofs_def verify_packet_acknowledgement_proofs_def
      verify_packet_receipt_absence_def verify_next_sequence_recv_def sample_verifier packet_commitment_def
      nanoseconds_def nanoseconds_opt_def ack_commitment_def remote_acks_def remote_receipts_def remote_next_recv_def)

lemma sample_conn_open: "conn_state (sample_try_end\<lparr>conn_state := ConnOpen\<rparr>) = ConnOpen"
  by simp

lemma sample_receipt:
  "get_packet_receipt (sample_host b ord) (port_transfer, ChannelId 0, 1)
     = Inl (Err (E04_Packet (E04_PacketReceiptNotFound 1)))"
  using sample_host_sequences(4) [of b ord "(port_transfer, ChannelId 0, 1)"]
  by (auto simp: get_packet_receipt_def view_gets fail_with_def split: option.splits)

lemma sample_recv_runs:
  "\<exists>out. recv_packet_process packet_env (sample_host b ord) sample_recv = Inr out
    \<and> out_result out = RecvResult (case ord of
        Ordered \<Rightarrow> RecvOrdered port_transfer (ChannelId 0) 2 in_packet
      | Unordered \<Rightarrow> RecvUnordered port_transfer (ChannelId 0) 1 ReceiptOk in_packet)"
proof -
  have inc: "seq_increment 1 = (Inr 2 :: (sequence, ics04_error) res)" by simp
  show ?thesis
    by (cases ord)
      (simp_all add: recv_packet_process_def Let_def sample_host_reads sample_hop sample_verified(1) reader_oks
        host_timestamp_def from_nanoseconds_def is_zero_def height_le_iff sample_receipt inc)
qed

lemma sample_ack_runs:
  "\<exists>out. acknowledgement_process packet_env (sample_host True ord) sample_ack = Inr out
    \<and> out_result out = AckResult \<lparr>ap_port_id = port_transfer, ap_channel_id = ChannelId 0, ap_seq = 1,
        ap_seq_number = (if ord = Ordered then Some 2 else None)\<rparr>"
proof -
  have inc: "seq_increment 1 = (Inr 2 :: (sequence, ics04_error) res)" by simp
  show ?thesis
    by (cases ord)
      (simp_all add: acknowledgement_process_def Let_def sample_host_reads sample_hop sample_verified(2)
        get_packet_commitment_ok [THEN iffD2, OF sample_host_sequences(7)] get_next_sequence_ack_def
        sample_commitment inc)
qed

lemma sample_timeout_runs:
  "\<exists>out. timeout_process packet_env (sample_host True ord) sample_timeout = Inr out
    \<and> out_result out = TimeoutResult \<lparr>tp_port_id = port_transfer, tp_channel_id = ChannelId 0, tp_seq = 2,
        tp_channel = (if ord = Ordered then Some ((open_channel ord)\<lparr>chan_state := ChanClosed\<rparr>) else None)\<rparr>"
proof -
  have "conn_client_id sample_try_end = sample_client" by (simp add: sample_try_end_def)
  then show ?thesis
    by (cases ord)
      (simp_all add: timeout_process_def Let_def sample_host_reads sample_hop sample_verified(3,4)
        get_packet_commitment_ok [THEN iffD2, OF sample_host_sequences(8)] get_consensus_state_def
        sample_commitment timed_out_def height_zero_def height_le_iff)
qed

lemma sample_send_runs:
  "\<exists>out. send_packet packet_env (sample_host False ord) (out_packet 1) = Inr out
    \<and> out_result out = SendResult \<lparr>sp_port_id = port_transfer, sp_channel_id = ChannelId 0, sp_seq = 1,
        sp_seq_number = 2, sp_commitment = packet_input packet_env (out_packet 1), sp_packet = out_packet 1\<rparr>"
proof -
  have "conn_client_id sample_try_end = sample_client" by (simp add: sample_try_end_def)
  moreover have "seq_increment 1 = (Inr 2 :: (sequence, ics04_error) res)" by simp
  ultimately show ?thesis
    by (simp add: send_packet_def Let_def sample_host_reads sample_hop sample_commitment get_client_state_def
        get_consensus_state_def get_next_sequence_send_def is_frozen_def default_status_def
        mock_client_state_new_def mock_header_at_def is_zero_def height_le_iff)
qed

lemma sample_counterparty_hops:
  "counterparty_hops (sample_try_end\<lparr>conn_state := ConnOpen\<rparr>) (open_channel ord) = Inr [ConnectionId ''connection-5'']"
  by (simp add: counterparty_hops_ok sample_try_end_def)

lemma sample_timeout_on_close_runs:
  "\<exists>out. timeout_on_close_process packet_env (sample_host True Ordered) sample_timeout_on_close = Inr out"
proof -
  have "conn_client_id sample_try_end = sample_client" by (simp add: sample_try_end_def)
  then have "verify_channel_proofs packet_env (sample_host True Ordered) (Height 0 12) (open_channel Ordered)
      (sample_try_end\<lparr>conn_state := ConnOpen\<rparr>) expected pf = Inr ()" for expected pf
    by (simp add: verify_channel_proofs_def Let_def sample_host_client reader_oks is_frozen_def default_status_def
        mock_client_state_new_def)
  then show ?thesis
    by (simp add: timeout_on_close_process_def Let_def sample_host_reads sample_hop sample_verified(4)
        get_packet_commitment_ok [THEN iffD2, OF sample_host_sequences(8)] sample_commitment
        sample_counterparty_hops)
qed

lemma sample_dispatched:
  shows "\<exists>b r. packet_dispatch packet_env (sample_host b' ord) (RecvPacketMsg sample_recv) = Inr (b, r)
      \<and> r = RecvResult (case ord of
        Ordered \<Rightarrow> RecvOrdered port_transfer (ChannelId 0) 2 in_packet
      | Unordered \<Rightarrow> RecvUnordered port_transfer (ChannelId 0) 1 ReceiptOk in_packet)"
    and "\<exists>b r. packet_dispatch packet_env (sample_host True ord) (AckPacketMsg sample_ack) = Inr (b, r)
      \<and> released r = [(port_transfer, ChannelId 0, 1)]"
    and "\<exists>b r. packet_dispatch packet_env (sample_host True ord) (ToPacketMsg sample_timeout) = Inr (b, r)
      \<and> released r = [(port_transfer, ChannelId 0, 2)]"
  using sample_recv_runs [of b' ord] sample_ack_runs [of ord] sample_timeout_runs [of ord]
  by (auto simp: packet_dispatch_def)

lemma sample_step:
  assumes "packet_dispatch packet_env (sample_host b' ord) m = Inr (b, r)" and "r \<noteq> RecvResult RecvNoOp"
  obtains s' where "host_run packet_env (sample_host b' ord) [r] s'" and "counters_left s'"
proof -
  obtain res s' where "store_packet_result packet_env r (sample_host b' ord) = (res, s')" by fastforce
  with packet_handled [OF assms module_effect_refl] have step: "packet_step packet_env (sample_host b' ord) r s'"
    by blast
  then have "counters_left s'"
    using packet_step_counters [OF step] sample_host_counters [of b' ord] by (simp add: counters_left_def)
  with host_run_single [OF packet_stepped [OF step]] that show ?thesis by blast
qed

subsection \<open>Witnesses\<close>

theorem ordered_delivery_witness:
  "\<exists>rs s'. host_run packet_env (sample_host False Ordered) rs s'
    \<and> map unat (concat (map (received (port_transfer, ChannelId 0)) rs)) = [1]
    \<and> next_seq_recv_get s' (port_transfer, ChannelId 0) = Some 2"
proof -
  let ?r = "RecvResult (RecvOrdered port_transfer (ChannelId 0) 2 in_packet)"
  obtain b where "packet_dispatch packet_env (sample_host False Ordered) (RecvPacketMsg sample_recv) = Inr (b, ?r)"
    using sample_dispatched(1) [of False Ordered] by auto
  then obtain s' where run: "host_run packet_env (sample_host False Ordered) [?r] s'" "counters_left s'"
    by (rule sample_step) simp_all
  from ordered_delivery [OF run(1) sample_host_inv run(2) sample_host_channel _ sample_host_sequences(2)]
  obtain n where "next_seq_recv_get s' (port_transfer, ChannelId 0) = Some n" "[1] = [1 ..< unat n]"
    by auto
  moreover from this(2) have "unat n = 2"
    by (cases "unat n") (auto simp: upt_conv_Cons split: if_splits dest: sym)
  then have "n = 2" by (simp add: word_unat_eq_iff)
  ultimately show ?thesis using run(1) by (intro exI [of _ "[?r]"] exI [of _ s']) simp
qed

theorem unordered_delivery_witness:
  "\<exists>rs s'. host_run packet_env (sample_host False Unordered) rs s'
    \<and> concat (map (received (port_transfer, ChannelId 0)) rs) = [1]
    \<and> packet_receipt_get s' (port_transfer, ChannelId 0, 1) = Some (as_bytes ''Ok'')"
proof -
  let ?r = "RecvResult (RecvUnordered port_transfer (ChannelId 0) 1 ReceiptOk in_packet)"
  obtain b where "packet_dispatch packet_env (sample_host False Unordered) (RecvPacketMsg sample_recv) = Inr (b, ?r)"
    using sample_dispatched(1) [of False Unordered] by auto
  then obtain s' where run: "host_run packet_env (sample_host False Unordered) [?r] s'" "counters_left s'"
    by (rule sample_step) simp_all
  from unordered_delivery [OF run(1) sample_host_inv run(2) sample_host_channel] run(1) show ?thesis
    by (intro exI [of _ "[?r]"] exI [of _ s']) simp
qed

theorem send_packet_commits_witness:
  "\<exists>out res s'. send_packet packet_env (sample_host False Ordered) (out_packet 1) = Inr out
    \<and> store_packet_result packet_env (out_result out) (sample_host False Ordered) = (res, s')
    \<and> get_packet_commitment s' (source_packet_key (out_packet 1)) = Inr (packet_input packet_env (out_packet 1))"
proof -
  obtain out where out: "send_packet packet_env (sample_host False Ordered) (out_packet 1) = Inr out"
    using sample_send_runs by blast
  obtain res s' where st: "store_packet_result packet_env (out_result out) (sample_host False Ordered) = (res, s')"
    by fastforce
  have "commitments_below (sample_host False Ordered)"
    using sample_host_inv [of False Ordered] by (simp add: host_inv_def)
  from send_packet_commits [OF out this st] out st show ?thesis
    by (auto simp: sample_commitment)
qed

theorem packet_settled_once_witness:
  "\<exists>rs s'. host_run packet_env (sample_host True Unordered) rs s'
    \<and> concat (map released rs) = [(port_transfer, ChannelId 0, 1)] \<and> distinct (concat (map released rs))"
proof -
  obtain b r where d: "packet_dispatch packet_env (sample_host True Unordered) (AckPacketMsg sample_ack) = Inr (b, r)"
    and r: "released r = [(port_transfer, ChannelId 0, 1)]"
    using sample_dispatched(2) by blast
  then have "r \<noteq> RecvResult RecvNoOp" by auto
  with d obtain s' where run: "host_run packet_env (sample_host True Unordered) [r] s'" "counters_left s'"
    by (rule sample_step)
  from packet_settled_once [OF run(1) sample_host_inv run(2)] run(1) r show ?thesis
    by (intro exI [of _ "[r]"] exI [of _ s']) simp
qed

theorem settled_packet_is_sent_witness:
  "\<exists>b r. packet_dispatch packet_env (sample_host True Ordered) (AckPacketMsg sample_ack) = Inr (b, r)
    \<and> msg_packet (AckPacketMsg sample_ack) = out_packet 1"
proof -
  obtain b r where d: "packet_dispatch packet_env (sample_host True Ordered) (AckPacketMsg sample_ack) = Inr (b, r)"
    and r: "released r = [source_packet_key (out_packet 1)]"
    using sample_dispatched(2) [of Ordered] by auto
  have wf: "wf_packet (\<lambda>_. False) (out_packet 1)" "wf_packet (\<lambda>_. False) (msg_packet (AckPacketMsg sample_ack))"
    by (simp_all add: wf_packet_def sample_port_valid)
  have "msg_packet (AckPacketMsg sample_ack) = out_packet 1"
    by (rule settled_packet_is_sent [where e = "open_channel Ordered", OF d r _ sample_commitment _ _ _ wf])
      (simp_all add: sample_host_sequences sample_host_channel inj_on_def)
  with d show ?thesis by blast
qed


theorem timed_out_not_receivable_witness:
  "\<nexists>out. recv_packet_process packet_env (sample_host False Ordered)
     (sample_recv\<lparr>mrp_packet := in_packet\<lparr>timeout_height := Height 2000 9\<rparr>\<rparr>) = Inr out"
  by (rule timed_out_not_receivable [of _ "Timestamp (Some 1)" "Height 2000 9" _ _ "Timestamp (Some 1000)" 1 1000])
    (simp_all add: timed_out_def height_zero_def height_le_iff sample_host_runtime from_nanoseconds_def is_zero_def)


theorem timeout_on_close_keeps_channel_witness:
  "\<exists>out res s'. timeout_on_close_process packet_env (sample_host True Ordered) sample_timeout_on_close = Inr out
    \<and> store_packet_result packet_env (out_result out) (sample_host True Ordered) = (res, s')
    \<and> get_channel_end packet_env s' (port_transfer, ChannelId 0) = Inr (open_channel Ordered)"
proof -
  obtain out where out: "timeout_on_close_process packet_env (sample_host True Ordered) sample_timeout_on_close = Inr out"
    using sample_timeout_on_close_runs by blast
  obtain res s' where st: "store_packet_result packet_env (out_result out) (sample_host True Ordered) = (res, s')"
    by fastforce
  from timeout_on_close_keeps_channel [OF out _ st, of "open_channel Ordered"] out st show ?thesis
    by (auto simp: sample_host_channel)
qed

theorem acknowledgement_written_twice_witness:
  "\<exists>out res s' out'. write_acknowledgement_process packet_env (sample_host False Ordered) in_packet [1] = Inr out
    \<and> store_packet_result packet_env (out_result out) (sample_host False Ordered) = (res, s')
    \<and> write_acknowledgement_process packet_env s' in_packet [2] = Inr out'"
proof -
  obtain out where out: "write_acknowledgement_process packet_env (sample_host False Ordered) in_packet [1] = Inr out"
    by (simp add: write_acknowledgement_ok sample_host_channel sample_host_sequences)
  obtain res s' where st: "store_packet_result packet_env (out_result out) (sample_host False Ordered) = (res, s')"
    by fastforce
  from acknowledgement_written_twice [OF out st, of "[2]"] out st show ?thesis by auto
qed


end
