(* ===== verification/Routing.thy ===== *)
theory Routing
  imports Ics26_Envelope Packet_Delivery
begin

text \<open>
  Routing: the modules that applications register (\<^verbatim>\<open>ics26_routing/context.rs\<close>), the router of the pallet
  (\<^verbatim>\<open>routing.rs\<close>, \<^verbatim>\<open>port.rs\<close>), the callbacks of channel and packet messages (\<^verbatim>\<open>ics04_channel/handler.rs\<close>), the
  dispatch of an envelope (\<^verbatim>\<open>ics26_routing/handler.rs\<close>) and the execution of the messages of an extrinsic
  (\<^verbatim>\<open>execute_ibc_messages\<close> of \<^verbatim>\<open>impls.rs\<close>). The runtime's own router is a parameter.
\<close>

section \<open>Modules and the router\<close>

datatype module_id = ModuleId (module_id_str: string)

datatype invalid_module_id = InvalidModuleId

definition module_id_new :: "(nat \<Rightarrow> bool) \<Rightarrow> string \<Rightarrow> (module_id, invalid_module_id) res" where
  "module_id_new ua s =
     (if \<not> trim_is_empty s \<and> list_all (is_alphanumeric ua) (chars s) then Inr (ModuleId s)
      else fail_with InvalidModuleId)"

text \<open>
  A callback reads and writes the host and adds to the output of the module. Packets are passed to it by
  a clone, so that it returns none.
\<close>

type_synonym ('s, 'a) callback = "('s \<times> output_builder, 'a, ics04_error) op"

record 's ibc_module =
  on_chan_open_init :: "order \<Rightarrow> connection_id list \<Rightarrow> port_id \<Rightarrow> channel_id \<Rightarrow> chan_counterparty
    \<Rightarrow> channel_version \<Rightarrow> string \<Rightarrow> ('s, unit) callback"
  on_chan_open_try :: "order \<Rightarrow> connection_id list \<Rightarrow> port_id \<Rightarrow> channel_id \<Rightarrow> chan_counterparty
    \<Rightarrow> channel_version \<Rightarrow> channel_version \<Rightarrow> string \<Rightarrow> ('s, channel_version) callback"
  on_chan_open_ack :: "port_id \<Rightarrow> channel_id \<Rightarrow> channel_version \<Rightarrow> string \<Rightarrow> ('s, unit) callback"
  on_chan_open_confirm :: "port_id \<Rightarrow> channel_id \<Rightarrow> string \<Rightarrow> ('s, unit) callback"
  on_chan_close_init :: "port_id \<Rightarrow> channel_id \<Rightarrow> string \<Rightarrow> ('s, unit) callback"
  on_chan_close_confirm :: "port_id \<Rightarrow> channel_id \<Rightarrow> string \<Rightarrow> ('s, unit) callback"
  on_recv_packet :: "packet \<Rightarrow> string \<Rightarrow> ('s, bytes) callback"
  on_acknowledgement_packet :: "packet \<Rightarrow> bytes \<Rightarrow> string \<Rightarrow> ('s, unit) callback"
  on_timeout_packet :: "packet \<Rightarrow> string \<Rightarrow> ('s, unit) callback"

record 's ibc_router =
  ibc_transfer :: "'s ibc_module"
  sub_get_route :: "module_id \<Rightarrow> 's ibc_module option"
  sub_has_route :: "module_id \<Rightarrow> bool"
  sub_lookup_module :: "port_id \<Rightarrow> module_id option"

definition TRANSFER_MODULE_ID :: string where
  "TRANSFER_MODULE_ID = ''transfer''"

definition TRANSFER_PORT_ID :: string where
  "TRANSFER_PORT_ID = ''transfer''"

definition get_route_mut :: "'s ibc_router \<Rightarrow> module_id \<Rightarrow> 's ibc_module option" where
  "get_route_mut R i =
     (case sub_get_route R i of
        Some m \<Rightarrow> Some m
      | None \<Rightarrow> if module_id_str i = TRANSFER_MODULE_ID then Some (ibc_transfer R) else None)"

definition has_route :: "'s ibc_router \<Rightarrow> module_id \<Rightarrow> bool" where
  "has_route R i \<longleftrightarrow> (if sub_has_route R i then True else module_id_str i = TRANSFER_MODULE_ID)"

definition lookup_module_by_port :: "(nat \<Rightarrow> bool) \<Rightarrow> 's ibc_router \<Rightarrow> port_id \<Rightarrow> (module_id, ics05_error) res" where
  "lookup_module_by_port ua R p =
     (case sub_lookup_module R p of
        Some i \<Rightarrow> Inr i
      | None \<Rightarrow>
          if port_id_str p = TRANSFER_PORT_ID
          then map_err (\<lambda>_. E05_ModuleNotFound p) (module_id_new ua TRANSFER_MODULE_ID)
          else fail_with (E05_ModuleNotFound p))"

section \<open>Callbacks of channel and packet messages\<close>

fun channel_msg_port :: "channel_msg \<Rightarrow> port_id" where
  "channel_msg_port (ChannelOpenInit m) = hoi_port_id m"
| "channel_msg_port (ChannelOpenTry m) = hot_port_id m"
| "channel_msg_port (ChannelOpenAck m) = hoa_port_id m"
| "channel_msg_port (ChannelOpenConfirm m) = hoc_port_id m"
| "channel_msg_port (ChannelCloseInit m) = hci_port_id m"
| "channel_msg_port (ChannelCloseConfirm m) = hcc_port_id m"

definition lookup_module :: "(nat \<Rightarrow> bool) \<Rightarrow> 's ibc_router \<Rightarrow> channel_msg \<Rightarrow> (module_id, ics04_error) res" where
  "lookup_module ua R m = map_err E04_Ics05Port (lookup_module_by_port ua R (channel_msg_port m))"

definition channel_validate :: "(nat \<Rightarrow> bool) \<Rightarrow> 's ibc_router \<Rightarrow> channel_msg \<Rightarrow> (module_id, ics04_error) res" where
  "channel_validate ua R m =
     bind_res (lookup_module ua R m) (\<lambda>i. if has_route R i then Inr i else fail_with E04_RouteNotFound)"

definition channel_callback ::
    "'s ibc_router \<Rightarrow> module_id \<Rightarrow> channel_msg \<Rightarrow> channel_result \<Rightarrow> ('s, channel_result) callback" where
  "channel_callback R i msg r =
     op_bind (op_lift (ok_or (get_route_mut R i) E04_RouteNotFound)) (\<lambda>cb.
     case msg of
       ChannelOpenInit m \<Rightarrow>
         op_then (on_chan_open_init cb (chan_ordering (hoi_channel m)) (chan_connection_hops (hoi_channel m))
           (hoi_port_id m) (chr_channel_id r) (chan_remote (hoi_channel m)) (chan_version (hoi_channel m))
           (hoi_signer m)) (op_return r)
     | ChannelOpenTry m \<Rightarrow>
         op_bind (on_chan_open_try cb (chan_ordering (hot_channel m)) (chan_connection_hops (hot_channel m))
           (hot_port_id m) (chr_channel_id r) (chan_remote (hot_channel m)) (chan_version (hot_channel m))
           (hot_counterparty_version m) (hot_signer m)) (\<lambda>v. op_return (set_try_version msg v r))
     | ChannelOpenAck m \<Rightarrow>
         op_then (on_chan_open_ack cb (hoa_port_id m) (chr_channel_id r) (hoa_counterparty_version m)
           (hoa_signer m)) (op_return r)
     | ChannelOpenConfirm m \<Rightarrow>
         op_then (on_chan_open_confirm cb (hoc_port_id m) (chr_channel_id r) (hoc_signer m)) (op_return r)
     | ChannelCloseInit m \<Rightarrow>
         op_then (on_chan_close_init cb (hci_port_id m) (chr_channel_id r) (hci_signer m)) (op_return r)
     | ChannelCloseConfirm m \<Rightarrow>
         op_then (on_chan_close_confirm cb (hcc_port_id m) (chr_channel_id r) (hcc_signer m)) (op_return r))"

fun packet_msg_port :: "packet_msg \<Rightarrow> port_id" where
  "packet_msg_port (RecvPacketMsg m) = destination_port (mrp_packet m)"
| "packet_msg_port (AckPacketMsg m) = source_port (mak_packet m)"
| "packet_msg_port (ToPacketMsg m) = source_port (mto_packet m)"
| "packet_msg_port (ToClosePacketMsg m) = source_port (mtc_packet m)"

definition get_module_for_packet_msg ::
    "(nat \<Rightarrow> bool) \<Rightarrow> 's ibc_router \<Rightarrow> packet_msg \<Rightarrow> (module_id, ics04_error) res" where
  "get_module_for_packet_msg ua R m =
     bind_res (map_err E04_Ics05Port (lookup_module_by_port ua R (packet_msg_port m))) (\<lambda>i.
     if has_route R i then Inr i else fail_with E04_RouteNotFound)"

definition on_host :: "('s, 'a, 'e) op \<Rightarrow> ('s \<times> 'b, 'a, 'e) op" where
  "on_host m = (\<lambda>(s, b). case m s of (r, t) \<Rightarrow> (r, (t, b)))"

definition packet_callback ::
    "('cs, 'cons, 'msg, 'app) env \<Rightarrow> ('cs, 'cons, 'app) host ibc_router \<Rightarrow> module_id \<Rightarrow> packet_msg
       \<Rightarrow> (('cs, 'cons, 'app) host, unit) callback" where
  "packet_callback E R i msg =
     op_bind (op_lift (ok_or (get_route_mut R i) E04_RouteNotFound)) (\<lambda>cb.
     case msg of
       RecvPacketMsg m \<Rightarrow>
         op_bind (op_map_err E04_AppShown (on_recv_packet cb (mrp_packet m) (mrp_signer m))) (\<lambda>ack.
         if ack = [] then op_lift (fail_with (E04_Packet E04_InvalidAcknowledgement))
         else
           (let k = dest_packet_key (mrp_packet m) in
           op_bind (op_read (\<lambda>(s, b). Inr (get_packet_acknowledgement s k))) (\<lambda>found.
           case found of
             Inr _ \<Rightarrow> op_return ()
           | Inl _ \<Rightarrow>
               op_then (on_host (store_raw_acknowledgement k ack))
               (op_then (on_host (store_packet_acknowledgement k (ack_commitment (sha2_256 E) ack)))
               (op_update (\<lambda>(s, b). (s, builder_emit (WriteAcknowledgementEvent (host_height s) (mrp_packet m) ack) b)))))))
     | AckPacketMsg m \<Rightarrow>
         on_acknowledgement_packet cb (mak_packet m) (mak_acknowledgement m) (mak_signer m)
     | ToPacketMsg m \<Rightarrow> on_timeout_packet cb (mto_packet m) (mto_signer m)
     | ToClosePacketMsg m \<Rightarrow> on_timeout_packet cb (mtc_packet m) (mtc_signer m))"

section \<open>Dispatch\<close>

definition forward_output :: "'r handler_output \<Rightarrow> unit handler_output" where
  "forward_output out = with_result (with_events (out_events out) (with_log (out_log out) builder_new)) ()"

text \<open>The callback of a module starts from an empty output and leaves the host it has written to.\<close>

definition run_callback :: "('s, 'a) callback \<Rightarrow> ('s, ('a, ics04_error) res \<times> output_builder, 'e) op" where
  "run_callback cb = (\<lambda>s. case cb (s, builder_new) of (r, (t, b)) \<Rightarrow> (Inr (r, b), t))"

fun dispatch ::
    "('cs, 'cons, 'msg, 'app) env \<Rightarrow> ('cs, 'cons, 'app) host ibc_router \<Rightarrow> ('cs, 'cons, 'msg) envelope
       \<Rightarrow> (('cs, 'cons, 'app) host, unit handler_output, ics26_error) op" where
  "dispatch E R (Ics2Msg msg) =
     op_bind (op_read (\<lambda>s. map_err E26_Ics02Client (client_dispatch E s msg))) (\<lambda>out.
     op_then (op_map_err E26_Ics02Client (store_client_result E (out_result out)))
     (op_return (forward_output out)))"
| "dispatch E R (Ics3Msg msg) =
     op_bind (op_read (\<lambda>s. map_err E26_Ics03Connection (connection_dispatch E s msg))) (\<lambda>out.
     op_then (op_map_err E26_Ics03Connection (store_connection_result (out_result out)))
     (op_return (forward_output out)))"
| "dispatch E R (Ics4ChannelMsg msg) =
     op_bind (op_lift (map_err E26_Ics04Channel (channel_validate (unicode_alnum E) R msg))) (\<lambda>i.
     op_bind (op_read (\<lambda>s. map_err E26_Ics04Channel (channel_dispatch E s msg))) (\<lambda>(handler_builder, r).
     op_bind (run_callback (channel_callback R i msg r)) (\<lambda>(cb_result, module_output).
     (let handler_builder = builder_merge handler_builder module_output in
     op_bind (op_lift (map_err E26_Ics04Channel cb_result)) (\<lambda>r.
     op_then (op_map_err E26_Ics04Channel (store_channel_result r))
     (op_return (with_result handler_builder ())))))))"
| "dispatch E R (Ics4PacketMsg msg) =
     op_bind (op_lift (map_err E26_Ics04Channel (get_module_for_packet_msg (unicode_alnum E) R msg))) (\<lambda>i.
     op_bind (op_read (\<lambda>s. map_err E26_Ics04Channel (packet_dispatch E s msg))) (\<lambda>(handler_builder, r).
     if r = RecvResult RecvNoOp then op_return (with_result handler_builder ())
     else
       op_bind (run_callback (packet_callback E R i msg)) (\<lambda>(cb_result, module_output).
       (let handler_builder = builder_merge handler_builder module_output in
       op_then (op_lift (map_err E26_Ics04Channel cb_result))
       (op_then (op_map_err E26_Ics04Channel (store_packet_result E r))
       (op_return (with_result handler_builder ())))))))"

record msg_receipt =
  receipt_events :: "ibc_event list"
  receipt_log :: "string list"

definition deliver ::
    "('cs, 'cons, 'msg, 'app) env \<Rightarrow> ('cs, 'cons, 'app) host ibc_router \<Rightarrow> ('cs, 'cons, 'msg) wire \<Rightarrow> raw_any
       \<Rightarrow> (('cs, 'cons, 'app) host, msg_receipt, ics26_error) op" where
  "deliver E R W a =
     op_bind (op_lift (envelope_try_from (unicode_alnum E) (tm_representable E) W a)) (\<lambda>env.
     op_bind (dispatch E R env) (\<lambda>out.
     op_return \<lparr>receipt_events = out_events out, receipt_log = out_log out\<rparr>))"

text \<open>
  The messages of an extrinsic, one after the other: an error is recorded among the events and the next
  message goes on from the state that the failed one has left. Only a panic stops the extrinsic.
\<close>

fun execute_from ::
    "('cs, 'cons, 'msg, 'app) env \<Rightarrow> ('cs, 'cons, 'app) host ibc_router \<Rightarrow> ('cs, 'cons, 'msg) wire
       \<Rightarrow> (ics26_error + ibc_event) list \<times> string list \<Rightarrow> raw_any list
       \<Rightarrow> (('cs, 'cons, 'app) host, (ics26_error + ibc_event) list \<times> string list, ics26_error) op" where
  "execute_from E R W acc [] = op_return acc"
| "execute_from E R W (events, logs) (a # as) =
     (\<lambda>s. case deliver E R W a s of
        (Inr rc, t) \<Rightarrow> execute_from E R W (events @ map Inr (receipt_events rc), logs @ receipt_log rc) as t
      | (Inl (Err e), t) \<Rightarrow> execute_from E R W (events @ [Inl e], logs) as t
      | (Inl Panic, t) \<Rightarrow> (Inl Panic, t))"

definition execute_ibc_messages ::
    "('cs, 'cons, 'msg, 'app) env \<Rightarrow> ('cs, 'cons, 'app) host ibc_router \<Rightarrow> ('cs, 'cons, 'msg) wire \<Rightarrow> raw_any list
       \<Rightarrow> (('cs, 'cons, 'app) host, (ics26_error + ibc_event) list, ics26_error) op" where
  "execute_ibc_messages E R W as = op_bind (execute_from E R W ([], []) as) (\<lambda>(events, logs). op_return events)"

section \<open>What a callback may do\<close>

lemma module_effect_trans:
  assumes "module_effect s t" and "module_effect t u"
  shows "module_effect s u"
proof -
  let ?f = "\<lambda>w v. v\<lparr>trie := trie w, app_storage := app_storage w, Acks := Acks w,
         AcknowledgementCounter := AcknowledgementCounter w\<rparr>"
  have "?f s u = ?f s (?f t u)" by simp
  also have "\<dots> = ?f s t" using assms(2) unfolding module_effect_def by simp
  also have "\<dots> = s" using assms(1) unfolding module_effect_def by simp
  finally show ?thesis
    using assms unfolding module_effect_def by simp
qed

lemma module_effect_store_raw: "module_effect s (snd (store_raw_acknowledgement k b s))"
  by (simp add: module_effect_def store_raw_acknowledgement_def child_get_def store_key_def)

lemma module_effect_store_ack: "module_effect s (snd (store_packet_acknowledgement k b s))"
  by (auto simp: module_effect_def store_packet_acknowledgement_def acknowledgements_insert_def ack_path_def
      is_ack_path_def Let_def child_get_put view_puts split: option.splits)

text \<open>
  A callback is confined when, whatever it returns, it leaves the host as one of its applications may: with
  other application storage and other acknowledgements, and everything else as it was.
\<close>

definition confined :: "(('cs, 'cons, 'app) host \<times> output_builder, 'a, 'e) op \<Rightarrow> bool" where
  "confined cb \<longleftrightarrow> (\<forall>s b. module_effect s (fst (snd (cb (s, b)))))"

named_theorems confined_intros

lemma confinedD: "confined cb \<Longrightarrow> cb (s, b) = (r, (t, b')) \<Longrightarrow> module_effect s t"
  unfolding confined_def by (metis fst_conv snd_conv)

lemma confined_basic [confined_intros]:
  "confined (op_return x)" "confined (op_lift r)" "confined (op_read f)"
  by (simp_all add: confined_def)

lemma confined_output [confined_intros]: "confined (op_update (\<lambda>(s, b). (s, f s b)))"
  by (simp add: confined_def)

lemma confined_host [confined_intros]: "(\<And>s. module_effect s (snd (m s))) \<Longrightarrow> confined (on_host m)"
  by (simp add: confined_def on_host_def split: prod.splits) (metis snd_conv)

lemma confined_bind [confined_intros]:
  assumes "confined m" and "\<And>x. confined (f x)"
  shows "confined (op_bind m f)"
  unfolding confined_def
proof (intro allI)
  fix s b
  obtain r t b' where m: "m (s, b) = (r, (t, b'))" by (metis prod.exhaust)
  have t: "module_effect s t" using confinedD [OF assms(1) m] .
  show "module_effect s (fst (snd (op_bind m f (s, b))))"
  proof (cases r)
    case (Inr x)
    have "module_effect t (fst (snd (f x (t, b'))))" using assms(2) unfolding confined_def by blast
    from module_effect_trans [OF t this] show ?thesis by (simp add: m Inr)
  qed (simp add: m t)
qed

lemma confined_lift_bind: "(\<And>x. r = Inr x \<Longrightarrow> confined (f x)) \<Longrightarrow> confined (op_bind (op_lift r) f)"
  by (cases r) (simp_all add: confined_def)

lemma confined_then [confined_intros]: "confined m \<Longrightarrow> confined n \<Longrightarrow> confined (op_then m n)"
  unfolding op_then_def by (rule confined_bind)

lemma confined_map_err [confined_intros]: "confined m \<Longrightarrow> confined (op_map_err g m)"
  by (simp add: confined_def op_map_err_def split: prod.splits) (metis fst_conv snd_conv)

definition module_confined :: "('cs, 'cons, 'app) host ibc_module \<Rightarrow> bool" where
  "module_confined M \<longleftrightarrow>
     (\<forall>o' hs p c q v g. confined (on_chan_open_init M o' hs p c q v g))
     \<and> (\<forall>o' hs p c q v w g. confined (on_chan_open_try M o' hs p c q v w g))
     \<and> (\<forall>p c v g. confined (on_chan_open_ack M p c v g))
     \<and> (\<forall>p c g. confined (on_chan_open_confirm M p c g))
     \<and> (\<forall>p c g. confined (on_chan_close_init M p c g))
     \<and> (\<forall>p c g. confined (on_chan_close_confirm M p c g))
     \<and> (\<forall>p g. confined (on_recv_packet M p g))
     \<and> (\<forall>p a g. confined (on_acknowledgement_packet M p a g))
     \<and> (\<forall>p g. confined (on_timeout_packet M p g))"

section \<open>Routing to confined modules\<close>

lemma channel_callback_result:
  assumes "channel_callback R i m r s = (Inr r', t)"
  shows "\<exists>v. r' = set_try_version m v r"
  using assms
  by (cases m) (auto simp: channel_callback_def op_bind_eq_Inr op_then_eq_Inr simp del: set_try_version.simps(1)
      split: sum.splits)

lemma wf_envelope_msgs:
  "wf_envelope ua tm (Ics4ChannelMsg m) \<Longrightarrow> wf_channel_msg ua m"
  "wf_envelope ua tm (Ics3Msg m') \<Longrightarrow> wf_connection_msg ua m'"
  by (cases m; simp add: wf_chan_open_init_def wf_chan_open_try_def)
    (cases m'; simp add: wf_conn_open_init_def wf_conn_open_try_def wf_conn_open_ack_def)

lemma channel_store_total:
  assumes "channel_dispatch E s m = Inr (b, r)" and "store_channel_result (set_try_version m v r) t = (res, s')"
  shows "res = Inr ()"
  using assms(1)
  by (cases rule: channel_dispatch_cases)
    (auto intro: store_channel_result_effect(1) [OF assms(2)])

locale routed_modules =
  fixes R :: "('cs, 'cons, 'app) host ibc_router"
  assumes routes_confined: "get_route_mut R i = Some M \<Longrightarrow> module_confined M"
begin

lemma route_confined:
  assumes "get_route_mut R i = Some M"
  shows "confined (on_chan_open_init M o' hs p c q v g)" "confined (on_chan_open_try M o' hs p c q v w g)"
    "confined (on_chan_open_ack M p c v g)" "confined (on_chan_open_confirm M p c g)"
    "confined (on_chan_close_init M p c g)" "confined (on_chan_close_confirm M p c g)"
    "confined (on_recv_packet M pk g)" "confined (on_acknowledgement_packet M pk a g)"
    "confined (on_timeout_packet M pk g)"
  using routes_confined [OF assms] by (simp_all add: module_confined_def)

lemma channel_callback_confined: "confined (channel_callback R i m r)"
  unfolding channel_callback_def
proof (rule confined_lift_bind)
  fix M
  assume "ok_or (get_route_mut R i) E04_RouteNotFound = Inr M"
  then have "get_route_mut R i = Some M" by simp
  note c = route_confined [OF this]
  show "confined (case m of
       ChannelOpenInit m \<Rightarrow>
         op_then (on_chan_open_init M (chan_ordering (hoi_channel m)) (chan_connection_hops (hoi_channel m))
           (hoi_port_id m) (chr_channel_id r) (chan_remote (hoi_channel m)) (chan_version (hoi_channel m))
           (hoi_signer m)) (op_return r)
     | ChannelOpenTry n \<Rightarrow>
         op_bind (on_chan_open_try M (chan_ordering (hot_channel n)) (chan_connection_hops (hot_channel n))
           (hot_port_id n) (chr_channel_id r) (chan_remote (hot_channel n)) (chan_version (hot_channel n))
           (hot_counterparty_version n) (hot_signer n)) (\<lambda>v. op_return (set_try_version m v r))
     | ChannelOpenAck m \<Rightarrow>
         op_then (on_chan_open_ack M (hoa_port_id m) (chr_channel_id r) (hoa_counterparty_version m)
           (hoa_signer m)) (op_return r)
     | ChannelOpenConfirm m \<Rightarrow>
         op_then (on_chan_open_confirm M (hoc_port_id m) (chr_channel_id r) (hoc_signer m)) (op_return r)
     | ChannelCloseInit m \<Rightarrow>
         op_then (on_chan_close_init M (hci_port_id m) (chr_channel_id r) (hci_signer m)) (op_return r)
     | ChannelCloseConfirm m \<Rightarrow>
         op_then (on_chan_close_confirm M (hcc_port_id m) (chr_channel_id r) (hcc_signer m)) (op_return r))"
    by (cases m) (simp_all add: confined_intros c del: set_try_version.simps)
qed

lemma recv_callback_confined:
  assumes "get_route_mut R i = Some M"
  shows "confined (packet_callback E R i (RecvPacketMsg m))"
  unfolding packet_callback_def
  by (rule confined_lift_bind)
    (use assms in \<open>auto simp: Let_def intro!: confined_intros route_confined [OF assms] module_effect_store_raw
      module_effect_store_ack split: sum.split\<close>)

lemma packet_callback_confined: "confined (packet_callback E R i m)"
proof (cases "get_route_mut R i")
  case None
  then show ?thesis by (simp add: packet_callback_def confined_def ok_or_def)
next
  case (Some M)
  show ?thesis
  proof (cases m)
    case (RecvPacketMsg x)
    with recv_callback_confined [OF Some] show ?thesis by simp
  qed (auto simp: packet_callback_def intro!: confined_lift_bind simp: Some intro: route_confined [OF Some])
qed

lemma client_dispatch_run:
  assumes "dispatch E R (Ics2Msg m) s = (res, s')"
  shows "host_run E s [] s'"
proof (cases "client_dispatch E s m")
  case (Inr out)
  obtain r t where st: "store_client_result E (out_result out) s = (r, t)" by (metis prod.exhaust)
  with assms Inr have "s' = t"
    by (cases r) (auto simp: op_map_err_def op_then_def op_bind_def map_err_def split: fault.splits)
  with host_run_single [OF client_stepped [OF Inr st]] show ?thesis by simp
qed (use assms in \<open>auto simp: map_err_def run_start split: fault.splits\<close>)

lemma connection_dispatch_run:
  assumes "wf_connection_msg (unicode_alnum E) m" and "dispatch E R (Ics3Msg m) s = (res, s')"
  shows "host_run E s [] s'"
proof (cases "connection_dispatch E s m")
  case (Inr out)
  obtain r t where st: "store_connection_result (out_result out) s = (r, t)" by (metis prod.exhaust)
  then have r: "r = Inr ()" by (rule store_connection_result_effect(1))
  with assms(2) Inr st have "s' = t" by (auto simp: op_map_err_def op_then_def op_bind_def)
  with host_run_single [OF connection_stepped [OF conn_handled [OF Inr assms(1)]]] st r show ?thesis by simp
qed (use assms in \<open>auto simp: map_err_def run_start split: fault.splits\<close>)

lemma channel_dispatch_run:
  assumes "wf_channel_msg (unicode_alnum E) m" and "dispatch E R (Ics4ChannelMsg m) s = (res, s')"
  shows "host_run E s [] s'"
proof (cases "\<exists>i b r. channel_validate (unicode_alnum E) R m = Inr i \<and> channel_dispatch E s m = Inr (b, r)")
  case True
  then obtain i b r where v: "channel_validate (unicode_alnum E) R m = Inr i" and d: "channel_dispatch E s m = Inr (b, r)"
    by blast
  obtain cb t mo where c: "channel_callback R i m r (s, builder_new) = (cb, (t, mo))" by (metis prod.exhaust)
  have t: "module_effect s t" using confinedD [OF channel_callback_confined c] .
  show ?thesis
  proof (cases cb)
    case (Inl e)
    with assms(2) v d c have "s' = t"
      by (auto simp: run_callback_def map_err_def Let_def split: fault.splits)
    with host_run_single [OF module_stepped [OF t]] show ?thesis by simp
  next
    case (Inr r')
    with channel_callback_result c obtain w where w: "r' = set_try_version m w r" by blast
    obtain q u where st: "store_channel_result r' t = (q, u)" by (metis prod.exhaust)
    then have q: "q = Inr ()" unfolding w by (rule channel_store_total [OF d])
    with assms(2) v d c Inr st have "s' = u"
      by (auto simp: run_callback_def Let_def op_map_err_def op_then_def op_bind_def)
    with host_run_single [OF channel_stepped [OF chan_handled [OF d assms(1) t]]] st q w show ?thesis by simp
  qed
qed (use assms(2) in \<open>auto simp: map_err_def run_start split: fault.splits sum.splits\<close>)

lemma packet_dispatch_run:
  assumes "dispatch E R (Ics4PacketMsg m) s = (res, s')"
  shows "host_run E s [] s' \<or> (\<exists>b r. packet_dispatch E s m = Inr (b, r) \<and> r \<noteq> RecvResult RecvNoOp \<and> host_run E s [r] s')"
proof (cases "\<exists>i b r. get_module_for_packet_msg (unicode_alnum E) R m = Inr i \<and> packet_dispatch E s m = Inr (b, r)
    \<and> r \<noteq> RecvResult RecvNoOp")
  case True
  then obtain i b r where v: "get_module_for_packet_msg (unicode_alnum E) R m = Inr i"
      and d: "packet_dispatch E s m = Inr (b, r)" and r: "r \<noteq> RecvResult RecvNoOp"
    by blast
  obtain cb t mo where c: "packet_callback E R i m (s, builder_new) = (cb, (t, mo))" by (metis prod.exhaust)
  have t: "module_effect s t" using confinedD [OF packet_callback_confined c] .
  show ?thesis
  proof (cases cb)
    case (Inl e)
    with assms v d c r have "s' = t"
      by (auto simp: run_callback_def map_err_def Let_def op_then_def split: fault.splits)
    moreover have "host_run E s [] t" by (rule host_run_single [OF module_stepped [OF t]])
    ultimately show ?thesis by simp
  next
    case (Inr x)
    obtain q u where st: "store_packet_result E r t = (q, u)" by (metis prod.exhaust)
    with assms v d c r Inr have "s' = u"
      by (cases q) (auto simp: run_callback_def Let_def op_map_err_def op_then_def op_bind_def map_err_def
          split: fault.splits)
    with host_run_single [OF packet_stepped [OF packet_handled [OF d r t st]]] d r show ?thesis by auto
  qed
qed (use assms in \<open>auto simp: map_err_def run_start split: fault.splits sum.splits if_splits\<close>)

lemma dispatch_run:
  assumes "wf_envelope (unicode_alnum E) tm env" and "dispatch E R env s = (res, s')"
  shows "\<exists>rs. host_run E s rs s'"
proof (cases env)
  case (Ics2Msg m)
  with client_dispatch_run assms show ?thesis by blast
next
  case (Ics3Msg m)
  with connection_dispatch_run wf_envelope_msgs(2) assms show ?thesis by blast
next
  case (Ics4ChannelMsg m)
  with channel_dispatch_run wf_envelope_msgs(1) assms show ?thesis by blast
next
  case (Ics4PacketMsg m)
  with packet_dispatch_run assms show ?thesis by blast
qed

lemma deliver_run:
  assumes "deliver E R W a s = (res, s')"
  shows "\<exists>rs. host_run E s rs s'"
proof (cases "envelope_try_from (unicode_alnum E) (tm_representable E) W a")
  case (Inr env)
  obtain r t where d: "dispatch E R env s = (r, t)" by (metis prod.exhaust)
  with assms Inr have "s' = t" by (cases r) (auto simp: deliver_def op_bind_def)
  with dispatch_run [OF envelope_decoded_wf [OF Inr] d] show ?thesis by simp
qed (use assms run_start in \<open>auto simp: deliver_def\<close>)

lemma execute_from_run: "execute_from E R W acc as s = (res, s') \<Longrightarrow> \<exists>rs. host_run E s rs s'"
proof (induction as arbitrary: acc s)
  case Nil
  with run_start show ?case by auto
next
  case (Cons a as)
  obtain events logs where acc: "acc = (events, logs)" by (cases acc)
  obtain r t where d: "deliver E R W a s = (r, t)" by (metis prod.exhaust)
  obtain rs where rs: "host_run E s rs t" using deliver_run [OF d] by blast
  have "s' = t \<or> (\<exists>acc'. execute_from E R W acc' as t = (res, s'))"
    using Cons.prems d by (auto simp: acc split: sum.splits fault.splits)
  then show ?case
  proof
    assume "\<exists>acc'. execute_from E R W acc' as t = (res, s')"
    then obtain rs' where "host_run E t rs' s'" using Cons.IH by blast
    from host_run_append [OF this rs] show ?thesis by blast
  qed (use rs in auto)
qed

lemma execute_run:
  assumes "execute_ibc_messages E R W as s = (res, s')"
  shows "\<exists>rs. host_run E s rs s'"
proof -
  obtain r t where x: "execute_from E R W ([], []) as s = (r, t)" by (metis prod.exhaust)
  with assms have "s' = t" by (cases r) (auto simp: execute_ibc_messages_def op_bind_def split: prod.splits)
  with execute_from_run [OF x] show ?thesis by simp
qed

end

section \<open>Packets received before\<close>

text \<open>A packet with this destination and sequence number was received: the next expected number is past it, or
  it has a receipt.\<close>

definition already_received :: "('cs, 'cons, 'msg, 'app) env \<Rightarrow> ('cs, 'cons, 'app) host \<Rightarrow> packet_key \<Rightarrow> bool" where
  "already_received E s k \<longleftrightarrow> (\<exists>e. get_channel_end E s (fst k, fst (snd k)) = Inr e
     \<and> (if chan_ordering e = Ordered
        then \<exists>n. next_seq_recv_get s (fst k, fst (snd k)) = Some n \<and> snd (snd k) < n
        else packet_receipt_get s k = Some (as_bytes ''Ok'')))"

lemma received_ignored:
  assumes "already_received E s (dest_packet_key (mrp_packet m))"
    and "dispatch E R (Ics4PacketMsg (RecvPacketMsg m)) s = (res, s')"
  shows "s' = s"
proof (cases "packet_dispatch E s (RecvPacketMsg m)")
  case (Inl e)
  with assms(2) show ?thesis
    by (cases e) (auto simp: map_err_def split: sum.splits fault.splits)
next
  case (Inr x)
  then obtain b r where d: "packet_dispatch E s (RecvPacketMsg m) = Inr (b, r)" by (cases x) auto
  have "r = RecvResult RecvNoOp"
    using d
  proof (cases rule: packet_dispatch_split)
    case (recv i out)
    with assms(1) show ?thesis
      by (auto simp: already_received_def elim!: recv_packet_ok)
  qed auto
  with d assms(2) show ?thesis
    by (auto simp: map_err_def split: sum.splits fault.splits)
qed

lemma already_received_run:
  assumes "host_run E s rs s'" and "host_inv s" and "counters_left s'" and "already_received E s k"
  shows "already_received E s' k"
proof -
  obtain p c sq where k: "k = (p, c, sq)" by (cases k)
  obtain e where e: "get_channel_end E s (p, c) = Inr e"
    using assms(4) by (auto simp: already_received_def k)
  obtain d where d: "get_channel_end E s' (p, c) = Inr d" "chan_ordering d = chan_ordering e"
    using host_run_ordering [OF assms(1-3) e] by blast
  show ?thesis
  proof (cases "chan_ordering e")
    case Ordered
    then obtain n where "next_seq_recv_get s (p, c) = Some n" "sq < n"
      using assms(4) e by (auto simp: already_received_def k)
    with ordered_run [OF assms(1-3) e Ordered] d Ordered show ?thesis
      by (auto simp: already_received_def k)
  next
    case Unordered
    then have "packet_receipt_get s (p, c, sq) = Some (as_bytes ''Ok'')"
      using assms(4) e by (auto simp: already_received_def k)
    with unordered_run [OF assms(1-3) e Unordered] d Unordered show ?thesis
      by (auto simp: already_received_def k)
  qed
qed

lemma recv_dispatch_received:
  assumes "packet_dispatch E s (RecvPacketMsg m) = Inr (b, r)" and "packet_step E s r s'"
  shows "already_received E s' (dest_packet_key (mrp_packet m))"
  using assms(1)
proof (cases rule: packet_dispatch_split)
  case (recv i out)
  have i: "i = m" using recv(1) by simp
  from recv(2) show ?thesis
  proof (cases rule: recv_packet_ok)
    case (ordered e k ks conn)
    obtain e' where "get_channel_end E s' (dest_key (mrp_packet m)) = Inr e'" "chan_ordering e' = Ordered"
      using packet_step_channel [OF assms(2) ordered(1)] ordered(7) i by auto
    with ordered recv(3) i packet_step_next_recv [OF assms(2)] next_sequence_less [OF ordered(8)] show ?thesis
      by (auto simp: already_received_def)
  next
    case (unordered e k ks conn)
    obtain e' where "get_channel_end E s' (dest_key (mrp_packet m)) = Inr e'" "chan_ordering e' = Unordered"
      using packet_step_channel [OF assms(2) unordered(1)] unordered(7) i by auto
    with unordered recv(3) i packet_step_receipt [OF assms(2)] show ?thesis
      by (auto simp: already_received_def)
  next
    case (noop e)
    from assms(2) show ?thesis
      by (cases rule: packet_step_cases) (use noop recv(3) in auto)
  qed
qed auto

text \<open>A successful delivery is either a repetition, which changes nothing, or marks the packet as received.\<close>

lemma recv_dispatch_ok:
  assumes "dispatch E R (Ics4PacketMsg (RecvPacketMsg m)) s = (Inr out, s')"
  obtains (repeated) b where "packet_dispatch E s (RecvPacketMsg m) = Inr (b, RecvResult RecvNoOp)" and "s' = s"
  | (new) i b r cb t mo where "packet_dispatch E s (RecvPacketMsg m) = Inr (b, r)" and "r \<noteq> RecvResult RecvNoOp"
      and "packet_callback E R i (RecvPacketMsg m) (s, builder_new) = (cb, (t, mo))"
      and "store_packet_result E r t = (Inr (), s')"
  using assms
  by (auto simp: run_callback_def Let_def op_then_eq_Inr op_bind_eq_Inr split: if_splits sum.splits prod.splits)

lemma noop_received:
  assumes "packet_dispatch E s (RecvPacketMsg m) = Inr (b, RecvResult RecvNoOp)"
  shows "already_received E s (dest_packet_key (mrp_packet m))"
  using assms
proof (cases rule: packet_dispatch_split)
  case (recv i out)
  then have i: "i = m" by simp
  from recv(2) show ?thesis
  proof (cases rule: recv_packet_ok)
    case (noop e)
    then show ?thesis
      by (cases "chan_ordering e") (auto simp: already_received_def i)
  qed (use recv(3) in auto)
qed auto

lemma delivered_received:
  assumes "\<forall>i M. get_route_mut R i = Some M \<longrightarrow> module_confined M"
    and "dispatch E R (Ics4PacketMsg (RecvPacketMsg m)) s = (Inr out, s')"
  shows "already_received E s' (dest_packet_key (mrp_packet m)) \<and> (\<exists>rs. host_run E s rs s')"
proof -
  have R: "routed_modules R" using assms(1) by unfold_locales blast
  from assms(2) show ?thesis
  proof (cases rule: recv_dispatch_ok)
    case (repeated b)
    with noop_received run_start show ?thesis by blast
  next
    case (new i b r cb t mo)
    have t: "module_effect s t"
      using confinedD [OF routed_modules.packet_callback_confined [OF R] new(3)] .
    have step: "packet_step E s r s'" using packet_handled [OF new(1,2) t new(4)] .
    with recv_dispatch_received [OF new(1)] host_run_single [OF packet_stepped] show ?thesis by blast
  qed
qed

section \<open>Properties\<close>

text \<open>C14: what the pallet executes is a run of the host. Whatever messages an extrinsic carries, decoded or not,
  valid or not, executing them takes the host through a run of the steps that the properties of clients,
  connections, channels and packets are about, as long as the modules of the router write only their own
  storage and acknowledgements.\<close>

theorem execute_is_run:
  assumes "\<forall>i M. get_route_mut R i = Some M \<longrightarrow> module_confined M"
    and "execute_ibc_messages E R W as s = (res, s')"
  shows "\<exists>rs. host_run E s rs s'"
proof -
  have "routed_modules R" using assms(1) by unfold_locales blast
  from routed_modules.execute_run [OF this assms(2)] show ?thesis .
qed

text \<open>C19: a packet that was received once is never received again. After a packet was delivered to its module, and
  whatever run of the host follows, a message that carries a packet with the same destination and sequence
  number leaves the state as it is: no module is called and nothing is written.\<close>

theorem redelivery_ignored:
  assumes "\<forall>i M. get_route_mut R i = Some M \<longrightarrow> module_confined M" and "host_inv s"
    and "dispatch E R (Ics4PacketMsg (RecvPacketMsg m)) s = (Inr out, t)"
    and "host_run E t rs u" and "counters_left u"
    and "dest_packet_key (mrp_packet m') = dest_packet_key (mrp_packet m)"
    and "dispatch E R' (Ics4PacketMsg (RecvPacketMsg m')) u = (res, u')"
  shows "u' = u"
proof -
  have rec: "already_received E t (dest_packet_key (mrp_packet m))" and run: "\<exists>rs. host_run E s rs t"
    using delivered_received [OF assms(1,3)] by simp_all
  have inv: "host_inv t"
    using run host_run_inv [OF _ assms(2) host_run_counters_left [OF assms(4,5)]] by blast
  from already_received_run [OF assms(4) inv assms(5) rec] have "already_received E u (dest_packet_key (mrp_packet m'))"
    by (simp only: assms(6))
  from received_ignored [OF this assms(7)] show ?thesis .
qed

text \<open>A port without a module is refused. A channel or packet message for a port that no module has is answered
  with an error that names the port, and the host is left as it is.\<close>

theorem unrouted_port_refused:
  assumes "sub_lookup_module R p = None" and "port_id_str p \<noteq> ''transfer''"
  shows "(\<forall>m. channel_msg_port m = p \<longrightarrow> dispatch E R (Ics4ChannelMsg m) s
        = (Inl (Err (E26_Ics04Channel (E04_Ics05Port (E05_ModuleNotFound p)))), s))
    \<and> (\<forall>m. packet_msg_port m = p \<longrightarrow> dispatch E R (Ics4PacketMsg m) s
        = (Inl (Err (E26_Ics04Channel (E04_Ics05Port (E05_ModuleNotFound p)))), s))"
  using assms
  by (simp add: channel_validate_def lookup_module_def lookup_module_by_port_def get_module_for_packet_msg_def
      TRANSFER_PORT_ID_def fail_with_def)

section \<open>Witnesses\<close>

text \<open>A module that accepts everything, and acknowledges every packet.\<close>

definition sample_module :: "'s ibc_module" where
  "sample_module =
     \<lparr>on_chan_open_init = (\<lambda>o' hs p c q v g. op_return ()), on_chan_open_try = (\<lambda>o' hs p c q v w g. op_return v),
      on_chan_open_ack = (\<lambda>p c v g. op_return ()), on_chan_open_confirm = (\<lambda>p c g. op_return ()),
      on_chan_close_init = (\<lambda>p c g. op_return ()), on_chan_close_confirm = (\<lambda>p c g. op_return ()),
      on_recv_packet = (\<lambda>p g. op_return [1]), on_acknowledgement_packet = (\<lambda>p a g. op_return ()),
      on_timeout_packet = (\<lambda>p g. op_return ())\<rparr>"

definition sample_router :: "'s ibc_router" where
  "sample_router =
     \<lparr>ibc_transfer = sample_module, sub_get_route = (\<lambda>_. None), sub_has_route = (\<lambda>_. False),
      sub_lookup_module = (\<lambda>_. None)\<rparr>"

lemma sample_module_confined: "module_confined sample_module"
  by (simp add: module_confined_def sample_module_def confined_basic)

lemma sample_router_confined: "\<forall>i M. get_route_mut sample_router i = Some M \<longrightarrow> module_confined M"
  by (auto simp: get_route_mut_def sample_router_def sample_module_confined split: if_splits)

lemma sample_router_lookup:
  "lookup_module_by_port (\<lambda>_. False) sample_router port_transfer = Inr (ModuleId ''transfer'')"
  "get_route_mut sample_router (ModuleId ''transfer'') = Some sample_module"
  "has_route sample_router (ModuleId ''transfer'')"
proof -
  have "module_id_new (\<lambda>_. False) ''transfer'' = Inr (ModuleId ''transfer'')" by code_simp
  then show "lookup_module_by_port (\<lambda>_. False) sample_router port_transfer = Inr (ModuleId ''transfer'')"
    by (simp add: lookup_module_by_port_def sample_router_def TRANSFER_PORT_ID_def TRANSFER_MODULE_ID_def
        port_transfer_def)
qed (simp_all add: get_route_mut_def has_route_def sample_router_def TRANSFER_MODULE_ID_def)

lemma receipt_keeps_channels: "get_channel_end E (snd (store_packet_receipt k r s)) c = get_channel_end E s c"
  by (simp add: store_packet_receipt_def get_channel_end_def view_laws Let_def split: option.splits)

lemma sample_delivered:
  "\<exists>out t. dispatch packet_env sample_router (Ics4PacketMsg (RecvPacketMsg sample_recv)) (sample_host b Unordered) = (Inr out, t)
     \<and> counters_left t"
proof -
  let ?s = "sample_host b Unordered" and ?cb = "packet_callback packet_env sample_router (ModuleId ''transfer'') (RecvPacketMsg sample_recv)"
  obtain c r where d: "packet_dispatch packet_env ?s (RecvPacketMsg sample_recv) = Inr (c, r)"
      and r: "r = RecvResult (RecvUnordered port_transfer (ChannelId 0) 1 ReceiptOk in_packet)"
    using sample_dispatched(1) [of b Unordered] by auto
  have "fst (?cb (?s, builder_new)) = Inr ()"
    by (cases "get_packet_acknowledgement ?s (dest_packet_key in_packet)")
      (simp_all add: packet_callback_def sample_router_lookup sample_module_def Let_def on_host_def op_then_def
        op_bind_def op_map_err_def store_raw_acknowledgement_def store_packet_acknowledgement_def)
  then obtain t mo where cb: "?cb (?s, builder_new) = (Inr (), (t, mo))"
    by (cases "?cb (?s, builder_new)") auto
  have "routed_modules (sample_router :: (mock_client_state, mock_consensus_state, unit) host ibc_router)"
    using sample_router_confined by unfold_locales blast
  from confinedD [OF routed_modules.packet_callback_confined [OF this] cb] have t: "module_effect ?s t" .
  have "fst (store_packet_result packet_env r t) = Inr ()"
    using receipt_keeps_channels [of packet_env "(port_transfer, ChannelId 0, 1)" ReceiptOk t "(port_transfer, ChannelId 0)"]
      module_effect_reads(3) [OF t, of packet_env "(port_transfer, ChannelId 0)"]
    by (simp add: r store_packet_result.simps store_recv_packet_def packet_info_at_def packet_info_from_packet_def
        nanoseconds_def nanoseconds_opt_def in_packet_def sample_host_channel op_then_def op_bind_def
        store_packet_receipt_def)
  then obtain u where st: "store_packet_result packet_env r t = (Inr (), u)"
    by (cases "store_packet_result packet_env r t") auto
  have "counters_left u"
    using sample_host_counters [of b Unordered] packet_step_counters [OF packet_handled [OF d _ t st]] r
    by (simp add: counters_left_def)
  with d cb st r show ?thesis
    by (simp add: get_module_for_packet_msg_def sample_router_lookup run_callback_def Let_def op_then_def op_bind_def
        op_map_err_def)
qed

theorem execute_is_run_witness:
  "\<exists>rs. host_run packet_env (sample_host False Unordered) rs
     (snd (execute_ibc_messages packet_env sample_router sample_wire
       [\<lparr>any_type_url = CHAN_CLOSE_INIT_URL, any_value = [1]\<rparr>, \<lparr>any_type_url = ''/unknown'', any_value = []\<rparr>]
       (sample_host False Unordered)))"
  by (rule execute_is_run [OF sample_router_confined prod.collapse [symmetric]])

theorem unrouted_port_refused_witness:
  "dispatch packet_env sample_router (Ics4ChannelMsg (ChannelCloseInit (sample_close\<lparr>hci_port_id := PortId ''other''\<rparr>)))
     (sample_host False Unordered)
     = (Inl (Err (E26_Ics04Channel (E04_Ics05Port (E05_ModuleNotFound (PortId ''other''))))), sample_host False Unordered)"
proof -
  have "sub_lookup_module sample_router (PortId ''other'') = None" "port_id_str (PortId ''other'') \<noteq> ''transfer''"
    by (simp_all add: sample_router_def)
  note refused = unrouted_port_refused [OF this, THEN conjunct1, rule_format]
  show ?thesis by (rule refused) simp
qed

theorem redelivery_ignored_witness:
  "\<exists>out t. dispatch packet_env sample_router (Ics4PacketMsg (RecvPacketMsg sample_recv)) (sample_host False Unordered)
       = (Inr out, t)
     \<and> snd (dispatch packet_env sample_router (Ics4PacketMsg (RecvPacketMsg sample_recv)) t) = t"
proof -
  obtain out t where d: "dispatch packet_env sample_router (Ics4PacketMsg (RecvPacketMsg sample_recv)) (sample_host False Unordered)
      = (Inr out, t)" and left: "counters_left t"
    using sample_delivered by blast
  have "snd (dispatch packet_env sample_router (Ics4PacketMsg (RecvPacketMsg sample_recv)) t) = t"
    by (rule redelivery_ignored [OF sample_router_confined sample_host_inv d run_start left refl prod.collapse [symmetric]])
  with d show ?thesis by blast
qed

end
