(* ===== verification/Transfer_Relay.thy ===== *)
theory Transfer_Relay
  imports Transfer_Msgs Routing
begin

text \<open>
  The ICS20 application of the protocol library: what it asks of its host (\<^verbatim>\<open>Ics20Reader\<close>, \<^verbatim>\<open>BankKeeper\<close> of
  \<^verbatim>\<open>applications/transfer/context.rs\<close>), its channel and packet callbacks (\<^verbatim>\<open>context.rs\<close>), the processing of
  received, acknowledged and timed-out packets and of transfers (\<^verbatim>\<open>relay.rs\<close>, \<^verbatim>\<open>relay/*.rs\<close>) and its events
  (\<^verbatim>\<open>events.rs\<close>). JSON (\<^verbatim>\<open>serde_json\<close>) and the texts of errors are parameters. The lemmas give the effect of
  each operation on the host's ledger.
\<close>

section \<open>What the application asks of its host\<close>

record transfer_codec =
  numbers :: u256_text
  show_ics20 :: "ics20_error \<Rightarrow> string"
  ack_to_json :: "transfer_ack \<Rightarrow> string"
  ack_from_json :: "bytes \<Rightarrow> (transfer_ack, string) res"
  data_from_json :: "bytes \<Rightarrow> (transfer_data, string) res"
  data_to_json :: "transfer_data \<Rightarrow> bytes"
  hex_upper :: "bytes \<Rightarrow> string"

record ('s, 'acc) ics20_context =
  get_port :: "(port_id, ics20_error) res"
  get_channel_escrow_address :: "port_id \<Rightarrow> channel_id \<Rightarrow> ('acc, ics20_error) res"
  is_send_enabled :: bool
  is_receive_enabled :: bool
  denom_hash_string :: "prefixed_denom \<Rightarrow> string option"
  account_try_from :: "string \<Rightarrow> 'acc option"
  send_coins :: "'acc \<Rightarrow> 'acc \<Rightarrow> prefixed_coin \<Rightarrow> ('s, unit, ics20_error) op"
  mint_coins :: "'acc \<Rightarrow> prefixed_coin \<Rightarrow> ('s, unit, ics20_error) op"
  burn_coins :: "'acc \<Rightarrow> prefixed_coin \<Rightarrow> ('s, unit, ics20_error) op"

definition TRANSFER_VERSION :: string where
  "TRANSFER_VERSION = ''ics20-1''"

definition version_ics20 :: channel_version where
  "version_ics20 = ChannelVersion TRANSFER_VERSION"

text \<open>The default escrow address of the library: the first 20 bytes of a hash, in hexadecimal.\<close>

definition cosmos_adr028_escrow_address :: "(bytes \<Rightarrow> bytes) \<Rightarrow> port_id \<Rightarrow> channel_id \<Rightarrow> bytes" where
  "cosmos_adr028_escrow_address hash p c =
     take 20 (hash (as_bytes TRANSFER_VERSION @ [0] @ as_bytes (port_channel_id_to_string p c)))"

definition default_escrow_address ::
    "transfer_codec \<Rightarrow> (bytes \<Rightarrow> bytes) \<Rightarrow> (string \<Rightarrow> 'acc option) \<Rightarrow> port_id \<Rightarrow> channel_id \<Rightarrow> ('acc, ics20_error) res" where
  "default_escrow_address K hash acc p c =
     bind_res (map_err E20_Signer (signer_from_str (hex_upper K (cosmos_adr028_escrow_address hash p c)))) (\<lambda>sig.
     ok_or (acc sig) E20_ParseAccountFailure)"

section \<open>Events\<close>

definition EVENT_TYPE_PACKET :: string where
  "EVENT_TYPE_PACKET = ''fungible_token_packet''"

definition EVENT_TYPE_TIMEOUT :: string where
  "EVENT_TYPE_TIMEOUT = ''timeout''"

definition EVENT_TYPE_DENOM_TRACE :: string where
  "EVENT_TYPE_DENOM_TRACE = ''denomination_trace''"

definition EVENT_TYPE_TRANSFER :: string where
  "EVENT_TYPE_TRANSFER = ''ibc_transfer''"

definition transfer_event :: "string \<Rightarrow> (string \<times> string) list \<Rightarrow> ibc_event" where
  "transfer_event kind as =
     AppModuleEvent \<lparr>event_kind = kind, event_module_name = TRANSFER_MODULE_ID,
       event_attributes = map (\<lambda>(k, v). \<lparr>attr_key = k, attr_value = v\<rparr>) as\<rparr>"

definition show_bool :: "bool \<Rightarrow> string" where
  "show_bool b = (if b then ''true'' else ''false'')"

definition recv_event :: "u256_text \<Rightarrow> string \<Rightarrow> prefixed_denom \<Rightarrow> amount \<Rightarrow> bool \<Rightarrow> ibc_event" where
  "recv_event T receiver d a success =
     transfer_event EVENT_TYPE_PACKET [(''receiver'', receiver), (''denom'', prefixed_denom_to_string d),
       (''amount'', amount_to_string T a), (''success'', show_bool success)]"

definition ack_event :: "transfer_codec \<Rightarrow> string \<Rightarrow> prefixed_denom \<Rightarrow> amount \<Rightarrow> transfer_ack \<Rightarrow> ibc_event" where
  "ack_event K receiver d a ack =
     transfer_event EVENT_TYPE_PACKET [(''receiver'', receiver), (''denom'', prefixed_denom_to_string d),
       (''amount'', amount_to_string (numbers K) a), (''acknowledgement'', ack_to_json K ack)]"

definition ack_status_event :: "transfer_codec \<Rightarrow> transfer_ack \<Rightarrow> ibc_event" where
  "ack_status_event K ack =
     transfer_event EVENT_TYPE_PACKET [(if ack_is_successful ack then ''success'' else ''error'', ack_to_json K ack)]"

definition timeout_event :: "u256_text \<Rightarrow> string \<Rightarrow> prefixed_denom \<Rightarrow> amount \<Rightarrow> ibc_event" where
  "timeout_event T receiver d a =
     transfer_event EVENT_TYPE_TIMEOUT [(''refund_receiver'', receiver), (''refund_denom'', prefixed_denom_to_string d),
       (''refund_amount'', amount_to_string T a)]"

definition denom_trace_event :: "string option \<Rightarrow> prefixed_denom \<Rightarrow> ibc_event" where
  "denom_trace_event trace_hash d =
     transfer_event EVENT_TYPE_DENOM_TRACE ((''denom'', prefixed_denom_to_string d) #
       (case trace_hash of None \<Rightarrow> [] | Some h \<Rightarrow> [(''trace_hash'', h)]))"

definition sent_event :: "string \<Rightarrow> string \<Rightarrow> ibc_event" where
  "sent_event sender receiver = transfer_event EVENT_TYPE_TRANSFER [(''sender'', sender), (''receiver'', receiver)]"

section \<open>Channel callbacks\<close>

definition validate_transfer_channel_params ::
    "('s, 'acc) ics20_context \<Rightarrow> order \<Rightarrow> port_id \<Rightarrow> channel_id \<Rightarrow> channel_version \<Rightarrow> (unit, ics20_error) res" where
  "validate_transfer_channel_params X ord p c v =
     (if 2 ^ 32 - 1 < channel_sequence c then fail_with (E20_ChanSeqExceedsLimit (channel_sequence c))
      else if ord \<noteq> Unordered then fail_with (E20_ChannelNotUnordered ord)
      else
        bind_res (get_port X) (\<lambda>bound_port.
        if p \<noteq> bound_port then fail_with (E20_InvalidPort p bound_port)
        else if v \<noteq> version_ics20 then fail_with (E20_InvalidVersion v)
        else Inr ()))"

definition validate_counterparty_version :: "channel_version \<Rightarrow> (unit, ics20_error) res" where
  "validate_counterparty_version v =
     (if v = version_ics20 then Inr () else fail_with (E20_InvalidCounterpartyVersion v))"

definition transfer_on_chan_open_init ::
    "('s, 'acc) ics20_context \<Rightarrow> order \<Rightarrow> port_id \<Rightarrow> channel_id \<Rightarrow> channel_version \<Rightarrow> (unit, ics20_error) res" where
  "transfer_on_chan_open_init X ord p c v = validate_transfer_channel_params X ord p c v"

definition transfer_on_chan_open_try ::
    "('s, 'acc) ics20_context \<Rightarrow> order \<Rightarrow> port_id \<Rightarrow> channel_id \<Rightarrow> channel_version \<Rightarrow> channel_version
       \<Rightarrow> (channel_version, ics20_error) res" where
  "transfer_on_chan_open_try X ord p c v w =
     bind_res (validate_transfer_channel_params X ord p c v) (\<lambda>_.
     bind_res (validate_counterparty_version w) (\<lambda>_.
     Inr version_ics20))"

definition transfer_on_chan_open_ack :: "channel_version \<Rightarrow> (unit, ics20_error) res" where
  "transfer_on_chan_open_ack w = bind_res (validate_counterparty_version w) (\<lambda>_. Inr ())"

definition transfer_on_chan_open_confirm :: "(unit, ics20_error) res" where
  "transfer_on_chan_open_confirm = Inr ()"

definition transfer_on_chan_close_init :: "(unit, ics20_error) res" where
  "transfer_on_chan_close_init = Inr ()"

definition transfer_on_chan_close_confirm :: "(unit, ics20_error) res" where
  "transfer_on_chan_close_confirm = Inr ()"

section \<open>Processing of packets\<close>

definition refund_packet_token ::
    "('s, 'acc) ics20_context \<Rightarrow> packet \<Rightarrow> transfer_data \<Rightarrow> ('s, unit, ics20_error) op" where
  "refund_packet_token X p d =
     op_bind (op_lift (ok_or (account_try_from X (td_sender d)) E20_ParseAccountFailure)) (\<lambda>sender.
     if is_sender_chain_source (source_port p) (source_channel p) (coin_denom (td_token d))
     then
       op_bind (op_lift (get_channel_escrow_address X (source_port p) (source_channel p))) (\<lambda>escrow_address.
       send_coins X escrow_address sender (td_token d))
     else mint_coins X sender (td_token d))"

definition process_ack_packet ::
    "('s, 'acc) ics20_context \<Rightarrow> packet \<Rightarrow> transfer_data \<Rightarrow> transfer_ack \<Rightarrow> ('s, unit, ics20_error) op" where
  "process_ack_packet X p d ack =
     (if \<not> ack_is_successful ack then op_then (refund_packet_token X p d) (op_return ()) else op_return ())"

definition process_timeout_packet ::
    "('s, 'acc) ics20_context \<Rightarrow> packet \<Rightarrow> transfer_data \<Rightarrow> ('s, unit, ics20_error) op" where
  "process_timeout_packet X p d = refund_packet_token X p d"

text \<open>An operation that also adds to the output of the module runs on the host together with the output.\<close>

definition emit_event :: "ibc_event \<Rightarrow> ('s \<times> output_builder, unit, 'e) op" where
  "emit_event e = op_update (\<lambda>(s, b). (s, builder_emit e b))"

definition process_recv_packet ::
    "('s, 'acc) ics20_context \<Rightarrow> packet \<Rightarrow> transfer_data \<Rightarrow> ('s \<times> output_builder, unit, ics20_error) op" where
  "process_recv_packet X p d =
     (if \<not> is_receive_enabled X then op_lift (fail_with E20_ReceiveDisabled)
      else
        op_bind (op_lift (ok_or (account_try_from X (td_receiver d)) E20_ParseAccountFailure)) (\<lambda>receiver.
        if is_receiver_chain_source (source_port p) (source_channel p) (coin_denom (td_token d))
        then
          (let prefix = trace_prefix_new (source_port p) (source_channel p);
               coin = (td_token d)\<lparr>coin_denom := remove_trace_prefix prefix (coin_denom (td_token d))\<rparr> in
          op_bind (op_lift (get_channel_escrow_address X (destination_port p) (destination_channel p))) (\<lambda>escrow_address.
          on_host (send_coins X escrow_address receiver coin)))
        else
          (let prefix = trace_prefix_new (destination_port p) (destination_channel p);
               coin = (td_token d)\<lparr>coin_denom := add_trace_prefix prefix (coin_denom (td_token d))\<rparr> in
          op_then (emit_event (denom_trace_event (denom_hash_string X (coin_denom coin)) (coin_denom coin)))
            (on_host (mint_coins X receiver coin)))))"

text \<open>The packet callbacks of the library, for hosts that use them as they are.\<close>

definition transfer_on_recv_packet ::
    "transfer_codec \<Rightarrow> ('s, 'acc) ics20_context \<Rightarrow> packet \<Rightarrow> ('s \<times> output_builder, transfer_ack, 'e) op" where
  "transfer_on_recv_packet K X p = (\<lambda>(s, b).
     case data_from_json K (packet_data p) of
       Inl Panic \<Rightarrow> (panics, (s, b))
     | Inl (Err _) \<Rightarrow> (Inr (ack_from_error (show_ics20 K) E20_PacketDataDeserialization), (s, b))
     | Inr d \<Rightarrow>
         (case process_recv_packet X p d (s, b) of
            (Inl Panic, t) \<Rightarrow> (panics, t)
          | (r, t) \<Rightarrow>
              (let ack = (case r of Inr _ \<Rightarrow> ack_success | Inl f \<Rightarrow> ack_from_error (show_ics20 K) (fault_error f)) in
               op_then (emit_event (recv_event (numbers K) (td_receiver d) (coin_denom (td_token d))
                   (coin_amount (td_token d)) (ack_is_successful ack)))
                 (op_return ack) t)))"

definition transfer_on_acknowledgement_packet ::
    "transfer_codec \<Rightarrow> ('s, 'acc) ics20_context \<Rightarrow> packet \<Rightarrow> bytes \<Rightarrow> ('s \<times> output_builder, unit, ics20_error) op" where
  "transfer_on_acknowledgement_packet K X p a =
     op_bind (op_lift (map_err (\<lambda>_. E20_PacketDataDeserialization) (data_from_json K (packet_data p)))) (\<lambda>d.
     op_bind (op_lift (map_err (\<lambda>_. E20_AckDeserialization) (ack_from_json K a))) (\<lambda>ack.
     op_then (on_host (process_ack_packet X p d ack))
     (op_then (emit_event (ack_event K (td_receiver d) (coin_denom (td_token d)) (coin_amount (td_token d)) ack))
       (emit_event (ack_status_event K ack)))))"

definition transfer_on_timeout_packet ::
    "transfer_codec \<Rightarrow> ('s, 'acc) ics20_context \<Rightarrow> packet \<Rightarrow> ('s \<times> output_builder, unit, ics20_error) op" where
  "transfer_on_timeout_packet K X p =
     op_bind (op_lift (map_err (\<lambda>_. E20_PacketDataDeserialization) (data_from_json K (packet_data p)))) (\<lambda>d.
     op_then (on_host (process_timeout_packet X p d))
       (emit_event (timeout_event (numbers K) (td_sender d) (coin_denom (td_token d)) (coin_amount (td_token d)))))"

section \<open>Sending\<close>

definition send_transfer ::
    "('cs, 'cons, 'msg, 'app) env \<Rightarrow> transfer_codec \<Rightarrow> (('cs, 'cons, 'app) host, 'acc) ics20_context \<Rightarrow> msg_transfer
       \<Rightarrow> (('cs, 'cons, 'app) host \<times> output_builder, unit, ics20_error) op" where
  "send_transfer E K X msg =
     (if \<not> is_send_enabled X then op_lift (fail_with E20_SendDisabled)
      else
        (let key = (mt_source_port msg, mt_source_channel msg) in
        op_bind (op_read (\<lambda>(s, b). map_err E20_Ics04Channel (get_channel_end E s key))) (\<lambda>source_channel_end.
        (let dest_port = cpty_port_id (chan_remote source_channel_end) in
        op_bind (op_lift (ok_or (cpty_channel_id (chan_remote source_channel_end))
          (E20_DestinationChannelNotFound (mt_source_port msg) (mt_source_channel msg)))) (\<lambda>dest_channel.
        op_bind (op_read (\<lambda>(s, b). map_err E20_Ics04Channel (get_next_sequence_send s key))) (\<lambda>sq.
        (let coin = mt_token msg in
        op_bind (op_lift (ok_or (account_try_from X (mt_sender msg)) E20_ParseAccountFailure)) (\<lambda>sender.
        op_then
          (if is_sender_chain_source (mt_source_port msg) (mt_source_channel msg) (coin_denom coin)
           then
             op_bind (op_lift (get_channel_escrow_address X (mt_source_port msg) (mt_source_channel msg))) (\<lambda>escrow_address.
             on_host (send_coins X sender escrow_address coin))
           else on_host (burn_coins X sender coin))
        (let d = \<lparr>td_token = coin, td_sender = mt_sender msg, td_receiver = mt_receiver msg, td_memo = mt_memo msg\<rparr>;
             p = \<lparr>pkt_sequence = sq, source_port = mt_source_port msg, source_channel = mt_source_channel msg,
                  destination_port = dest_port, destination_channel = dest_channel, packet_data = data_to_json K d,
                  timeout_height = mt_timeout_height msg, timeout_timestamp = mt_timeout_timestamp msg\<rparr> in
        op_bind (op_read (\<lambda>(s, b). map_err E20_Ics04Channel (send_packet E s p))) (\<lambda>out.
        op_then (on_host (op_map_err E20_Ics04Channel (store_packet_result E (out_result out))))
        (op_update (\<lambda>(s, b).
           (let b = with_events (out_events out) (with_log (out_log out) b);
                b = builder_add_log (''IBC fungible token transfer: '' @ mt_sender msg @ '' --('' @ coin_to_string (numbers K) coin
                      @ '')--> '' @ mt_receiver msg) b in
            (s, builder_emit (sent_event (mt_sender msg) (mt_receiver msg)) b))))))))))))))"

end
