(* ===== verification/Pallet_Transfer.thy ===== *)
theory Pallet_Transfer
  imports Transfer_Relay
begin

text \<open>
  The ICS20 module of the pallet: its storage (\<^verbatim>\<open>lib.rs\<close>), the context that it gives the transfer library
  (\<^verbatim>\<open>ics20/context.rs\<close>), the module with its channel and packet callbacks (\<^verbatim>\<open>ics20/mod.rs\<close>) and the operations
  of \<^verbatim>\<open>impls.rs\<close> that it calls. The asset pallets of the runtime, the conversion of signers to accounts and the
  texts of errors are parameters, fields of the record \<open>runtime\<close>.
\<close>

section \<open>The runtime and the storage of the pallet\<close>

datatype handler_error =
    SendPacketError "string option"
  | ConnectionIdError "string option"
  | ClientIdError "string option"
  | ChannelOrPortError "string option"
  | ClientStateError "string option"
  | TimestampOrHeightNotFound "string option"
  | SendTransferError "string option"
  | ReceivePacketError "string option"
  | WriteAcknowledgementError "string option"
  | AcknowledgementError "string option"
  | TimeoutError "string option"
  | BindPortError "string option"
  | ChannelInitError "string option"
  | ChannelCloseError "string option"
  | DecodingError "string option"
  | ErrorDecodingPrefix
  | OtherError "string option"

record ('acc, 'asset, 'bank) runtime =
  codec :: transfer_codec
  from_denom_to_asset_id :: "string \<Rightarrow> ('bank, 'asset, unit) op"
  from_asset_id_to_denom :: "'bank \<Rightarrow> 'asset \<Rightarrow> string option"
  native_asset_id :: 'asset
  native_transfer :: "'acc \<Rightarrow> 'acc \<Rightarrow> u128 \<Rightarrow> ('bank, unit, unit) op"
  fungibles_transfer :: "'asset \<Rightarrow> 'acc \<Rightarrow> 'acc \<Rightarrow> u128 \<Rightarrow> ('bank, unit, unit) op"
  fungibles_mint_into :: "'asset \<Rightarrow> 'acc \<Rightarrow> u128 \<Rightarrow> ('bank, unit, unit) op"
  fungibles_burn_from :: "'asset \<Rightarrow> 'acc \<Rightarrow> u128 \<Rightarrow> ('bank, unit, unit) op"
  account_id_conversion :: "string \<Rightarrow> 'acc option"
  send_enabled :: bool
  receive_enabled :: bool
  fee_account :: 'acc
  debug_ics04 :: "ics04_error \<Rightarrow> string"
  debug_handler :: "handler_error \<Rightarrow> string"
  debug_u128 :: "u256 \<Rightarrow> string"
  show_ics04 :: "ics04_error \<Rightarrow> string"
  show_ics26 :: "ics26_error \<Rightarrow> string"
  hex_lower :: "bytes \<Rightarrow> string"
  account_id_to_ss58 :: "bytes \<Rightarrow> string"
  validate_memo :: "string \<Rightarrow> bool"
  service_charge_out :: nat
  perbill_mul :: "nat \<Rightarrow> u128 \<Rightarrow> u128"
  get_flat_fee :: "'asset \<Rightarrow> 'asset \<Rightarrow> u128 \<Rightarrow> u128 option"
  flat_fee_asset_id :: 'asset
  flat_fee_amount :: u128
  spam_protection_deposit :: u128
  native_reserve :: "'acc \<Rightarrow> u128 \<Rightarrow> ('bank, unit, unit) op"

record 'asset token_event =
  te_from :: string
  te_to :: string
  te_ibc_denom :: bytes
  te_local_asset_id :: "'asset option"
  te_amount :: u128
  te_is_source :: bool
  te_source_channel :: bytes
  te_destination_channel :: bytes

datatype 'asset pallet_event =
    Events "(ics26_error + ibc_event) list"
  | TokenTransferInitiated "'asset token_event"
  | TokenTransferCompleted "'asset token_event"
  | TokenReceived "'asset token_event"
  | TokenTransferFailed "'asset token_event"
  | TokenTransferTimeout "'asset token_event"
  | ChargingFeeOnTransferInitiated u64 string string bytes "'asset option" u128 bool bytes bytes
  | ChargingFeeConfirmed u64
  | ChargingFeeTimeout u64
  | ChargingFeeFailedAcknowledgement u64
  | FeeLessChannelIdsAdded u64 u64
  | FeeLessChannelIdsRemoved u64 u64
  | ClientUpgradeSet
  | ClientFrozen bytes u64 u64
  | ClientStateSubstituted string height

record ('acc, 'asset, 'bank) pallet_storage =
  ChannelIds :: "bytes list"
  EscrowAddresses :: "'acc set"
  SequenceFee :: "u64 \<rightharpoonup> u128"
  FeeLessChannelIds :: "(u64 \<times> u64) set"
  ServiceChargeOut :: "nat option"
  top_storage :: "bytes \<rightharpoonup> bytes"
  deposited :: "'asset pallet_event list"
  bank :: 'bank

type_synonym ('cs, 'cons, 'acc, 'asset, 'bank) chain = "('cs, 'cons, ('acc, 'asset, 'bank) pallet_storage) host"

definition on_storage :: "('app \<Rightarrow> 'app) \<Rightarrow> (('cs, 'cons, 'app) host, unit, 'e) op" where
  "on_storage f = op_update (\<lambda>s. s\<lparr>app_storage := f (app_storage s)\<rparr>)"

definition on_bank :: "('bank, 'a, 'e) op \<Rightarrow> (('cs, 'cons, 'acc, 'asset, 'bank) chain, 'a, 'e) op" where
  "on_bank m = (\<lambda>s. case m (bank (app_storage s)) of
     (r, b) \<Rightarrow> (r, s\<lparr>app_storage := (app_storage s)\<lparr>bank := b\<rparr>\<rparr>))"

definition deposit_event :: "'asset pallet_event \<Rightarrow> (('cs, 'cons, 'acc, 'asset, 'bank) chain, unit, 'e) op" where
  "deposit_event e = on_storage (\<lambda>a. a\<lparr>deposited := deposited a @ [e]\<rparr>)"

section \<open>The context of the transfer library\<close>

definition channel_escrow_signer ::
    "transfer_codec \<Rightarrow> (bytes \<Rightarrow> bytes) \<Rightarrow> port_id \<Rightarrow> channel_id \<Rightarrow> (string, ics20_error) res" where
  "channel_escrow_signer K hash p c =
     map_err E20_Signer (signer_from_str (''0x'' @ hex_upper K
       (hash (as_bytes TRANSFER_VERSION @ [0] @ as_bytes (port_channel_id_to_string p c)))))"

definition pallet_escrow_address ::
    "('acc, 'asset, 'bank) runtime \<Rightarrow> (bytes \<Rightarrow> bytes) \<Rightarrow> port_id \<Rightarrow> channel_id \<Rightarrow> ('acc, ics20_error) res" where
  "pallet_escrow_address RT hash p c =
     bind_res (channel_escrow_signer (codec RT) hash p c) (\<lambda>sig.
     ok_or (account_id_conversion RT sig) E20_ParseAccountFailure)"

definition pallet_get_port :: "(nat \<Rightarrow> bool) \<Rightarrow> (port_id, ics20_error) res" where
  "pallet_get_port ua = map_err (E20_InvalidPortId TRANSFER_PORT_ID) (port_id_from_str ua TRANSFER_PORT_ID)"

definition pallet_send_coins ::
    "('acc, 'asset, 'bank) runtime \<Rightarrow> 'acc \<Rightarrow> 'acc \<Rightarrow> prefixed_coin
       \<Rightarrow> (('cs, 'cons, 'acc, 'asset, 'bank) chain, unit, ics20_error) op" where
  "pallet_send_coins RT from to amt =
     op_bind (op_lift (as_u128 (as_u256 (coin_amount amt)))) (\<lambda>a.
     op_bind (op_map_err (\<lambda>_. E20_InvalidToken)
       (on_bank (from_denom_to_asset_id RT (prefixed_denom_to_string (coin_denom amt))))) (\<lambda>asset_id.
     if asset_id = native_asset_id RT
     then op_map_err (\<lambda>_. E20_InvalidToken) (on_bank (native_transfer RT from to a))
     else op_map_err (\<lambda>_. E20_TokenBalanceChange) (on_bank (fungibles_transfer RT asset_id from to a))))"

definition pallet_mint_coins ::
    "('acc, 'asset, 'bank) runtime \<Rightarrow> 'acc \<Rightarrow> prefixed_coin
       \<Rightarrow> (('cs, 'cons, 'acc, 'asset, 'bank) chain, unit, ics20_error) op" where
  "pallet_mint_coins RT account amt =
     op_bind (op_lift (as_u128 (as_u256 (coin_amount amt)))) (\<lambda>a.
     op_bind (op_map_err (\<lambda>_. E20_InvalidToken)
       (on_bank (from_denom_to_asset_id RT (prefixed_denom_to_string (coin_denom amt))))) (\<lambda>asset_id.
     op_map_err (\<lambda>_. E20_TokenBalanceChange) (on_bank (fungibles_mint_into RT asset_id account a))))"

definition pallet_burn_coins ::
    "('acc, 'asset, 'bank) runtime \<Rightarrow> 'acc \<Rightarrow> prefixed_coin
       \<Rightarrow> (('cs, 'cons, 'acc, 'asset, 'bank) chain, unit, ics20_error) op" where
  "pallet_burn_coins RT account amt =
     op_bind (op_lift (as_u128 (as_u256 (coin_amount amt)))) (\<lambda>a.
     op_bind (op_map_err (\<lambda>_. E20_InvalidToken)
       (on_bank (from_denom_to_asset_id RT (prefixed_denom_to_string (coin_denom amt))))) (\<lambda>asset_id.
     op_map_err (\<lambda>_. E20_ImplementationSpecific ''Failed to burn tokens'')
       (on_bank (fungibles_burn_from RT asset_id account a))))"

definition pallet_ics20 ::
    "('cs, 'cons, 'msg, ('acc, 'asset, 'bank) pallet_storage) env \<Rightarrow> ('acc, 'asset, 'bank) runtime
       \<Rightarrow> (('cs, 'cons, 'acc, 'asset, 'bank) chain, 'acc) ics20_context" where
  "pallet_ics20 E RT =
     \<lparr>get_port = pallet_get_port (unicode_alnum E),
      get_channel_escrow_address = pallet_escrow_address RT (sha2_256 E),
      is_send_enabled = send_enabled RT, is_receive_enabled = receive_enabled RT,
      denom_hash_string = (\<lambda>_. None), account_try_from = account_id_conversion RT,
      send_coins = pallet_send_coins RT, mint_coins = pallet_mint_coins RT, burn_coins = pallet_burn_coins RT\<rparr>"

section \<open>Operations of the pallet that the module calls\<close>

definition write_acknowledgement ::
    "('cs, 'cons, 'msg, ('acc, 'asset, 'bank) pallet_storage) env \<Rightarrow> ('acc, 'asset, 'bank) runtime \<Rightarrow> packet \<Rightarrow> bytes
       \<Rightarrow> (('cs, 'cons, 'acc, 'asset, 'bank) chain, unit, handler_error) op" where
  "write_acknowledgement E RT p ack =
     (let error = (\<lambda>action err. AcknowledgementError (Some (''Failed to '' @ action @ '' acknowledgement'' @ debug_ics04 RT err))) in
     op_bind (op_read (\<lambda>s. map_err (error ''validate'') (write_acknowledgement_process E s p ack))) (\<lambda>out.
     op_then (op_map_err (error ''store'') (store_packet_result E (out_result out)))
       (deposit_event (Events (map Inr (out_events out))))))"

definition remove_channel_escrow_address ::
    "('cs, 'cons, 'msg, ('acc, 'asset, 'bank) pallet_storage) env \<Rightarrow> ('acc, 'asset, 'bank) runtime \<Rightarrow> port_id \<Rightarrow> channel_id
       \<Rightarrow> (('cs, 'cons, 'acc, 'asset, 'bank) chain, unit, ics04_error) op" where
  "remove_channel_escrow_address E RT p c =
     op_bind (op_lift (map_err (\<lambda>_. E04_ImplementationSpecific ''Failed to derive channel escrow address for removal'')
       (pallet_escrow_address RT (sha2_256 E) p c))) (\<lambda>account_id.
     on_storage (\<lambda>a. a\<lparr>EscrowAddresses := EscrowAddresses a - {account_id}\<rparr>))"

definition is_escrow_address :: "('cs, 'cons, 'acc, 'asset, 'bank) chain \<Rightarrow> 'acc \<Rightarrow> bool" where
  "is_escrow_address s a \<longleftrightarrow> a \<in> EscrowAddresses (app_storage s)"

text \<open>The asset of a denomination for an event: \<^verbatim>\<open>ok\<close> turns an error into none.\<close>

definition local_asset_id ::
    "('acc, 'asset, 'bank) runtime \<Rightarrow> string \<Rightarrow> (('cs, 'cons, 'acc, 'asset, 'bank) chain, 'asset option, 'e) op" where
  "local_asset_id RT denom = (\<lambda>s.
     case on_bank (from_denom_to_asset_id RT denom) s of
       (Inr a, t) \<Rightarrow> (Inr (Some a), t)
     | (Inl (Err _), t) \<Rightarrow> (Inr None, t)
     | (Inl Panic, t) \<Rightarrow> (panics, t))"

definition full_ibc_denom :: "packet \<Rightarrow> prefixed_coin \<Rightarrow> string" where
  "full_ibc_denom p token =
     (if is_receiver_chain_source (source_port p) (source_channel p) (coin_denom token)
      then prefixed_denom_to_string
        (remove_trace_prefix (trace_prefix_new (source_port p) (source_channel p)) (coin_denom token))
      else prefixed_denom_to_string
        (add_trace_prefix (trace_prefix_new (destination_port p) (destination_channel p)) (coin_denom token)))"

text \<open>The event of a token that moves by a packet, with its amount and local asset.\<close>

definition packet_token_event ::
    "('acc, 'asset, 'bank) runtime \<Rightarrow> packet \<Rightarrow> transfer_data \<Rightarrow> string \<Rightarrow> bool
       \<Rightarrow> (('cs, 'cons, 'acc, 'asset, 'bank) chain, 'asset token_event, 'e) op" where
  "packet_token_event RT p d denom is_source =
     op_bind (local_asset_id RT denom) (\<lambda>asset.
     op_bind (op_lift (as_u128 (as_u256 (coin_amount (td_token d))))) (\<lambda>a.
     op_return \<lparr>te_from = td_sender d, te_to = td_receiver d, te_ibc_denom = as_bytes denom, te_local_asset_id = asset,
       te_amount = a, te_is_source = is_source,
       te_source_channel = as_bytes (channel_id_to_string (source_channel p)),
       te_destination_channel = as_bytes (channel_id_to_string (destination_channel p))\<rparr>))"

section \<open>Channel callbacks of the module\<close>

definition shown20 :: "('acc, 'asset, 'bank) runtime \<Rightarrow> ics20_error \<Rightarrow> ics04_error" where
  "shown20 RT e = E04_ImplementationSpecific (show_ics20 (codec RT) e)"

definition add_channel_id :: "channel_id \<Rightarrow> (('cs, 'cons, 'acc, 'asset, 'bank) chain, unit, 'e) op" where
  "add_channel_id c = on_storage (\<lambda>a. a\<lparr>ChannelIds := ChannelIds a @ [as_bytes (channel_id_to_string c)]\<rparr>)"

definition remove_channel_id :: "channel_id \<Rightarrow> (('cs, 'cons, 'acc, 'asset, 'bank) chain, unit, 'e) op" where
  "remove_channel_id c =
     on_storage (\<lambda>a. a\<lparr>ChannelIds := filter (\<lambda>x. x \<noteq> as_bytes (channel_id_to_string c)) (ChannelIds a)\<rparr>)"

text \<open>\<^verbatim>\<open>let _ =\<close>: the result is dropped; only a panic goes on.\<close>

definition op_ignore :: "('s, 'a, 'e) op \<Rightarrow> ('s, unit, 'f) op" where
  "op_ignore m = (\<lambda>s. case m s of (Inl Panic, t) \<Rightarrow> (panics, t) | (_, t) \<Rightarrow> (Inr (), t))"

definition pallet_on_chan_open_ack ::
    "('acc, 'asset, 'bank) runtime \<Rightarrow> channel_id \<Rightarrow> channel_version
       \<Rightarrow> (('cs, 'cons, 'acc, 'asset, 'bank) chain, unit, ics04_error) op" where
  "pallet_on_chan_open_ack RT c w =
     op_then (add_channel_id c) (op_lift (map_err (shown20 RT) (transfer_on_chan_open_ack w)))"

definition pallet_on_chan_open_confirm ::
    "('acc, 'asset, 'bank) runtime \<Rightarrow> channel_id \<Rightarrow> (('cs, 'cons, 'acc, 'asset, 'bank) chain, unit, ics04_error) op" where
  "pallet_on_chan_open_confirm RT c =
     op_then (add_channel_id c) (op_lift (map_err (shown20 RT) transfer_on_chan_open_confirm))"

definition pallet_on_chan_close ::
    "('cs, 'cons, 'msg, ('acc, 'asset, 'bank) pallet_storage) env \<Rightarrow> ('acc, 'asset, 'bank) runtime
       \<Rightarrow> (unit, ics20_error) res \<Rightarrow> port_id \<Rightarrow> channel_id
       \<Rightarrow> (('cs, 'cons, 'acc, 'asset, 'bank) chain, unit, ics04_error) op" where
  "pallet_on_chan_close E RT answer p c =
     op_then (remove_channel_id c)
     (op_then (op_ignore (remove_channel_escrow_address E RT p c))
       (op_lift (map_err (shown20 RT) answer)))"

section \<open>Packet callbacks of the module\<close>

text \<open>What the module does with the data of a received packet before it answers.\<close>

definition receive_tokens ::
    "('cs, 'cons, 'msg, ('acc, 'asset, 'bank) pallet_storage) env \<Rightarrow> ('acc, 'asset, 'bank) runtime \<Rightarrow> packet
       \<Rightarrow> (('cs, 'cons, 'acc, 'asset, 'bank) chain, transfer_data) callback" where
  "receive_tokens E RT p =
     op_bind (op_lift (map_err (\<lambda>e. E04_ImplementationSpecific (''Failed to decode packet data '' @ e))
       (data_from_json (codec RT) (packet_data p)))) (\<lambda>d.
     op_bind (op_lift (map_err (\<lambda>_. E04_ImplementationSpecific ''Failed to parse token denom'')
       (prefixed_denom_from_str (unicode_alnum E) (full_ibc_denom p (td_token d))))) (\<lambda>_.
     (let a = as_u256 (coin_amount (td_token d)) in
     op_then (op_lift (if unat a < 2 ^ 128 then Inr () else fail_with (E04_ImplementationSpecific (debug_u128 RT a))))
     (op_then (op_map_err (shown20 RT) (process_recv_packet (pallet_ics20 E RT) p d))
       (op_return d)))))"

definition module_write_ack ::
    "('cs, 'cons, 'msg, ('acc, 'asset, 'bank) pallet_storage) env \<Rightarrow> ('acc, 'asset, 'bank) runtime \<Rightarrow> packet \<Rightarrow> bytes
       \<Rightarrow> (('cs, 'cons, 'acc, 'asset, 'bank) chain, unit) callback" where
  "module_write_ack E RT p ack =
     on_host (op_map_err (\<lambda>e. E04_ImplementationSpecific (''[on_recv_packet] '' @ debug_handler RT e))
       (write_acknowledgement E RT p ack))"

definition pallet_on_recv_packet ::
    "('cs, 'cons, 'msg, ('acc, 'asset, 'bank) pallet_storage) env \<Rightarrow> ('acc, 'asset, 'bank) runtime \<Rightarrow> packet
       \<Rightarrow> (('cs, 'cons, 'acc, 'asset, 'bank) chain, bytes) callback" where
  "pallet_on_recv_packet E RT p = (\<lambda>h.
     case receive_tokens E RT p h of
       (Inl Panic, h) \<Rightarrow> (panics, h)
     | (Inl (Err e), h) \<Rightarrow>
         (let ack = as_bytes (ack_to_json (codec RT) (AckError (ACK_ERR_STR @ '': '' @ debug_ics04 RT e))) in
          op_then (module_write_ack E RT p ack) (op_return ack) h)
     | (Inr d, h) \<Rightarrow>
         (let denom = full_ibc_denom p (td_token d); ack = as_bytes (ack_to_json (codec RT) ack_success) in
          op_bind (op_lift (map_err (\<lambda>_. E04_ImplementationSpecific ''Failed to parse token denom'')
            (prefixed_denom_from_str (unicode_alnum E) denom))) (\<lambda>prefixed_denom.
          op_then (on_host (op_bind (packet_token_event RT p d denom
              (is_receiver_chain_source (source_port p) (source_channel p) prefixed_denom)) (\<lambda>ev.
            deposit_event (TokenReceived ev))))
          (op_then (module_write_ack E RT p ack) (op_return ack))) h))"

definition refund_fee ::
    "('acc, 'asset, 'bank) runtime \<Rightarrow> packet \<Rightarrow> transfer_data
       \<Rightarrow> (('cs, 'cons, 'acc, 'asset, 'bank) chain, unit, ics04_error) op" where
  "refund_fee RT p d =
     op_bind (op_read (\<lambda>s. Inr (SequenceFee (app_storage s) (pkt_sequence p)))) (\<lambda>entry.
     case entry of
       None \<Rightarrow> op_return ()
     | Some fee \<Rightarrow>
         op_then (on_storage (\<lambda>a. a\<lparr>SequenceFee := (SequenceFee a)(pkt_sequence p := None)\<rparr>))
         (op_bind (op_lift (ok_or (account_id_conversion RT (td_sender d))
           (E04_ImplementationSpecific ''Failed to parse receiver account''))) (\<lambda>refund_to.
         op_map_err (\<lambda>_. E04_ImplementationSpecific ''Failed to refund fee to sender account'')
           (pallet_send_coins RT (fee_account RT) refund_to ((td_token d)\<lparr>coin_amount := Amount (ucast fee)\<rparr>)))))"

definition pallet_on_acknowledgement_packet ::
    "('cs, 'cons, 'msg, ('acc, 'asset, 'bank) pallet_storage) env \<Rightarrow> ('acc, 'asset, 'bank) runtime \<Rightarrow> packet \<Rightarrow> bytes
       \<Rightarrow> (('cs, 'cons, 'acc, 'asset, 'bank) chain, unit, ics04_error) op" where
  "pallet_on_acknowledgement_packet E RT p a =
     op_bind (op_lift (map_err (\<lambda>e. E04_ImplementationSpecific (''Failed to decode packet data '' @ e))
       (data_from_json (codec RT) (packet_data p)))) (\<lambda>d.
     op_bind (op_lift (map_err (\<lambda>e. E04_ImplementationSpecific (''Failed to decode acknowledgement data '' @ e))
       (ack_from_json (codec RT) a))) (\<lambda>ack.
     op_then (op_map_err (shown20 RT) (process_ack_packet (pallet_ics20 E RT) p d ack))
     (let denom = prefixed_denom_to_string (coin_denom (td_token d));
          is_source = is_sender_chain_source (source_port p) (source_channel p) (coin_denom (td_token d)) in
     case ack_into_result ack of
       Inr _ \<Rightarrow>
         op_then (op_bind (op_read (\<lambda>s. Inr (SequenceFee (app_storage s) (pkt_sequence p)))) (\<lambda>entry.
           if entry \<noteq> None
           then op_then (on_storage (\<lambda>a. a\<lparr>SequenceFee := (SequenceFee a)(pkt_sequence p := None)\<rparr>))
             (deposit_event (ChargingFeeConfirmed (pkt_sequence p)))
           else op_return ()))
         (op_bind (packet_token_event RT p d denom is_source) (\<lambda>ev. deposit_event (TokenTransferCompleted ev)))
     | Inl _ \<Rightarrow>
         op_then (refund_fee RT p d)
         (op_then (deposit_event (ChargingFeeFailedAcknowledgement (pkt_sequence p)))
         (op_bind (packet_token_event RT p d denom is_source) (\<lambda>ev. deposit_event (TokenTransferFailed ev)))))))"

definition pallet_on_timeout_packet ::
    "('cs, 'cons, 'msg, ('acc, 'asset, 'bank) pallet_storage) env \<Rightarrow> ('acc, 'asset, 'bank) runtime \<Rightarrow> packet
       \<Rightarrow> (('cs, 'cons, 'acc, 'asset, 'bank) chain, unit, ics04_error) op" where
  "pallet_on_timeout_packet E RT p =
     op_bind (op_lift (map_err (\<lambda>e. E04_AppModule (''Failed to decode packet data '' @ e))
       (data_from_json (codec RT) (packet_data p)))) (\<lambda>d.
     op_then (op_map_err (\<lambda>e. E04_AppModule (show_ics20 (codec RT) e)) (process_timeout_packet (pallet_ics20 E RT) p d))
     (op_then (refund_fee RT p d)
     (op_then (deposit_event (ChargingFeeTimeout (pkt_sequence p)))
     (op_bind (packet_token_event RT p d (prefixed_denom_to_string (coin_denom (td_token d)))
         (is_sender_chain_source (source_port p) (source_channel p) (coin_denom (td_token d)))) (\<lambda>ev.
       deposit_event (TokenTransferTimeout ev))))))"

definition transfer_module ::
    "('cs, 'cons, 'msg, ('acc, 'asset, 'bank) pallet_storage) env \<Rightarrow> ('acc, 'asset, 'bank) runtime
       \<Rightarrow> ('cs, 'cons, 'acc, 'asset, 'bank) chain ibc_module" where
  "transfer_module E RT =
     \<lparr>on_chan_open_init = (\<lambda>ord hops p c q v relayer.
        op_lift (map_err (shown20 RT) (transfer_on_chan_open_init (pallet_ics20 E RT) ord p c v))),
      on_chan_open_try = (\<lambda>ord hops p c q v w relayer.
        op_lift (map_err (shown20 RT) (transfer_on_chan_open_try (pallet_ics20 E RT) ord p c v w))),
      on_chan_open_ack = (\<lambda>p c w relayer. on_host (pallet_on_chan_open_ack RT c w)),
      on_chan_open_confirm = (\<lambda>p c relayer. on_host (pallet_on_chan_open_confirm RT c)),
      on_chan_close_init = (\<lambda>p c relayer. on_host (pallet_on_chan_close E RT transfer_on_chan_close_init p c)),
      on_chan_close_confirm = (\<lambda>p c relayer. on_host (pallet_on_chan_close E RT transfer_on_chan_close_confirm p c)),
      on_recv_packet = (\<lambda>p relayer. pallet_on_recv_packet E RT p),
      on_acknowledgement_packet = (\<lambda>p a relayer. on_host (pallet_on_acknowledgement_packet E RT p a)),
      on_timeout_packet = (\<lambda>p relayer. on_host (pallet_on_timeout_packet E RT p))\<rparr>"

end
