(* ===== verification/Runtime_Router.thy ===== *)
theory Runtime_Router
  imports Pallet_Transfer
begin

text \<open>
  The modules of the parachain runtime and its router: the ping application (\<^verbatim>\<open>pallet-ibc/ping/src/lib.rs\<close>), the
  router of the runtime (\<^verbatim>\<open>utils/parachain-node/runtime/src/lib.rs\<close>) and, in front of it, the router of the pallet
  with the transfer module. Every module keeps to its own storage and to acknowledgements, so that the router is
  an instance of the interface \<open>routed_modules\<close> and what the runtime executes is a run of the host.
\<close>

section \<open>The ping application\<close>

definition PING_MODULE_ID :: string where
  "PING_MODULE_ID = ''PalletIbcPing''"

definition PING_PORT_ID :: string where
  "PING_PORT_ID = ''ping''"

definition PING_VERSION :: string where
  "PING_VERSION = ''ping-1''"

definition ping_on_chan_open_try ::
    "(nat \<Rightarrow> bool) \<Rightarrow> order \<Rightarrow> port_id \<Rightarrow> chan_counterparty \<Rightarrow> channel_version \<Rightarrow> channel_version
       \<Rightarrow> (channel_version, ics04_error) res" where
  "ping_on_chan_open_try ua ord p q v w =
     (if channel_version_str w \<noteq> PING_VERSION \<or> channel_version_str v \<noteq> PING_VERSION then fail_with E04_NoCommonVersion
      else if ord \<noteq> Ordered then fail_with (E04_Malformed (E04_UnknownOrderType (order_as_str ord)))
      else
        (case port_id_from_str ua PING_PORT_ID of
           Inl _ \<Rightarrow> panics
         | Inr ping_port \<Rightarrow>
             if cpty_port_id q \<noteq> ping_port \<or> p \<noteq> ping_port
             then fail_with (E04_ImplementationSpecific ''Invalid counterparty port '')
             else Inr v))"

definition ping_on_recv_packet ::
    "('cs, 'cons, 'msg, ('acc, 'asset, 'bank) pallet_storage) env \<Rightarrow> ('acc, 'asset, 'bank) runtime \<Rightarrow> packet
       \<Rightarrow> (('cs, 'cons, 'acc, 'asset, 'bank) chain, bytes, ics04_error) op" where
  "ping_on_recv_packet E RT p =
     (let success = as_bytes ''ping-success'' in
      op_then (op_map_err (\<lambda>e. E04_ImplementationSpecific (debug_handler RT e)) (write_acknowledgement E RT p success))
        (op_return success))"

definition ping_module ::
    "('cs, 'cons, 'msg, ('acc, 'asset, 'bank) pallet_storage) env \<Rightarrow> ('acc, 'asset, 'bank) runtime
       \<Rightarrow> ('cs, 'cons, 'acc, 'asset, 'bank) chain ibc_module" where
  "ping_module E RT =
     \<lparr>on_chan_open_init = (\<lambda>ord hops p c q v relayer. op_return ()),
      on_chan_open_try = (\<lambda>ord hops p c q v w relayer. op_lift (ping_on_chan_open_try (unicode_alnum E) ord p q v w)),
      on_chan_open_ack = (\<lambda>p c w relayer. op_return ()),
      on_chan_open_confirm = (\<lambda>p c relayer. op_return ()),
      on_chan_close_init = (\<lambda>p c relayer. op_return ()),
      on_chan_close_confirm = (\<lambda>p c relayer. op_return ()),
      on_recv_packet = (\<lambda>p relayer. on_host (ping_on_recv_packet E RT p)),
      on_acknowledgement_packet = (\<lambda>p a relayer. op_return ()),
      on_timeout_packet = (\<lambda>p relayer. op_return ())\<rparr>"

section \<open>The router of the runtime\<close>

definition runtime_get_route ::
    "('cs, 'cons, 'msg, ('acc, 'asset, 'bank) pallet_storage) env \<Rightarrow> ('acc, 'asset, 'bank) runtime \<Rightarrow> module_id
       \<Rightarrow> ('cs, 'cons, 'acc, 'asset, 'bank) chain ibc_module option" where
  "runtime_get_route E RT i = (if module_id_str i = PING_MODULE_ID then Some (ping_module E RT) else None)"

definition runtime_has_route :: "module_id \<Rightarrow> bool" where
  "runtime_has_route i \<longleftrightarrow> module_id_str i = PING_MODULE_ID"

definition runtime_lookup_module :: "(nat \<Rightarrow> bool) \<Rightarrow> port_id \<Rightarrow> module_id option" where
  "runtime_lookup_module ua p =
     (if port_id_str p = PING_PORT_ID then res_ok (module_id_new ua PING_MODULE_ID) else None)"

definition runtime_router ::
    "('cs, 'cons, 'msg, ('acc, 'asset, 'bank) pallet_storage) env \<Rightarrow> ('acc, 'asset, 'bank) runtime
       \<Rightarrow> ('cs, 'cons, 'acc, 'asset, 'bank) chain ibc_router" where
  "runtime_router E RT =
     \<lparr>ibc_transfer = transfer_module E RT, sub_get_route = runtime_get_route E RT, sub_has_route = runtime_has_route,
      sub_lookup_module = runtime_lookup_module (unicode_alnum E)\<rparr>"

section \<open>The modules are confined\<close>

named_theorems effect_intros

lemma module_effect_storage: "module_effect s (s\<lparr>app_storage := x\<rparr>)"
  by (simp add: module_effect_def child_get_def store_key_def)

text \<open>Operations on the host that, whatever they return, change no more than a module may.\<close>

definition effect_confined :: "(('cs, 'cons, 'app) host, 'a, 'e) op \<Rightarrow> bool" where
  "effect_confined m \<longleftrightarrow> (\<forall>s. module_effect s (snd (m s)))"

lemma effect_basic [effect_intros]:
  "effect_confined (op_return x)" "effect_confined (op_lift r)" "effect_confined (op_read f)"
  "effect_confined (on_storage g)" "effect_confined (on_bank b)" "effect_confined (deposit_event e)"
  by (auto simp: effect_confined_def on_storage_def on_bank_def deposit_event_def module_effect_storage
      split: prod.splits)

lemma effect_bind [effect_intros]:
  assumes "effect_confined m" and "\<And>x. effect_confined (f x)"
  shows "effect_confined (op_bind m f)"
proof -
  have "module_effect s (snd (op_bind m f s))" for s
    using assms module_effect_trans [of s "snd (m s)"]
    by (simp add: effect_confined_def op_bind_apply split: sum.splits)
  then show ?thesis by (simp add: effect_confined_def)
qed

lemma effect_then [effect_intros]: "effect_confined m \<Longrightarrow> effect_confined n \<Longrightarrow> effect_confined (op_then m n)"
  unfolding op_then_def by (rule effect_bind)

lemma effect_map_err [effect_intros]: "effect_confined m \<Longrightarrow> effect_confined (op_map_err g m)"
  by (simp add: effect_confined_def op_map_err_def case_prod_unfold)

lemma op_ignore_state: "snd (op_ignore m s) = snd (m s)"
  by (simp add: op_ignore_def split: prod.splits sum.splits fault.splits)

lemma effect_ignore [effect_intros]: "effect_confined m \<Longrightarrow> effect_confined (op_ignore m)"
  by (simp add: effect_confined_def op_ignore_state)

lemma effect_local_asset [effect_intros]: "effect_confined (local_asset_id RT d)"
  by (auto simp: effect_confined_def local_asset_id_def on_bank_def module_effect_storage
      split: prod.splits sum.splits fault.splits)

lemma effect_write_ack [effect_intros]: "effect_confined (write_acknowledgement E RT p ack)"
proof -
  have raw: "effect_confined (store_raw_acknowledgement k b)" and com: "effect_confined (store_packet_acknowledgement k c)" for k b c
    by (simp_all add: effect_confined_def module_effect_store_raw module_effect_store_ack)
  show ?thesis
    unfolding effect_confined_def
  proof
    fix s
    show "module_effect s (snd (write_acknowledgement E RT p ack s))"
    proof (cases "write_acknowledgement_process E s p ack")
      case (Inl e)
      then show ?thesis
        by (cases e) (simp_all add: write_acknowledgement_def)
    next
      case (Inr out)
      then obtain r where r: "out_result out = WriteAckResult r"
        by (auto simp: write_acknowledgement_ok)
      have "effect_confined (op_then (op_map_err f (store_packet_result E (WriteAckResult r))) (deposit_event ev))"
        for f :: "ics04_error \<Rightarrow> handler_error" and ev
        by (simp add: store_packet_result.simps) (intro effect_intros raw com)
      then have "module_effect s (snd (op_then (op_map_err f (store_packet_result E (WriteAckResult r))) (deposit_event ev) s))"
        for f :: "ics04_error \<Rightarrow> handler_error" and ev
        by (simp only: effect_confined_def)
      with Inr r show ?thesis
        by (simp add: write_acknowledgement_def del: store_packet_result.simps)
    qed
  qed
qed

lemma effect_context [effect_intros]:
  "effect_confined (pallet_send_coins RT a b c)" "effect_confined (pallet_mint_coins RT a c)"
  "effect_confined (pallet_burn_coins RT a c)"
  by (auto simp: pallet_send_coins_def pallet_mint_coins_def pallet_burn_coins_def intro!: effect_intros)

lemma pallet_ics20_simps [simp]:
  "send_coins (pallet_ics20 E RT) = pallet_send_coins RT" "mint_coins (pallet_ics20 E RT) = pallet_mint_coins RT"
  "burn_coins (pallet_ics20 E RT) = pallet_burn_coins RT"
  "get_channel_escrow_address (pallet_ics20 E RT) = pallet_escrow_address RT (sha2_256 E)"
  "account_try_from (pallet_ics20 E RT) = account_id_conversion RT"
  "is_receive_enabled (pallet_ics20 E RT) = receive_enabled RT" "is_send_enabled (pallet_ics20 E RT) = send_enabled RT"
  "get_port (pallet_ics20 E RT) = pallet_get_port (unicode_alnum E)" "denom_hash_string (pallet_ics20 E RT) d = None"
  by (simp_all add: pallet_ics20_def)

lemma effect_refund [effect_intros]:
  "effect_confined (refund_packet_token (pallet_ics20 E RT) p d)" "effect_confined (refund_fee RT p d)"
  by (auto simp: refund_packet_token_def refund_fee_def intro!: effect_intros split: option.split)

lemma effect_token_event [effect_intros]: "effect_confined (packet_token_event RT p d n b)"
  by (auto simp: packet_token_event_def intro!: effect_intros)

lemma effect_callbacks:
  "effect_confined (pallet_on_chan_open_ack RT c w)" "effect_confined (pallet_on_chan_open_confirm RT c)"
  "effect_confined (pallet_on_chan_close E RT r p c)" "effect_confined (pallet_on_acknowledgement_packet E RT pk a)"
  "effect_confined (pallet_on_timeout_packet E RT pk)" "effect_confined (ping_on_recv_packet E RT pk)"
  by (auto simp: pallet_on_chan_open_ack_def pallet_on_chan_open_confirm_def pallet_on_chan_close_def add_channel_id_def
      remove_channel_id_def remove_channel_escrow_address_def pallet_on_acknowledgement_packet_def process_ack_packet_def
      pallet_on_timeout_packet_def process_timeout_packet_def ping_on_recv_packet_def Let_def
      intro!: effect_intros split: sum.split)

lemma confined_effect [confined_intros]: "effect_confined m \<Longrightarrow> confined (on_host m)"
  by (rule confined_host) (simp add: effect_confined_def)

lemma confined_emit [confined_intros]: "confined (emit_event e)"
  unfolding emit_event_def by (rule confined_output)

lemma receive_tokens_confined: "confined (receive_tokens E RT p)"
  by (auto simp: receive_tokens_def process_recv_packet_def Let_def intro!: confined_intros effect_intros)

lemma module_write_ack_confined [confined_intros]: "confined (module_write_ack E RT p ack)"
  unfolding module_write_ack_def by (intro confined_intros effect_intros)

lemma confined_after:
  assumes "confined m" and "m h = (r, h')" and "confined n"
  shows "module_effect (fst h) (fst (snd (n h')))"
proof -
  have "module_effect (fst h) (fst h')"
    using assms(1,2) unfolding confined_def by (metis prod.collapse snd_conv)
  moreover have "module_effect (fst h') (fst (snd (n h')))"
    using assms(3) unfolding confined_def by (metis prod.collapse)
  ultimately show ?thesis by (rule module_effect_trans)
qed

lemma pallet_on_recv_confined: "confined (pallet_on_recv_packet E RT p)"
  unfolding confined_def
proof (intro allI)
  fix s b
  obtain r h where m: "receive_tokens E RT p (s, b) = (r, h)" by (metis prod.exhaust)
  have after: "confined n \<Longrightarrow> module_effect s (fst (snd (n h)))" for n :: "(_, bytes) callback"
    using confined_after [OF receive_tokens_confined m] by simp
  show "module_effect s (fst (snd (pallet_on_recv_packet E RT p (s, b))))"
  proof (cases r)
    case (Inl f)
    have "confined (op_then (module_write_ack E RT p a) (op_return a'))" for a and a' :: bytes
      by (intro confined_intros)
    from after [OF this] after [OF confined_basic(2), of panics] m Inl show ?thesis
      by (cases f) (simp_all add: pallet_on_recv_packet_def Let_def)
  next
    case (Inr d)
    have "confined (op_bind (op_lift q) (\<lambda>pd. op_then (on_host (op_bind (packet_token_event RT p d n (g pd)) (\<lambda>ev.
        deposit_event (TokenReceived ev)))) (op_then (module_write_ack E RT p a) (op_return a'))))"
      for q and g and n a and a' :: bytes
      by (intro confined_intros effect_intros)
    from after [OF this] m Inr show ?thesis
      by (simp add: pallet_on_recv_packet_def Let_def del: op_bind_basic)
  qed
qed

lemma transfer_module_confined: "module_confined (transfer_module E RT)"
  by (simp add: module_confined_def transfer_module_def confined_basic confined_effect effect_callbacks
      pallet_on_recv_confined)

lemma ping_module_confined: "module_confined (ping_module E RT)"
  by (simp add: module_confined_def ping_module_def confined_basic confined_effect effect_callbacks)

interpretation runtime_routes: routed_modules "runtime_router E RT" for E RT
  by unfold_locales
    (auto simp: get_route_mut_def runtime_router_def runtime_get_route_def transfer_module_confined ping_module_confined
      split: if_splits)

end
