(* ===== verification/Pallet_Calls.thy ===== *)
theory Pallet_Calls
  imports Runtime_Router
begin

text \<open>
  What users and other pallets call: the handler that modules use to send packets and transfers, to open and close
  channels and to write acknowledgements (\<^verbatim>\<open>pallet-ibc/src/impls.rs\<close>, with the messages of
  \<^verbatim>\<open>primitives/src/lib.rs\<close>), the extrinsics of the pallet (\<^verbatim>\<open>pallet-ibc/src/lib.rs\<close>) and that of the ping pallet. The
  origin of an extrinsic is given as the account that the configured origin check finds, or none. Error texts keep
  their constant part where the source appends values.
\<close>

section \<open>Messages of the handler\<close>

datatype timeout =
    TimeoutOffset (timeout_timestamp_of: "u64 option") (timeout_height_of: "u64 option")
  | TimeoutAbsolute (timeout_timestamp_of: "u64 option") (timeout_height_of: "u64 option")

datatype handler_message =
    HandlerOpenChannel port_id channel_end
  | HandlerCloseChannel channel_id port_id
  | HandlerTransfer channel_id prefixed_coin timeout bytes string string
  | HandlerSendPacket bytes timeout port_id channel_id
  | HandlerWriteAck bytes packet

datatype multi_address = MultiAddressId bytes | MultiAddressRaw bytes

record transfer_params =
  tpa_to :: multi_address
  tpa_source_channel :: u64
  tpa_timeout :: timeout

datatype pallet_error =
    PE_ProcessingError | PE_DecodingError | PE_EncodingError | PE_ProofGenerationError | PE_ConsensusStateNotFound
  | PE_ChannelNotFound | PE_ClientStateNotFound | PE_ConnectionNotFound | PE_PacketCommitmentNotFound
  | PE_PacketReceiptNotFound | PE_PacketAcknowledgmentNotFound | PE_SendPacketError | PE_InvalidChannelId
  | PE_InvalidPortId | PE_Other | PE_InvalidRoute | PE_InvalidMessageType | PE_TransferInternals | PE_TransferSerde
  | PE_TransferOther | PE_TransferProtocol | PE_TransferSend | PE_Utf8Error | PE_InvalidAssetId
  | PE_PrefixedDenomParse | PE_InvalidAmount | PE_InvalidTimestamp | PE_FailedToGetRevisionNumber
  | PE_InvalidParams | PE_ChannelInitError | PE_TimestampAndHeightNotFound | PE_ChannelEscrowAddress
  | PE_WriteAckError | PE_ClientUpdateNotFound | PE_ClientFreezeFailed | PE_AccessDenied | PE_RateLimiter
  | PE_FailedSendFeeToAccount | PE_OriginAddress | PE_InvalidMemo

text \<open>Besides its own errors a call ends with the error of the origin check or of the currency.\<close>

datatype dispatch_error = BadOrigin | CurrencyError | PalletError pallet_error

section \<open>The latest height and time of the counterparty\<close>

definition channel_client_id ::
    "('cs, 'cons, 'msg, 'app) env \<Rightarrow> ('cs, 'cons, 'app) host \<Rightarrow> channel_end \<Rightarrow> (client_id, pallet_error) res" where
  "channel_client_id E s ch =
     (case chan_connection_hops ch of
        [] \<Rightarrow> fail_with PE_ConnectionNotFound
      | k # ks \<Rightarrow>
          bind_res (map_err (\<lambda>_. PE_ConnectionNotFound) (get_connection_end E s k)) (\<lambda>conn.
          Inr (conn_client_id conn)))"

definition latest_height_and_timestamp ::
    "('cs, 'cons, 'msg, 'app) env \<Rightarrow> ('cs, 'cons, 'app) host \<Rightarrow> port_id \<Rightarrow> channel_id
       \<Rightarrow> (height \<times> timestamp, handler_error) res" where
  "latest_height_and_timestamp E s p c =
     bind_res (map_err (\<lambda>_. ChannelOrPortError (Some (''Failed to fetch Channel end for channel ''
       @ channel_id_to_string c @ '' from storage''))) (get_channel_end E s (p, c))) (\<lambda>ch.
     bind_res (map_err (\<lambda>_. ClientIdError (Some ''Could not find client id for '')) (channel_client_id E s ch)) (\<lambda>i.
     bind_res (map_err (\<lambda>_. ClientStateError (Some ''CLient state not found for '')) (get_client_state s i)) (\<lambda>cs.
     bind_res (map_err (\<lambda>_. OtherError (Some ''Consensus state not found for ''))
       (get_consensus_state s i (cs_latest_height E cs))) (\<lambda>cons.
     Inr (cs_latest_height E cs, cons_timestamp E cons)))))"

text \<open>The timeouts of a packet that a module sends: both parts are needed, and an offset is in nanoseconds.\<close>

definition handler_timeout ::
    "(int \<Rightarrow> bool) \<Rightarrow> height \<Rightarrow> timestamp \<Rightarrow> timeout \<Rightarrow> (height \<times> timestamp, handler_error) res" where
  "handler_timeout tm latest_height latest_timestamp t =
     (let no_time = TimeoutError (Some ''Timeout timestamp is missing'');
          bad_time = TimeoutError (Some ''Failed to covert timestamp from nanosecods'');
          no_height = TimeoutError (Some ''Timeout height is missing'') in
      case t of
        TimeoutAbsolute ts h \<Rightarrow>
          bind_res (ok_or ts no_time) (\<lambda>n.
          bind_res (map_err (\<lambda>_. bad_time) (from_nanoseconds tm n)) (\<lambda>timestamp.
          bind_res (ok_or h no_height) (\<lambda>rh.
          Inr (Height (revision_number latest_height) rh, timestamp))))
      | TimeoutOffset ts h \<Rightarrow>
          bind_res (ok_or ts no_time) (\<lambda>n.
          bind_res (map_err (\<lambda>_. bad_time) (timestamp_add tm latest_timestamp (unat n))) (\<lambda>timestamp.
          bind_res (ok_or h no_height) (\<lambda>offset.
          bind_res (height_add latest_height offset) (\<lambda>height.
          Inr (height, timestamp))))))"

section \<open>Operations of the handler\<close>

definition PALLET_MODULE_ID :: string where
  "PALLET_MODULE_ID = ''pallet_ibc''"

definition pallet_send_packet ::
    "('cs, 'cons, 'msg, ('acc, 'asset, 'bank) pallet_storage) env \<Rightarrow> ('acc, 'asset, 'bank) runtime \<Rightarrow> bytes \<Rightarrow> timeout
       \<Rightarrow> port_id \<Rightarrow> channel_id \<Rightarrow> (('cs, 'cons, 'acc, 'asset, 'bank) chain, unit, handler_error) op" where
  "pallet_send_packet E RT data t p c =
     op_bind (op_read (\<lambda>s. map_err (\<lambda>_. ChannelOrPortError (Some (''Failed to fetch Channel end for channel ''
       @ channel_id_to_string c @ '' from storage''))) (get_channel_end E s (p, c)))) (\<lambda>ch.
     op_bind (op_read (\<lambda>s. map_err (\<lambda>_. SendPacketError (Some (''Failed to get next_sequence_send for ''
       @ channel_id_to_string c))) (get_next_sequence_send s (p, c)))) (\<lambda>sq.
     op_bind (op_lift (ok_or (cpty_channel_id (chan_remote ch))
       (ChannelOrPortError (Some ''Failed to find counterparty channel_id in source channel end'')))) (\<lambda>dest.
     op_bind (op_read (\<lambda>s. map_err (\<lambda>_. TimestampOrHeightNotFound (Some ''Failed to retreive client height and timestamp''))
       (latest_height_and_timestamp E s p c))) (\<lambda>(latest_height, latest_timestamp).
     op_bind (op_lift (handler_timeout (tm_representable E) latest_height latest_timestamp t)) (\<lambda>(th, tt).
     (let pkt = \<lparr>pkt_sequence = sq, source_port = p, source_channel = c,
            destination_port = cpty_port_id (chan_remote ch), destination_channel = dest, packet_data = data,
            timeout_height = th, timeout_timestamp = tt\<rparr>;
          failed = (\<lambda>e. SendPacketError (Some (show_ics04 RT e))) in
     op_bind (op_read (\<lambda>s. map_err failed (send_packet E s pkt))) (\<lambda>out.
     op_then (op_map_err failed (store_packet_result E (out_result out)))
       (deposit_event (Events (map Inr (out_events out)))))))))))"

definition deliver_own ::
    "('cs, 'cons, 'msg, ('acc, 'asset, 'bank) pallet_storage) env \<Rightarrow> ('acc, 'asset, 'bank) runtime
       \<Rightarrow> ('cs, 'cons, 'msg) wire \<Rightarrow> (string option \<Rightarrow> handler_error) \<Rightarrow> raw_any
       \<Rightarrow> (('cs, 'cons, 'acc, 'asset, 'bank) chain, unit, handler_error) op" where
  "deliver_own E RT W failed a =
     op_bind (op_map_err (\<lambda>e. failed (Some (show_ics26 RT e))) (deliver E (runtime_router E RT) W a)) (\<lambda>rc.
     deposit_event (Events (map Inr (receipt_events rc))))"

definition pallet_open_channel ::
    "('cs, 'cons, 'msg, ('acc, 'asset, 'bank) pallet_storage) env \<Rightarrow> ('acc, 'asset, 'bank) runtime
       \<Rightarrow> ('cs, 'cons, 'msg) wire \<Rightarrow> port_id \<Rightarrow> channel_end
       \<Rightarrow> (('cs, 'cons, 'acc, 'asset, 'bank) chain, unit, handler_error) op" where
  "pallet_open_channel E RT W p ch =
     op_bind (op_lift (map_err (\<lambda>_. ChannelInitError None) (signer_from_str PALLET_MODULE_ID))) (\<lambda>sig.
     (let m = \<lparr>hoi_port_id = p, hoi_channel = ch, hoi_signer = sig\<rparr> in
     deliver_own E RT W ChannelInitError
       \<lparr>any_type_url = CHAN_OPEN_INIT_URL, any_value = prost_encode (pb_chan_init W) (chan_open_init_into_raw m)\<rparr>))"

definition pallet_close_channel ::
    "('cs, 'cons, 'msg, ('acc, 'asset, 'bank) pallet_storage) env \<Rightarrow> ('acc, 'asset, 'bank) runtime
       \<Rightarrow> ('cs, 'cons, 'msg) wire \<Rightarrow> port_id \<Rightarrow> channel_id
       \<Rightarrow> (('cs, 'cons, 'acc, 'asset, 'bank) chain, unit, handler_error) op" where
  "pallet_close_channel E RT W p c =
     op_bind (op_lift (map_err (\<lambda>_. ChannelInitError None) (signer_from_str PALLET_MODULE_ID))) (\<lambda>sig.
     (let m = \<lparr>hci_port_id = p, hci_channel_id = c, hci_signer = sig\<rparr> in
     deliver_own E RT W ChannelCloseError
       \<lparr>any_type_url = CHAN_CLOSE_INIT_URL, any_value = prost_encode (pb_close_init W) (chan_close_init_into_raw m)\<rparr>))"

definition to_msg_transfer ::
    "('cs, 'cons, 'msg, ('acc, 'asset, 'bank) pallet_storage) env \<Rightarrow> ('acc, 'asset, 'bank) runtime \<Rightarrow> prefixed_coin
       \<Rightarrow> bytes \<Rightarrow> string \<Rightarrow> timeout \<Rightarrow> channel_id \<Rightarrow> string
       \<Rightarrow> (('cs, 'cons, 'acc, 'asset, 'bank) chain, msg_transfer, handler_error) op" where
  "to_msg_transfer E RT coin from to t c memo =
     op_bind (op_read (\<lambda>s. map_err (\<lambda>_. TimestampOrHeightNotFound (Some ''Failed to retreive client height and timestamp''))
       (latest_height_and_timestamp E s port_transfer c))) (\<lambda>(latest_height, latest_timestamp).
     op_bind (op_lift (handler_timeout (tm_representable E) latest_height latest_timestamp t)) (\<lambda>(th, tt).
     op_bind (op_lift (map_err (\<lambda>_. SendTransferError (Some ''Failed to deriver signer from String''))
       (signer_from_str (account_id_to_ss58 RT from)))) (\<lambda>sender.
     op_return \<lparr>mt_source_port = port_transfer, mt_source_channel = c, mt_token = coin, mt_sender = sender,
       mt_receiver = to, mt_timeout_height = th, mt_timeout_timestamp = tt, mt_memo = memo\<rparr>)))"

definition pallet_send_transfer ::
    "('cs, 'cons, 'msg, ('acc, 'asset, 'bank) pallet_storage) env \<Rightarrow> ('acc, 'asset, 'bank) runtime \<Rightarrow> msg_transfer
       \<Rightarrow> (('cs, 'cons, 'acc, 'asset, 'bank) chain, unit, handler_error) op" where
  "pallet_send_transfer E RT msg = (\<lambda>s.
     case send_transfer E (codec RT) (pallet_ics20 E RT) msg (s, builder_new) of
       (Inl Panic, (t, b)) \<Rightarrow> (panics, t)
     | (Inl (Err e), (t, b)) \<Rightarrow> (fail_with (SendTransferError (Some (show_ics20 (codec RT) e))), t)
     | (Inr _, (t, b)) \<Rightarrow> deposit_event (Events (map Inr (builder_events b))) t)"

fun handle_message ::
    "('cs, 'cons, 'msg, ('acc, 'asset, 'bank) pallet_storage) env \<Rightarrow> ('acc, 'asset, 'bank) runtime
       \<Rightarrow> ('cs, 'cons, 'msg) wire \<Rightarrow> handler_message
       \<Rightarrow> (('cs, 'cons, 'acc, 'asset, 'bank) chain, unit, handler_error) op" where
  "handle_message E RT W (HandlerOpenChannel p ch) = pallet_open_channel E RT W p ch"
| "handle_message E RT W (HandlerCloseChannel c p) = pallet_close_channel E RT W p c"
| "handle_message E RT W (HandlerTransfer c coin t from to memo) =
     op_bind (to_msg_transfer E RT coin from to t c memo) (pallet_send_transfer E RT)"
| "handle_message E RT W (HandlerSendPacket data t p c) = pallet_send_packet E RT data t p c"
| "handle_message E RT W (HandlerWriteAck ack p) = write_acknowledgement E RT p ack"

section \<open>The ping extrinsic\<close>

record send_ping_params =
  ping_data :: bytes
  timeout_height_offset :: u64
  timeout_timestamp_offset :: u64
  ping_channel_id :: u64

definition send_ping_impl ::
    "('cs, 'cons, 'msg, ('acc, 'asset, 'bank) pallet_storage) env \<Rightarrow> ('acc, 'asset, 'bank) runtime
       \<Rightarrow> ('cs, 'cons, 'msg) wire \<Rightarrow> send_ping_params
       \<Rightarrow> (('cs, 'cons, 'acc, 'asset, 'bank) chain, unit, handler_error) op" where
  "send_ping_impl E RT W ps =
     (case port_id_from_str (unicode_alnum E) PING_PORT_ID of
        Inl _ \<Rightarrow> op_lift panics
      | Inr p \<Rightarrow> handle_message E RT W (HandlerSendPacket (as_bytes ''ping'')
          (TimeoutOffset (Some (timeout_timestamp_offset ps)) (Some (timeout_height_offset ps))) p
          (ChannelId (ping_channel_id ps))))"

section \<open>The transfer extrinsic\<close>

text \<open>\<^verbatim>\<open>String::from_utf8\<close>: the byte sequences that encode Unicode scalar values.\<close>

definition utf8_tail :: "nat \<Rightarrow> bool" where
  "utf8_tail b \<longleftrightarrow> 128 \<le> b \<and> b < 192"

fun utf8_valid :: "nat list \<Rightarrow> bool" where
  "utf8_valid [] \<longleftrightarrow> True"
| "utf8_valid (a # as) \<longleftrightarrow>
     (if a < 128 then utf8_valid as
      else if 194 \<le> a \<and> a < 224 then
        (case as of b # bs \<Rightarrow> utf8_tail b \<and> utf8_valid bs | _ \<Rightarrow> False)
      else if 224 \<le> a \<and> a < 240 then
        (case as of b # c # cs \<Rightarrow>
             utf8_tail b \<and> (a = 224 \<longrightarrow> 160 \<le> b) \<and> (a = 237 \<longrightarrow> b < 160) \<and> utf8_tail c \<and> utf8_valid cs
         | _ \<Rightarrow> False)
      else if 240 \<le> a \<and> a < 245 then
        (case as of b # c # d # ds \<Rightarrow>
             utf8_tail b \<and> (a = 240 \<longrightarrow> 144 \<le> b) \<and> (a = 244 \<longrightarrow> b < 144) \<and> utf8_tail c \<and> utf8_tail d \<and> utf8_valid ds
         | _ \<Rightarrow> False)
      else False)"

definition from_utf8 :: "bytes \<Rightarrow> string option" where
  "from_utf8 bs = (if utf8_valid (map unat bs) then Some (map (\<lambda>b. char_of (unat b)) bs) else None)"

definition hex_account :: "('acc, 'asset, 'bank) runtime \<Rightarrow> bytes \<Rightarrow> string" where
  "hex_account RT account = ''0x'' @ hex_lower RT account"

fun transfer_receiver :: "('acc, 'asset, 'bank) runtime \<Rightarrow> multi_address \<Rightarrow> (string, pallet_error) res" where
  "transfer_receiver RT (MultiAddressId account) = Inr (hex_account RT account)"
| "transfer_receiver RT (MultiAddressRaw bs) = ok_or (from_utf8 bs) PE_Utf8Error"

text \<open>
  The timeout of a transfer: a missing part is zero, an offset in time is in seconds from the time of this chain and
  is cut to 64 bits of nanoseconds, and the sum of the durations panics when its seconds do not fit 64 bits.
\<close>

definition offset_nanos :: "u64 \<Rightarrow> u64 \<Rightarrow> (u64, 'e) res" where
  "offset_nanos now offset =
     (let total = unat now + unat offset * 1000000000 in
      if total div 1000000000 < 2 ^ 64 then Inr (of_nat total) else panics)"

definition transfer_timestamp :: "(int \<Rightarrow> bool) \<Rightarrow> (u64, pallet_error) res option \<Rightarrow> (timestamp, pallet_error) res" where
  "transfer_timestamp tm n =
     (case n of
        None \<Rightarrow> Inr timestamp_none
      | Some r \<Rightarrow> bind_res r (\<lambda>k. map_err (\<lambda>_. PE_InvalidTimestamp) (from_nanoseconds tm k)))"

definition transfer_timeout ::
    "(int \<Rightarrow> bool) \<Rightarrow> u64 \<Rightarrow> height \<Rightarrow> timeout \<Rightarrow> (height \<times> timestamp, pallet_error) res" where
  "transfer_timeout tm now latest_height t =
     (case t of
        TimeoutOffset ts h \<Rightarrow>
          bind_res (transfer_timestamp tm (map_option (offset_nanos now) ts)) (\<lambda>timestamp.
          bind_res (case h of None \<Rightarrow> Inr height_zero | Some offset \<Rightarrow> height_add latest_height offset) (\<lambda>height.
          Inr (height, timestamp)))
      | TimeoutAbsolute ts h \<Rightarrow>
          bind_res (transfer_timestamp tm (map_option Inr ts)) (\<lambda>timestamp.
          Inr (case h of None \<Rightarrow> height_zero | Some rh \<Rightarrow> Height (revision_number latest_height) rh, timestamp)))"

definition transfer_fee ::
    "('acc, 'asset, 'bank) runtime \<Rightarrow> nat \<Rightarrow> 'asset option \<Rightarrow> u128 \<Rightarrow> u128 \<times> bool" where
  "transfer_fee RT percent asset amt =
     (let (fee, is_flat) =
        (case asset of
           Some a \<Rightarrow>
             (case get_flat_fee RT a (flat_fee_asset_id RT) (flat_fee_amount RT) of
                Some f \<Rightarrow> (f, True)
              | None \<Rightarrow> (perbill_mul RT percent amt, False))
         | None \<Rightarrow> (perbill_mul RT percent amt, False)) in
      (min fee amt, is_flat))"

definition u256_sub :: "u256 \<Rightarrow> u256 \<Rightarrow> (u256, 'e) res" where
  "u256_sub a b = (if b \<le> a then Inr (a - b) else panics)"

text \<open>The service fee: it goes from the sender to the fee account, and is recorded under the sequence number.\<close>

definition charge_fee ::
    "('acc, 'asset, 'bank) runtime \<Rightarrow> string \<Rightarrow> string \<Rightarrow> prefixed_coin \<Rightarrow> channel_id \<Rightarrow> channel_id
       \<Rightarrow> (('cs, 'cons, 'acc, 'asset, 'bank) chain, prefixed_coin, pallet_error) op" where
  "charge_fee RT from to coin c dest =
     op_bind (op_read (\<lambda>s. Inr (case ServiceChargeOut (app_storage s) of Some q \<Rightarrow> q | None \<Rightarrow> service_charge_out RT))) (\<lambda>percent.
     op_bind (local_asset_id RT (prefixed_denom_to_string (coin_denom coin))) (\<lambda>asset.
     (let (fee, is_flat) = transfer_fee RT percent asset (low_u128 (as_u256 (coin_amount coin))) in
     op_bind (op_lift (map_err (\<lambda>_. PE_Utf8Error) (signer_from_str from))) (\<lambda>signer_from.
     op_bind (op_lift (ok_or (account_id_conversion RT signer_from) PE_OriginAddress)) (\<lambda>account_from.
     op_then (op_map_err (\<lambda>_. PE_FailedSendFeeToAccount)
       (pallet_send_coins RT account_from (fee_account RT) (coin\<lparr>coin_amount := Amount (ucast fee)\<rparr>)))
     (op_bind (op_lift (u256_sub (as_u256 (coin_amount coin)) (ucast fee))) (\<lambda>rest.
     op_bind (op_read (\<lambda>s. map_err (\<lambda>_. PE_ChannelNotFound) (get_next_sequence_send s (port_transfer, c)))) (\<lambda>sq.
     op_then (on_storage (\<lambda>a. a\<lparr>SequenceFee := (SequenceFee a)(sq \<mapsto> fee)\<rparr>))
     (op_bind (local_asset_id RT (prefixed_denom_to_string (coin_denom coin))) (\<lambda>asset.
     op_then (deposit_event (ChargingFeeOnTransferInitiated sq from to (as_bytes (prefixed_denom_to_string (coin_denom coin)))
       asset fee is_flat (as_bytes (channel_id_to_string c)) (as_bytes (channel_id_to_string dest))))
     (op_return (coin\<lparr>coin_amount := Amount rest\<rparr>))))))))))))"

definition store_escrow_address ::
    "('cs, 'cons, 'msg, ('acc, 'asset, 'bank) pallet_storage) env \<Rightarrow> ('acc, 'asset, 'bank) runtime \<Rightarrow> port_id \<Rightarrow> channel_id
       \<Rightarrow> (('cs, 'cons, 'acc, 'asset, 'bank) chain, unit, pallet_error) op" where
  "store_escrow_address E RT p c =
     op_bind (op_lift (map_err (\<lambda>_. PE_ChannelEscrowAddress) (channel_escrow_signer (codec RT) (sha2_256 E) p c))) (\<lambda>sig.
     op_bind (op_lift (ok_or (account_id_conversion RT sig) PE_ChannelEscrowAddress)) (\<lambda>account_id.
     on_storage (\<lambda>a. a\<lparr>EscrowAddresses := insert account_id (EscrowAddresses a)\<rparr>)))"

fun transfer_error :: "handler_error \<Rightarrow> pallet_error" where
  "transfer_error (SendPacketError m) = PE_TransferSend"
| "transfer_error (SendTransferError m) = PE_TransferSend"
| "transfer_error (ReceivePacketError m) = PE_TransferProtocol"
| "transfer_error (WriteAcknowledgementError m) = PE_TransferProtocol"
| "transfer_error (AcknowledgementError m) = PE_TransferProtocol"
| "transfer_error (TimeoutError m) = PE_TransferProtocol"
| "transfer_error (TimestampOrHeightNotFound m) = PE_TransferInternals"
| "transfer_error (ChannelOrPortError m) = PE_TransferInternals"
| "transfer_error (ClientStateError m) = PE_TransferInternals"
| "transfer_error (ConnectionIdError m) = PE_TransferInternals"
| "transfer_error (ClientIdError m) = PE_TransferInternals"
| "transfer_error (BindPortError m) = PE_TransferInternals"
| "transfer_error (ChannelInitError m) = PE_TransferInternals"
| "transfer_error (ChannelCloseError m) = PE_TransferInternals"
| "transfer_error (DecodingError m) = PE_TransferSerde"
| "transfer_error ErrorDecodingPrefix = PE_TransferSerde"
| "transfer_error (OtherError m) = PE_TransferOther"

text \<open>\<^verbatim>\<open>#[transactional]\<close>: a call that fails leaves the state as it was.\<close>

definition transactional :: "('s, 'a, 'e) op \<Rightarrow> ('s, 'a, 'e) op" where
  "transactional m = (\<lambda>s. case m s of (Inl f, t) \<Rightarrow> (Inl f, s) | (Inr x, t) \<Rightarrow> (Inr x, t))"

definition transfer_call ::
    "('cs, 'cons, 'msg, ('acc, 'asset, 'bank) pallet_storage) env \<Rightarrow> ('acc, 'asset, 'bank) runtime \<Rightarrow> bytes \<Rightarrow> transfer_params
       \<Rightarrow> 'asset \<Rightarrow> u128 \<Rightarrow> string option \<Rightarrow> (('cs, 'cons, 'acc, 'asset, 'bank) chain, unit, pallet_error) op" where
  "transfer_call E RT account params asset_id amount memo =
     op_bind (op_read (\<lambda>s. ok_or (from_asset_id_to_denom RT (bank (app_storage s)) asset_id) PE_InvalidAssetId)) (\<lambda>denom.
     (let from = hex_account RT account; c = ChannelId (tpa_source_channel params) in
     op_bind (op_lift (transfer_receiver RT (tpa_to params))) (\<lambda>to.
     op_bind (op_lift (map_err (\<lambda>_. PE_PrefixedDenomParse) (prefixed_denom_from_str (unicode_alnum E) denom))) (\<lambda>d.
     op_bind (op_lift (map_err (\<lambda>_. PE_InvalidAmount) (amount_from_str (numbers (codec RT)) (show_nat (unat amount))))) (\<lambda>a.
     op_bind (op_read (\<lambda>s. map_err (\<lambda>_. PE_TimestampAndHeightNotFound) (latest_height_and_timestamp E s port_transfer c)))
       (\<lambda>(latest_height, _).
     op_bind (op_read (\<lambda>s. transfer_timeout (tm_representable E) (now_nanos s) latest_height (tpa_timeout params))) (\<lambda>(th, tt).
     op_bind (op_lift (if is_zero th then nanoseconds tt else Inr 1)) (\<lambda>n.
     if n = 0 then op_lift (fail_with PE_InvalidTimestamp)
     else
     op_bind (op_read (\<lambda>s. map_err (\<lambda>_. PE_ChannelNotFound) (get_channel_end E s (port_transfer, c)))) (\<lambda>ch.
     op_bind (op_lift (ok_or (cpty_channel_id (chan_remote ch)) PE_ChannelNotFound)) (\<lambda>dest.
     op_bind (op_read (\<lambda>s. Inr ((channel_sequence c, channel_sequence dest) \<in> FeeLessChannelIds (app_storage s)))) (\<lambda>feeless.
     op_bind (let coin = \<lparr>coin_denom = d, coin_amount = a\<rparr> in
        if feeless then op_return coin else charge_fee RT from to coin c dest) (\<lambda>coin.
     op_bind (op_lift (case memo of None \<Rightarrow> Inr ()
        | Some m \<Rightarrow> if validate_memo RT m then Inr () else fail_with PE_InvalidMemo)) (\<lambda>_.
     op_bind (op_lift (map_err (\<lambda>_. PE_Utf8Error) (signer_from_str from))) (\<lambda>sender.
     op_bind (op_lift (map_err (\<lambda>_. PE_Utf8Error) (signer_from_str to))) (\<lambda>receiver.
     (let msg = \<lparr>mt_source_port = port_transfer, mt_source_channel = c, mt_token = coin, mt_sender = sender,
            mt_receiver = receiver, mt_timeout_height = th, mt_timeout_timestamp = tt,
            mt_memo = (case memo of None \<Rightarrow> [] | Some m \<Rightarrow> m)\<rparr>;
          is_sender_source = is_sender_chain_source port_transfer c (coin_denom coin);
          denom = prefixed_denom_to_string (coin_denom coin) in
     op_then (if is_sender_source then store_escrow_address E RT port_transfer c else op_return ())
     (op_then (op_map_err transfer_error (pallet_send_transfer E RT msg))
     (op_bind (local_asset_id RT denom) (\<lambda>asset.
     deposit_event (TokenTransferInitiated \<lparr>te_from = from, te_to = to, te_ibc_denom = as_bytes denom,
       te_local_asset_id = asset, te_amount = amount, te_is_source = is_sender_source,
       te_source_channel = as_bytes (channel_id_to_string c),
       te_destination_channel = as_bytes (channel_id_to_string dest)\<rparr>))))))))))))))))))))"

definition transfer_extrinsic ::
    "('cs, 'cons, 'msg, ('acc, 'asset, 'bank) pallet_storage) env \<Rightarrow> ('acc, 'asset, 'bank) runtime \<Rightarrow> bytes option
       \<Rightarrow> transfer_params \<Rightarrow> 'asset \<Rightarrow> u128 \<Rightarrow> string option
       \<Rightarrow> (('cs, 'cons, 'acc, 'asset, 'bank) chain, unit, dispatch_error) op" where
  "transfer_extrinsic E RT origin params asset_id amount memo =
     transactional
       (case origin of
          None \<Rightarrow> op_lift (fail_with BadOrigin)
        | Some account \<Rightarrow> op_map_err PalletError (transfer_call E RT account params asset_id amount memo))"

section \<open>The other extrinsics\<close>

text \<open>
  \<^verbatim>\<open>deliver\<close> reserves a deposit for every message that creates a client, a connection or a channel, and then executes
  the messages. The errors of messages are among the events it deposits; only a panic ends the call early.
\<close>

definition reserve_count :: "raw_any list \<Rightarrow> nat" where
  "reserve_count as =
     length (filter (\<lambda>a. any_type_url a \<in> {CREATE_CLIENT_URL, CONN_OPEN_INIT_URL, CHAN_OPEN_INIT_URL}) as)"

definition reserve_amount :: "u128 \<Rightarrow> nat \<Rightarrow> u128" where
  "reserve_amount deposit n = (if unat deposit * n < 2 ^ 128 then of_nat (unat deposit * n) else - 1)"

definition deliver_extrinsic ::
    "('cs, 'cons, 'msg, ('acc, 'asset, 'bank) pallet_storage) env \<Rightarrow> ('acc, 'asset, 'bank) runtime
       \<Rightarrow> ('cs, 'cons, 'msg) wire \<Rightarrow> 'acc option \<Rightarrow> raw_any list
       \<Rightarrow> (('cs, 'cons, 'acc, 'asset, 'bank) chain, unit, dispatch_error) op" where
  "deliver_extrinsic E RT W origin as =
     transactional
       (case origin of
          None \<Rightarrow> op_lift (fail_with BadOrigin)
        | Some sender \<Rightarrow>
            (let amt = reserve_amount (spam_protection_deposit RT) (reserve_count as) in
             op_then (if spam_protection_deposit RT \<le> amt
                then op_map_err (\<lambda>_. CurrencyError) (on_bank (native_reserve RT sender amt)) else op_return ())
             (op_bind (op_map_err (\<lambda>_. PalletError PE_ProcessingError) (execute_ibc_messages E (runtime_router E RT) W as))
               (\<lambda>events. if events = [] then op_return () else deposit_event (Events events)))))"

definition add_channels_to_feeless_channel_list ::
    "bool \<Rightarrow> u64 \<Rightarrow> u64 \<Rightarrow> (('cs, 'cons, 'acc, 'asset, 'bank) chain, unit, dispatch_error) op" where
  "add_channels_to_feeless_channel_list root c d =
     transactional
       (if \<not> root then op_lift (fail_with BadOrigin)
        else op_then (on_storage (\<lambda>a. a\<lparr>FeeLessChannelIds := insert (c, d) (FeeLessChannelIds a)\<rparr>))
          (deposit_event (FeeLessChannelIdsAdded c d)))"

definition remove_channels_from_feeless_channel_list ::
    "bool \<Rightarrow> u64 \<Rightarrow> u64 \<Rightarrow> (('cs, 'cons, 'acc, 'asset, 'bank) chain, unit, dispatch_error) op" where
  "remove_channels_from_feeless_channel_list root c d =
     transactional
       (if \<not> root then op_lift (fail_with BadOrigin)
        else op_then (on_storage (\<lambda>a. a\<lparr>FeeLessChannelIds := FeeLessChannelIds a - {(c, d)}\<rparr>))
          (deposit_event (FeeLessChannelIdsRemoved c d)))"

definition CLIENT_STATE_UPGRADE_PATH :: bytes where
  "CLIENT_STATE_UPGRADE_PATH = as_bytes ''client-state-upgrade-path''"

definition CONSENSUS_STATE_UPGRADE_PATH :: bytes where
  "CONSENSUS_STATE_UPGRADE_PATH = as_bytes ''consensus-state-upgrade-path''"

definition upgrade_client_extrinsic ::
    "bool \<Rightarrow> bytes \<Rightarrow> bytes \<Rightarrow> (('cs, 'cons, 'acc, 'asset, 'bank) chain, unit, dispatch_error) op" where
  "upgrade_client_extrinsic admin client_state consensus_state =
     (if \<not> admin then op_lift (fail_with BadOrigin)
      else op_then (on_storage (\<lambda>a. a\<lparr>top_storage := (top_storage a)(CLIENT_STATE_UPGRADE_PATH \<mapsto> client_state,
           CONSENSUS_STATE_UPGRADE_PATH \<mapsto> consensus_state)\<rparr>))
        (deposit_event ClientUpgradeSet))"

text \<open>Without the testing feature the counters can not be changed from outside.\<close>

definition increase_counters :: "bool \<Rightarrow> (('cs, 'cons, 'acc, 'asset, 'bank) chain, unit, dispatch_error) op" where
  "increase_counters root =
     transactional (op_lift (fail_with (if root then PalletError PE_AccessDenied else BadOrigin)))"

text \<open>
  Two calls of privileged origins write the state of a client directly. Which client states can be frozen, and the
  decoding of client and consensus states, are parameters.
\<close>

definition freeze_client ::
    "('cs, 'cons, 'msg, ('acc, 'asset, 'bank) pallet_storage) env \<Rightarrow> ('cs \<Rightarrow> height \<Rightarrow> 'cs option) \<Rightarrow> bool \<Rightarrow> bytes \<Rightarrow> u64
       \<Rightarrow> (('cs, 'cons, 'acc, 'asset, 'bank) chain, unit, dispatch_error) op" where
  "freeze_client E with_frozen_height freezer client_id height =
     (if \<not> freezer then op_lift (fail_with BadOrigin)
      else op_map_err PalletError
       (op_bind (op_lift (ok_or (from_utf8 client_id) PE_DecodingError)) (\<lambda>str.
        op_bind (op_lift (map_err (\<lambda>_. PE_DecodingError) (client_id_from_str (unicode_alnum E) str))) (\<lambda>i.
        op_bind (op_read (\<lambda>s. map_err (\<lambda>_. PE_ClientStateNotFound) (get_client_state s i))) (\<lambda>cs.
        op_bind (op_lift (ok_or (with_frozen_height cs (Height (revision_number (cs_latest_height E cs)) height))
          PE_ClientFreezeFailed)) (\<lambda>frozen.
        op_then (op_map_err (\<lambda>_. PE_ClientFreezeFailed) (store_client_state i frozen))
          (deposit_event (ClientFrozen (as_bytes (client_id_to_string i)) height
            (revision_number (cs_latest_height E frozen))))))))))"

definition substitute_client_state ::
    "('cs, 'cons, 'msg, ('acc, 'asset, 'bank) pallet_storage) env \<Rightarrow> (bytes \<Rightarrow> 'cs option) \<Rightarrow> (bytes \<Rightarrow> 'cons option) \<Rightarrow> bool
       \<Rightarrow> string \<Rightarrow> height \<Rightarrow> bytes \<Rightarrow> bytes \<Rightarrow> (('cs, 'cons, 'acc, 'asset, 'bank) chain, unit, dispatch_error) op" where
  "substitute_client_state E decode_cs decode_cons admin client_id height client_state_bytes consensus_state_bytes =
     transactional
     (if \<not> admin then op_lift (fail_with BadOrigin)
      else op_map_err PalletError
       (op_bind (op_lift (map_err (\<lambda>_. PE_Other) (client_id_from_str (unicode_alnum E) client_id))) (\<lambda>i.
        op_bind (op_lift (ok_or (decode_cs client_state_bytes) PE_Other)) (\<lambda>cs.
        op_bind (op_lift (ok_or (decode_cons consensus_state_bytes) PE_Other)) (\<lambda>cons.
        op_then (op_map_err (\<lambda>_. PE_Other) (store_client_state i cs))
        (op_then (op_map_err (\<lambda>_. PE_Other) (store_consensus_state i height cons))
        (op_bind (op_read (\<lambda>s. host_timestamp E s)) (\<lambda>now.
        op_then (op_map_err (\<lambda>_. PE_Other) (store_update_time i height now))
        (op_bind (op_read (\<lambda>s. Inr (host_height s))) (\<lambda>hh.
        op_then (op_map_err (\<lambda>_. PE_Other) (store_update_height i height hh))
          (deposit_event (ClientStateSubstituted (client_id_to_string i) height))))))))))))"

end
