(* ===== verification/Chain_Runs.thy ===== *)
theory Chain_Runs
  imports Pallet_Calls
begin

text \<open>
  Histories of the chain, seen from outside: extrinsics, calls of other pallets and blocks. Whatever they do, and
  whether they succeed or fail, they take the host through a run of the steps of \<open>Host_Runs\<close>, so that everything
  proved of runs holds of the chain with its transfer and ping modules.
\<close>

section \<open>Operations that are runs\<close>

named_theorems runs_intros

definition runs :: "('cs, 'cons, 'msg, 'app) env \<Rightarrow> (('cs, 'cons, 'app) host, 'a, 'e) op \<Rightarrow> bool" where
  "runs E m \<longleftrightarrow> (\<forall>s. \<exists>rs. host_run E s rs (snd (m s)))"

definition runs_output ::
    "('cs, 'cons, 'msg, 'app) env \<Rightarrow> (('cs, 'cons, 'app) host \<times> 'b, 'a, 'e) op \<Rightarrow> bool" where
  "runs_output E m \<longleftrightarrow> (\<forall>s b. \<exists>rs. host_run E s rs (fst (snd (m (s, b)))))"

lemma runs_effect: "effect_confined m \<Longrightarrow> runs E m"
  unfolding runs_def effect_confined_def using host_run_single [OF module_stepped] by blast

lemma runs_bind [runs_intros]:
  assumes "runs E m" and "\<And>x. runs E (f x)"
  shows "runs E (op_bind m f)"
  unfolding runs_def
proof
  fix s
  obtain r t where m: "m s = (r, t)" by (metis prod.exhaust)
  obtain rs where rs: "host_run E s rs t"
    using assms(1) m unfolding runs_def by (metis snd_conv)
  show "\<exists>rs. host_run E s rs (snd (op_bind m f s))"
  proof (cases r)
    case (Inr x)
    obtain rs' where "host_run E t rs' (snd (f x t))" using assms(2) unfolding runs_def by blast
    from host_run_append [OF this rs] show ?thesis by (auto simp: op_bind_apply m Inr)
  qed (use rs in \<open>auto simp: op_bind_apply m\<close>)
qed

lemma runs_then [runs_intros]: "runs E m \<Longrightarrow> runs E n \<Longrightarrow> runs E (op_then m n)"
  unfolding op_then_def by (rule runs_bind)

lemma runs_map_err [runs_intros]: "runs E m \<Longrightarrow> runs E (op_map_err g m)"
  by (simp add: runs_def op_map_err_def case_prod_unfold)

lemma transactional_state: "snd (transactional m s) = (case fst (m s) of Inl f \<Rightarrow> s | Inr x \<Rightarrow> snd (m s))"
  by (simp add: transactional_def split: prod.splits sum.splits)

lemma runs_transactional [runs_intros]: "runs E m \<Longrightarrow> runs E (transactional m)"
  unfolding runs_def using run_start by (auto simp: transactional_state split: sum.splits)

lemma runs_if [runs_intros]: "runs E m \<Longrightarrow> runs E n \<Longrightarrow> runs E (if b then m else n)"
  by simp

lemma runs_basic [runs_intros]:
  "runs E (op_return x)" "runs E (op_lift r)" "runs E (op_read f)" "runs E (on_storage g)" "runs E (on_bank b)"
  "runs E (deposit_event e)" "runs E (local_asset_id RT d)" "runs E (pallet_send_coins RT a b' c)"
  "runs E (write_acknowledgement E RT p ack)" "runs E (pallet_burn_coins RT a c)"
  by (intro runs_effect effect_intros)+

lemma runs_send:
  assumes "\<And>out. runs E (k out)"
  shows "runs E (op_bind (op_read (\<lambda>s. map_err g (send_packet E s p))) (\<lambda>out.
    op_then (op_map_err h (store_packet_result E (out_result out))) (k out)))"
  unfolding runs_def
proof
  fix s
  show "\<exists>rs. host_run E s rs (snd (op_bind (op_read (\<lambda>s. map_err g (send_packet E s p))) (\<lambda>out.
    op_then (op_map_err h (store_packet_result E (out_result out))) (k out)) s))"
  proof (cases "send_packet E s p")
    case (Inl f)
    with run_start show ?thesis by (cases f) auto
  next
    case (Inr out)
    obtain q t where st: "store_packet_result E (out_result out) s = (q, t)" by (metis prod.exhaust)
    have t: "host_run E s [out_result out] t"
      by (rule host_run_single [OF packet_stepped [OF packet_sent [OF Inr st]]])
    obtain rs where "host_run E t rs (snd (k out t))" using assms unfolding runs_def by blast
    from host_run_append [OF this t] t Inr st show ?thesis
      by (cases q) (auto simp: op_then_def op_bind_apply op_map_err_def map_err_def split: fault.splits)
  qed
qed

text \<open>The same for operations that also collect output.\<close>

lemma runs_output_host [runs_intros]: "runs E m \<Longrightarrow> runs_output E (on_host m)"
  by (simp add: runs_def runs_output_def on_host_def case_prod_unfold)

lemma runs_output_basic [runs_intros]:
  "runs_output E (op_lift r)" "runs_output E (op_read f)" "runs_output E (op_update (\<lambda>(s, b). (s, g s b)))"
  using run_start by (auto simp: runs_output_def)

lemma runs_output_bind [runs_intros]:
  assumes "runs_output E m" and "\<And>x. runs_output E (f x)"
  shows "runs_output E (op_bind m f)"
  unfolding runs_output_def
proof (intro allI)
  fix s b
  obtain r t b' where m: "m (s, b) = (r, (t, b'))" by (metis prod.exhaust)
  obtain rs where rs: "host_run E s rs t"
    using assms(1) m unfolding runs_output_def by (metis fst_conv snd_conv)
  show "\<exists>rs. host_run E s rs (fst (snd (op_bind m f (s, b))))"
  proof (cases r)
    case (Inr x)
    obtain rs' where "host_run E t rs' (fst (snd (f x (t, b'))))" using assms(2) unfolding runs_output_def by blast
    from host_run_append [OF this rs] show ?thesis by (auto simp: op_bind_apply m Inr)
  qed (use rs in \<open>auto simp: op_bind_apply m\<close>)
qed

lemma runs_output_then [runs_intros]: "runs_output E m \<Longrightarrow> runs_output E n \<Longrightarrow> runs_output E (op_then m n)"
  unfolding op_then_def by (rule runs_output_bind)

lemma runs_output_if [runs_intros]: "runs_output E m \<Longrightarrow> runs_output E n \<Longrightarrow> runs_output E (if b then m else n)"
  by simp

lemma runs_output_send:
  assumes "\<And>out. runs_output E (k out)"
  shows "runs_output E (op_bind (op_read (\<lambda>(s, b). map_err g (send_packet E s p))) (\<lambda>out.
    op_then (on_host (op_map_err h (store_packet_result E (out_result out)))) (k out)))"
  unfolding runs_output_def
proof (intro allI)
  fix s b
  show "\<exists>rs. host_run E s rs (fst (snd (op_bind (op_read (\<lambda>(s, b). map_err g (send_packet E s p))) (\<lambda>out.
    op_then (on_host (op_map_err h (store_packet_result E (out_result out)))) (k out)) (s, b))))"
  proof (cases "send_packet E s p")
    case (Inl f)
    with run_start show ?thesis by (cases f) auto
  next
    case (Inr out)
    obtain q t where st: "store_packet_result E (out_result out) s = (q, t)" by (metis prod.exhaust)
    have t: "host_run E s [out_result out] t"
      by (rule host_run_single [OF packet_stepped [OF packet_sent [OF Inr st]]])
    obtain rs where "host_run E t rs (fst (snd (k out (t, b))))" using assms unfolding runs_output_def by blast
    from host_run_append [OF this t] t Inr st show ?thesis
      by (cases q) (auto simp: op_then_def op_bind_apply op_map_err_def on_host_def map_err_def split: fault.splits)
  qed
qed

section \<open>Every call is a run\<close>

lemma send_transfer_runs: "runs_output E (send_transfer E K (pallet_ics20 E RT) msg)"
  unfolding send_transfer_def Let_def pallet_ics20_simps
  by (rule runs_output_send | rule runs_intros)+

lemma pallet_send_transfer_runs [runs_intros]: "runs E (pallet_send_transfer E RT msg)"
  unfolding runs_def
proof
  fix s
  obtain r t b where m: "send_transfer E (codec RT) (pallet_ics20 E RT) msg (s, builder_new) = (r, (t, b))"
    by (metis prod.exhaust)
  obtain rs where t: "host_run E s rs t"
    using send_transfer_runs [of E "codec RT" RT msg] m unfolding runs_output_def by (metis fst_conv snd_conv)
  have "module_effect t (snd (deposit_event e t))" for e
    using effect_basic(6) unfolding effect_confined_def by blast
  from host_run_append [OF host_run_single [OF module_stepped [OF this]] t] t m
  show "\<exists>rs. host_run E s rs (snd (pallet_send_transfer E RT msg s))"
    by (auto simp: pallet_send_transfer_def split: sum.split fault.split)
qed

lemma transfer_call_runs: "runs E (transfer_call E RT account params asset_id amount memo)"
  unfolding transfer_call_def charge_fee_def store_escrow_address_def Let_def case_prod_unfold
  by (intro runs_intros)

lemma execute_runs [runs_intros]: "runs E (execute_ibc_messages E (runtime_router E RT) W as)"
  unfolding runs_def using runtime_routes.execute_run by (metis prod.collapse)

lemma deliver_own_runs [runs_intros]: "runs E (deliver_own E RT W failed a)"
proof -
  have "runs E (deliver E (runtime_router E RT) W a)"
    unfolding runs_def using runtime_routes.deliver_run by (metis prod.collapse)
  then show ?thesis unfolding deliver_own_def by (intro runs_intros)
qed

lemma pallet_send_packet_runs [runs_intros]: "runs E (pallet_send_packet E RT data t p c)"
  unfolding pallet_send_packet_def Let_def case_prod_unfold
  by (rule runs_send | rule runs_intros)+

lemma handle_message_runs [runs_intros]: "runs E (handle_message E RT W m)"
  by (cases m) (auto simp: pallet_open_channel_def pallet_close_channel_def to_msg_transfer_def Let_def
      case_prod_unfold intro!: runs_intros)

lemma extrinsics_run:
  "runs E (transfer_extrinsic E RT origin params asset_id amount memo)"
  "runs E (deliver_extrinsic E RT W sender as)"
  "runs E (add_channels_to_feeless_channel_list root c d)"
  "runs E (remove_channels_from_feeless_channel_list root c d)"
  "runs E (upgrade_client_extrinsic admin cs cons)"
  "runs E (increase_counters root)"
  by (auto simp: transfer_extrinsic_def deliver_extrinsic_def add_channels_to_feeless_channel_list_def
      remove_channels_from_feeless_channel_list_def upgrade_client_extrinsic_def increase_counters_def Let_def
      intro!: runs_intros transfer_call_runs split: option.split)

section \<open>Histories of the chain\<close>

text \<open>
  A step of the chain is a call that goes through or fails, or a new block. The calls of privileged origins that write
  the state of a client (\<open>freeze_client\<close>, \<open>substitute_client_state\<close>) are not among them.
\<close>

inductive chain_step ::
    "('cs, 'cons, 'msg, ('acc, 'asset, 'bank) pallet_storage) env \<Rightarrow> ('acc, 'asset, 'bank) runtime \<Rightarrow> ('cs, 'cons, 'msg) wire
       \<Rightarrow> ('cs, 'cons, 'acc, 'asset, 'bank) chain \<Rightarrow> ('cs, 'cons, 'acc, 'asset, 'bank) chain \<Rightarrow> bool"
  for E RT W where
  chain_deliver: "chain_step E RT W s (snd (deliver_extrinsic E RT W origin as s))"
| chain_transfer: "chain_step E RT W s (snd (transfer_extrinsic E RT account params asset_id amount memo s))"
| chain_handler: "chain_step E RT W s (snd (handle_message E RT W m s))"
| chain_add_feeless: "chain_step E RT W s (snd (add_channels_to_feeless_channel_list root c d s))"
| chain_remove_feeless: "chain_step E RT W s (snd (remove_channels_from_feeless_channel_list root c d s))"
| chain_upgrade: "chain_step E RT W s (snd (upgrade_client_extrinsic admin cs cons s))"
| chain_counters: "chain_step E RT W s (snd (increase_counters root s))"
| chain_block: "block_number s \<le> n \<Longrightarrow> now_nanos s \<le> t
     \<Longrightarrow> chain_step E RT W s (s\<lparr>block_number := n, now_nanos := t, BlockHash := hs\<rparr>)"

inductive chain_run ::
    "('cs, 'cons, 'msg, ('acc, 'asset, 'bank) pallet_storage) env \<Rightarrow> ('acc, 'asset, 'bank) runtime \<Rightarrow> ('cs, 'cons, 'msg) wire
       \<Rightarrow> ('cs, 'cons, 'acc, 'asset, 'bank) chain \<Rightarrow> ('cs, 'cons, 'acc, 'asset, 'bank) chain \<Rightarrow> bool"
  for E RT W where
  chain_start: "chain_run E RT W s s"
| chain_next: "chain_run E RT W s t \<Longrightarrow> chain_step E RT W t u \<Longrightarrow> chain_run E RT W s u"

lemma runsD: "runs E m \<Longrightarrow> \<exists>rs. host_run E s rs (snd (m s))"
  by (simp add: runs_def)

lemma chain_step_run: "chain_step E RT W s s' \<Longrightarrow> \<exists>rs. host_run E s rs s'"
  by (cases rule: chain_step.cases, assumption)
    (auto intro: runsD extrinsics_run handle_message_runs host_run_single block_stepped)

lemma chain_run_host: "chain_run E RT W s s' \<Longrightarrow> \<exists>rs. host_run E s rs s'"
proof (induction rule: chain_run.induct)
  case (chain_next s t u)
  then show ?case using chain_step_run host_run_append by blast
qed (blast intro: run_start)

section \<open>Properties\<close>


end
