(* ===== verification/Transfer_Ledger.thy ===== *)
theory Transfer_Ledger
  imports Chain_Runs "HOL-Library.Multiset"
begin

text \<open>
  What the transfer operations do to the tokens of a chain. A ledger view reads balances and issuance from the asset
  pallets of the runtime; \<open>exact_ledger\<close> states what those pallets document: a transfer, mint or burn that succeeds
  moves exactly its amount, one that fails changes nothing, and different denominations have different assets. On
  top of it, two chains joined by a channel: every voucher stays backed by tokens in escrow.
\<close>

section \<open>Ledgers\<close>

record ('acc, 'asset, 'bank) ledger_view =
  asset_denom :: "'asset \<Rightarrow> string"
  balance :: "'bank \<Rightarrow> string \<Rightarrow> 'acc \<Rightarrow> nat"
  issuance :: "'bank \<Rightarrow> string \<Rightarrow> nat"

definition moves :: "('acc, 'asset, 'bank) ledger_view \<Rightarrow> string \<Rightarrow> 'acc \<Rightarrow> 'acc \<Rightarrow> nat \<Rightarrow> 'bank \<Rightarrow> 'bank \<Rightarrow> bool" where
  "moves V d x y n b b' \<longleftrightarrow> n \<le> balance V b d x \<and> issuance V b' = issuance V b
     \<and> balance V b' = (balance V b)(d := (\<lambda>z. balance V b d z - (if z = x then n else 0) + (if z = y then n else 0)))"

definition mints :: "('acc, 'asset, 'bank) ledger_view \<Rightarrow> string \<Rightarrow> 'acc \<Rightarrow> nat \<Rightarrow> 'bank \<Rightarrow> 'bank \<Rightarrow> bool" where
  "mints V d x n b b' \<longleftrightarrow> issuance V b' = (issuance V b)(d := issuance V b d + n)
     \<and> balance V b' = (balance V b)(d := (balance V b d)(x := balance V b d x + n))"

definition burns :: "('acc, 'asset, 'bank) ledger_view \<Rightarrow> string \<Rightarrow> 'acc \<Rightarrow> nat \<Rightarrow> 'bank \<Rightarrow> 'bank \<Rightarrow> bool" where
  "burns V d x n b b' \<longleftrightarrow> n \<le> balance V b d x \<and> n \<le> issuance V b d
     \<and> issuance V b' = (issuance V b)(d := issuance V b d - n)
     \<and> balance V b' = (balance V b)(d := (balance V b d)(x := balance V b d x - n))"

definition same_tokens :: "('acc, 'asset, 'bank) ledger_view \<Rightarrow> 'bank \<Rightarrow> 'bank \<Rightarrow> bool" where
  "same_tokens V b b' \<longleftrightarrow> balance V b' = balance V b \<and> issuance V b' = issuance V b"

text \<open>A bank operation that changes tokens in this way when it succeeds, and not at all when it fails.\<close>

definition exactly ::
    "('acc, 'asset, 'bank) ledger_view \<Rightarrow> ('bank \<Rightarrow> 'bank \<Rightarrow> bool) \<Rightarrow> ('bank, unit, unit) op \<Rightarrow> bool" where
  "exactly V change m \<longleftrightarrow>
     (\<forall>b. case m b of (Inr _, b') \<Rightarrow> change b b' | (Inl _, b') \<Rightarrow> same_tokens V b b')"

definition exact_ledger :: "('acc, 'asset, 'bank) runtime \<Rightarrow> ('acc, 'asset, 'bank) ledger_view \<Rightarrow> bool" where
  "exact_ledger RT V \<longleftrightarrow>
     (\<forall>d b. case from_denom_to_asset_id RT d b of (r, b') \<Rightarrow> same_tokens V b b' \<and> (\<forall>a. r = Inr a \<longrightarrow> asset_denom V a = d))
     \<and> (\<forall>x y n. exactly V (moves V (asset_denom V (native_asset_id RT)) x y (unat n)) (native_transfer RT x y n))
     \<and> (\<forall>a x y n. exactly V (moves V (asset_denom V a) x y (unat n)) (fungibles_transfer RT a x y n))
     \<and> (\<forall>a x n. exactly V (mints V (asset_denom V a) x (unat n)) (fungibles_mint_into RT a x n))
     \<and> (\<forall>a x n. exactly V (burns V (asset_denom V a) x (unat n)) (fungibles_burn_from RT a x n))"

abbreviation tokens :: "('cs, 'cons, 'acc, 'asset, 'bank) chain \<Rightarrow> 'bank" where
  "tokens s \<equiv> bank (app_storage s)"

definition coin_value :: "prefixed_coin \<Rightarrow> nat" where
  "coin_value c = unat (as_u256 (coin_amount c))"

definition coin_name :: "prefixed_coin \<Rightarrow> string" where
  "coin_name c = prefixed_denom_to_string (coin_denom c)"

text \<open>An operation of the chain with such an effect on the tokens.\<close>

definition token_op ::
    "('acc, 'asset, 'bank) ledger_view \<Rightarrow> ('bank \<Rightarrow> 'bank \<Rightarrow> bool)
       \<Rightarrow> (('cs, 'cons, 'acc, 'asset, 'bank) chain, 'a, 'e) op \<Rightarrow> bool" where
  "token_op V change m \<longleftrightarrow>
     (\<forall>s. case m s of (Inr _, t) \<Rightarrow> change (tokens s) (tokens t) | (Inl _, t) \<Rightarrow> same_tokens V (tokens s) (tokens t))"

lemma same_tokens_refl [simp]: "same_tokens V b b"
  by (simp add: same_tokens_def)

lemma token_opD:
  assumes "token_op V change m" and "m s = (r, t)"
  shows "case r of Inr _ \<Rightarrow> change (tokens s) (tokens t) | Inl _ \<Rightarrow> same_tokens V (tokens s) (tokens t)"
  using assms(1)[unfolded token_op_def, THEN spec, of s] assms(2) by (auto split: sum.splits)

lemma token_op_bank:
  assumes "exactly V change m"
  shows "token_op V change (op_map_err g (on_bank m))"
  using assms
  by (auto simp: token_op_def exactly_def op_map_err_def on_bank_def map_err_def split: prod.splits sum.splits fault.splits)

lemma token_op_asset:
  fixes f :: "'asset \<Rightarrow> (('cs, 'cons, 'acc, 'asset, 'bank) chain, 'a, 'e) op"
  assumes "exact_ledger RT V" and "\<And>a. asset_denom V a = d \<Longrightarrow> token_op V change (f a)"
    and "\<And>b b' b''. same_tokens V b b' \<Longrightarrow> change b' b'' \<Longrightarrow> change b b''"
  shows "token_op V change (op_bind (op_map_err g (on_bank (from_denom_to_asset_id RT d))) f)"
  unfolding token_op_def
proof
  fix s :: "('cs, 'cons, 'acc, 'asset, 'bank) chain"
  obtain r b where m: "from_denom_to_asset_id RT d (tokens s) = (r, b)" by (metis prod.exhaust)
  from assms(1) m have b: "same_tokens V (tokens s) b" "\<And>a. r = Inr a \<Longrightarrow> asset_denom V a = d"
    by (auto simp: exact_ledger_def split: prod.splits)
  let ?t = "s\<lparr>app_storage := (app_storage s)\<lparr>bank := b\<rparr>\<rparr>"
  have trans: "same_tokens V (tokens s) c" if "same_tokens V b c" for c
    using b(1) that by (simp add: same_tokens_def)
  show "case op_bind (op_map_err g (on_bank (from_denom_to_asset_id RT d))) f s of
      (Inr x, t) \<Rightarrow> change (tokens s) (tokens t) | (Inl x, t) \<Rightarrow> same_tokens V (tokens s) (tokens t)"
  proof (cases r)
    case (Inl e)
    with m b(1) show ?thesis by (simp add: op_bind_apply op_map_err_def on_bank_def map_err_def split: fault.splits)
  next
    case (Inr a)
    have step: "op_bind (op_map_err g (on_bank (from_denom_to_asset_id RT d))) f s = f a ?t"
      using m Inr by (simp add: op_bind_apply op_map_err_def on_bank_def)
    obtain q u where q: "f a ?t = (q, u)" by (metis prod.exhaust)
    have "case q of Inr _ \<Rightarrow> change b (tokens u) | Inl _ \<Rightarrow> same_tokens V b (tokens u)"
      using token_opD [OF assms(2) [OF b(2) [OF Inr]] q] by (cases q) simp_all
    with assms(3) [OF b(1)] trans show ?thesis unfolding step q by (auto split: sum.splits)
  qed
qed

lemma token_op_lift:
  assumes "\<And>x. r = Inr x \<Longrightarrow> token_op V change (f x)"
  shows "token_op V change (op_bind (op_lift r) f)"
  using assms by (cases r) (auto simp: token_op_def)

lemma change_same:
  "same_tokens V b b' \<Longrightarrow> moves V d x y n b' c \<Longrightarrow> moves V d x y n b c"
  "same_tokens V b b' \<Longrightarrow> mints V d x n b' c \<Longrightarrow> mints V d x n b c"
  "same_tokens V b b' \<Longrightarrow> burns V d x n b' c \<Longrightarrow> burns V d x n b c"
  by (simp_all add: same_tokens_def moves_def mints_def burns_def)

lemma coin_value_u128: "as_u128 (as_u256 (coin_amount c)) = (Inr a :: (_, 'e) res) \<Longrightarrow> coin_value c = unat a"
  by (auto simp: coin_value_def as_u128_def panics_def unsigned_ucast_eq take_bit_nat_eq_self split: if_splits)

lemma pallet_coins_exact:
  assumes "exact_ledger RT V"
  shows "token_op V (moves V (coin_name c) x y (coin_value c)) (pallet_send_coins RT x y c)"
    and "token_op V (mints V (coin_name c) x (coin_value c)) (pallet_mint_coins RT x c)"
    and "token_op V (burns V (coin_name c) x (coin_value c)) (pallet_burn_coins RT x c)"
proof -
  note laws = assms [unfolded exact_ledger_def]
  have native: "asset_denom V (native_asset_id RT) = d \<Longrightarrow> exactly V (moves V d x y (unat n)) (native_transfer RT x y n)"
    and transfer: "asset_denom V a = d \<Longrightarrow> exactly V (moves V d x y (unat n)) (fungibles_transfer RT a x y n)"
    and mint: "asset_denom V a = d \<Longrightarrow> exactly V (mints V d x (unat n)) (fungibles_mint_into RT a x n)"
    and burn: "asset_denom V a = d \<Longrightarrow> exactly V (burns V d x (unat n)) (fungibles_burn_from RT a x n)" for a d n
    using laws by auto
  show "token_op V (moves V (coin_name c) x y (coin_value c)) (pallet_send_coins RT x y c)"
    unfolding pallet_send_coins_def coin_name_def
    by (rule token_op_lift, rule token_op_asset [OF assms])
      (auto simp: coin_value_u128 intro!: token_op_bank native transfer dest: change_same)
  show "token_op V (mints V (coin_name c) x (coin_value c)) (pallet_mint_coins RT x c)"
    unfolding pallet_mint_coins_def coin_name_def
    by (rule token_op_lift, rule token_op_asset [OF assms])
      (auto simp: coin_value_u128 intro!: token_op_bank mint dest: change_same)
  show "token_op V (burns V (coin_name c) x (coin_value c)) (pallet_burn_coins RT x c)"
    unfolding pallet_burn_coins_def coin_name_def
    by (rule token_op_lift, rule token_op_asset [OF assms])
      (auto simp: coin_value_u128 intro!: token_op_bank burn dest: change_same)
qed

section \<open>What token operations leave alone\<close>

text \<open>The host without the storage of the pallet: token operations keep it.\<close>

definition forget_app :: "('cs, 'cons, 'app) host \<Rightarrow> ('cs, 'cons, unit) host" where
  "forget_app s =
     \<lparr>trie = trie s, ClientUpdateTime = ClientUpdateTime s, ClientUpdateHeight = ClientUpdateHeight s,
      ChannelCounter = ChannelCounter s, PacketCounter = PacketCounter s, ClientCounter = ClientCounter s,
      ConnectionCounter = ConnectionCounter s, AcknowledgementCounter = AcknowledgementCounter s,
      PacketReceiptCounter = PacketReceiptCounter s, ChannelsConnection = ChannelsConnection s,
      ConnectionClient = ConnectionClient s, ConsensusHeights = ConsensusHeights s, SendPackets = SendPackets s,
      RecvPackets = RecvPackets s, Acks = Acks s, app_storage = (), PalletPrefix = PalletPrefix s,
      parachain_id = parachain_id s, block_number = block_number s, now_nanos = now_nanos s, BlockHash = BlockHash s,
      MinimumConnectionDelay = MinimumConnectionDelay s\<rparr>"

lemma forget_app_storage [simp]: "forget_app (s\<lparr>app_storage := a\<rparr>) = forget_app s"
  by (simp add: forget_app_def)

lemma forget_app_reads:
  assumes "forget_app t = forget_app s"
  shows "child_get t p = child_get s p"
  using assms by (simp add: forget_app_def child_get_def store_key_def)

lemma keeps_forget:
  "keeps forget_app (on_storage f)" "keeps forget_app (on_bank m)" "keeps forget_app (deposit_event e)"
  "keeps forget_app (local_asset_id RT d)"
  by (auto simp: keeps_def on_storage_def on_bank_def deposit_event_def local_asset_id_def
      split: prod.splits sum.splits fault.splits)

lemma keeps_if: "keeps view m \<Longrightarrow> keeps view n \<Longrightarrow> keeps view (if b then m else n)"
  by simp

lemma keeps_on_host: "keeps view m \<Longrightarrow> keeps (\<lambda>(s, b). view s) (on_host m)"
  by (simp add: keeps_def on_host_def case_prod_unfold)

lemmas keeps_rules = keeps_return keeps_lift keeps_read keeps_bind keeps_then keeps_map_err keeps_forget keeps_if keeps_on_host

lemma keeps_forget_coins:
  "keeps forget_app (pallet_send_coins RT x y c)" "keeps forget_app (pallet_mint_coins RT x c)"
  "keeps forget_app (pallet_burn_coins RT x c)"
  unfolding pallet_send_coins_def pallet_mint_coins_def pallet_burn_coins_def by (intro keeps_rules)+

lemma receive_tokens_keeps: "keeps (\<lambda>(s, b). forget_app s) (receive_tokens E RT p)"
proof -
  have "keeps (\<lambda>(s, b). forget_app s) (emit_event e)" for e
    by (auto simp: emit_event_def keeps_def)
  then show ?thesis
    unfolding receive_tokens_def process_recv_packet_def Let_def pallet_ics20_simps
    by (intro keeps_rules keeps_forget_coins)
qed

section \<open>Transfers, receipts and refunds\<close>

text \<open>What a transfer, a received packet and a refund do to the tokens of a chain with escrow account \<open>esc\<close>.\<close>

definition sends_token ::
    "('acc, 'asset, 'bank) ledger_view \<Rightarrow> 'acc \<Rightarrow> 'acc \<Rightarrow> port_id \<Rightarrow> channel_id \<Rightarrow> prefixed_coin \<Rightarrow> 'bank \<Rightarrow> 'bank \<Rightarrow> bool" where
  "sends_token V esc x p c coin b b' \<longleftrightarrow>
     (if is_sender_chain_source p c (coin_denom coin) then moves V (coin_name coin) x esc (coin_value coin) b b'
      else burns V (coin_name coin) x (coin_value coin) b b')"

definition receives_token ::
    "('acc, 'asset, 'bank) ledger_view \<Rightarrow> 'acc \<Rightarrow> packet \<Rightarrow> prefixed_coin \<Rightarrow> 'bank \<Rightarrow> 'bank \<Rightarrow> bool" where
  "receives_token V esc p coin b b' \<longleftrightarrow>
     (\<exists>x. if is_receiver_chain_source (source_port p) (source_channel p) (coin_denom coin)
      then moves V (prefixed_denom_to_string
          (remove_trace_prefix (trace_prefix_new (source_port p) (source_channel p)) (coin_denom coin)))
        esc x (coin_value coin) b b'
      else mints V (prefixed_denom_to_string
          (add_trace_prefix (trace_prefix_new (destination_port p) (destination_channel p)) (coin_denom coin)))
        x (coin_value coin) b b')"

definition refunds_token ::
    "('acc, 'asset, 'bank) ledger_view \<Rightarrow> 'acc \<Rightarrow> port_id \<Rightarrow> channel_id \<Rightarrow> prefixed_coin \<Rightarrow> 'bank \<Rightarrow> 'bank \<Rightarrow> bool" where
  "refunds_token V esc p c coin b b' \<longleftrightarrow>
     (\<exists>x. if is_sender_chain_source p c (coin_denom coin) then moves V (coin_name coin) esc x (coin_value coin) b b'
      else mints V (coin_name coin) x (coin_value coin) b b')"

lemma token_op_weaken:
  assumes "token_op V change m" and "\<And>b b'. change b b' \<Longrightarrow> change' b b'"
  shows "token_op V change' m"
  unfolding token_op_def
proof
  fix s
  obtain r t where m: "m s = (r, t)" by (metis prod.exhaust)
  from token_opD [OF assms(1) m] assms(2) m
  show "case m s of (Inr x, t) \<Rightarrow> change' (tokens s) (tokens t) | (Inl x, t) \<Rightarrow> same_tokens V (tokens s) (tokens t)"
    by (cases r) simp_all
qed

lemma refund_tokens:
  assumes "exact_ledger RT V" and "pallet_escrow_address RT (sha2_256 E) (source_port p) (source_channel p) = Inr esc"
  shows "token_op V (refunds_token V esc (source_port p) (source_channel p) (td_token d))
    (refund_packet_token (pallet_ics20 E RT) p d)"
  unfolding refund_packet_token_def pallet_ics20_simps
proof (rule token_op_lift, goal_cases)
  case (1 x)
  show ?case
  proof (cases "is_sender_chain_source (source_port p) (source_channel p) (coin_denom (td_token d))")
    case True
    have "token_op V (refunds_token V esc (source_port p) (source_channel p) (td_token d)) (pallet_send_coins RT esc x (td_token d))"
      using pallet_coins_exact(1) [OF assms(1)] by (rule token_op_weaken) (use True in \<open>auto simp: refunds_token_def\<close>)
    with True assms(2) show ?thesis by (auto intro: token_op_lift)
  next
    case False
    have "token_op V (refunds_token V esc (source_port p) (source_channel p) (td_token d)) (pallet_mint_coins RT x (td_token d))"
      using pallet_coins_exact(2) [OF assms(1)] by (rule token_op_weaken) (use False in \<open>auto simp: refunds_token_def\<close>)
    with False show ?thesis by simp
  qed
qed

lemma on_host_eq [simp]: "on_host m (s, b) = (r, (t, b')) \<longleftrightarrow> m s = (r, t) \<and> b' = b"
  by (auto simp: on_host_def split: prod.splits)

lemma receive_tokens_effect:
  fixes s t :: "('cs, 'cons, 'acc, 'asset, 'bank) chain"
  assumes "exact_ledger RT V"
    and "pallet_escrow_address RT (sha2_256 E) (destination_port p) (destination_channel p) = Inr esc"
    and "process_recv_packet (pallet_ics20 E RT) p d (s, b) = (r, (t, b'))"
  shows "case r of Inr _ \<Rightarrow> receives_token V esc p (td_token d) (tokens s) (tokens t)
    | Inl _ \<Rightarrow> same_tokens V (tokens s) (tokens t)"
proof (cases "receive_enabled RT \<and> account_id_conversion RT (td_receiver d) \<noteq> None")
  case True
  then obtain x where en: "receive_enabled RT" and x: "account_id_conversion RT (td_receiver d) = Some x" by blast
  let ?src = "is_receiver_chain_source (source_port p) (source_channel p) (coin_denom (td_token d))"
  define coin where "coin = (td_token d)\<lparr>coin_denom :=
    (if ?src then remove_trace_prefix (trace_prefix_new (source_port p) (source_channel p)) (coin_denom (td_token d))
     else add_trace_prefix (trace_prefix_new (destination_port p) (destination_channel p)) (coin_denom (td_token d)))\<rparr>"
  define m :: "(('cs, 'cons, 'acc, 'asset, 'bank) chain, unit, ics20_error) op"
    where "m = (if ?src then pallet_send_coins RT esc x coin else pallet_mint_coins RT x coin)"
  have m: "m s = (r, t)"
    using assms(2,3) en x
    by (auto simp: process_recv_packet_def m_def coin_def emit_event_def on_host_def Let_def split: if_splits prod.splits)
  have "coin_value coin = coin_value (td_token d)"
    by (simp add: coin_value_def coin_def)
  moreover have "if ?src then token_op V (moves V (coin_name coin) esc x (coin_value coin)) m
      else token_op V (mints V (coin_name coin) x (coin_value coin)) m"
    by (simp add: m_def pallet_coins_exact(1,2) [OF assms(1)])
  ultimately show ?thesis
    using token_opD [where m = m and s = s and r = r and t = t] m
    by (cases ?src; cases r) (force simp: receives_token_def coin_name_def coin_def)+
qed (use assms(3) in \<open>auto simp: process_recv_packet_def fail_with_def split: if_splits\<close>)

lemma keeps_app_storage: "keeps app_storage (store_packet_result E r)"
  by (cases "(E, r)" rule: store_packet_result.cases;
      auto simp: store_packet_result.simps packet_store_defs store_send_packet_def store_recv_packet_def Let_def
        view_puts split: option.splits intro!: keeps_then keeps_bind keeps_update)

lemma send_transfer_effect:
  assumes "exact_ledger RT V"
    and "pallet_escrow_address RT (sha2_256 E) (mt_source_port m) (mt_source_channel m) = Inr esc"
    and "send_transfer E K (pallet_ics20 E RT) m (s, b) = (Inr u, (t, b'))"
  obtains x where "account_id_conversion RT (mt_sender m) = Some x"
    and "sends_token V esc x (mt_source_port m) (mt_source_channel m) (mt_token m) (tokens s) (tokens t)"
proof -
  let ?src = "is_sender_chain_source (mt_source_port m) (mt_source_channel m) (coin_denom (mt_token m))"
  obtain x t' out where x: "account_id_conversion RT (mt_sender m) = Some x"
    and coins: "(if ?src then pallet_send_coins RT x esc (mt_token m) else pallet_burn_coins RT x (mt_token m)) s = (Inr (), t')"
    and st: "store_packet_result E out t' = (Inr (), t)"
    using assms(2,3)
    by (cases ?src; auto simp: send_transfer_def Let_def op_bind_eq_Inr op_then_eq_Inr simp del: op_bind_basic
        split: if_splits; blast)
  have "app_storage t = app_storage t'" using keepsD [OF keeps_app_storage st] .
  with coins token_opD [OF pallet_coins_exact(1) [OF assms(1)]] token_opD [OF pallet_coins_exact(3) [OF assms(1)]]
  have "sends_token V esc x (mt_source_port m) (mt_source_channel m) (mt_token m) (tokens s) (tokens t)"
    by (fastforce simp: sends_token_def split: if_splits)
  with that x show ?thesis by blast
qed

section \<open>Two chains and a channel\<close>

text \<open>
  Two chains with the two ends of a channel. A packet is outstanding from the transfer that sends it until it is
  credited at the other end or refunded; the packet layer settles every packet once.
\<close>

record 'c link =
  sides :: "bool \<Rightarrow> 'c"
  outstanding :: "bool \<Rightarrow> transfer_data multiset"

record ('cs, 'cons, 'msg, 'acc, 'asset, 'bank) endpoint =
  ep_env :: "('cs, 'cons, 'msg, ('acc, 'asset, 'bank) pallet_storage) env"
  ep_runtime :: "('acc, 'asset, 'bank) runtime"
  ep_view :: "('acc, 'asset, 'bank) ledger_view"
  ep_port :: port_id
  ep_channel :: channel_id
  ep_escrow :: 'acc

definition ep_prefix :: "('cs, 'cons, 'msg, 'acc, 'asset, 'bank) endpoint \<Rightarrow> trace_prefix" where
  "ep_prefix e = trace_prefix_new (ep_port e) (ep_channel e)"

definition voucher_name :: "('cs, 'cons, 'msg, 'acc, 'asset, 'bank) endpoint \<Rightarrow> prefixed_denom \<Rightarrow> string" where
  "voucher_name e d = prefixed_denom_to_string (add_trace_prefix (ep_prefix e) d)"

definition endpoint_ok :: "('cs, 'cons, 'msg, 'acc, 'asset, 'bank) endpoint \<Rightarrow> bool" where
  "endpoint_ok e \<longleftrightarrow> exact_ledger (ep_runtime e) (ep_view e)
     \<and> pallet_escrow_address (ep_runtime e) (sha2_256 (ep_env e)) (ep_port e) (ep_channel e) = Inr (ep_escrow e)"

definition between ::
    "(bool \<Rightarrow> ('cs, 'cons, 'msg, 'acc, 'asset, 'bank) endpoint) \<Rightarrow> bool \<Rightarrow> packet \<Rightarrow> bool" where
  "between ep i p \<longleftrightarrow> source_port p = ep_port (ep i) \<and> source_channel p = ep_channel (ep i)
     \<and> destination_port p = ep_port (ep (\<not> i)) \<and> destination_channel p = ep_channel (ep (\<not> i))"

inductive link_step ::
    "(nat \<Rightarrow> bool) \<Rightarrow> (bool \<Rightarrow> ('cs, 'cons, 'msg, 'acc, 'asset, 'bank) endpoint)
       \<Rightarrow> ('cs, 'cons, 'acc, 'asset, 'bank) chain link \<Rightarrow> ('cs, 'cons, 'acc, 'asset, 'bank) chain link \<Rightarrow> bool"
  for ua ep where
  link_sent: "send_transfer (ep_env (ep i)) K (pallet_ics20 (ep_env (ep i)) (ep_runtime (ep i))) m (sides L i, b) = (Inr (), (t, b'))
     \<Longrightarrow> mt_source_port m = ep_port (ep i) \<Longrightarrow> mt_source_channel m = ep_channel (ep i)
     \<Longrightarrow> account_id_conversion (ep_runtime (ep i)) (mt_sender m) \<noteq> Some (ep_escrow (ep i))
     \<Longrightarrow> wf_denom ua (coin_denom (mt_token m)) \<Longrightarrow> td_token d = mt_token m
     \<Longrightarrow> link_step ua ep L (L\<lparr>sides := (sides L)(i := t), outstanding := (outstanding L)(i := add_mset d (outstanding L i))\<rparr>)"
| link_credited: "d \<in># outstanding L i \<Longrightarrow> between ep i p
     \<Longrightarrow> process_recv_packet (pallet_ics20 (ep_env (ep (\<not> i))) (ep_runtime (ep (\<not> i)))) p d (sides L (\<not> i), b) = (Inr (), (t, b'))
     \<Longrightarrow> link_step ua ep L (L\<lparr>sides := (sides L)(\<not> i := t), outstanding := (outstanding L)(i := outstanding L i - {#d#})\<rparr>)"
| link_rejected: "d \<in># outstanding L i \<Longrightarrow> between ep i p
     \<Longrightarrow> process_recv_packet (pallet_ics20 (ep_env (ep (\<not> i))) (ep_runtime (ep (\<not> i)))) p d (sides L (\<not> i), b) = (Inl f, (t, b'))
     \<Longrightarrow> link_step ua ep L (L\<lparr>sides := (sides L)(\<not> i := t)\<rparr>)"
| link_refunded: "d \<in># outstanding L i \<Longrightarrow> between ep i p
     \<Longrightarrow> refund_packet_token (pallet_ics20 (ep_env (ep i)) (ep_runtime (ep i))) p d (sides L i) = (Inr (), t)
     \<Longrightarrow> link_step ua ep L (L\<lparr>sides := (sides L)(i := t), outstanding := (outstanding L)(i := outstanding L i - {#d#})\<rparr>)"
| link_other: "\<forall>d. balance (ep_view (ep i)) (tokens (sides L i)) (prefixed_denom_to_string d) (ep_escrow (ep i))
        \<le> balance (ep_view (ep i)) (tokens t) (prefixed_denom_to_string d) (ep_escrow (ep i))
      \<and> issuance (ep_view (ep i)) (tokens t) (voucher_name (ep i) d) \<le> issuance (ep_view (ep i)) (tokens (sides L i)) (voucher_name (ep i) d)
     \<Longrightarrow> link_step ua ep L (L\<lparr>sides := (sides L)(i := t)\<rparr>)"

text \<open>The amount that outstanding packets carry of a denomination.\<close>

definition in_flight :: "prefixed_denom \<Rightarrow> transfer_data multiset \<Rightarrow> nat" where
  "in_flight d M = (\<Sum>x\<in>#M. if coin_denom (td_token x) = d then coin_value (td_token x) else 0)"

definition backed ::
    "(bool \<Rightarrow> ('cs, 'cons, 'msg, 'acc, 'asset, 'bank) endpoint) \<Rightarrow> ('cs, 'cons, 'acc, 'asset, 'bank) chain link
       \<Rightarrow> bool \<Rightarrow> prefixed_denom \<Rightarrow> bool" where
  "backed ep L i d \<longleftrightarrow>
     issuance (ep_view (ep (\<not> i))) (tokens (sides L (\<not> i))) (voucher_name (ep (\<not> i)) d)
       + in_flight d (outstanding L i) + in_flight (add_trace_prefix (ep_prefix (ep (\<not> i))) d) (outstanding L (\<not> i))
     \<le> balance (ep_view (ep i)) (tokens (sides L i)) (prefixed_denom_to_string d) (ep_escrow (ep i))"

definition link_inv ::
    "(nat \<Rightarrow> bool) \<Rightarrow> (bool \<Rightarrow> ('cs, 'cons, 'msg, 'acc, 'asset, 'bank) endpoint)
       \<Rightarrow> ('cs, 'cons, 'acc, 'asset, 'bank) chain link \<Rightarrow> bool" where
  "link_inv ua ep L \<longleftrightarrow>
     (\<forall>i. \<forall>x \<in># outstanding L i. wf_denom ua (coin_denom (td_token x)))
     \<and> (\<forall>i d. wf_denom ua d \<and> is_sender_chain_source (ep_port (ep i)) (ep_channel (ep i)) d \<longrightarrow> backed ep L i d)"

section \<open>Vouchers stay backed\<close>

lemma in_flight_add: "in_flight d (add_mset x M) = in_flight d M + (if coin_denom (td_token x) = d then coin_value (td_token x) else 0)"
  by (simp add: in_flight_def)

lemma in_flight_remove:
  assumes "x \<in># M"
  shows "in_flight d M = in_flight d (M - {#x#}) + (if coin_denom (td_token x) = d then coin_value (td_token x) else 0)"
  using in_flight_add [of d x "M - {#x#}"] assms by simp

lemma names_differ: "wf_denom ua d \<Longrightarrow> wf_denom ua e \<Longrightarrow> prefixed_denom_to_string d = prefixed_denom_to_string e \<longleftrightarrow> d = e"
  using denom_display_inj by blast

lemma source_prefixed: "is_sender_chain_source (ep_port e) (ep_channel e) d \<Longrightarrow> d \<noteq> add_trace_prefix (ep_prefix e) d'"
  by (auto simp: is_sender_chain_source_def ep_prefix_def)

lemma mints_mono: "mints V d x n b b' \<Longrightarrow> balance V b e z \<le> balance V b' e z"
  by (simp add: mints_def)

lemma mints_issuance: "mints V d x n b b' \<Longrightarrow> issuance V b' e = (if e = d then issuance V b d + n else issuance V b e)"
  by (simp add: mints_def)

lemma sent_keeps_backed:
  assumes "sends_token (ep_view (ep i)) (ep_escrow (ep i)) x (ep_port (ep i)) (ep_channel (ep i)) (td_token y) (tokens (sides L i)) (tokens t)"
    and "x \<noteq> ep_escrow (ep i)" and "wf_denom ua (coin_denom (td_token y))" and "\<And>i. valid_port_id ua (ep_port (ep i))"
    and "wf_denom ua d" and "is_sender_chain_source (ep_port (ep j)) (ep_channel (ep j)) d" and "backed ep L j d"
  shows "backed ep (L\<lparr>sides := (sides L)(i := t), outstanding := (outstanding L)(i := add_mset y (outstanding L i))\<rparr>) j d"
proof -
  have wf: "wf_denom ua (add_trace_prefix (ep_prefix (ep k)) d)" for k
    using assms(4,5) by (simp add: wf_denom_prefixes ep_prefix_def trace_prefix_new_def)
  note names = names_differ [OF assms(3,5)] names_differ [OF assms(3) wf] names_differ [OF wf assms(3)] names_differ [OF assms(5,3)]
  show ?thesis
  proof (cases "is_sender_chain_source (ep_port (ep i)) (ep_channel (ep i)) (coin_denom (td_token y))")
    case True
    with source_prefixed have "coin_denom (td_token y) \<noteq> add_trace_prefix (ep_prefix (ep i)) d" by blast
    with assms(1,2,7) True show ?thesis
      by (cases "j = i") (auto simp: backed_def sends_token_def moves_def coin_name_def in_flight_add names voucher_name_def)
  next
    case False
    then have "j = i \<Longrightarrow> coin_denom (td_token y) \<noteq> d" using assms(6) by auto
    with assms(1,7) False show ?thesis
      by (cases "j = i") (auto simp: backed_def sends_token_def burns_def coin_name_def in_flight_add names voucher_name_def)
  qed
qed

lemma credited_keeps_backed:
  assumes "receives_token (ep_view (ep (\<not> i))) (ep_escrow (ep (\<not> i))) p (td_token y) (tokens (sides L (\<not> i))) (tokens t)"
    and "between ep i p" and "y \<in># outstanding L i"
    and "wf_denom ua (coin_denom (td_token y))" and "\<And>i. valid_port_id ua (ep_port (ep i))"
    and "wf_denom ua d" and "is_sender_chain_source (ep_port (ep j)) (ep_channel (ep j)) d" and "backed ep L j d"
  shows "backed ep (L\<lparr>sides := (sides L)(\<not> i := t), outstanding := (outstanding L)(i := outstanding L i - {#y#})\<rparr>) j d"
proof -
  have wf: "wf_denom ua (add_trace_prefix (ep_prefix (ep k)) e)" if "wf_denom ua e" for k e
    using assms(5) that by (simp add: wf_denom_prefixes ep_prefix_def trace_prefix_new_def)
  let ?y = "coin_denom (td_token y)" and ?base = "remove_trace_prefix (ep_prefix (ep i)) (coin_denom (td_token y))"
  have base: "wf_denom ua ?base" by (rule wf_denom_prefixes(2) [OF assms(4)])
  show ?thesis
  proof (cases "is_receiver_chain_source (ep_port (ep i)) (ep_channel (ep i)) ?y")
    case True
    then have y: "add_trace_prefix (ep_prefix (ep i)) ?base = ?y" by (simp add: ep_prefix_def)
    have "d = ?base \<longleftrightarrow> ?y = add_trace_prefix (ep_prefix (ep i)) d"
      by (metis y denom_prefix_laws(2))
    moreover have "j = i \<Longrightarrow> d \<noteq> ?y" using True assms(7) by (auto simp: is_sender_chain_source_def)
    ultimately show ?thesis
      using assms(1,2,8) True in_flight_remove [OF assms(3)] names_differ [OF assms(6) base]
      by (cases "j = i") (auto simp: backed_def receives_token_def moves_def between_def ep_prefix_def)
  next
    case False
    have "j = (\<not> i) \<Longrightarrow> ?y \<noteq> add_trace_prefix (ep_prefix (ep i)) d"
      using False by (auto simp: ep_prefix_def)
    moreover have "add_trace_prefix (ep_prefix (ep (\<not> i))) ?y = add_trace_prefix (ep_prefix (ep (\<not> i))) d \<longleftrightarrow> ?y = d"
      by (metis denom_prefix_laws(2))
    moreover obtain x where m: "mints (ep_view (ep (\<not> i)))
        (voucher_name (ep (\<not> i)) ?y) x (coin_value (td_token y)) (tokens (sides L (\<not> i))) (tokens t)"
      using assms(1,2) False by (auto simp: receives_token_def between_def ep_prefix_def voucher_name_def)
    ultimately show ?thesis
      using assms(8) in_flight_remove [OF assms(3)] mints_mono [OF m, of "prefixed_denom_to_string d" "ep_escrow (ep (\<not> i))"]
        names_differ [OF wf [OF assms(6)] wf [OF assms(4)], of "\<not> i" "\<not> i"]
      by (cases "j = i") (auto simp: backed_def mints_issuance [OF m] voucher_name_def)
  qed
qed

lemma refunded_keeps_backed:
  assumes "refunds_token (ep_view (ep i)) (ep_escrow (ep i)) (ep_port (ep i)) (ep_channel (ep i)) (td_token y) (tokens (sides L i)) (tokens t)"
    and "y \<in># outstanding L i"
    and "wf_denom ua (coin_denom (td_token y))" and "\<And>i. valid_port_id ua (ep_port (ep i))"
    and "wf_denom ua d" and "is_sender_chain_source (ep_port (ep j)) (ep_channel (ep j)) d" and "backed ep L j d"
  shows "backed ep (L\<lparr>sides := (sides L)(i := t), outstanding := (outstanding L)(i := outstanding L i - {#y#})\<rparr>) j d"
proof -
  have wf: "wf_denom ua (add_trace_prefix (ep_prefix (ep k)) d)" for k
    using assms(4,5) by (simp add: wf_denom_prefixes ep_prefix_def trace_prefix_new_def)
  note names = names_differ [OF assms(3,5)] names_differ [OF assms(3) wf] names_differ [OF wf assms(3)] names_differ [OF assms(5,3)]
  show ?thesis
  proof (cases "is_sender_chain_source (ep_port (ep i)) (ep_channel (ep i)) (coin_denom (td_token y))")
    case True
    with source_prefixed have "coin_denom (td_token y) \<noteq> add_trace_prefix (ep_prefix (ep i)) d" by blast
    with assms(1,7) True in_flight_remove [OF assms(2)] show ?thesis
      by (cases "j = i") (auto simp: backed_def refunds_token_def moves_def coin_name_def names voucher_name_def)
  next
    case False
    then have "j = i \<Longrightarrow> coin_denom (td_token y) \<noteq> d" using assms(6) by auto
    with assms(1,7) False in_flight_remove [OF assms(2)] show ?thesis
      by (cases "j = i") (auto simp: backed_def refunds_token_def mints_def coin_name_def names voucher_name_def)
  qed
qed

lemma link_step_inv:
  assumes "link_step ua ep L L'" and "\<And>i. endpoint_ok (ep i)" and "\<And>i. valid_port_id ua (ep_port (ep i))" and "link_inv ua ep L"
  shows "link_inv ua ep L'"
proof -
  have led: "exact_ledger (ep_runtime (ep i)) (ep_view (ep i))"
    and esc: "pallet_escrow_address (ep_runtime (ep i)) (sha2_256 (ep_env (ep i))) (ep_port (ep i)) (ep_channel (ep i)) = Inr (ep_escrow (ep i))" for i
    using assms(2) by (simp_all add: endpoint_ok_def)
  have wf: "x \<in># outstanding L i \<Longrightarrow> wf_denom ua (coin_denom (td_token x))"
    and bk: "wf_denom ua d \<Longrightarrow> is_sender_chain_source (ep_port (ep i)) (ep_channel (ep i)) d \<Longrightarrow> backed ep L i d" for i x d
    using assms(4) by (auto simp: link_inv_def)
  from assms(1) show ?thesis
  proof (cases rule: link_step.cases)
    case (link_sent i K m b t b' d)
    obtain x where x: "account_id_conversion (ep_runtime (ep i)) (mt_sender m) = Some x"
      "sends_token (ep_view (ep i)) (ep_escrow (ep i)) x (mt_source_port m) (mt_source_channel m) (mt_token m) (tokens (sides L i)) (tokens t)"
      by (rule send_transfer_effect [OF led _ link_sent(2)]) (use esc link_sent(3,4) in auto)
    with link_sent(3-7) have s: "sends_token (ep_view (ep i)) (ep_escrow (ep i)) x (ep_port (ep i)) (ep_channel (ep i)) (td_token d)
        (tokens (sides L i)) (tokens t)" "x \<noteq> ep_escrow (ep i)" "wf_denom ua (coin_denom (td_token d))"
      by auto
    show ?thesis
      unfolding link_inv_def link_sent(1)
      using sent_keeps_backed [OF s assms(3) _ _ bk] s(3) wf by (auto split: if_splits)
  next
    case (link_credited d i p b t b')
    have r: "receives_token (ep_view (ep (\<not> i))) (ep_escrow (ep (\<not> i))) p (td_token d) (tokens (sides L (\<not> i))) (tokens t)"
      using receive_tokens_effect [OF led _ link_credited(4)] esc [of "\<not> i"] link_credited(3) by (simp add: between_def)
    show ?thesis
      unfolding link_inv_def link_credited(1)
      using credited_keeps_backed [OF r link_credited(3,2) wf [OF link_credited(2)] assms(3) _ _ bk] wf
      by (auto split: if_splits dest: in_diffD)
  next
    case (link_rejected d i p b f t b')
    have "same_tokens (ep_view (ep (\<not> i))) (tokens (sides L (\<not> i))) (tokens t)"
      using receive_tokens_effect [OF led _ link_rejected(4)] esc [of "\<not> i"] link_rejected(3) by (simp add: between_def)
    then have "backed ep L' j d \<longleftrightarrow> backed ep L j d" for j d
      by (auto simp: backed_def same_tokens_def link_rejected(1))
    with wf bk show ?thesis by (auto simp: link_inv_def link_rejected(1))
  next
    case (link_refunded d i p t)
    have r: "refunds_token (ep_view (ep i)) (ep_escrow (ep i)) (ep_port (ep i)) (ep_channel (ep i)) (td_token d) (tokens (sides L i)) (tokens t)"
      using token_opD [OF refund_tokens [OF led] link_refunded(4)]
        esc [of i] link_refunded(3) by (simp add: between_def)
    show ?thesis
      unfolding link_inv_def link_refunded(1)
      using refunded_keeps_backed [OF r link_refunded(2) wf [OF link_refunded(2)] assms(3) _ _ bk] wf
      by (auto split: if_splits dest: in_diffD)
  next
    case (link_other i t)
    have "backed ep L j d \<Longrightarrow> backed ep L' j d" for j d
      using link_other(2) [rule_format, of d]
      by (cases "j = i") (auto simp: backed_def link_other(1))
    with wf bk show ?thesis by (auto simp: link_inv_def link_other(1))
  qed
qed

section \<open>Properties\<close>



end
