(* ===== verification/Sample_Chain.thy ===== *)
theory Sample_Chain
  imports Transfer_Ledger
begin

text \<open>
  A chain for the witnesses: a sample host of the packet handlers, whose application storage is empty, together with
  a storage of the pallet. What the handlers read of the one they read of the other.
\<close>

definition with_app :: "'app \<Rightarrow> ('cs, 'cons, unit) host \<Rightarrow> ('cs, 'cons, 'app) host" where
  "with_app a s =
     \<lparr>trie = trie s, ClientUpdateTime = ClientUpdateTime s, ClientUpdateHeight = ClientUpdateHeight s,
      ChannelCounter = ChannelCounter s, PacketCounter = PacketCounter s, ClientCounter = ClientCounter s,
      ConnectionCounter = ConnectionCounter s, AcknowledgementCounter = AcknowledgementCounter s,
      PacketReceiptCounter = PacketReceiptCounter s, ChannelsConnection = ChannelsConnection s,
      ConnectionClient = ConnectionClient s, ConsensusHeights = ConsensusHeights s, SendPackets = SendPackets s,
      RecvPackets = RecvPackets s, Acks = Acks s, app_storage = a, PalletPrefix = PalletPrefix s,
      parachain_id = parachain_id s, block_number = block_number s, now_nanos = now_nanos s, BlockHash = BlockHash s,
      MinimumConnectionDelay = MinimumConnectionDelay s\<rparr>"

definition lift_env :: "('cs, 'cons, 'msg, unit) env \<Rightarrow> ('cs, 'cons, 'msg, 'app) env" where
  "lift_env E =
     \<lparr>unicode_alnum = unicode_alnum E, tm_representable = tm_representable E, sha2_256 = sha2_256 E,
      cs_client_type = cs_client_type E, cs_latest_height = cs_latest_height E,
      cs_status = (\<lambda>c s. cs_status E c (forget_app s)), cs_expired = cs_expired E, cons_root = cons_root E,
      cons_timestamp = cons_timestamp E,
      def_verify_client_message = (\<lambda>s. def_verify_client_message E (forget_app s)),
      def_update_state = (\<lambda>s. def_update_state E (forget_app s)),
      def_update_state_on_misbehaviour = def_update_state_on_misbehaviour E,
      def_check_for_misbehaviour = (\<lambda>s. def_check_for_misbehaviour E (forget_app s)),
      def_verify_upgrade_and_update_state = (\<lambda>s. def_verify_upgrade_and_update_state E (forget_app s)),
      def_verify_client_consensus_state = (\<lambda>s. def_verify_client_consensus_state E (forget_app s)),
      def_verify_connection_state = (\<lambda>s. def_verify_connection_state E (forget_app s)),
      def_verify_channel_state = (\<lambda>s. def_verify_channel_state E (forget_app s)),
      def_verify_client_full_state = (\<lambda>s. def_verify_client_full_state E (forget_app s)),
      def_verify_packet_data = (\<lambda>s. def_verify_packet_data E (forget_app s)),
      def_verify_packet_acknowledgement = (\<lambda>s. def_verify_packet_acknowledgement E (forget_app s)),
      def_verify_next_sequence_recv = (\<lambda>s. def_verify_next_sequence_recv E (forget_app s)),
      def_verify_packet_receipt_absence = (\<lambda>s. def_verify_packet_receipt_absence E (forget_app s)),
      host_consensus_state_fn = (\<lambda>s. host_consensus_state_fn E (forget_app s)),
      validate_self_client_fn = (\<lambda>s. validate_self_client_fn E (forget_app s))\<rparr>"

lemma forget_with_app [simp]: "forget_app (with_app a s) = s"
  by (simp add: forget_app_def with_app_def)

lemma with_app_fields [simp]:
  "app_storage (with_app a s) = a" "ChannelCounter (with_app a s) = ChannelCounter s"
  "ConnectionCounter (with_app a s) = ConnectionCounter s" "now_nanos (with_app a s) = now_nanos s"
  "child_get (with_app a s) p = child_get s p" "host_height (with_app a s) = host_height s"
  by (simp_all add: with_app_def child_get_def store_key_def host_height_def)

lemma lift_env_fields [simp]:
  "unicode_alnum (lift_env E) = unicode_alnum E" "tm_representable (lift_env E) = tm_representable E"
  "sha2_256 (lift_env E) = sha2_256 E" "cons_root (lift_env E) = cons_root E"
  "cs_latest_height (lift_env E) = cs_latest_height E" "cons_timestamp (lift_env E) = cons_timestamp E"
  "is_frozen (lift_env E) c (with_app a s) i = is_frozen E c s i"
  "def_verify_packet_data (lift_env E) (with_app a s) = def_verify_packet_data E s"
  by (simp_all add: lift_env_def is_frozen_def)

lemma lifted_reads [simp]:
  "get_channel_end (lift_env E) (with_app a s) k = get_channel_end E s k"
  "get_connection_end (lift_env E) (with_app a s) i = get_connection_end E s i"
  "packet_receipt_get (with_app a s) pk = packet_receipt_get s pk"
  "acknowledgements_get (with_app a s) pk = acknowledgements_get s pk"
  "next_seq_send_get (with_app a s) k = next_seq_send_get s k"
  "next_seq_recv_get (with_app a s) k = next_seq_recv_get s k"
  "channels_get (with_app a s) k = channels_get s k"
  "connections_get (with_app a s) i = connections_get s i"
  "packet_commitment_get (with_app a s) pk = packet_commitment_get s pk"
  "get_client_state (with_app a s) ci = get_client_state s ci"
  "get_consensus_state (with_app a s) ci h = get_consensus_state s ci h"
  "get_packet_receipt (with_app a s) pk = get_packet_receipt s pk"
  "get_next_sequence_recv (with_app a s) k = get_next_sequence_recv s k"
  "get_next_sequence_send (with_app a s) k = get_next_sequence_send s k"
  "host_timestamp (lift_env E) (with_app a s) = host_timestamp E s"
  by (simp_all add: get_client_state_def get_consensus_state_def get_packet_receipt_def get_next_sequence_recv_def get_next_sequence_send_def
      host_timestamp_def get_channel_end_def get_connection_end_def view_gets)

lemma lifted_inv: "host_inv (with_app a s) \<longleftrightarrow> host_inv s" "counters_left (with_app a s) \<longleftrightarrow> counters_left s"
  by (simp_all add: host_inv_def counters_left_def channel_ids_below_def connection_ids_below_def commitments_below_def
      ids_below_def)

lemma lifted_recv:
  "packet_dispatch (lift_env E) (with_app a s) (RecvPacketMsg m) = packet_dispatch E s (RecvPacketMsg m)"
proof -
  have "verify_packet_recv_proofs (lift_env E) (with_app a s) h p conn pfs = verify_packet_recv_proofs E s h p conn pfs" for h p conn pfs
    by (simp add: verify_packet_recv_proofs_def with_verifier_def cong: if_cong)
  then show ?thesis
    by (simp add: packet_dispatch_def recv_packet_process_def cong: if_cong)
qed

lemma lifted_send: "send_packet (lift_env E) (with_app a s) p = send_packet E s p"
  by (simp add: send_packet_def sent_commitment_def cong: if_cong)

lemma lifted_open_init:
  "channel_dispatch (lift_env E) (with_app a s) (ChannelOpenInit m) = channel_dispatch E s (ChannelOpenInit m)"
  by (simp add: channel_dispatch_def chan_open_init_process_def hop_connection_def get_channel_counter_def
      chan_event_def cong: if_cong)

lemma store_sent_total:
  assumes "get_channel_end E s (sp_port_id r, sp_channel_id r) = Inr e" and "packet_info_from_packet (sp_packet r) = (Inr info :: (_, ics04_error) res)"
  shows "\<exists>t. store_packet_result E (SendResult r) s = (Inr (), t)"
  using assms
  by (auto simp: store_packet_result.simps packet_store_defs store_send_packet_def packet_info_at_def get_channel_end_def
      view_laws Let_def split: option.splits)

section \<open>A ledger\<close>

record sample_bank =
  held :: "string \<Rightarrow> string \<Rightarrow> nat"
  issued :: "string \<Rightarrow> nat"

definition bank_transfer :: "string \<Rightarrow> string \<Rightarrow> string \<Rightarrow> u128 \<Rightarrow> (sample_bank, unit, unit) op" where
  "bank_transfer d x y n = (\<lambda>b.
     if unat n \<le> held b d x
     then (Inr (), b\<lparr>held := (held b)(d := (\<lambda>z. held b d z - (if z = x then unat n else 0) + (if z = y then unat n else 0)))\<rparr>)
     else (fail_with (), b))"

definition bank_mint :: "string \<Rightarrow> string \<Rightarrow> u128 \<Rightarrow> (sample_bank, unit, unit) op" where
  "bank_mint d x n = (\<lambda>b.
     (Inr (), b\<lparr>held := (held b)(d := (held b d)(x := held b d x + unat n)), issued := (issued b)(d := issued b d + unat n)\<rparr>))"

definition bank_burn :: "string \<Rightarrow> string \<Rightarrow> u128 \<Rightarrow> (sample_bank, unit, unit) op" where
  "bank_burn d x n = (\<lambda>b.
     if unat n \<le> held b d x \<and> unat n \<le> issued b d
     then (Inr (), b\<lparr>held := (held b)(d := (held b d)(x := held b d x - unat n)), issued := (issued b)(d := issued b d - unat n)\<rparr>)
     else (fail_with (), b))"

definition uatom :: prefixed_denom where
  "uatom = \<lparr>trace_path = TracePath [], base_denom = BaseDenom ''uatom''\<rparr>"

definition sample_data :: "u256 \<Rightarrow> transfer_data" where
  "sample_data n = \<lparr>td_token = \<lparr>coin_denom = uatom, coin_amount = Amount n\<rparr>, td_sender = ''alice'', td_receiver = ''bob'', td_memo = []\<rparr>"

definition sample_codec :: transfer_codec where
  "sample_codec =
     \<lparr>numbers = \<lparr>u256_from_dec = (\<lambda>s. Some 10), u256_to_dec = (\<lambda>n. ''10'')\<rparr>, show_ics20 = (\<lambda>e. ''error''),
      ack_to_json = (\<lambda>a. ''ack''), ack_from_json = (\<lambda>b. Inr ack_success),
      data_from_json = (\<lambda>b. Inr (sample_data (if b = [5] then 10 else 2 ^ 128))), data_to_json = (\<lambda>d. [5]),
      hex_upper = (\<lambda>b. ''AA'')\<rparr>"

definition sample_runtime :: "(string, string, sample_bank) runtime" where
  "sample_runtime =
     \<lparr>codec = sample_codec, from_denom_to_asset_id = (\<lambda>d b. (Inr d, b)), from_asset_id_to_denom = (\<lambda>b a. Some a),
      native_asset_id = ''unit'', native_transfer = bank_transfer ''unit'', fungibles_transfer = bank_transfer,
      fungibles_mint_into = bank_mint, fungibles_burn_from = bank_burn, account_id_conversion = Some,
      send_enabled = True, receive_enabled = True, fee_account = ''fees'', debug_ics04 = (\<lambda>e. ''error''),
      debug_handler = (\<lambda>e. ''error''), debug_u128 = (\<lambda>n. ''error''), show_ics04 = (\<lambda>e. ''error''),
      show_ics26 = (\<lambda>e. ''error''), hex_lower = (\<lambda>b. ''aa''), account_id_to_ss58 = (\<lambda>b. ''alice''),
      validate_memo = (\<lambda>m. True), service_charge_out = 0, perbill_mul = (\<lambda>p n. 2), get_flat_fee = (\<lambda>a f n. None),
      flat_fee_asset_id = ''unit'', flat_fee_amount = 0, spam_protection_deposit = 1,
      native_reserve = (\<lambda>x n b. (Inr (), b))\<rparr>"

definition sample_view :: "(string, string, sample_bank) ledger_view" where
  "sample_view = \<lparr>asset_denom = (\<lambda>a. a), balance = held, issuance = issued\<rparr>"

definition sample_bank :: sample_bank where
  "sample_bank = \<lparr>held = (\<lambda>d x. if d = ''uatom'' \<and> (x = ''0xAA'' \<or> x = ''alice'' \<or> x = ''fees'') then 10 else 0), issued = (\<lambda>d. 0)\<rparr>"

definition sample_storage :: "(string, string, sample_bank) pallet_storage" where
  "sample_storage = \<lparr>ChannelIds = [], EscrowAddresses = {}, SequenceFee = Map.empty, FeeLessChannelIds = {},
     ServiceChargeOut = None, top_storage = Map.empty, deposited = [], bank = sample_bank\<rparr>"

definition chain_env :: "(mock_client_state, mock_consensus_state, mock_client_message, (string, string, sample_bank) pallet_storage) env" where
  "chain_env = lift_env packet_env"

definition sample_chain :: "(mock_client_state, mock_consensus_state, string, string, sample_bank) chain" where
  "sample_chain = with_app sample_storage (sample_host False Unordered)"

lemma sample_ledger_exact: "exact_ledger sample_runtime sample_view"
  by (auto simp: exact_ledger_def exactly_def sample_runtime_def sample_view_def bank_transfer_def bank_mint_def bank_burn_def
      moves_def mints_def burns_def same_tokens_def fail_with_def)

lemma sample_runtime_fields [simp]:
  "codec sample_runtime = sample_codec" "account_id_conversion sample_runtime = Some" "send_enabled sample_runtime"
  "receive_enabled sample_runtime" "fee_account sample_runtime = ''fees''"
  "data_to_json sample_codec e = [5]" "coin_denom (td_token (sample_data n)) = uatom"
  "data_from_json sample_codec b = Inr (sample_data (if b = [5] then 10 else 2 ^ 128))"
  by (simp_all add: sample_runtime_def sample_codec_def sample_data_def)

lemma sample_escrow: "pallet_escrow_address sample_runtime h p c = Inr ''0xAA''"
  by (simp add: pallet_escrow_address_def channel_escrow_signer_def sample_codec_def trim_is_empty_def chars_def is_whitespace_def)

lemma uatom_wf: "wf_denom ua uatom" "prefixed_denom_to_string uatom = ''uatom''" "is_sender_chain_source p c uatom"
  by (simp_all add: wf_denom_def uatom_def trim_is_empty_def chars_def is_whitespace_def prefixed_denom_to_string_def
      trace_path_is_empty_def is_sender_chain_source_def is_receiver_chain_source_def starts_with_def)

lemma sample_chain_inv: "host_inv sample_chain" "counters_left sample_chain"
  using sample_host_inv [of False Unordered] sample_host_counters [of False Unordered]
  by (simp_all add: sample_chain_def lifted_inv counters_left_def)

lemma sample_chain_channel:
  "get_channel_end chain_env sample_chain (port_transfer, ChannelId 0) = Inr (open_channel Unordered)"
  by (simp add: chain_env_def sample_chain_def sample_host_channel)

lemma sample_chain_coins:
  fixes s :: "(mock_client_state, mock_consensus_state, string, string, sample_bank) chain"
  assumes "10 \<le> held (tokens s) ''uatom'' x"
  shows "\<exists>t. pallet_send_coins sample_runtime x y (td_token (sample_data 10)) s = (Inr (), t)
    \<and> held (tokens t) = (held (tokens s))(''uatom'' := (\<lambda>z. held (tokens s) ''uatom'' z - (if z = x then 10 else 0) + (if z = y then 10 else 0)))
    \<and> forget_app t = forget_app s"
  using assms
  by (simp add: pallet_send_coins_def sample_data_def as_u128_def uatom_wf on_bank_def sample_runtime_def bank_transfer_def
      op_bind_apply op_map_err_def cong: if_cong)

lemma sample_asset: "local_asset_id sample_runtime d s = (Inr (Some d), s)"
  by (simp add: local_asset_id_def on_bank_def sample_runtime_def)

lemma sample_chain_fee:
  "pallet_send_coins sample_runtime x y \<lparr>coin_denom = uatom, coin_amount = Amount 2\<rparr> s
     = (map_err (\<lambda>_. E20_TokenBalanceChange) (fst (bank_transfer ''uatom'' x y 2 (tokens s))),
        s\<lparr>app_storage := (app_storage s)\<lparr>bank := snd (bank_transfer ''uatom'' x y 2 (tokens s))\<rparr>\<rparr>)"
  by (simp add: pallet_send_coins_def as_u128_def uatom_wf on_bank_def sample_runtime_def op_bind_apply op_map_err_def
      split: prod.splits)

lemma sample_chain_mint:
  "pallet_mint_coins sample_runtime x \<lparr>coin_denom = d, coin_amount = Amount 10\<rparr> s
     = (Inr (), s\<lparr>app_storage := (app_storage s)\<lparr>bank := snd (bank_mint (prefixed_denom_to_string d) x 10 (tokens s))\<rparr>\<rparr>)"
  by (simp add: pallet_mint_coins_def as_u128_def on_bank_def sample_runtime_def bank_mint_def op_bind_apply op_map_err_def)

lemma uatom_plain: "uatom \<noteq> add_trace_prefix q d" "\<not> is_receiver_chain_source p c uatom"
proof
  assume "uatom = add_trace_prefix q d"
  then have "trace_path uatom = trace_path (add_trace_prefix q d)" by simp
  then show False by (simp add: uatom_def add_trace_prefix_def add_prefix_def)
qed (simp add: uatom_def is_receiver_chain_source_def starts_with_def)

lemma uatom_voucher:
  "prefixed_denom_to_string (add_trace_prefix (trace_prefix_new port_transfer (ChannelId 3)) uatom) = ''transfer/channel-3/uatom''"
  by code_simp

lemma sample_receive:
  fixes s :: "(mock_client_state, mock_consensus_state, string, string, sample_bank) chain"
  defines "v \<equiv> \<lambda>p. prefixed_denom_to_string (add_trace_prefix (trace_prefix_new (destination_port p) (destination_channel p)) uatom)"
  shows "\<exists>b'. process_recv_packet (pallet_ics20 chain_env sample_runtime) p (sample_data 10) (s, b)
    = (Inr (), (s\<lparr>app_storage := (app_storage s)\<lparr>bank := snd (bank_mint (v p) ''bob'' 10 (tokens s))\<rparr>\<rparr>, b'))"
  by (simp add: process_recv_packet_def pallet_ics20_def sample_data_def uatom_plain emit_event_def sample_chain_mint Let_def on_host_def
      v_def)

section \<open>Witnesses\<close>


definition sample_ends :: "bool \<Rightarrow> (mock_client_state, mock_consensus_state, mock_client_message, string, string, sample_bank) endpoint" where
  "sample_ends i = \<lparr>ep_env = chain_env, ep_runtime = sample_runtime, ep_view = sample_view, ep_port = port_transfer,
     ep_channel = ChannelId (if i then 0 else 3), ep_escrow = ''0xAA''\<rparr>"

definition sample_link :: "(mock_client_state, mock_consensus_state, string, string, sample_bank) chain link" where
  "sample_link = \<lparr>sides = (\<lambda>i. sample_chain), outstanding = (\<lambda>i. if i then {#sample_data 10#} else {#})\<rparr>"

lemma sample_link_inv: "link_inv ua sample_ends sample_link"
proof -
  have "backed sample_ends sample_link i d" for i d
  proof -
    show ?thesis
      by (auto simp: uatom_plain backed_def in_flight_def sample_link_def sample_ends_def sample_view_def sample_chain_def sample_storage_def
          sample_bank_def sample_data_def coin_value_def uatom_wf)
  qed
  then show ?thesis
    by (auto simp: link_inv_def sample_link_def sample_data_def uatom_wf)
qed

lemma sample_ends_ok: "endpoint_ok (sample_ends i)" "valid_port_id ua (ep_port (sample_ends i))"
  by (simp_all add: endpoint_ok_def sample_ends_def sample_ledger_exact sample_escrow sample_port_valid)


definition sample_transfer :: msg_transfer where
  "sample_transfer = \<lparr>mt_source_port = port_transfer, mt_source_channel = ChannelId 0, mt_token = td_token (sample_data 10),
     mt_sender = ''alice'', mt_receiver = ''bob'', mt_timeout_height = Height 0 9, mt_timeout_timestamp = Timestamp None, mt_memo = []\<rparr>"

lemma sample_transfer_runs:
  "\<exists>t b. send_transfer chain_env sample_codec (pallet_ics20 chain_env sample_runtime) sample_transfer (sample_chain, builder_new)
      = (Inr (), (t, b)) \<and> held (tokens t) ''uatom'' ''0xAA'' = 20"
proof -
  obtain t where coins: "pallet_send_coins sample_runtime ''alice'' ''0xAA'' (td_token (sample_data 10)) sample_chain = (Inr (), t)"
    and held: "held (tokens t) ''uatom'' ''0xAA'' = 20" and t: "forget_app t = sample_host False Unordered"
    using sample_chain_coins [of sample_chain "''alice''" "''0xAA''"]
    by (auto simp: sample_chain_def sample_storage_def sample_bank_def)
  have lifted: "t = with_app (app_storage t) (sample_host False Unordered)"
    unfolding t [symmetric] by (simp add: with_app_def forget_app_def)
  obtain out where out: "send_packet chain_env t (out_packet 1) = Inr out"
    "out_result out = SendResult \<lparr>sp_port_id = port_transfer, sp_channel_id = ChannelId 0, sp_seq = 1,
        sp_seq_number = 2, sp_commitment = packet_input packet_env (out_packet 1), sp_packet = out_packet 1\<rparr>"
    using sample_send_runs [of Unordered] lifted_send [of packet_env "app_storage t" "sample_host False Unordered" "out_packet 1"]
    by (auto simp: chain_env_def lifted [symmetric])
  have "get_channel_end chain_env t (port_transfer, ChannelId 0) = Inr (open_channel Unordered)"
    using sample_host_channel [of packet_env False Unordered] by (subst lifted) (simp add: chain_env_def)
  moreover have "\<exists>info. packet_info_from_packet (out_packet 1) = (Inr info :: (_, ics04_error) res)"
    by (simp add: packet_info_from_packet_def out_packet_def nanoseconds_def nanoseconds_opt_def)
  ultimately obtain u where u: "store_packet_result chain_env (out_result out) t = (Inr (), u)"
    using store_sent_total [of chain_env t "\<lparr>sp_port_id = port_transfer, sp_channel_id = ChannelId 0, sp_seq = 1,
        sp_seq_number = 2, sp_commitment = packet_input packet_env (out_packet 1), sp_packet = out_packet 1\<rparr>"]
    by (auto simp: out(2))
  have "app_storage u = app_storage t" using keepsD [OF keeps_app_storage u] .
  moreover have "get_next_sequence_send sample_chain (port_transfer, ChannelId 0) = Inr 1"
    by (simp add: sample_chain_def sample_host_reads get_next_sequence_send_def)
  moreover have "cpty_port_id (chan_remote (open_channel Unordered)) = port_transfer"
    "cpty_channel_id (chan_remote (open_channel Unordered)) = Some (ChannelId 3)"
    by (simp_all add: open_channel_def sample_channel_def)
  ultimately show ?thesis
    using held out(1) u coins sample_chain_channel
    by (simp add: send_transfer_def sample_transfer_def pallet_ics20_def sample_escrow Let_def on_host_def uatom_wf out_packet_def
        op_map_err_def)
qed


end
