(* ===== verification/Transfer_Safety.thy ===== *)
theory Transfer_Safety
  imports Sample_Chain
begin

text \<open>
  Properties of the transfer module behind the router of the runtime: which packets and channels it takes, what
  becomes of the tokens of a packet, and what becomes of fees. The witnesses run on the chain of \<open>Sample_Chain\<close>.
\<close>

section \<open>The route to the transfer module\<close>

lemma transfer_route:
  "lookup_module_by_port ua (runtime_router E RT) port_transfer = Inr (ModuleId ''transfer'')"
  "get_route_mut (runtime_router E RT) (ModuleId ''transfer'') = Some (transfer_module E RT)"
  "has_route (runtime_router E RT) (ModuleId ''transfer'')"
proof -
  have "module_id_new ua ''transfer'' = Inr (ModuleId ''transfer'')" for ua
    by (simp add: module_id_new_def chars_ascii is_alphanumeric_def ascii_alphanumeric_def
        trim_is_empty_def is_whitespace_def)
  then show "lookup_module_by_port ua (runtime_router E RT) port_transfer = Inr (ModuleId ''transfer'')"
    by (simp add: lookup_module_by_port_def runtime_router_def runtime_lookup_module_def TRANSFER_PORT_ID_def
        TRANSFER_MODULE_ID_def PING_PORT_ID_def port_transfer_def)
qed (simp_all add: get_route_mut_def has_route_def runtime_router_def runtime_get_route_def runtime_has_route_def
    TRANSFER_MODULE_ID_def PING_MODULE_ID_def)

lemma transfer_recv_callback:
  assumes "destination_port (mrp_packet m) = port_transfer"
  shows "get_module_for_packet_msg (unicode_alnum E) (runtime_router E RT) (RecvPacketMsg m) = Inr (ModuleId ''transfer'')"
    and "pallet_on_recv_packet E RT (mrp_packet m) (s, builder_new) = (Inl (Err e), (t, b)) \<Longrightarrow>
      packet_callback E (runtime_router E RT) (ModuleId ''transfer'') (RecvPacketMsg m) (s, builder_new) = (Inl (Err (E04_AppShown e)), (t, b))"
  using assms
  by (simp_all add: get_module_for_packet_msg_def transfer_route packet_callback_def transfer_module_def op_map_err_def map_err_def
      op_bind_apply)

section \<open>Packets that are credited and not received\<close>

lemma receive_tokens_denom:
  assumes "receive_tokens E RT p (s, b) = (Inr d, (t, b'))"
  obtains q where "prefixed_denom_from_str (unicode_alnum E) (full_ibc_denom p (td_token d)) = Inr q"
    and "unat (as_u256 (coin_amount (td_token d))) < 2 ^ 128"
  using assms
  by (auto simp: receive_tokens_def Let_def op_bind_eq_Inr op_then_eq_Inr simp del: op_bind_basic split: if_splits)

lemma local_asset_total:
  assumes "\<And>b. fst (from_denom_to_asset_id RT d b) \<noteq> Inl Panic"
  shows "\<exists>a t. local_asset_id RT d s = (Inr a, t)"
  using assms [of "tokens s"]
  by (auto simp: local_asset_id_def on_bank_def split: prod.splits sum.splits fault.splits)

lemma token_event_total:
  assumes "local_asset_id RT n t = (Inr a :: (_, 'e) res, t')" and "unat (as_u256 (coin_amount (td_token d))) < 2 ^ 128"
  shows "\<exists>ev. packet_token_event RT p d n x t = (Inr ev :: (_, 'e) res, t')"
  using assms by (simp add: packet_token_event_def as_u128_def)

lemma local_asset_same:
  assumes "exact_ledger RT V" and "local_asset_id RT d s = (r, t)"
  shows "same_tokens V (tokens s) (tokens t)"
proof -
  obtain q b where m: "from_denom_to_asset_id RT d (tokens s) = (q, b)" by (metis prod.exhaust)
  with assms(1) have "same_tokens V (tokens s) b" by (auto simp: exact_ledger_def split: prod.splits)
  with assms(2) m show ?thesis
    by (auto simp: local_asset_id_def on_bank_def split: sum.splits fault.splits)
qed

lemma write_ack_exists:
  assumes "get_channel_end E s (dest_key p) = Inr e" and "chan_state e = ChanOpen"
    and "acknowledgements_get s (dest_packet_key p) \<noteq> None"
  shows "\<exists>e. module_write_ack E RT p ack (s, b) = (Inl (Err e), (s, b))"
  using assms
  by (auto simp: module_write_ack_def write_acknowledgement_def write_acknowledgement_process_def Let_def
      get_packet_acknowledgement_eq op_map_err_def map_err_def fail_with_def)

lemma credited_callback_fails:
  assumes "exact_ledger RT V" and "\<And>d b. fst (from_denom_to_asset_id RT d b) \<noteq> Inl Panic"
    and "receive_tokens E RT p (s, b) = (Inr d, (t, b'))"
    and "get_channel_end E s (dest_key p) = Inr e" and "chan_state e = ChanOpen"
    and "acknowledgements_get s (dest_packet_key p) \<noteq> None"
  shows "\<exists>f u. pallet_on_recv_packet E RT p (s, b) = (Inl (Err f), (u, b')) \<and> forget_app u = forget_app s
    \<and> same_tokens V (tokens t) (tokens u)"
proof -
  obtain q where q: "prefixed_denom_from_str (unicode_alnum E) (full_ibc_denom p (td_token d)) = Inr q"
    and small: "unat (as_u256 (coin_amount (td_token d))) < 2 ^ 128"
    by (rule receive_tokens_denom [OF assms(3)])
  obtain a t1 where a: "local_asset_id RT (full_ibc_denom p (td_token d)) t = (Inr a :: (_, ics04_error) res, t1)"
    using local_asset_total [OF assms(2)] by blast
  obtain ev where ev: "packet_token_event RT p d (full_ibc_denom p (td_token d))
      (is_receiver_chain_source (source_port p) (source_channel p) q) t = (Inr ev :: (_, ics04_error) res, t1)"
    using token_event_total [OF a small] by blast
  define u where "u = t1\<lparr>app_storage := (app_storage t1)\<lparr>deposited := deposited (app_storage t1) @ [TokenReceived ev]\<rparr>\<rparr>"
  have dep: "deposit_event (TokenReceived ev) t1 = (Inr () :: (unit, ics04_error) res, u)"
    by (simp add: u_def deposit_event_def on_storage_def)
  have t: "forget_app t = forget_app s"
    using keepsD [OF receive_tokens_keeps assms(3)] by simp
  moreover have "forget_app t1 = forget_app t" using keepsD [OF keeps_forget(4) a] .
  moreover have "forget_app u = forget_app t1" by (simp add: u_def)
  ultimately have f: "forget_app u = forget_app s" by simp
  then have "get_channel_end E u (dest_key p) = Inr e" "acknowledgements_get u (dest_packet_key p) \<noteq> None"
    using assms(4,6) forget_app_reads [OF f] by (simp_all add: get_channel_end_def view_gets)
  from write_ack_exists [OF this(1) assms(5) this(2)] obtain g where
    g: "module_write_ack E RT p (as_bytes (ack_to_json (codec RT) ack_success)) (u, b') = (Inl (Err g), (u, b'))" by blast
  have "same_tokens V (tokens t) (tokens u)"
    using local_asset_same [OF assms(1) a] by (simp add: u_def)
  moreover have "on_host (op_bind (packet_token_event RT p d (full_ibc_denom p (td_token d))
      (is_receiver_chain_source (source_port p) (source_channel p) q)) (\<lambda>ev. deposit_event (TokenReceived ev))) (t, b')
      = (Inr () :: (unit, ics04_error) res, (u, b'))"
    using ev dep by simp
  then have "pallet_on_recv_packet E RT p (s, b) = (Inl (Err g), (u, b'))"
    using assms(3) q g by (simp add: pallet_on_recv_packet_def Let_def del: on_host_eq)
  ultimately show ?thesis using f by blast
qed

lemma write_ack_keeps_tokens: "keeps (\<lambda>(s, b). tokens s) (module_write_ack E RT p ack)"
proof -
  have store: "keeps tokens (store_packet_result E r)" for r
    using keeps_app_storage [of E r] by (simp add: keeps_def)
  have event: "keeps tokens (deposit_event e)" for e
    by (auto simp: keeps_def deposit_event_def on_storage_def)
  show ?thesis
    unfolding module_write_ack_def write_acknowledgement_def Let_def
    by (intro keeps_rules store event)
qed

lemma panic_sources:
  "bind_res r f = Inl Panic \<longleftrightarrow> r = Inl Panic \<or> (\<exists>x. r = Inr x \<and> f x = Inl Panic)"
  "map_err g q = Inl Panic \<longleftrightarrow> q = Inl Panic" "fail_with e \<noteq> Inl Panic"
  by (auto simp: bind_res_def map_err_def fail_with_def split: sum.splits fault.splits)

lemma ids_from_str_total: "port_id_from_str ua s \<noteq> Inl Panic" "channel_id_from_str s \<noteq> Inl Panic"
  by (auto simp: port_id_from_str_def channel_id_from_str_def validate_port_identifier_def validate_identifier_def
      panic_sources ok_or_def split: option.splits if_splits)

lemma prefixes_total: "trace_prefixes ua n ps \<noteq> Inl Panic"
  by (induction ps arbitrary: n) (auto simp: panic_sources ids_from_str_total)

lemma denom_from_str_total: "prefixed_denom_from_str ua s \<noteq> Inl Panic"
  by (auto simp: prefixed_denom_from_str_def base_denom_from_str_def trace_path_try_from_def Let_def panic_sources
      prefixes_total split: if_splits)

section \<open>Properties of received packets\<close>

text \<open>C34: tokens credited for a packet that is not received. The acknowledgement of a packet is stored under the
  packet's source, and looked up under its destination. When an acknowledgement lies where that of an incoming
  transfer is looked up, be it of another packet that came by a channel with the numbers crossed, the module first
  credits the tokens, then fails to write the acknowledgement: the message ends in an error, the tokens stay
  credited, and no receipt is stored, so that the packet can be delivered and credited again.\<close>

theorem credited_without_receipt:
  assumes "exact_ledger RT V" and "\<forall>d b. fst (from_denom_to_asset_id RT d b) \<noteq> Inl Panic"
    and "packet_dispatch E s (RecvPacketMsg m) = Inr (ob, r)" and "r \<noteq> RecvResult RecvNoOp"
    and "destination_port (mrp_packet m) = port_transfer"
    and "receive_tokens E RT (mrp_packet m) (s, builder_new) = (Inr d, (t, b))"
    and "acknowledgements_get s (dest_packet_key (mrp_packet m)) \<noteq> None"
  shows "\<exists>f u. dispatch E (runtime_router E RT) (Ics4PacketMsg (RecvPacketMsg m)) s = (Inl (Err f), u)
    \<and> same_tokens V (tokens t) (tokens u)
    \<and> (\<forall>k. packet_receipt_get u k = packet_receipt_get s k \<and> next_seq_recv_get u (fst k, fst (snd k)) = next_seq_recv_get s (fst k, fst (snd k)))"
proof -
  obtain e where e: "get_channel_end E s (dest_key (mrp_packet m)) = Inr e" "chan_state e = ChanOpen"
  proof -
    obtain out where out: "recv_packet_process E s m = Inr out" "r = out_result out"
      using assms(3) by (auto simp: packet_dispatch_def)
    from out(1) show ?thesis
      by (cases rule: recv_packet_ok) (use out(2) assms(4) that in auto)
  qed
  obtain f u where u: "pallet_on_recv_packet E RT (mrp_packet m) (s, builder_new) = (Inl (Err f), (u, b))"
    "forget_app u = forget_app s" "same_tokens V (tokens t) (tokens u)"
    using credited_callback_fails [OF assms(1) _ assms(6) e assms(7)] assms(2) by blast
  have "dispatch E (runtime_router E RT) (Ics4PacketMsg (RecvPacketMsg m)) s
      = (Inl (Err (E26_Ics04Channel (E04_AppShown f))), u)"
    using assms(3,4)
    by (simp add: transfer_recv_callback(1) [OF assms(5)] transfer_recv_callback(2) [OF assms(5) u(1)] run_callback_def Let_def
        map_err_def)
  with u(3) show ?thesis
    using forget_app_reads [OF u(2)] by (simp add: view_gets)
qed

definition acked_chain :: "(mock_client_state, mock_consensus_state, string, string, sample_bank) chain" where
  "acked_chain = with_app sample_storage (acknowledgements_insert (dest_packet_key in_packet) [9] (sample_host False Unordered))"

lemma acked_recv: "packet_dispatch packet_env (acknowledgements_insert k v s) (RecvPacketMsg m) = packet_dispatch packet_env s (RecvPacketMsg m)"
proof -
  have reads: "get_client_state (acknowledgements_insert k v s) = get_client_state s"
    "get_consensus_state (acknowledgements_insert k v s) = get_consensus_state s"
    "get_channel_end packet_env (acknowledgements_insert k v s) = get_channel_end packet_env s"
    "get_connection_end packet_env (acknowledgements_insert k v s) = get_connection_end packet_env s"
    "get_packet_receipt (acknowledgements_insert k v s) = get_packet_receipt s"
    "get_next_sequence_recv (acknowledgements_insert k v s) = get_next_sequence_recv s"
    "host_height (acknowledgements_insert k v s) = host_height s"
    "host_timestamp packet_env (acknowledgements_insert k v s) = host_timestamp packet_env s"
    by (auto simp: fun_eq_iff get_client_state_def get_consensus_state_def get_channel_end_def get_connection_end_def get_packet_receipt_def
        get_next_sequence_recv_def host_height_def host_timestamp_def view_laws)
  have "verify_packet_recv_proofs packet_env (acknowledgements_insert k v s) = verify_packet_recv_proofs packet_env s"
    by (auto simp: fun_eq_iff verify_packet_recv_proofs_def with_verifier_def reads is_frozen_def packet_env_def mock_env_def cong: if_cong)
  then show ?thesis
    by (simp add: packet_dispatch_def recv_packet_process_def reads cong: if_cong)
qed

lemma sample_credited:
  obtains b t where "receive_tokens chain_env sample_runtime in_packet (acked_chain, builder_new) = (Inr (sample_data 10), (t, b))"
    and "issued (tokens t) ''transfer/channel-0/uatom'' = 10"
proof -
  have "prefixed_denom_from_str ua (full_ibc_denom in_packet (td_token (sample_data 10)))
      = Inr (add_trace_prefix (trace_prefix_new port_transfer (ChannelId 0)) uatom)" for ua
    using denom_print_parse [of ua "add_trace_prefix (trace_prefix_new port_transfer (ChannelId 0)) uatom"]
    by (simp add: full_ibc_denom_def uatom_plain in_packet_def wf_denom_prefixes trace_prefix_new_def uatom_wf sample_port_valid)
  moreover have "prefixed_denom_to_string (add_trace_prefix (trace_prefix_new port_transfer (ChannelId 0)) uatom) = ''transfer/channel-0/uatom''"
    by code_simp
  moreover have "unat (as_u256 (coin_amount (td_token (sample_data 10)))) < 2 ^ 128" by (simp add: sample_data_def)
  ultimately show ?thesis
    using sample_receive [of in_packet acked_chain builder_new] that
    by (auto simp: receive_tokens_def in_packet_def op_map_err_def acked_chain_def sample_storage_def sample_bank_def bank_mint_def)
qed

theorem credited_without_receipt_witness:
  "\<exists>f u. dispatch chain_env (runtime_router chain_env sample_runtime) (Ics4PacketMsg (RecvPacketMsg sample_recv)) acked_chain
      = (Inl (Err f), u)
    \<and> issuance sample_view (tokens u) ''transfer/channel-0/uatom'' = 10 \<and> packet_receipt_get u (port_transfer, ChannelId 0, 1) = None"
proof -
  obtain b t where recv: "receive_tokens chain_env sample_runtime in_packet (acked_chain, builder_new) = (Inr (sample_data 10), (t, b))"
    and t: "issued (tokens t) ''transfer/channel-0/uatom'' = 10"
    by (rule sample_credited)
  have "packet_dispatch chain_env acked_chain (RecvPacketMsg sample_recv)
      = packet_dispatch packet_env (sample_host False Unordered) (RecvPacketMsg sample_recv)"
    by (simp only: chain_env_def acked_chain_def lifted_recv acked_recv)
  then obtain ob r where d: "packet_dispatch chain_env acked_chain (RecvPacketMsg sample_recv) = Inr (ob, r)" "r \<noteq> RecvResult RecvNoOp"
    using sample_recv_runs [of False Unordered] by (auto simp: packet_dispatch_def)
  have ack: "acknowledgements_get acked_chain (dest_packet_key (mrp_packet sample_recv)) \<noteq> None"
    by (simp add: acked_chain_def sample_recv_def view_laws)
  have none: "packet_receipt_get acked_chain (port_transfer, ChannelId 0, 1) = None"
    using sample_host_sequences(4) [of False Unordered "(port_transfer, ChannelId 0, 1)"]
    by (simp add: acked_chain_def packet_receipt_get_def view_puts view_paths child_get_put)
  have port: "destination_port (mrp_packet sample_recv) = port_transfer" by (simp add: sample_recv_def in_packet_def)
  have total: "\<forall>d b. fst (from_denom_to_asset_id sample_runtime d b) \<noteq> Inl Panic" by (simp add: sample_runtime_def)
  have recv': "receive_tokens chain_env sample_runtime (mrp_packet sample_recv) (acked_chain, builder_new) = (Inr (sample_data 10), (t, b))"
    using recv by (simp add: sample_recv_def)
  from credited_without_receipt [OF sample_ledger_exact total d port recv' ack] none t show ?thesis
    by (auto simp: same_tokens_def sample_view_def)
qed



section \<open>Fees\<close>

lemma keeps_fees:
  "keeps (\<lambda>s. SequenceFee (app_storage s)) (local_asset_id RT d)"
  "keeps (\<lambda>s. SequenceFee (app_storage s)) (deposit_event e)"
  "keeps (\<lambda>s. SequenceFee (app_storage s)) (pallet_send_coins RT x y c)"
proof -
  have bank: "keeps (\<lambda>s. SequenceFee (app_storage s)) (on_bank m)" for m :: "('bank, 'x, 'y) op"
    by (auto simp: keeps_def on_bank_def split: prod.splits)
  show "keeps (\<lambda>s. SequenceFee (app_storage s)) (pallet_send_coins RT x y c)"
    unfolding pallet_send_coins_def by (intro keeps_rules bank)
qed (auto simp: keeps_def local_asset_id_def on_bank_def deposit_event_def on_storage_def split: prod.splits sum.splits fault.splits)

lemma u128_in_u256: "unat (ucast (n :: u128) :: u256) = unat n"
proof -
  have "unat n < 2 ^ 128" using unsigned_less [of n] by simp
  then show ?thesis by (simp add: unsigned_ucast_eq take_bit_nat_eq_self_iff)
qed

lemma charge_fee_recorded:
  assumes "charge_fee RT from to coin c dest s = (Inr rest, t)" and "next_seq_send_get s (port_transfer, c) = Some n"
  obtains fee where "SequenceFee (app_storage t) n = Some fee" and "coin_value coin = coin_value rest + unat fee"
proof -
  obtain asset s1 fee x s2 amt n' s4 asset' s3 ev where
    a1: "local_asset_id RT (prefixed_denom_to_string (coin_denom coin)) s = (Inr asset :: (_, pallet_error) res, s1)"
    and c1: "pallet_send_coins RT x (fee_account RT) (coin\<lparr>coin_amount := Amount (ucast (fee :: u128))\<rparr>) s1 = (Inr (), s2)"
    and am: "u256_sub (as_u256 (coin_amount coin)) (ucast fee) = (Inr amt :: (_, pallet_error) res)"
    and sq: "get_next_sequence_send s2 (port_transfer, c) = Inr n'"
    and s3: "s3 = s2\<lparr>app_storage := (app_storage s2)\<lparr>SequenceFee := (SequenceFee (app_storage s2))(n' \<mapsto> fee)\<rparr>\<rparr>"
    and a2: "local_asset_id RT (prefixed_denom_to_string (coin_denom coin)) s3 = (Inr asset' :: (_, pallet_error) res, s4)"
    and ev: "deposit_event ev s4 = (Inr () :: (_, pallet_error) res, t)"
    and rest: "rest = coin\<lparr>coin_amount := Amount amt\<rparr>"
    using assms(1)
    by (auto simp: charge_fee_def Let_def case_prod_unfold op_bind_eq_Inr op_then_eq_Inr on_storage_def simp del: op_bind_basic)
  have "forget_app s2 = forget_app s"
    using keepsD [OF keeps_forget(4) a1] keepsD [OF keeps_forget_coins(1) c1] by simp
  from forget_app_reads [OF this] sq assms(2) have "n' = n"
    by (simp add: get_next_sequence_send_def view_gets)
  moreover have "SequenceFee (app_storage t) = SequenceFee (app_storage s3)"
    using keepsD [OF keeps_fees(1) a2] keepsD [OF keeps_fees(2) ev] by simp
  ultimately have "SequenceFee (app_storage t) n = Some fee" by (simp add: s3)
  moreover have "coin_value coin = coin_value rest + unat fee"
  proof -
    from am show ?thesis
      by (auto simp: u128_in_u256 rest coin_value_def u256_sub_def panics_def unat_sub word_le_nat_alt split: if_splits)
  qed
  ultimately show ?thesis using that by blast
qed

text \<open>C36: a fee is refunded to whoever has its number. The fee of a transfer is recorded under the sequence number
  alone, which every channel counts for itself. When a packet of another channel with that number is refunded, its
  sender gets the fee, in the denomination of their own packet, and nothing is left to refund to the payer.\<close>

theorem fee_refund_crosses_channels:
  assumes "exact_ledger RT V" and "charge_fee RT from to coin c dest s = (Inr rest, t)"
    and "next_seq_send_get s (port_transfer, c) = Some (pkt_sequence p)" and "source_channel p \<noteq> c"
    and "SequenceFee (app_storage u) = SequenceFee (app_storage t)" and "refund_fee RT p d u = (Inr (), w)"
  shows "\<exists>fee x. account_id_conversion RT (td_sender d) = Some x \<and> coin_value coin = coin_value rest + fee
    \<and> moves V (coin_name (td_token d)) (fee_account RT) x fee (tokens u) (tokens w)
    \<and> SequenceFee (app_storage w) (pkt_sequence p) = None"
proof -
  obtain fee where fee: "SequenceFee (app_storage t) (pkt_sequence p) = Some fee" "coin_value coin = coin_value rest + unat fee"
    by (rule charge_fee_recorded [OF assms(2,3)])
  define u' where "u' = u\<lparr>app_storage := (app_storage u)\<lparr>SequenceFee := (SequenceFee (app_storage u))(pkt_sequence p := None)\<rparr>\<rparr>"
  obtain x where x: "account_id_conversion RT (td_sender d) = Some x"
    and coins: "pallet_send_coins RT (fee_account RT) x ((td_token d)\<lparr>coin_amount := Amount (ucast fee)\<rparr>) u' = (Inr (), w)"
    using assms(5,6) fee(1)
    by (cases "account_id_conversion RT (td_sender d)") (auto simp: refund_fee_def on_storage_def u'_def fail_with_def)
  have "SequenceFee (app_storage w) = SequenceFee (app_storage u')" using keepsD [OF keeps_fees(3) coins] .
  then have "SequenceFee (app_storage w) (pkt_sequence p) = None" by (simp add: u'_def)
  moreover have "moves V (coin_name (td_token d)) (fee_account RT) x (unat fee) (tokens u) (tokens w)"
    using token_opD [OF pallet_coins_exact(1) [OF assms(1)] coins]
    by (simp add: coin_name_def coin_value_def u'_def u128_in_u256)
  ultimately show ?thesis using x fee(2) by blast
qed

lemma sample_fee:
  obtains rest t where "charge_fee sample_runtime ''alice'' ''bob'' (td_token (sample_data 10)) (ChannelId 0) (ChannelId 3) sample_chain
      = (Inr rest, t)" and "coin_value rest = 8" and "SequenceFee (app_storage t) 1 = Some 2" and "held (tokens t) ''uatom'' ''fees'' = 12"
proof -
  have "get_next_sequence_send s (port_transfer, ChannelId 0) = Inr 1" if "forget_app s = forget_app sample_chain" for s :: "(mock_client_state, mock_consensus_state, string, string, sample_bank) chain"
    using forget_app_reads [OF that] sample_host_reads
    by (simp add: sample_chain_def get_next_sequence_send_def view_gets)
  moreover have "u256_sub 10 2 = (Inr 8 :: (_, pallet_error) res)" by (simp add: u256_sub_def)
  moreover have "\<not> trim_is_empty ''alice''"
    by (simp add: trim_is_empty_def chars_def is_whitespace_def)
  moreover have "tokens sample_chain = sample_bank" by (simp add: sample_chain_def sample_storage_def)
  moreover have "transfer_fee sample_runtime n a 10 = (2, False)" for n a
    by (simp add: transfer_fee_def sample_runtime_def Let_def split: option.splits)
  ultimately show ?thesis
    using that
    by (simp add: charge_fee_def sample_asset sample_data_def low_u128_def sample_chain_fee uatom_wf bank_transfer_def sample_bank_def
        op_map_err_def on_storage_def deposit_event_def coin_value_def signer_from_str_def)
qed

theorem fee_refund_crosses_channels_witness:
  "\<exists>rest t w. charge_fee sample_runtime ''alice'' ''bob'' (td_token (sample_data 10)) (ChannelId 0) (ChannelId 3) sample_chain = (Inr rest, t)
    \<and> refund_fee sample_runtime ((out_packet 1)\<lparr>source_channel := ChannelId 7\<rparr>) ((sample_data 10)\<lparr>td_sender := ''carol''\<rparr>) t = (Inr (), w)
    \<and> moves sample_view ''uatom'' ''fees'' ''carol'' 2 (tokens t) (tokens w) \<and> SequenceFee (app_storage w) 1 = None"
proof -
  obtain rest t where fee: "charge_fee sample_runtime ''alice'' ''bob'' (td_token (sample_data 10)) (ChannelId 0) (ChannelId 3) sample_chain
      = (Inr rest, t)" and rest: "coin_value rest = 8" and rec: "SequenceFee (app_storage t) 1 = Some 2"
    and held: "held (tokens t) ''uatom'' ''fees'' = 12"
    by (rule sample_fee)
  let ?p = "(out_packet 1)\<lparr>source_channel := ChannelId 7\<rparr>" and ?d = "(sample_data 10)\<lparr>td_sender := ''carol''\<rparr>"
  obtain w where refund: "refund_fee sample_runtime ?p ?d t = (Inr (), w)"
    using rec held
    by (simp add: refund_fee_def out_packet_def on_storage_def sample_chain_fee sample_data_def op_map_err_def bank_transfer_def)
  have "next_seq_send_get sample_chain (port_transfer, ChannelId 0) = Some (pkt_sequence ?p)"
    by (simp add: sample_chain_def sample_host_reads out_packet_def)
  from fee_refund_crosses_channels [OF sample_ledger_exact fee this _ refl refund] show ?thesis
    using fee refund rest by (auto simp: out_packet_def coin_name_def uatom_wf sample_data_def coin_value_def)
qed

section \<open>Channels of the transfer port\<close>

lemma transfer_params_ok:
  "validate_transfer_channel_params X ord p c v = Inr () \<Longrightarrow> ord = Unordered \<and> v = version_ics20"
  by (auto simp: validate_transfer_channel_params_def split: if_splits)

lemma run_callback_eq: "run_callback cb s = (Inr (r, b), t) \<longleftrightarrow> cb (s, builder_new) = (r, (t, b))"
  by (auto simp: run_callback_def split: prod.splits)

lemma transfer_opened:
  assumes "dispatch E (runtime_router E RT) (Ics4ChannelMsg m) s = (Inr out, t)"
    and "channel_msg_port m = port_transfer" and "m = ChannelOpenInit i \<or> m = ChannelOpenTry j"
  obtains b r where "channel_dispatch E s m = Inr (b, r)"
    and "store_channel_result (set_try_version m version_ics20 r) s = (Inr (), t)"
    and "case m of ChannelOpenInit i \<Rightarrow> chan_ordering (hoi_channel i) = Unordered \<and> chan_version (hoi_channel i) = version_ics20
      | ChannelOpenTry j \<Rightarrow> chan_ordering (hot_channel j) = Unordered | _ \<Rightarrow> False"
proof -
  have v: "channel_validate (unicode_alnum E) (runtime_router E RT) m = Inr (ModuleId ''transfer'')"
    using assms(2) by (simp add: channel_validate_def lookup_module_def transfer_route)
  then obtain b r r' u mo where d: "channel_dispatch E s m = Inr (b, r)"
    and cb: "channel_callback (runtime_router E RT) (ModuleId ''transfer'') m r (s, builder_new) = (Inr r', (u, mo))"
    and st: "store_channel_result r' u = (Inr (), t)"
    using assms(1) by (auto simp: run_callback_eq Let_def op_bind_eq_Inr op_then_eq_Inr simp del: op_bind_basic)
  from assms(3) show ?thesis
  proof
    assume m: "m = ChannelOpenInit i"
    with cb have "transfer_on_chan_open_init (pallet_ics20 E RT) (chan_ordering (hoi_channel i)) (hoi_port_id i) (chr_channel_id r)
        (chan_version (hoi_channel i)) = Inr ()" "r' = r" "u = s"
      by (auto simp: channel_callback_def transfer_route transfer_module_def op_then_eq_Inr)
    with transfer_params_ok that [OF d] st m show ?thesis
      by (fastforce simp: transfer_on_chan_open_init_def)
  next
    assume m: "m = ChannelOpenTry j"
    with cb obtain w where "transfer_on_chan_open_try (pallet_ics20 E RT) (chan_ordering (hot_channel j)) (hot_port_id j)
        (chr_channel_id r) (chan_version (hot_channel j)) (hot_counterparty_version j) = Inr w" "r' = set_try_version m w r" "u = s"
      by (auto simp: channel_callback_def transfer_route transfer_module_def op_bind_eq_Inr simp del: op_bind_basic set_try_version.simps)
    with transfer_params_ok that [OF d] st m show ?thesis
      by (fastforce simp: transfer_on_chan_open_try_def)
  qed
qed

text \<open>C37: transfer channels are unordered. A channel that the transfer module lets be opened, by Init or Try, is stored
  under a new identifier as an unordered channel with version \<^verbatim>\<open>ics20-1\<close>.\<close>

theorem transfer_channels_unordered:
  assumes "dispatch E (runtime_router E RT) (Ics4ChannelMsg m) s = (Inr out, t)"
    and "channel_msg_port m = port_transfer" and "m = ChannelOpenInit i \<or> m = ChannelOpenTry j"
    and "wf_channel_msg (unicode_alnum E) m"
  shows "\<exists>e. get_channel_end E t (port_transfer, ChannelId (ucast (ChannelCounter s))) = Inr e
    \<and> chan_ordering e = Unordered \<and> chan_version e = version_ics20"
proof -
  obtain b r where d: "channel_dispatch E s m = Inr (b, r)"
    and st: "store_channel_result (set_try_version m version_ics20 r) s = (Inr (), t)"
    and ok: "case m of ChannelOpenInit i \<Rightarrow> chan_ordering (hoi_channel i) = Unordered \<and> chan_version (hoi_channel i) = version_ics20
      | ChannelOpenTry j \<Rightarrow> chan_ordering (hot_channel j) = Unordered | _ \<Rightarrow> False"
    by (rule transfer_opened [OF assms(1-3)])
  let ?r = "set_try_version m version_ics20 r"
  have r: "chr_port_id ?r = port_transfer \<and> chr_channel_id ?r = ChannelId (ucast (ChannelCounter s))
    \<and> chan_ordering (chr_channel_end ?r) = Unordered \<and> chan_version (chr_channel_end ?r) = version_ics20
    \<and> length (chan_connection_hops (chr_channel_end ?r)) = 1 \<and> wf_channel_end (unicode_alnum E) (chr_channel_end ?r)"
    using d
  proof (cases rule: channel_dispatch_split)
    case (open_init i out)
    from open_init(2) show ?thesis
      by (rule chan_open_init_ok) (use open_init(1,3) ok assms(2,4) in \<open>auto simp: wf_channel_end_def\<close>)
  next
    case (open_try i out)
    from open_try(2) show ?thesis
      by (rule chan_open_try_ok) (use open_try(1,3) ok assms(2,4) in \<open>auto simp: wf_channel_end_def\<close>)
  qed (use assms(3) in auto)
  then show ?thesis
    using store_channel_result_reads [OF st, of E "(port_transfer, ChannelId (ucast (ChannelCounter s)))"] by simp
qed

theorem transfer_channels_unordered_witness:
  "\<exists>out t e. dispatch (lift_env channel_env) (runtime_router (lift_env channel_env) sample_runtime) (Ics4ChannelMsg sample_chan_init)
      (with_app sample_storage sample_chan_host) = (Inr out, t)
    \<and> get_channel_end (lift_env channel_env) t (port_transfer, ChannelId 1) = Inr e
    \<and> chan_ordering e = Unordered \<and> chan_version e = version_ics20"
proof -
  let ?E = "lift_env channel_env" and ?s = "with_app sample_storage sample_chan_host"
  obtain i where i: "sample_chan_init = ChannelOpenInit i" by (simp add: sample_chan_init_def)
  obtain b r where run: "channel_dispatch channel_env sample_chan_host sample_chan_init = Inr (b, r)" "chr_id_state r = Generated"
    using sample_chan_init_runs by blast
  then have d: "channel_dispatch ?E ?s sample_chan_init = Inr (b, r)" by (simp add: i lifted_open_init)
  have counter: "ChannelCounter sample_chan_host = 1" by (simp add: sample_chan_host_def view_puts)
  from run(1) obtain out where "chan_open_init_process channel_env sample_chan_host i = Inr out" "r = out_result out"
    by (auto simp: i channel_dispatch_def)
  then have r: "chr_channel_id r = ChannelId 1" "length (chan_connection_hops (chr_channel_end r)) = 1"
    by (auto elim!: chan_open_init_ok simp: counter)
  obtain t where st: "store_channel_result r ?s = (Inr (), t)"
    using store_channel_result_effect(1) [of r ?s] r(2) by (metis prod.exhaust)
  have port: "channel_msg_port sample_chan_init = port_transfer" by (simp add: sample_chan_init_def)
  have "channel_callback (runtime_router ?E sample_runtime) (ModuleId ''transfer'') sample_chan_init r (?s, builder_new)
      = (Inr r, (?s, builder_new))"
    using r(1) from_str_to_string(3) [OF sample_port_valid, of "unicode_alnum channel_env"]
    by (simp add: channel_callback_def TRANSFER_PORT_ID_def port_transfer_def transfer_route transfer_module_def sample_chan_init_def transfer_on_chan_open_init_def
        validate_transfer_channel_params_def pallet_ics20_def pallet_get_port_def sample_channel_def version_ics20_def TRANSFER_VERSION_def)
  then obtain out where out: "dispatch ?E (runtime_router ?E sample_runtime) (Ics4ChannelMsg sample_chan_init) ?s = (Inr out, t)"
    using d st port
    by (simp add: channel_validate_def lookup_module_def transfer_route run_callback_def op_map_err_def Let_def)
  have "wf_channel_msg (unicode_alnum ?E) sample_chan_init"
    using sample_channel_wf [of "unicode_alnum ?E"]
    by (simp add: sample_chan_init_def wf_channel_end_def sample_port_valid)
  from transfer_channels_unordered [OF out port _ this] out show ?thesis
    by (auto simp: sample_chan_init_def counter)
qed

section \<open>Denominations\<close>

text \<open>Names of denominations. A well-formed denomination that is printed and read back is itself, so that no two
  well-formed denominations have the same name.\<close>

theorem denomination_names:
  assumes "wf_denom ua d"
  shows "prefixed_denom_from_str ua (prefixed_denom_to_string d) = Inr d
    \<and> (\<forall>e. wf_denom ua e \<and> prefixed_denom_to_string e = prefixed_denom_to_string d \<longrightarrow> e = d)"
  using assms denom_print_parse denom_display_inj by blast

theorem denomination_names_witness:
  "prefixed_denom_from_str (\<lambda>_. False) (prefixed_denom_to_string (add_trace_prefix (trace_prefix_new port_transfer (ChannelId 3)) uatom))
    = Inr (add_trace_prefix (trace_prefix_new port_transfer (ChannelId 3)) uatom)"
  using denomination_names [of "\<lambda>_. False" "add_trace_prefix (trace_prefix_new port_transfer (ChannelId 3)) uatom"]
  by (simp add: wf_denom_prefixes trace_prefix_new_def uatom_wf sample_port_valid)



end
