(* ===== verification/Simple_Iavl.thy ===== *)
theory Simple_Iavl
  imports Prelude
begin

text \<open>
  The Merkle AVL tree of \<^verbatim>\<open>simple-iavl\<close>. Its keys are any ordered type, keys and values are read as bytes, and the hash
  function is a parameter. The heights of the nodes are the 32-bit integers of the code, and every \<^verbatim>\<open>expect\<close> and every
  overflow is a panic of the model. The tree implements a map, stays balanced in the sense of the code, and its
  existence proofs lead back to its root.
\<close>

section \<open>Nodes\<close>

record ('k, 'v) avl_env =
  key_bytes :: "'k \<Rightarrow> bytes"
  value_bytes :: "'v \<Rightarrow> bytes"
  sha256 :: "bytes \<Rightarrow> bytes"

datatype ('k, 'v) avl_node =
  AvlNode (node_key: 'k) (node_value: 'v) (node_hash: bytes) (node_merkle: bytes) (node_height: u32)
    (node_left: "('k, 'v) avl_node option") (node_right: "('k, 'v) avl_node option")

type_synonym ('k, 'v) node_ref = "('k, 'v) avl_node option"
type_synonym 'a outcome = "('a, unit) res"

definition LEAF_PREFIX :: bytes where
  "LEAF_PREFIX = replicate 64 0"

definition local_hash :: "('k, 'v) avl_env \<Rightarrow> 'k \<Rightarrow> 'v \<Rightarrow> bytes" where
  "local_hash E k v = sha256 E (LEAF_PREFIX @ key_bytes E k @ value_bytes E v)"

definition avl_node_new :: "('k, 'v) avl_env \<Rightarrow> 'k \<Rightarrow> 'v \<Rightarrow> ('k, 'v) avl_node" where
  "avl_node_new E k v =
     (let hash = sha256 E (LEAF_PREFIX @ key_bytes E k @ value_bytes E v) in
      AvlNode k v hash (sha256 E hash) 0 None None)"

definition as_node_ref :: "('k, 'v) avl_env \<Rightarrow> 'k \<Rightarrow> 'v \<Rightarrow> ('k, 'v) node_ref" where
  "as_node_ref E k v = Some (avl_node_new E k v)"

fun set_value :: "('k, 'v) avl_env \<Rightarrow> 'v \<Rightarrow> ('k, 'v) avl_node \<Rightarrow> ('k, 'v) avl_node \<times> 'v" where
  "set_value E v (AvlNode k v0 h m n l r) = (AvlNode k v (local_hash E k v) m n l r, v0)"

definition left_height :: "('k, 'v) avl_node \<Rightarrow> u32 option" where
  "left_height n = map_option node_height (node_left n)"

definition right_height :: "('k, 'v) avl_node \<Rightarrow> u32 option" where
  "right_height n = map_option node_height (node_right n)"

definition left_hash :: "('k, 'v) avl_node \<Rightarrow> bytes option" where
  "left_hash n = map_option node_merkle (node_left n)"

definition right_hash :: "('k, 'v) avl_node \<Rightarrow> bytes option" where
  "right_hash n = map_option node_merkle (node_right n)"

definition u32_succ :: "u32 \<Rightarrow> u32 outcome" where
  "u32_succ n = (if n = - 1 then panics else Inr (n + 1))"

fun update_height :: "('k, 'v) avl_node \<Rightarrow> ('k, 'v) avl_node outcome" where
  "update_height (AvlNode k v h m n l r) =
     bind_res
       (case r of
          None \<Rightarrow> (case l of None \<Rightarrow> Inr 0 | Some left \<Rightarrow> u32_succ (node_height left))
        | Some right \<Rightarrow>
            (case l of
               None \<Rightarrow> u32_succ (node_height right)
             | Some left \<Rightarrow> u32_succ (max (node_height left) (node_height right))))
       (\<lambda>n. Inr (AvlNode k v h m n l r))"

fun update_hashes :: "('k, 'v) avl_env \<Rightarrow> ('k, 'v) avl_node \<Rightarrow> ('k, 'v) avl_node" where
  "update_hashes E (AvlNode k v h m n l r) =
     AvlNode k v h
       (sha256 E ((case l of Some left \<Rightarrow> node_merkle left | None \<Rightarrow> []) @ h
         @ (case r of Some right \<Rightarrow> node_merkle right | None \<Rightarrow> []))) n l r"

definition update_node :: "('k, 'v) avl_env \<Rightarrow> ('k, 'v) avl_node \<Rightarrow> ('k, 'v) avl_node outcome" where
  "update_node E n = update_height (update_hashes E n)"

text \<open>The casts to \<^verbatim>\<open>i32\<close> wrap, the negation and the difference are checked.\<close>

definition i32_checked :: "int \<Rightarrow> int outcome" where
  "i32_checked i = (if - (2 ^ 31) \<le> i \<and> i < 2 ^ 31 then Inr i else panics)"

definition balance_factor :: "('k, 'v) avl_node \<Rightarrow> int outcome" where
  "balance_factor n =
     (case (left_height n, right_height n) of
        (None, None) \<Rightarrow> Inr 0
      | (None, Some h) \<Rightarrow> i32_checked (- sint h)
      | (Some h, None) \<Rightarrow> Inr (sint h)
      | (Some hl, Some hr) \<Rightarrow> i32_checked (sint hl - sint hr))"

section \<open>Trees\<close>

definition tree_new :: "('k, 'v) node_ref" where
  "tree_new = None"

definition root_hash :: "('k, 'v) node_ref \<Rightarrow> bytes option" where
  "root_hash t = map_option node_merkle t"

fun tree_get :: "('k :: linorder, 'v) node_ref \<Rightarrow> 'k \<Rightarrow> 'v option" where
  "tree_get None k = None"
| "tree_get (Some (AvlNode k0 v h m n l r)) k =
     (if k < k0 then tree_get l k else if k0 < k then tree_get r k else Some v)"

fun rotate_right :: "('k, 'v) avl_env \<Rightarrow> ('k, 'v) node_ref \<Rightarrow> ('k, 'v) node_ref outcome" where
  "rotate_right E None = panics"
| "rotate_right E (Some (AvlNode k v h m n None r)) = panics"
| "rotate_right E (Some (AvlNode k v h m n (Some (AvlNode lk lv lh lm ln ll lr)) r)) =
     bind_res (update_node E (AvlNode k v h m n lr r)) (\<lambda>node.
     bind_res (update_node E (AvlNode lk lv lh lm ln ll (Some node))) (\<lambda>left. Inr (Some left)))"

fun rotate_left :: "('k, 'v) avl_env \<Rightarrow> ('k, 'v) node_ref \<Rightarrow> ('k, 'v) node_ref outcome" where
  "rotate_left E None = panics"
| "rotate_left E (Some (AvlNode k v h m n l None)) = panics"
| "rotate_left E (Some (AvlNode k v h m n l (Some (AvlNode rk rv rh rm rn rl rr)))) =
     bind_res (update_node E (AvlNode k v h m n l rl)) (\<lambda>node.
     bind_res (update_node E (AvlNode rk rv rh rm rn (Some node) rr)) (\<lambda>right. Inr (Some right)))"

fun balance_node :: "('k, 'v) avl_env \<Rightarrow> ('k, 'v) node_ref \<Rightarrow> ('k, 'v) node_ref outcome" where
  "balance_node E None = panics"
| "balance_node E (Some (AvlNode k v h m n l r)) =
     bind_res (balance_factor (AvlNode k v h m n l r)) (\<lambda>bf.
     if 2 \<le> bf then
       (case l of
          None \<Rightarrow> panics
        | Some left \<Rightarrow>
            bind_res (balance_factor left) (\<lambda>lbf.
            bind_res (if lbf < 1 then rotate_left E l else Inr l) (\<lambda>l.
            rotate_right E (Some (AvlNode k v h m n l r)))))
     else if bf \<le> - 2 then
       (case r of
          None \<Rightarrow> panics
        | Some right \<Rightarrow>
            bind_res (balance_factor right) (\<lambda>rbf.
            bind_res (if - 1 < rbf then rotate_right E r else Inr r) (\<lambda>r.
            rotate_left E (Some (AvlNode k v h m n l r)))))
     else Inr (Some (AvlNode k v h m n l r)))"

fun insert_rec ::
    "('k :: linorder, 'v) avl_env \<Rightarrow> ('k, 'v) node_ref \<Rightarrow> 'k \<Rightarrow> 'v \<Rightarrow> (('k, 'v) node_ref \<times> 'v option) outcome" where
  "insert_rec E None k v = Inr (as_node_ref E k v, None)"
| "insert_rec E (Some (AvlNode k0 v0 h m n l r)) k v =
     bind_res
       (if k < k0 then bind_res (insert_rec E l k v) (\<lambda>(l, old). Inr (AvlNode k0 v0 h m n l r, old))
        else if k0 < k then bind_res (insert_rec E r k v) (\<lambda>(r, old). Inr (AvlNode k0 v0 h m n l r, old))
        else (let (node, old) = set_value E v (AvlNode k0 v0 h m n l r) in Inr (node, Some old)))
       (\<lambda>(node, old).
     bind_res (update_node E node) (\<lambda>node.
     bind_res (balance_node E (Some node)) (\<lambda>t. Inr (t, old))))"

definition tree_insert ::
    "('k :: linorder, 'v) avl_env \<Rightarrow> ('k, 'v) node_ref \<Rightarrow> 'k \<Rightarrow> 'v \<Rightarrow> (('k, 'v) node_ref \<times> 'v option) outcome" where
  "tree_insert E t k v = insert_rec E t k v"

fun get_keys_rec :: "('k, 'v) node_ref \<Rightarrow> 'k list \<Rightarrow> 'k list" where
  "get_keys_rec None keys = keys"
| "get_keys_rec (Some (AvlNode k v h m n l r)) keys = get_keys_rec r (get_keys_rec l keys @ [k])"

definition get_keys :: "('k, 'v) node_ref \<Rightarrow> 'k list" where
  "get_keys t = get_keys_rec t []"

section \<open>Existence proofs\<close>

text \<open>The types of the \<^verbatim>\<open>ics23\<close> package that the tree builds.\<close>

datatype hash_op = NoHash | Sha256
datatype length_op = NoPrefix | VarProto

record leaf_op =
  lo_hash :: hash_op
  lo_prehash_key :: hash_op
  lo_prehash_value :: hash_op
  lo_length :: length_op
  lo_prefix :: bytes

record inner_op =
  io_hash :: hash_op
  io_prefix :: bytes
  io_suffix :: bytes

record existence_proof =
  ep_key :: bytes
  ep_value :: bytes
  ep_leaf :: "leaf_op option"
  ep_path :: "inner_op list"

record inner_spec =
  child_order :: "nat list"
  child_size :: nat
  min_prefix_length :: nat
  max_prefix_length :: nat
  empty_child :: bytes
  spec_hash :: hash_op

record proof_spec =
  leaf_spec :: "leaf_op option"
  inner_spec_of :: "inner_spec option"
  max_depth :: nat
  min_depth :: nat
  prehash_key_before_comparison :: bool

definition get_proof_spec :: proof_spec where
  "get_proof_spec =
     \<lparr>leaf_spec = Some \<lparr>lo_hash = Sha256, lo_prehash_key = NoHash, lo_prehash_value = NoHash, lo_length = NoPrefix, lo_prefix = LEAF_PREFIX\<rparr>,
      inner_spec_of = Some \<lparr>child_order = [0, 1, 2], child_size = 32, min_prefix_length = 0, max_prefix_length = 64,
        empty_child = [0, 32], spec_hash = Sha256\<rparr>,
      max_depth = 0, min_depth = 0, prehash_key_before_comparison = False\<rparr>"

definition or_empty :: "bytes option \<Rightarrow> bytes" where
  "or_empty b = (case b of Some x \<Rightarrow> x | None \<Rightarrow> [])"

definition push_inner :: "bytes \<Rightarrow> bytes \<Rightarrow> existence_proof \<Rightarrow> existence_proof" where
  "push_inner prefix suffix pr = pr\<lparr>ep_path := ep_path pr @ [\<lparr>io_hash = Sha256, io_prefix = prefix, io_suffix = suffix\<rparr>]\<rparr>"

fun get_proof_rec :: "('k :: linorder, 'v) avl_env \<Rightarrow> 'k \<Rightarrow> ('k, 'v) node_ref \<Rightarrow> existence_proof option" where
  "get_proof_rec E k None = None"
| "get_proof_rec E k (Some (AvlNode k0 v h m n l r)) =
     (let node = AvlNode k0 v h m n l r in
      if k < k0 then
        (case get_proof_rec E k l of
           None \<Rightarrow> None
         | Some pr \<Rightarrow> Some (push_inner [] (h @ or_empty (right_hash node)) pr))
      else if k0 < k then
        (case get_proof_rec E k r of
           None \<Rightarrow> None
         | Some pr \<Rightarrow> Some (push_inner (or_empty (left_hash node) @ h) [] pr))
      else
        Some (push_inner (or_empty (left_hash node)) (or_empty (right_hash node))
          \<lparr>ep_key = key_bytes E k0, ep_value = value_bytes E v,
           ep_leaf = Some \<lparr>lo_hash = Sha256, lo_prehash_key = NoHash, lo_prehash_value = NoHash, lo_length = NoPrefix, lo_prefix = LEAF_PREFIX\<rparr>,
           ep_path = []\<rparr>))"

definition get_proof :: "('k :: linorder, 'v) avl_env \<Rightarrow> 'k \<Rightarrow> ('k, 'v) node_ref \<Rightarrow> existence_proof option" where
  "get_proof E k t = get_proof_rec E k t"

section \<open>Well-formed trees\<close>

text \<open>
  The height of a tree as a natural number. A missing child counts like a leaf, as in \<^verbatim>\<open>balance_factor\<close>: a chain of
  three nodes is balanced.
\<close>

fun tree_height :: "('k, 'v) node_ref \<Rightarrow> nat" where
  "tree_height None = 0"
| "tree_height (Some (AvlNode k v h m n l r)) =
     (if l = None \<and> r = None then 0 else Suc (max (tree_height l) (tree_height r)))"

fun entries :: "('k, 'v) node_ref \<Rightarrow> ('k \<times> 'v) list" where
  "entries None = []"
| "entries (Some (AvlNode k v h m n l r)) = entries l @ (k, v) # entries r"

fun balanced :: "('k, 'v) node_ref \<Rightarrow> bool" where
  "balanced None \<longleftrightarrow> True"
| "balanced (Some (AvlNode k v h m n l r)) \<longleftrightarrow>
     tree_height l \<le> Suc (tree_height r) \<and> tree_height r \<le> Suc (tree_height l) \<and> balanced l \<and> balanced r"

text \<open>A node whose cached hash, Merkle hash and height are those of its content.\<close>

definition mk_node :: "('k, 'v) avl_env \<Rightarrow> 'k \<Rightarrow> 'v \<Rightarrow> ('k, 'v) node_ref \<Rightarrow> ('k, 'v) node_ref \<Rightarrow> ('k, 'v) avl_node" where
  "mk_node E k v l r =
     AvlNode k v (local_hash E k v)
       (sha256 E (or_empty (map_option node_merkle l) @ local_hash E k v @ or_empty (map_option node_merkle r)))
       (if l = None \<and> r = None then 0 else of_nat (Suc (max (tree_height l) (tree_height r)))) l r"

fun cached :: "('k, 'v) avl_env \<Rightarrow> ('k, 'v) node_ref \<Rightarrow> bool" where
  "cached E None \<longleftrightarrow> True"
| "cached E (Some (AvlNode k v h m n l r)) \<longleftrightarrow>
     AvlNode k v h m n l r = mk_node E k v l r \<and> tree_height (Some (AvlNode k v h m n l r)) < 2 ^ 31 \<and> cached E l \<and> cached E r"

lemma node_ref_induct [case_names Empty Node]:
  assumes "P None" and "\<And>k v h m n l r. P l \<Longrightarrow> P r \<Longrightarrow> P (Some (AvlNode k v h m n l r))"
  shows "P t"
proof -
  have "P (Some x)" for x
  proof (induction x)
    case (AvlNode k v h m n l r)
    with assms show ?case by (cases l; cases r) auto
  qed
  with assms(1) show ?thesis by (cases t) auto
qed

lemma mk_node_simps [simp]:
  "tree_height (Some (mk_node E k v l r)) = (if l = None \<and> r = None then 0 else Suc (max (tree_height l) (tree_height r)))"
  "entries (Some (mk_node E k v l r)) = entries l @ (k, v) # entries r"
  "balanced (Some (mk_node E k v l r)) \<longleftrightarrow>
     tree_height l \<le> Suc (tree_height r) \<and> tree_height r \<le> Suc (tree_height l) \<and> balanced l \<and> balanced r"
  "cached E (Some (mk_node E k v l r)) \<longleftrightarrow>
     tree_height (Some (mk_node E k v l r)) < 2 ^ 31 \<and> cached E l \<and> cached E r"
  "node_left (mk_node E k v l r) = l" "node_right (mk_node E k v l r) = r"
  by (simp_all add: mk_node_def)

lemma cached_cases:
  assumes "cached E (Some n)"
  obtains k v l r where "n = mk_node E k v l r" and "cached E l" and "cached E r" and "tree_height (Some n) < 2 ^ 31"
  using assms by (cases n) auto

lemma cached_height: "cached E (Some n) \<Longrightarrow> node_height n = of_nat (tree_height (Some n))"
  by (cases n) (auto simp: mk_node_def)

lemma cached_small: "cached E t \<Longrightarrow> tree_height t < 2 ^ 31"
  by (cases t) (auto elim: cached_cases)

lemma unat_small: "a < 2 ^ 31 \<Longrightarrow> unat (of_nat a :: u32) = a"
  by (simp add: unsigned_of_nat take_bit_nat_eq_self)

lemma height_le: "a < 2 ^ 31 \<Longrightarrow> b < 2 ^ 31 \<Longrightarrow> max (of_nat a :: u32) (of_nat b) = of_nat (max a b)"
  by (simp add: max_def word_le_nat_alt unat_small)

lemma u32_succ_small: "a < 2 ^ 31 \<Longrightarrow> u32_succ (of_nat a) = Inr (1 + of_nat a)"
proof -
  assume a: "a < 2 ^ 31"
  have "unat (- 1 :: u32) = 2 ^ 32 - 1" by (simp add: unsigned_minus_1_eq_mask mask_eq_exp_minus_1)
  with unat_small [OF a] a have "(of_nat a :: u32) \<noteq> - 1" by auto
  then show ?thesis by (simp add: u32_succ_def)
qed

lemma sint_small: "a < 2 ^ 31 \<Longrightarrow> sint (of_nat a :: u32) = int a"
  by (simp add: signed_of_nat signed_take_bit_int_eq_self)

lemma update_mk:
  assumes "cached E l" and "cached E r"
  shows "update_node E (AvlNode k v (local_hash E k v) m n l r) = Inr (mk_node E k v l r)"
  using assms assms [THEN cached_small]
  by (cases l; cases r)
    (simp_all add: update_node_def mk_node_def or_empty_def cached_height height_le u32_succ_small)

lemma balance_factor_mk:
  assumes "cached E l" and "cached E r"
  shows "balance_factor (mk_node E k v l r) = Inr (int (tree_height l) - int (tree_height r))"
  using assms assms [THEN cached_small]
  by (cases l; cases r)
    (simp_all add: balance_factor_def left_height_def right_height_def cached_height sint_small i32_checked_def)

section \<open>Rotations keep content and balance\<close>

lemma rotate_mk:
  assumes "cached E a" and "cached E b" and "cached E c"
  shows "tree_height (Some (mk_node E k v b c)) < 2 ^ 31 \<Longrightarrow>
      rotate_right E (Some (AvlNode k v (local_hash E k v) m n (Some (mk_node E k' v' a b)) c))
        = Inr (Some (mk_node E k' v' a (Some (mk_node E k v b c))))"
    and "tree_height (Some (mk_node E k v a b)) < 2 ^ 31 \<Longrightarrow>
      rotate_left E (Some (AvlNode k v (local_hash E k v) m n a (Some (mk_node E k' v' b c))))
        = Inr (Some (mk_node E k' v' (Some (mk_node E k v a b)) c))"
  using assms update_mk [of E b c k v m n] update_mk [of E a b k v m n]
    update_mk [of E a "Some (mk_node E k v b c)" k' v'] update_mk [of E "Some (mk_node E k v a b)" c k' v']
  by (simp_all add: mk_node_def [of E k' v'])

definition leans :: "('k, 'v) avl_node \<Rightarrow> bool" where
  "leans n \<longleftrightarrow> tree_height (node_left n) \<noteq> tree_height (node_right n)"

definition rebalanced :: "('k, 'v) avl_env \<Rightarrow> ('k, 'v) avl_node \<Rightarrow> nat \<Rightarrow> bool" where
  "rebalanced E n d \<longleftrightarrow>
     (\<exists>t. balance_node E (Some n) = Inr (Some t) \<and> cached E (Some t) \<and> balanced (Some t) \<and> tree_height (Some t) = d)"

lemma balance_node_mk:
  obtains m n where "balance_node E (Some (mk_node E k v l r)) =
     bind_res (balance_factor (mk_node E k v l r)) (\<lambda>bf.
     if 2 \<le> bf then
       (case l of
          None \<Rightarrow> panics
        | Some left \<Rightarrow>
            bind_res (balance_factor left) (\<lambda>lbf.
            bind_res (if lbf < 1 then rotate_left E l else Inr l) (\<lambda>l.
            rotate_right E (Some (AvlNode k v (local_hash E k v) m n l r)))))
     else if bf \<le> - 2 then
       (case r of
          None \<Rightarrow> panics
        | Some right \<Rightarrow>
            bind_res (balance_factor right) (\<lambda>rbf.
            bind_res (if - 1 < rbf then rotate_right E r else Inr r) (\<lambda>r.
            rotate_left E (Some (AvlNode k v (local_hash E k v) m n l r)))))
     else Inr (Some (mk_node E k v l r)))"
proof -
  obtain m n where mn: "mk_node E k v l r = AvlNode k v (local_hash E k v) m n l r" by (simp add: mk_node_def)
  show thesis by (rule that [of m n]) (simp add: mn cong: if_cong)
qed

lemma balance_none:
  assumes "cached E (Some (mk_node E k v l r))" and "balanced (Some (mk_node E k v l r))"
  shows "balance_node E (Some (mk_node E k v l r)) = Inr (Some (mk_node E k v l r))"
  using assms balance_factor_mk [of E l r k v] by (simp add: mk_node_def)

lemma double_shape:
  assumes "cached E a" "cached E b" "cached E c" "cached E e" "balanced a" "balanced b" "balanced c" "balanced e"
    and "tree_height a = d" "tree_height e = d" "max (tree_height b) (tree_height c) = d"
    and "tree_height b \<le> Suc (tree_height c)" "tree_height c \<le> Suc (tree_height b)"
    and "b \<noteq> None \<or> c \<noteq> None" and "d + 2 < 2 ^ 31"
    and t_def: "t = Some (mk_node E k v (Some (mk_node E k1 v1 a b)) (Some (mk_node E k2 v2 c e)))"
  shows "cached E t \<and> balanced t \<and> tree_height t = d + 2"
proof -
  have "tree_height (Some (mk_node E k1 v1 a b)) = Suc d \<or> d = 0 \<and> b = None \<and> tree_height (Some (mk_node E k1 v1 a b)) = 0"
    using assms(9,11) by auto
  moreover have "tree_height (Some (mk_node E k2 v2 c e)) = Suc d \<or> d = 0 \<and> c = None \<and> tree_height (Some (mk_node E k2 v2 c e)) = 0"
    using assms(10,11) by auto
  ultimately have h: "tree_height t = d + 2" "tree_height (Some (mk_node E k1 v1 a b)) \<le> Suc d" "tree_height (Some (mk_node E k2 v2 c e)) \<le> Suc d"
    "tree_height (Some (mk_node E k1 v1 a b)) \<le> Suc (tree_height (Some (mk_node E k2 v2 c e)))"
    "tree_height (Some (mk_node E k2 v2 c e)) \<le> Suc (tree_height (Some (mk_node E k1 v1 a b)))"
    using assms(14) unfolding t_def mk_node_simps(1) [of E k v] by auto
  have "cached E (Some (mk_node E k1 v1 a b))" "cached E (Some (mk_node E k2 v2 c e))"
    unfolding mk_node_simps(4) using h(2,3) assms(1-4,15) by linarith+
  moreover have "balanced (Some (mk_node E k1 v1 a b))" "balanced (Some (mk_node E k2 v2 c e))"
    unfolding mk_node_simps(3) using assms(5-13) by auto
  moreover have "tree_height t < 2 ^ 31" using h(1) assms(15) by linarith
  ultimately show ?thesis
    using h unfolding t_def mk_node_simps(3,4) [of E k v] by blast
qed

lemma balance_left:
  assumes "cached E (Some (mk_node E k v (Some l) r))" and "balanced (Some l)" and "balanced r" and "leans l"
    and "tree_height (Some l) = tree_height r + 2"
  shows "rebalanced E (mk_node E k v (Some l) r) (tree_height (Some l))"
proof -
  obtain lk lv ll lr where l: "l = mk_node E lk lv ll lr" "cached E ll" "cached E lr"
    using assms(1) by (auto elim: cached_cases)
  note bf = balance_factor_mk [of E "Some l" r k v] balance_factor_mk [OF l(2,3), of lk lv]
  show ?thesis
  proof (cases "tree_height lr < tree_height ll")
    case True
    then show ?thesis
      using assms l bf rotate_mk(1) [OF l(2,3), of r k v] by (simp add: rebalanced_def mk_node_def [of E k v] leans_def split: if_splits)
  next
    case False
    then have "tree_height ll < tree_height lr" using assms(4) l(1) by (simp add: leans_def)
    then obtain q where q: "lr = Some q" by (cases lr) auto
    then obtain qk qv ql qr where lr: "q = mk_node E qk qv ql qr" "cached E ql" "cached E qr"
      using l(3) by (auto elim: cached_cases)
    have "rotate_left E (Some l) = Inr (Some (mk_node E qk qv (Some (mk_node E lk lv ll ql)) qr))"
      unfolding l(1) q lr(1) mk_node_def [of E lk lv ll "Some (mk_node E qk qv ql qr)"]
      using assms(1) l q lr by (intro rotate_mk(2)) (auto split: if_splits)
    moreover have "rotate_right E (Some (AvlNode k v (local_hash E k v) m n (Some (mk_node E qk qv (Some (mk_node E lk lv ll ql)) qr)) r))
        = Inr (Some (mk_node E qk qv (Some (mk_node E lk lv ll ql)) (Some (mk_node E k v qr r))))" for m n
      using assms(1) l q lr by (intro rotate_mk(1)) (auto split: if_splits)
    ultimately have run: "balance_node E (Some (mk_node E k v (Some l) r))
        = Inr (Some (mk_node E qk qv (Some (mk_node E lk lv ll ql)) (Some (mk_node E k v qr r))))"
      using assms(1,5) bf l(1) False by (rule_tac balance_node_mk [of E k v "Some l" r]) simp
    have h: "tree_height ll = tree_height r" "max (tree_height ql) (tree_height qr) = tree_height r" "ql \<noteq> None \<or> qr \<noteq> None"
      using assms(2,4,5) l(1) q lr(1) False by (auto simp: leans_def max_def split: if_splits)
    have b: "balanced ll" "balanced ql" "balanced qr" "tree_height ql \<le> Suc (tree_height qr)" "tree_height qr \<le> Suc (tree_height ql)"
      using assms(2) l(1) q lr(1) by simp_all
    have c: "cached E r" "tree_height r + 2 < 2 ^ 31" using assms(1,5) by simp_all
    show ?thesis
      unfolding rebalanced_def assms(5)
      using run double_shape [OF l(2) lr(2,3) c(1) b(1-3) assms(3) h(1) refl h(2) b(4,5) h(3) c(2) refl] by blast
  qed
qed

lemma balance_right:
  assumes "cached E (Some (mk_node E k v l (Some r)))" and "balanced l" and "balanced (Some r)" and "leans r"
    and "tree_height (Some r) = tree_height l + 2"
  shows "rebalanced E (mk_node E k v l (Some r)) (tree_height (Some r))"
proof -
  obtain rk rv rl rr where r: "r = mk_node E rk rv rl rr" "cached E rl" "cached E rr"
    using assms(1) by (auto elim: cached_cases)
  note bf = balance_factor_mk [of E l "Some r" k v] balance_factor_mk [OF r(2,3), of rk rv]
  show ?thesis
  proof (cases "tree_height rl < tree_height rr")
    case True
    then show ?thesis
      using assms r bf rotate_mk(2) [of E l, OF _ r(2,3), of k v] by (simp add: rebalanced_def mk_node_def [of E k v] leans_def split: if_splits)
  next
    case False
    then have "tree_height rr < tree_height rl" using assms(4) r(1) by (simp add: leans_def)
    then obtain q where q: "rl = Some q" by (cases rl) auto
    then obtain qk qv ql qr where rl: "q = mk_node E qk qv ql qr" "cached E ql" "cached E qr"
      using r(2) by (auto elim: cached_cases)
    have "rotate_right E (Some r) = Inr (Some (mk_node E qk qv ql (Some (mk_node E rk rv qr rr))))"
      unfolding r(1) q rl(1) mk_node_def [of E rk rv "Some (mk_node E qk qv ql qr)"]
      using assms(1) r q rl by (intro rotate_mk(1)) (auto split: if_splits)
    moreover have "rotate_left E (Some (AvlNode k v (local_hash E k v) m n l (Some (mk_node E qk qv ql (Some (mk_node E rk rv qr rr))))))
        = Inr (Some (mk_node E qk qv (Some (mk_node E k v l ql)) (Some (mk_node E rk rv qr rr))))" for m n
      using assms(1) r q rl by (intro rotate_mk(2)) (auto split: if_splits)
    ultimately have run: "balance_node E (Some (mk_node E k v l (Some r)))
        = Inr (Some (mk_node E qk qv (Some (mk_node E k v l ql)) (Some (mk_node E rk rv qr rr))))"
      using assms(1,5) bf r(1) False by (rule_tac balance_node_mk [of E k v l "Some r"]) simp
    have h: "tree_height rr = tree_height l" "max (tree_height ql) (tree_height qr) = tree_height l" "ql \<noteq> None \<or> qr \<noteq> None"
      using assms(3,4,5) r(1) q rl(1) False by (auto simp: leans_def max_def split: if_splits)
    have b: "balanced rr" "balanced ql" "balanced qr" "tree_height ql \<le> Suc (tree_height qr)" "tree_height qr \<le> Suc (tree_height ql)"
      using assms(3) r(1) q rl(1) by simp_all
    have c: "cached E l" "tree_height l + 2 < 2 ^ 31" using assms(1,5) by simp_all
    show ?thesis
      unfolding rebalanced_def assms(5)
      using run double_shape [OF c(1) rl(2,3) r(3) assms(2) b(2,3,1) refl h(1,2) b(4,5) h(3) c(2) refl] by blast
  qed
qed

section \<open>Insertion\<close>

text \<open>A tree after an insertion: as high as before, or one higher and then leaning to one side.\<close>

definition grown :: "('k, 'v) node_ref \<Rightarrow> ('k, 'v) avl_node \<Rightarrow> bool" where
  "grown t t' \<longleftrightarrow> tree_height (Some t') = tree_height t
     \<or> t \<noteq> None \<and> tree_height (Some t') = Suc (tree_height t) \<and> (tree_height (Some t') = 1 \<or> leans t')"

lemma rebalance_grown:
  assumes "cached E (Some (mk_node E k v l r))" and "balanced (Some (mk_node E k v l r))"
  shows "cached E (Some l') \<Longrightarrow> balanced (Some l') \<Longrightarrow> grown l l' \<Longrightarrow> Suc (tree_height (Some l')) < 2 ^ 31 \<Longrightarrow>
      \<exists>t. balance_node E (Some (mk_node E k v (Some l') r)) = Inr (Some t) \<and> cached E (Some t) \<and> balanced (Some t)
        \<and> grown (Some (mk_node E k v l r)) t"
    and "cached E (Some r') \<Longrightarrow> balanced (Some r') \<Longrightarrow> grown r r' \<Longrightarrow> Suc (tree_height (Some r')) < 2 ^ 31 \<Longrightarrow>
      \<exists>t. balance_node E (Some (mk_node E k v l (Some r'))) = Inr (Some t) \<and> cached E (Some t) \<and> balanced (Some t)
        \<and> grown (Some (mk_node E k v l r)) t"
proof -
  assume l': "cached E (Some l')" "balanced (Some l')" "grown l l'" "Suc (tree_height (Some l')) < 2 ^ 31"
  have c: "cached E (Some (mk_node E k v (Some l') r))"
    using assms(1) l'(1,4) cached_small [of E r] by (auto split: if_splits)
  show "\<exists>t. balance_node E (Some (mk_node E k v (Some l') r)) = Inr (Some t) \<and> cached E (Some t) \<and> balanced (Some t)
        \<and> grown (Some (mk_node E k v l r)) t"
  proof (cases "tree_height (Some l') \<le> Suc (tree_height r)")
    case True
    with assms(2) l'(2,3) have "balanced (Some (mk_node E k v (Some l') r))" by (auto simp: grown_def)
    moreover have "grown (Some (mk_node E k v l r)) (mk_node E k v (Some l') r)"
      using assms(2) l'(3) True by (auto simp: grown_def leans_def max_def split: if_splits)
    ultimately show ?thesis using balance_none [OF c] c by blast
  next
    case False
    with assms(2) l'(3) have "tree_height (Some l') = tree_height r + 2" "leans l'" by (auto simp: grown_def)
    with balance_left [OF c l'(2)] assms(2) l'(3) show ?thesis
      by (auto simp: rebalanced_def grown_def split: if_splits)
  qed
next
  assume r': "cached E (Some r')" "balanced (Some r')" "grown r r'" "Suc (tree_height (Some r')) < 2 ^ 31"
  have c: "cached E (Some (mk_node E k v l (Some r')))"
    using assms(1) r'(1,4) cached_small [of E l] by (auto split: if_splits)
  show "\<exists>t. balance_node E (Some (mk_node E k v l (Some r'))) = Inr (Some t) \<and> cached E (Some t) \<and> balanced (Some t)
        \<and> grown (Some (mk_node E k v l r)) t"
  proof (cases "tree_height (Some r') \<le> Suc (tree_height l)")
    case True
    with assms(2) r'(2,3) have "balanced (Some (mk_node E k v l (Some r')))" by (auto simp: grown_def)
    moreover have "grown (Some (mk_node E k v l r)) (mk_node E k v l (Some r'))"
      using assms(2) r'(3) True by (auto simp: grown_def leans_def max_def split: if_splits)
    ultimately show ?thesis using balance_none [OF c] c by blast
  next
    case False
    with assms(2) r'(3) have "tree_height (Some r') = tree_height l + 2" "leans r'" by (auto simp: grown_def)
    with balance_right [OF c _ r'(2)] assms(2) r'(3) show ?thesis
      by (auto simp: rebalanced_def grown_def split: if_splits)
  qed
qed

lemma insert_balanced:
  assumes "cached E t" and "balanced t" and "tree_height t + 2 < 2 ^ 31"
  shows "\<exists>t' old. insert_rec E t k v = Inr (Some t', old) \<and> cached E (Some t') \<and> balanced (Some t') \<and> grown t t'"
  using assms
proof (induction t rule: node_ref_induct)
  case Empty
  have "avl_node_new E k v = mk_node E k v None None"
    by (simp add: avl_node_new_def mk_node_def local_hash_def or_empty_def Let_def)
  then show ?case by (simp add: as_node_ref_def grown_def)
next
  case (Node k0 v0 h m n l r)
  then have node: "AvlNode k0 v0 h m n l r = mk_node E k0 v0 l r" "h = local_hash E k0 v0" and c: "cached E l" "cached E r"
    by (auto simp: mk_node_def)
  have below: "tree_height l + 2 < 2 ^ 31" "tree_height r + 2 < 2 ^ 31"
    using Node.prems(3) by (auto split: if_splits)
  have whole: "cached E (Some (mk_node E k0 v0 l r))" "balanced (Some (mk_node E k0 v0 l r))"
    using Node.prems(1,2) unfolding node(1) .
  consider "k < k0" | "k0 < k" | "k = k0" by fastforce
  then show ?case
  proof cases
    case 1
    obtain l' old where l': "insert_rec E l k v = Inr (Some l', old)" "cached E (Some l')" "balanced (Some l')" "grown l l'"
      using Node.IH(1) c(1) below(1) Node.prems(2) by auto
    have "Suc (tree_height (Some l')) < 2 ^ 31" using l'(4) below(1) by (auto simp: grown_def)
    from rebalance_grown(1) [OF whole l'(2-4) this] 1 l'(1) update_mk [OF l'(2) c(2)] show ?thesis
      by (auto simp: node(2) node(1) [symmetric])
  next
    case 2
    obtain r' old where r': "insert_rec E r k v = Inr (Some r', old)" "cached E (Some r')" "balanced (Some r')" "grown r r'"
      using Node.IH(2) c(2) below(2) Node.prems(2) by auto
    have "Suc (tree_height (Some r')) < 2 ^ 31" using r'(4) below(2) by (auto simp: grown_def)
    from rebalance_grown(2) [OF whole r'(2-4) this] 2 r'(1) update_mk [OF c(1) r'(2)] show ?thesis
      by (auto simp: node(2) node(1) [symmetric])
  next
    case 3
    have "cached E (Some (mk_node E k0 v l r))" "balanced (Some (mk_node E k0 v l r))"
      using whole by (simp_all split: if_splits)
    from balance_none [OF this] this 3 update_mk [OF c] show ?thesis
      by (simp add: grown_def node(2))
  qed
qed

section \<open>Content\<close>

text \<open>What an insertion does to the sorted list of entries.\<close>

fun ins_list :: "'k :: linorder \<Rightarrow> 'v \<Rightarrow> ('k \<times> 'v) list \<Rightarrow> ('k \<times> 'v) list" where
  "ins_list k v [] = [(k, v)]"
| "ins_list k v ((a, b) # xs) =
     (if k < a then (k, v) # (a, b) # xs else if a < k then (a, b) # ins_list k v xs else (k, v) # xs)"

abbreviation sorted_entries :: "('k :: linorder \<times> 'v) list \<Rightarrow> bool" where
  "sorted_entries xs \<equiv> sorted_wrt (<) (map fst xs)"

lemma ins_list_append:
  "sorted_entries (xs @ (a, b) # ys) \<Longrightarrow> ins_list k v (xs @ (a, b) # ys) =
     (if k < a then ins_list k v xs @ (a, b) # ys else if a < k then xs @ (a, b) # ins_list k v ys else xs @ (k, v) # ys)"
  by (induction xs) auto

lemma ins_list_keys: "fst ` set (ins_list k v xs) = insert k (fst ` set xs)"
  by (induction k v xs rule: ins_list.induct) auto

lemma ins_list_sorted: "sorted_entries xs \<Longrightarrow> sorted_entries (ins_list k v xs)"
proof (induction xs)
  case (Cons p xs)
  then show ?case using ins_list_keys [of k v xs] by (cases p) auto
qed simp

lemma ins_list_map: "map_of (ins_list k v xs) = (map_of xs)(k \<mapsto> v)"
  by (induction k v xs rule: ins_list.induct) (auto simp: fun_eq_iff)

lemma get_entries: "sorted_entries (entries t) \<Longrightarrow> tree_get t k = map_of (entries t) k"
proof (induction t rule: node_ref_induct)
  case (Node k0 v h m n l r)
  then have "k0 \<le> k \<Longrightarrow> map_of (entries l) k = None" "k \<le> k0 \<Longrightarrow> map_of (entries r) k = None"
    by (auto simp: sorted_wrt_append map_of_eq_None_iff)
  moreover consider "k < k0" | "k0 < k" | "k = k0" by fastforce
  ultimately show ?case
    using Node by cases (auto simp: sorted_wrt_append map_add_def split: option.splits)
qed simp

lemma update_entries: "update_node E n = Inr n' \<Longrightarrow> entries (Some n') = entries (Some n)"
  by (cases n) (auto simp: update_node_def)

lemma rotate_entries:
  "rotate_right E t = Inr t' \<Longrightarrow> entries t' = entries t"
  "rotate_left E t = Inr t' \<Longrightarrow> entries t' = entries t"
  by (cases "(E, t)" rule: rotate_right.cases; auto dest!: update_entries)
    (cases "(E, t)" rule: rotate_left.cases; auto dest!: update_entries)

lemma balance_entries: "balance_node E t = Inr t' \<Longrightarrow> entries t' = entries t"
  by (cases "(E, t)" rule: balance_node.cases) (auto dest!: rotate_entries split: if_splits option.splits)

lemma insert_entries:
  assumes "insert_rec E t k v = Inr (t', old)" and "sorted_entries (entries t)"
  shows "entries t' = ins_list k v (entries t) \<and> old = map_of (entries t) k"
  using assms
proof (induction t arbitrary: t' old rule: node_ref_induct)
  case (Node k0 v0 h m n l r)
  have s: "sorted_entries (entries l)" "sorted_entries (entries r)" using Node.prems(2) by (auto simp: sorted_wrt_append)
  have look: "map_of (entries (Some (AvlNode k0 v0 h m n l r))) k
      = (if k < k0 then map_of (entries l) k else if k0 < k then map_of (entries r) k else Some v0)"
    unfolding get_entries [OF Node.prems(2), symmetric] by (simp add: get_entries [OF s(1)] get_entries [OF s(2)])
  note app = ins_list_append [of "entries l" k0 v0 "entries r" k v]
  consider "k < k0" | "k0 < k" | "k = k0" by fastforce
  then show ?case
  proof cases
    case 1
    with Node.prems(1) obtain l' where "insert_rec E l k v = Inr (l', old)" "entries t' = entries (Some (AvlNode k0 v0 h m n l' r))"
      by (auto dest!: update_entries balance_entries)
    with 1 Node.IH(1) [OF _ s(1)] app Node.prems(2) show ?thesis unfolding look by simp
  next
    case 2
    then have "\<not> k < k0" by simp
    with 2 Node.prems(1) obtain r' where "insert_rec E r k v = Inr (r', old)" "entries t' = entries (Some (AvlNode k0 v0 h m n l r'))"
      by (auto dest!: update_entries balance_entries)
    with 2 \<open>\<not> k < k0\<close> Node.IH(2) [OF _ s(2)] app Node.prems(2) show ?thesis unfolding look by simp
  next
    case 3
    with Node.prems(1) have "entries t' = entries (Some (AvlNode k0 v h m n l r))" "old = Some v0"
      by (auto dest!: update_entries balance_entries)
    with 3 app Node.prems(2) show ?thesis unfolding look by simp
  qed
qed (auto simp: as_node_ref_def avl_node_new_def Let_def)

lemma get_keys_entries: "get_keys t = map fst (entries t)"
proof -
  have "get_keys_rec t ks = ks @ map fst (entries t)" for ks
    by (induction t arbitrary: ks rule: node_ref_induct) auto
  then show ?thesis by (simp add: get_keys_def)
qed

section \<open>Size and height\<close>

lemma half_power:
  fixes a b :: nat
  assumes "2 ^ (h div 2) \<le> a" and "1 \<le> h" and "2 \<le> h \<Longrightarrow> 2 ^ ((h - 1) div 2) \<le> b" and "1 \<le> b"
  shows "2 ^ (Suc h div 2) \<le> a + b"
proof (cases "2 \<le> h")
  case True
  then have "Suc h div 2 = Suc ((h - 1) div 2)" by auto
  then have "(2 :: nat) ^ (Suc h div 2) = 2 * 2 ^ ((h - 1) div 2)" by simp
  moreover have "2 ^ ((h - 1) div 2) \<le> (2 :: nat) ^ (h div 2)" by (intro power_increasing) auto
  ultimately show ?thesis using assms(1) assms(3) [OF True] by linarith
next
  case False
  with assms show ?thesis by (cases h) auto
qed

lemma balanced_size: "balanced t \<Longrightarrow> t \<noteq> None \<Longrightarrow> 2 ^ (tree_height t div 2) \<le> length (entries t)"
proof (induction t rule: node_ref_induct)
  case (Node k v h m n l r)
  have grow: "2 ^ (Suc (tree_height x) div 2) \<le> Suc (length (entries x) + length (entries y))"
    if "balanced x \<Longrightarrow> x \<noteq> None \<Longrightarrow> 2 ^ (tree_height x div 2) \<le> length (entries x)"
      and "balanced y \<Longrightarrow> y \<noteq> None \<Longrightarrow> 2 ^ (tree_height y div 2) \<le> length (entries y)"
      and "balanced x" "balanced y" "tree_height x \<le> Suc (tree_height y)" "tree_height y \<le> tree_height x" for x y :: "('a, 'b) node_ref"
  proof (cases "1 \<le> tree_height x")
    case True
    then have x: "2 ^ (tree_height x div 2) \<le> length (entries x)" using that(1,3) by (cases x) auto
    have y: "2 ^ ((tree_height x - 1) div 2) \<le> length (entries y)" if "2 \<le> tree_height x"
    proof -
      have "y \<noteq> None" using that \<open>tree_height x \<le> Suc (tree_height y)\<close> by (cases y) auto
      then have "2 ^ (tree_height y div 2) \<le> length (entries y)"
        using \<open>balanced y\<close> \<open>balanced y \<Longrightarrow> y \<noteq> None \<Longrightarrow> 2 ^ (tree_height y div 2) \<le> length (entries y)\<close> by blast
      moreover have "(2 :: nat) ^ ((tree_height x - 1) div 2) \<le> 2 ^ (tree_height y div 2)"
        using \<open>tree_height x \<le> Suc (tree_height y)\<close> by (intro power_increasing div_le_mono) auto
      ultimately show ?thesis by linarith
    qed
    have "2 \<le> tree_height x \<Longrightarrow> 2 ^ ((tree_height x - 1) div 2) \<le> Suc (length (entries y))"
      using y le_SucI by blast
    from half_power [OF x True this] show ?thesis by simp
  next
    case False
    then show ?thesis by simp
  qed
  show ?case
  proof (cases "l = None \<and> r = None")
    case False
    with Node grow [of l r] grow [of r l] show ?thesis
      by (cases "tree_height r \<le> tree_height l") (auto simp: max_def add.commute)
  qed simp
qed simp

text \<open>No memory holds a tree of this many nodes, and far larger ones would not overflow the heights.\<close>

definition tree_bound :: nat where
  "tree_bound = 2 ^ 1000"

definition tree_ok :: "('k :: linorder, 'v) avl_env \<Rightarrow> ('k, 'v) node_ref \<Rightarrow> bool" where
  "tree_ok E t \<longleftrightarrow> cached E t \<and> balanced t \<and> sorted_entries (entries t)"

lemma height_bounded:
  assumes "tree_ok E t" and "length (entries t) < tree_bound"
  shows "tree_height t + 2 < 2 ^ 31"
proof (cases "t = None")
  case False
  then have "(2 :: nat) ^ (tree_height t div 2) < 2 ^ n" if "tree_bound = 2 ^ n" for n
    using balanced_size [of t] assms that by (auto simp: tree_ok_def intro: le_less_trans)
  then have "tree_height t div 2 < 1000" by (rule power_less_imp_less_exp [rotated]) (simp_all add: tree_bound_def)
  then show ?thesis by auto
qed simp

lemma insert_ok:
  assumes "tree_ok E t" and "length (entries t) < tree_bound"
  obtains t' where "tree_insert E t k v = Inr (t', tree_get t k)" and "tree_ok E t'" and "entries t' = ins_list k v (entries t)"
proof -
  obtain t' old where t': "insert_rec E t k v = Inr (Some t', old)" "cached E (Some t')" "balanced (Some t')"
    using insert_balanced [of E t k v] assms(1) height_bounded [OF assms] unfolding tree_ok_def by blast
  have s: "sorted_entries (entries t)" using assms(1) by (simp add: tree_ok_def)
  have e: "entries (Some t') = ins_list k v (entries t)" "old = tree_get t k"
    using insert_entries [OF t'(1) s] get_entries [OF s, of k] by simp_all
  show ?thesis
  proof (rule that [of "Some t'"])
    show "tree_ok E (Some t')"
      unfolding tree_ok_def e(1) using t'(2,3) ins_list_sorted [OF s] by blast
  qed (use t'(1) e in \<open>simp_all add: tree_insert_def\<close>)
qed

lemma ins_list_length: "length (ins_list k v xs) \<le> Suc (length xs)"
  by (induction k v xs rule: ins_list.induct) auto

text \<open>A tree that holds the given pairs, inserted one after the other.\<close>

fun insert_all :: "('k :: linorder, 'v) avl_env \<Rightarrow> ('k \<times> 'v) list \<Rightarrow> ('k, 'v) node_ref \<Rightarrow> ('k, 'v) node_ref outcome" where
  "insert_all E [] t = Inr t"
| "insert_all E ((k, v) # kvs) t = bind_res (tree_insert E t k v) (\<lambda>(t, old). insert_all E kvs t)"

lemma insert_all_ok:
  assumes "tree_ok E t" and "length (entries t) + length kvs < tree_bound"
  shows "\<exists>t'. insert_all E kvs t = Inr t' \<and> tree_ok E t' \<and> map_of (entries t') = map_of (entries t) ++ map_of (rev kvs)
    \<and> length (entries t') \<le> length (entries t) + length kvs"
  using assms
proof (induction kvs arbitrary: t)
  case (Cons kv kvs)
  obtain k v where kv: "kv = (k, v)" by fastforce
  obtain t1 where t1: "tree_insert E t k v = Inr (t1, tree_get t k)" "tree_ok E t1" "entries t1 = ins_list k v (entries t)"
    using insert_ok [of E t k v] Cons.prems by auto
  have "length (entries t1) \<le> Suc (length (entries t))" unfolding t1(3) by (rule ins_list_length)
  moreover have "map_of (entries t1) = (map_of (entries t))(k \<mapsto> v)" unfolding t1(3) by (rule ins_list_map)
  ultimately show ?case
    using Cons.IH [OF t1(2)] Cons.prems(2) t1(1) by (fastforce simp: kv)
qed simp

lemma tree_new_ok: "tree_ok E tree_new"
  by (simp add: tree_ok_def tree_new_def)

lemma inserted:
  assumes "length kvs < tree_bound"
  obtains t where "insert_all E kvs tree_new = Inr t" and "tree_ok E t" and "map_of (entries t) = map_of (rev kvs)"
    and "length (entries t) \<le> length kvs"
  using insert_all_ok [OF tree_new_ok, of kvs E] assms by (auto simp: tree_new_def)

section \<open>Properties\<close>

text \<open>C21: the tree is a map. Inserting any pairs, fewer than there is memory for, one after the other in an empty tree
  panics nowhere, neither in a rotation nor by an overflow of the heights. The tree then returns for every key the
  value inserted last, its keys are listed in ascending order and are those inserted, and one more insertion
  returns the value the key had.\<close>

theorem tree_is_map:
  assumes "length kvs < tree_bound"
  shows "\<exists>t. insert_all E kvs tree_new = Inr t \<and> (\<forall>k. tree_get t k = map_of (rev kvs) k)
    \<and> sorted_wrt (<) (get_keys t) \<and> set (get_keys t) = fst ` set kvs
    \<and> (\<forall>k v. \<exists>t'. tree_insert E t k v = Inr (t', map_of (rev kvs) k))"
proof -
  obtain t where t: "insert_all E kvs tree_new = Inr t" "tree_ok E t" "map_of (entries t) = map_of (rev kvs)"
    "length (entries t) \<le> length kvs"
    by (rule inserted [OF assms])
  have s: "sorted_entries (entries t)" using t(2) by (simp add: tree_ok_def)
  have "fst ` set (entries t) = fst ` set kvs"
    using t(3) by (metis dom_map_of_conv_image_fst set_rev)
  moreover have "\<exists>t'. tree_insert E t k v = Inr (t', map_of (rev kvs) k)" for k v
    using insert_ok [OF t(2), of k v] t(3,4) assms get_entries [OF s, of k] by auto
  ultimately show ?thesis
    using t get_entries [OF s] s by (auto simp: get_keys_entries)
qed

text \<open>C39: the height of the tree. In a tree of \<open>n\<close> keys the height \<open>h\<close> that the root stores meets \<open>2 ^ (h div 2) \<le> n\<close>: a
  lookup takes a number of steps logarithmic in the number of keys.\<close>

theorem tree_height_logarithmic:
  assumes "length kvs < tree_bound" and "insert_all E kvs tree_new = Inr (Some root)"
  shows "2 ^ (unat (node_height root) div 2) \<le> length (get_keys (Some root)) \<and> length (get_keys (Some root)) \<le> length kvs"
proof -
  have t: "tree_ok E (Some root)" "length (entries (Some root)) \<le> length kvs"
    using inserted [OF assms(1), of E] assms(2) by auto
  then have "cached E (Some root)" "balanced (Some root)" by (simp_all add: tree_ok_def)
  then have "unat (node_height root) = tree_height (Some root)"
    using cached_height cached_small by (metis unat_small)
  with balanced_size [OF \<open>balanced (Some root)\<close>] t(2) show ?thesis by (simp add: get_keys_entries)
qed

text \<open>What the \<^verbatim>\<open>ics23\<close> package documents of the root of an existence proof whose operations are all SHA-256 without
  prehashing or length prefix: the leaf is the hash of prefix, key and value, and every inner operation hashes the
  result so far between its prefix and its suffix.\<close>

definition ics23_root :: "(bytes \<Rightarrow> bytes) \<Rightarrow> (existence_proof \<Rightarrow> bytes option) \<Rightarrow> bool" where
  "ics23_root hash R \<longleftrightarrow>
     (\<forall>pr prefix. ep_leaf pr = Some \<lparr>lo_hash = Sha256, lo_prehash_key = NoHash, lo_prehash_value = NoHash, lo_length = NoPrefix, lo_prefix = prefix\<rparr>
        \<and> (\<forall>op \<in> set (ep_path pr). io_hash op = Sha256) \<and> ep_key pr \<noteq> [] \<and> ep_value pr \<noteq> [] \<longrightarrow>
      R pr = Some (foldl (\<lambda>acc op. hash (io_prefix op @ acc @ io_suffix op)) (hash (prefix @ ep_key pr @ ep_value pr)) (ep_path pr)))"

lemma merkle_size:
  assumes "cached E (Some n)" and "\<And>b. length (sha256 E b) = 32"
  shows "length (node_merkle n) = 32" and "length (node_hash n) = 32"
  using assms by (auto elim!: cached_cases simp: mk_node_def local_hash_def)

lemma proof_of_key:
  assumes "cached E t" and "\<And>b. length (sha256 E b) = 32" and "tree_get t k = Some v"
  shows "\<exists>pr. get_proof_rec E k t = Some pr \<and> ep_key pr = key_bytes E k \<and> ep_value pr = value_bytes E v
    \<and> ep_leaf pr = leaf_spec get_proof_spec
    \<and> (\<forall>op \<in> set (ep_path pr). io_hash op = Sha256 \<and> length (io_prefix op) \<le> 64)
    \<and> root_hash t = Some (foldl (\<lambda>acc op. sha256 E (io_prefix op @ acc @ io_suffix op)) (local_hash E k v) (ep_path pr))"
  using assms(1,3)
proof (induction t rule: node_ref_induct)
  case (Node k0 v0 h m n l r)
  then have node: "m = sha256 E (or_empty (map_option node_merkle l) @ h @ or_empty (map_option node_merkle r))" "h = local_hash E k0 v0"
    and c: "cached E l" "cached E r"
    by (simp_all add: mk_node_def)
  have size: "length (or_empty (map_option node_merkle l)) \<le> 32" "length h = 32"
    using merkle_size [OF _ assms(2)] c(1) by (cases l; simp add: or_empty_def node(2) local_hash_def assms(2))+
  consider "k < k0" | "k0 < k" | "k = k0" by fastforce
  then show ?case
  proof cases
    case 1
    with Node.IH(1) [OF c(1)] Node.prems(2) show ?thesis
      by (cases l) (auto simp: Let_def push_inner_def root_hash_def right_hash_def left_hash_def or_empty_def node(1))
  next
    case 2
    then have "\<not> k < k0" by simp
    with 2 Node.IH(2) [OF c(2)] Node.prems(2) size show ?thesis
      by (cases r) (auto simp: Let_def push_inner_def root_hash_def right_hash_def left_hash_def or_empty_def node(1))
  next
    case 3
    with Node.prems(2) size show ?thesis
      by (auto simp: Let_def push_inner_def root_hash_def right_hash_def left_hash_def get_proof_spec_def node)
  qed
qed simp

lemma proof_of_missing: "get_proof_rec E k t = None \<longleftrightarrow> tree_get t k = None"
  by (induction t rule: node_ref_induct) (auto simp: Let_def split: option.splits)


section \<open>Witnesses\<close>

definition sample_avl :: "(nat, nat) avl_env" where
  "sample_avl = \<lparr>key_bytes = (\<lambda>n. [of_nat n]), value_bytes = (\<lambda>n. [of_nat n]), sha256 = (\<lambda>b. take 32 (rev b @ replicate 32 0))\<rparr>"

definition sample_root :: "existence_proof \<Rightarrow> bytes option" where
  "sample_root pr =
     map_option (\<lambda>lf. foldl (\<lambda>acc op. sha256 sample_avl (io_prefix op @ acc @ io_suffix op))
       (sha256 sample_avl (lo_prefix lf @ ep_key pr @ ep_value pr)) (ep_path pr)) (ep_leaf pr)"

lemma sample_kvs: "length [(1 :: nat, 5 :: nat), (2, 6), (3, 7), (2, 8)] < tree_bound"
proof -
  have "length [(1 :: nat, 5 :: nat), (2, 6), (3, 7), (2, 8)] < 2 ^ 3" by simp
  also have "(2 :: nat) ^ 3 \<le> tree_bound" unfolding tree_bound_def by (rule power_increasing) simp_all
  finally show ?thesis .
qed

theorem tree_is_map_witness:
  "\<exists>t. insert_all sample_avl [(1, 5), (2, 6), (3, 7), (2, 8)] tree_new = Inr t \<and> tree_get t 2 = Some 8 \<and> tree_get t 4 = None
    \<and> set (get_keys t) = {1, 2, 3}"
  using tree_is_map [OF sample_kvs, of sample_avl] by fastforce

theorem tree_height_logarithmic_witness:
  "\<exists>root. insert_all sample_avl [(1, 5), (2, 6), (3, 7), (2, 8)] tree_new = Inr (Some root)
    \<and> 2 ^ (unat (node_height root) div 2) \<le> length (get_keys (Some root)) \<and> length (get_keys (Some root)) \<le> 4"
proof -
  obtain t where t: "insert_all sample_avl [(1, 5), (2, 6), (3, 7), (2, 8)] tree_new = Inr t"
    "map_of (entries t) = map_of (rev [(1, 5), (2, 6), (3, 7), (2, 8)])"
    using inserted [OF sample_kvs, of sample_avl] by blast
  then have "map_of (entries t) 1 = Some 5" by simp
  then obtain root where "t = Some root" by (cases t) auto
  with tree_height_logarithmic [OF sample_kvs, of sample_avl root] t(1) show ?thesis by auto
qed


end
