(* ===== verification/Light_Client_Common.thy ===== *)
theory Light_Client_Common
  imports Host_Context
begin

text \<open>
  What the light clients of Substrate chains share: \<^verbatim>\<open>light-clients/common/src\<close>, files \<^verbatim>\<open>lib.rs\<close> and
  \<^verbatim>\<open>state_machine.rs\<close>. Proofs of membership and of absence in the child trie of the counterparty,
  reads of its main trie, the relay chains with their trusting periods, the timestamp extrinsic and
  the connection delay.

  The record \<open>substrate\<close> holds the Substrate packages: the database and the tries that a storage
  proof gives, SCALE decoding and the layout of storage keys. A hash is its 32 bytes. The texts of
  errors are kept without the values printed in them.
\<close>

type_synonym h256 = bytes

record substrate =
  db_contains :: "bytes list \<Rightarrow> h256 \<Rightarrow> bool"
  trie_get :: "bytes list \<Rightarrow> h256 \<Rightarrow> bytes \<Rightarrow> bytes option option"
  child_trie_get :: "bytes list \<Rightarrow> bytes \<Rightarrow> h256 \<Rightarrow> bytes \<Rightarrow> bytes option option"
  prefixed_storage_key :: "bytes \<Rightarrow> bytes"
  keyspace :: "bytes \<Rightarrow> bytes"
  decode_bytes :: "bytes \<Rightarrow> bytes option"
  decode_nodes :: "bytes \<Rightarrow> bytes list option"
  decode_call_timestamp :: "bytes \<Rightarrow> u64 option"
  verify_trie_proof :: "h256 \<Rightarrow> bytes list \<Rightarrow> (bytes \<times> bytes option) list \<Rightarrow> bool"
  ceil_secs_quotient :: "duration \<Rightarrow> duration \<Rightarrow> u64"
  ExpectedBlockTime :: u64

definition h256_from_slice :: "bytes \<Rightarrow> (h256, 'e) res" where
  "h256_from_slice b = (if length b = 32 then Inr b else panics)"

section \<open>Reading proofs\<close>

datatype state_machine_error =
    TrieError
  | ValueMismatch bytes "bytes option" "bytes option"
  | ChildRootNotFound
  | InvalidProof

fun check_items ::
    "(bytes \<Rightarrow> bytes option option) \<Rightarrow> (bytes \<Rightarrow> bytes option) \<Rightarrow> (bytes \<times> bytes option) list
       \<Rightarrow> (unit, state_machine_error) res" where
  "check_items get dec [] = Inr ()"
| "check_items get dec ((key, v) # items) =
     bind_res (ok_or (get key) TrieError) (\<lambda>found.
     let recovered = Option.bind found dec in
     if recovered \<noteq> v then fail_with (ValueMismatch key v recovered)
     else check_items get dec items)"

definition read_child_proof_check ::
    "'z substrate_scheme \<Rightarrow> h256 \<Rightarrow> bytes list \<Rightarrow> bytes \<Rightarrow> (bytes \<times> bytes option) list
       \<Rightarrow> (unit, state_machine_error) res" where
  "read_child_proof_check T root nodes child_info items =
     bind_res (ok_or (trie_get T nodes root (prefixed_storage_key T child_info)) TrieError) (\<lambda>r.
     bind_res (ok_or r ChildRootNotFound) (\<lambda>r.
     bind_res (h256_from_slice r) (\<lambda>child_root.
     check_items (child_trie_get T nodes (keyspace T child_info) child_root) (decode_bytes T) items)))"

fun read_keys ::
    "'z substrate_scheme \<Rightarrow> bytes list \<Rightarrow> h256 \<Rightarrow> bytes list \<Rightarrow> (bytes \<rightharpoonup> bytes option)
       \<Rightarrow> (bytes \<rightharpoonup> bytes option, state_machine_error) res" where
  "read_keys T nodes root [] found = Inr found"
| "read_keys T nodes root (key # keys) found =
     bind_res (ok_or (trie_get T nodes root key) TrieError) (\<lambda>v.
     read_keys T nodes root keys (found(key \<mapsto> Option.bind v (decode_bytes T))))"

definition read_proof_check ::
    "'z substrate_scheme \<Rightarrow> h256 \<Rightarrow> bytes list \<Rightarrow> bytes list
       \<Rightarrow> (bytes \<rightharpoonup> bytes option, state_machine_error) res" where
  "read_proof_check T root nodes keys =
     (if \<not> db_contains T nodes root then fail_with InvalidProof
      else read_keys T nodes root keys Map.empty)"

section \<open>Membership\<close>

definition verify_membership ::
    "'z substrate_scheme \<Rightarrow> commitment_prefix \<Rightarrow> commitment_proof_bytes \<Rightarrow> commitment_root \<Rightarrow> path \<Rightarrow> bytes
       \<Rightarrow> (unit, string) res" where
  "verify_membership T prefix pf root path val =
     (if length (root_bytes root) \<noteq> 32 then fail_with ''invalid commitment root length''
      else
      let key = prefix_bytes prefix @ as_bytes (path_display path) in
      bind_res (ok_or (decode_nodes T (proof_bytes pf)) ''Failed to decode proof nodes for path'')
        (\<lambda>trie_proof.
      bind_res (h256_from_slice (root_bytes root)) (\<lambda>root.
      map_err (\<lambda>_. ''Failed to verify proof for path'')
        (read_child_proof_check T root trie_proof (prefix_bytes prefix) [(key, Some val)]))))"

definition verify_non_membership ::
    "'z substrate_scheme \<Rightarrow> commitment_prefix \<Rightarrow> commitment_proof_bytes \<Rightarrow> commitment_root \<Rightarrow> path
       \<Rightarrow> (unit, string) res" where
  "verify_non_membership T prefix pf root path =
     (if length (root_bytes root) \<noteq> 32 then fail_with ''invalid commitment root length''
      else
      let key = prefix_bytes prefix @ as_bytes (path_display path) in
      bind_res (ok_or (decode_nodes T (proof_bytes pf)) ''codec error'') (\<lambda>trie_proof.
      bind_res (h256_from_slice (root_bytes root)) (\<lambda>root.
      map_err (\<lambda>_. ''state machine error'')
        (read_child_proof_check T root trie_proof (prefix_bytes prefix) [(key, None)]))))"

section \<open>Relay chains\<close>

datatype relay_chain = Polkadot | Kusama | Rococo

definition secs :: "nat \<Rightarrow> duration" where
  "secs n = n * 1000000000"

definition DAY :: nat where
  "DAY = 24 * 60 * 60"

fun unbonding_period :: "relay_chain \<Rightarrow> duration" where
  "unbonding_period Polkadot = secs (28 * DAY)"
| "unbonding_period Kusama = secs (7 * DAY)"
| "unbonding_period Rococo = secs (7 * DAY)"

definition trusting_period :: "relay_chain \<Rightarrow> duration" where
  "trusting_period r = unbonding_period r div 3"

definition relay_chain_from_i32 :: "int \<Rightarrow> (relay_chain, string) res" where
  "relay_chain_from_i32 n =
     (if n = 0 then Inr Polkadot else if n = 1 then Inr Kusama else if n = 2 then Inr Rococo
      else fail_with ''Unknown relay chain'')"

fun relay_chain_as_str :: "relay_chain \<Rightarrow> string" where
  "relay_chain_as_str Polkadot = ''Polkadot''"
| "relay_chain_as_str Kusama = ''Kusama''"
| "relay_chain_as_str Rococo = ''Rococo''"

section \<open>Timestamps and delays\<close>

text \<open>The slice \<^verbatim>\<open>ext[2..]\<close> panics when there are fewer than two bytes.\<close>

definition decode_timestamp_extrinsic :: "'z substrate_scheme \<Rightarrow> bytes \<Rightarrow> (u64, string) res" where
  "decode_timestamp_extrinsic T ext =
     (if length ext < 2 then panics
      else ok_or (decode_call_timestamp T (drop 2 ext)) ''Failed to decode extrinsic'')"

definition max_expected_time_per_block :: "'z substrate_scheme \<Rightarrow> duration" where
  "max_expected_time_per_block T = unat (ExpectedBlockTime T) * 1000000"

text \<open>The quotient of the periods in seconds is computed in floating point, then rounded up.\<close>

definition calculate_block_delay :: "'z substrate_scheme \<Rightarrow> duration \<Rightarrow> duration \<Rightarrow> u64" where
  "calculate_block_delay T delay per_block =
     (if per_block = 0 then 0 else ceil_secs_quotient T delay per_block)"

definition verify_delay_passed ::
    "'z substrate_scheme \<Rightarrow> ('cs, 'cons, 'msg, 'app) env \<Rightarrow> ('cs, 'cons, 'app) host \<Rightarrow> height
       \<Rightarrow> connection_end \<Rightarrow> (unit, string) res" where
  "verify_delay_passed T E s h connection_end =
     bind_res (host_timestamp E s) (\<lambda>current_time.
     let current_height = host_height s; client_id = conn_client_id connection_end in
     bind_res (map_err (\<lambda>_. ''client update time'') (client_update_time E s client_id h))
       (\<lambda>processed_time.
     bind_res (map_err (\<lambda>_. ''client update height'') (client_update_height s client_id h))
       (\<lambda>processed_height.
     let delay_period_time = conn_delay_period connection_end;
         delay_period_blocks =
           calculate_block_delay T delay_period_time (max_expected_time_per_block T) in
     bind_res (map_err (\<lambda>_. ''Timestamp overflowed!'')
       (timestamp_add (tm_representable E) processed_time delay_period_time)) (\<lambda>earliest_time.
     if \<not> (current_time = earliest_time \<or> timestamp_after current_time earliest_time)
     then fail_with ''Not enough time elapsed''
     else
     bind_res (height_add processed_height delay_period_blocks) (\<lambda>earliest_height.
     if current_height < earliest_height then fail_with ''Not enough blocks elapsed''
     else Inr ())))))"

section \<open>What a verified proof shows\<close>

lemma read_child_proof_check_ok:
  assumes "read_child_proof_check T root nodes child [(key, v)] = Inr ()"
  obtains child_root found where "trie_get T nodes root (prefixed_storage_key T child) = Some (Some child_root)"
    and "length child_root = 32"
    and "child_trie_get T nodes (keyspace T child) child_root key = Some found"
    and "Option.bind found (decode_bytes T) = v"
  using assms by (auto simp: read_child_proof_check_def h256_from_slice_def Let_def split: if_splits)

lemma read_one_key:
  assumes "read_proof_check T root nodes [key] = Inr found"
  shows "db_contains T nodes root"
    and "\<exists>v. trie_get T nodes root key = Some v \<and> found key = Some (Option.bind v (decode_bytes T))"
  using assms by (auto simp: read_proof_check_def split: if_splits)

lemma verify_delay_passed_ok:
  assumes "verify_delay_passed T E s h c = Inr ()"
  obtains now processed earliest ph eh where "host_timestamp E s = (Inr now :: (timestamp, string) res)"
    and "client_update_time E s (conn_client_id c) h = Inr processed"
    and "timestamp_add (tm_representable E) processed (conn_delay_period c) = Inr earliest"
    and "now = earliest \<or> timestamp_after now earliest"
    and "client_update_height s (conn_client_id c) h = Inr ph"
    and "height_add ph (calculate_block_delay T (conn_delay_period c) (max_expected_time_per_block T))
           = (Inr eh :: (height, string) res)"
    and "eh \<le> host_height s"
  using assms by (auto simp: verify_delay_passed_def Let_def not_less split: if_splits)

end
