(* ===== verification/Grandpa_Justification.thy ===== *)
theory Grandpa_Justification
  imports Light_Client_Common
begin

text \<open>
  The primitives of the GRANDPA light client, \<^verbatim>\<open>algorithms/grandpa/primitives/src\<close>, files
  \<^verbatim>\<open>justification.rs\<close> and \<^verbatim>\<open>lib.rs\<close>: headers and their ancestry, commits, justifications and their
  verification, authority set changes and equivocations.

  The walk along parent hashes ends only when it reaches its base or a hash of no supplied header.
  It is a partial function; a call that never returns is the value \<open>None\<close>, and the functions above
  it are written over results of that kind.

  The record \<open>grandpa\<close> extends \<open>substrate\<close> with the GRANDPA packages: hashing and decoding of
  headers, digest items and justifications, the validation of a commit by the crate
  \<^verbatim>\<open>finality_grandpa\<close>, sets of voters, the encoding of votes and signatures.
\<close>

section \<open>Calls that may never return\<close>

type_synonym ('a, 'e) call = "('a, 'e) res option"

definition bind_call :: "('a, 'e) call \<Rightarrow> ('a \<Rightarrow> ('b, 'e) call) \<Rightarrow> ('b, 'e) call" where
  "bind_call m f =
     (case m of None \<Rightarrow> None | Some (Inl e) \<Rightarrow> Some (Inl e) | Some (Inr x) \<Rightarrow> f x)"

definition call_map_err :: "('e \<Rightarrow> 'f) \<Rightarrow> ('a, 'e) call \<Rightarrow> ('a, 'f) call" where
  "call_map_err g m = map_option (map_err g) m"

lemma bind_call_simps [simp, res_simps]:
  "bind_call None f = None"
  "bind_call (Some (Inl e)) f = Some (Inl e)"
  "bind_call (Some (Inr x)) f = f x"
  "bind_call (Some (fail_with d)) f = Some (fail_with d)"
  "bind_call (Some panics) f = Some panics"
  by (simp_all add: bind_call_def fail_with_def panics_def)

lemma bind_call_eq_Inr [simp]:
  "bind_call m f = Some (Inr y) \<longleftrightarrow> (\<exists>x. m = Some (Inr x) \<and> f x = Some (Inr y))"
  by (auto simp: bind_call_def split: option.splits sum.splits)

lemma bind_call_returns: "m \<noteq> None \<Longrightarrow> (\<And>x. f x \<noteq> None) \<Longrightarrow> bind_call m f \<noteq> None"
  by (auto simp: bind_call_def split: option.splits sum.splits)

lemma call_map_err_simps [simp, res_simps]:
  "call_map_err g None = None"
  "call_map_err g (Some r) = Some (map_err g r)"
  by (simp_all add: call_map_err_def)

lemma call_map_err_eq [simp]:
  "call_map_err g m = Some (Inr x) \<longleftrightarrow> m = Some (Inr x)"
  "call_map_err g m = None \<longleftrightarrow> m = None"
  by (auto simp: call_map_err_def)

section \<open>Headers, votes and justifications\<close>

record relay_header =
  hdr_parent_hash :: h256
  hdr_number :: u32
  hdr_state_root :: h256
  hdr_extrinsics_root :: h256
  hdr_digest :: "bytes list"

type_synonym authority_list = "(bytes \<times> u64) list"

record scheduled_change =
  next_authorities :: authority_list
  change_delay :: u32

datatype consensus_log =
    ScheduledChange scheduled_change
  | ForcedChange u32 scheduled_change
  | OtherLog

record vote =
  target_hash :: h256
  target_number :: u32

record signed_precommit =
  sp_precommit :: vote
  sp_signature :: bytes
  sp_id :: bytes

record grandpa_commit =
  commit_target_hash :: h256
  commit_target_number :: u32
  commit_precommits :: "signed_precommit list"

record justification =
  just_round :: u64
  just_commit :: grandpa_commit
  votes_ancestries :: "relay_header list"

datatype vote_message = Prevote vote | Precommit vote

record vote_pair =
  eq_round_number :: u64
  eq_identity :: bytes
  eq_first :: "vote \<times> bytes"
  eq_second :: "vote \<times> bytes"

datatype equivocation = PrevoteEquivocation vote_pair | PrecommitEquivocation vote_pair

record commit_validation =
  is_valid :: bool
  num_duplicated_precommits :: nat
  num_invalid_voters :: nat
  num_equivocations :: nat

datatype ancestry_error = NotDescendent

type_synonym ancestry_fn = "h256 \<Rightarrow> h256 \<Rightarrow> (h256 list, ancestry_error) call"

record grandpa = substrate +
  header_hash :: "relay_header \<Rightarrow> h256"
  decode_header :: "bytes \<Rightarrow> relay_header option"
  try_to_log :: "bytes \<Rightarrow> consensus_log option"
  decode_justification :: "bytes \<Rightarrow> justification option"
  voter_set_new :: "authority_list \<Rightarrow> authority_list option"
  validate_commit ::
    "grandpa_commit \<Rightarrow> authority_list \<Rightarrow> ancestry_fn \<Rightarrow> (commit_validation, unit) call"
  encode_vote :: "vote_message \<Rightarrow> u64 \<Rightarrow> u64 \<Rightarrow> bytes"
  ed25519_verify :: "bytes \<Rightarrow> bytes \<Rightarrow> bytes \<Rightarrow> bool"
  storage_prefix :: "string \<Rightarrow> string \<Rightarrow> bytes"
  twox_64 :: "bytes \<Rightarrow> bytes"
  encode_u32 :: "u32 \<Rightarrow> bytes"
  encode_compact :: "u64 \<Rightarrow> bytes"

datatype grandpa_error = GrandpaAnyhow string | GrandpaCodec

definition anyhow :: "string \<Rightarrow> ('a, grandpa_error) res" where
  "anyhow msg = fail_with (GrandpaAnyhow msg)"

lemma anyhow_simps [simp]: "anyhow m \<noteq> Inr x" "anyhow m \<noteq> Inl Panic"
  by (simp_all add: anyhow_def)

section \<open>Ancestry\<close>

type_synonym ancestry_chain = "h256 \<rightharpoonup> relay_header"

text \<open>Collecting pairs into a \<^verbatim>\<open>BTreeMap\<close>: a later pair with the same key wins.\<close>

definition ancestry_chain_new :: "'z grandpa_scheme \<Rightarrow> relay_header list \<Rightarrow> ancestry_chain" where
  "ancestry_chain_new G hs = map_of (rev (map (\<lambda>h. (header_hash G h, h)) hs))"

definition chain_header :: "ancestry_chain \<Rightarrow> h256 \<Rightarrow> relay_header option" where
  "chain_header chain hash = chain hash"

partial_function (option) ancestry_loop ::
    "ancestry_chain \<Rightarrow> h256 \<Rightarrow> h256 \<Rightarrow> h256 list \<Rightarrow> (h256 list, ancestry_error) call" where
  "ancestry_loop chain base current_hash route =
     (if current_hash = base then Some (Inr route)
      else case chain current_hash of
        Some current_header \<Rightarrow>
          ancestry_loop chain base (hdr_parent_hash current_header)
            (route @ [hdr_parent_hash current_header])
      | None \<Rightarrow> Some (fail_with NotDescendent))"

definition ancestry :: "ancestry_chain \<Rightarrow> h256 \<Rightarrow> h256 \<Rightarrow> (h256 list, ancestry_error) call" where
  "ancestry chain base block = ancestry_loop chain base block [block]"

section \<open>Authority set changes\<close>

text \<open>\<^verbatim>\<open>Digest::convert_first\<close>: the first item for which the closure has a value.\<close>

fun convert_first :: "('a \<Rightarrow> 'b option) \<Rightarrow> 'a list \<Rightarrow> 'b option" where
  "convert_first f [] = None"
| "convert_first f (x # xs) = (case f x of Some y \<Rightarrow> Some y | None \<Rightarrow> convert_first f xs)"

definition find_scheduled_change :: "'z grandpa_scheme \<Rightarrow> relay_header \<Rightarrow> scheduled_change option" where
  "find_scheduled_change G h =
     convert_first (\<lambda>l. case try_to_log G l of Some (ScheduledChange c) \<Rightarrow> Some c | _ \<Rightarrow> None)
       (hdr_digest h)"

definition find_forced_change ::
    "'z grandpa_scheme \<Rightarrow> relay_header \<Rightarrow> (u32 \<times> scheduled_change) option" where
  "find_forced_change G h =
     convert_first (\<lambda>l. case try_to_log G l of Some (ForcedChange d c) \<Rightarrow> Some (d, c) | _ \<Rightarrow> None)
       (hdr_digest h)"

section \<open>Signatures\<close>

definition check_message_signature ::
    "'z grandpa_scheme \<Rightarrow> vote_message \<Rightarrow> bytes \<Rightarrow> bytes \<Rightarrow> u64 \<Rightarrow> u64
       \<Rightarrow> (unit, grandpa_error) res" where
  "check_message_signature G message voter_id signature round set_id =
     (if \<not> ed25519_verify G signature (encode_vote G message round set_id) voter_id
      then anyhow ''invalid signature for precommit in grandpa justification''
      else Inr ())"

definition check_vote_pair ::
    "'z grandpa_scheme \<Rightarrow> u64 \<Rightarrow> vote_pair \<Rightarrow> (vote \<Rightarrow> vote_message)
       \<Rightarrow> (unit, grandpa_error) res" where
  "check_vote_pair G set_id e message =
     (if target_hash (fst (eq_first e)) = target_hash (fst (eq_second e))
         \<and> target_number (fst (eq_first e)) = target_number (fst (eq_second e))
      then anyhow ''both votes have the same target!''
      else
      bind_res (check_message_signature G (message (fst (eq_first e))) (eq_identity e)
        (snd (eq_first e)) (eq_round_number e) set_id) (\<lambda>_.
      check_message_signature G (message (fst (eq_second e))) (eq_identity e)
        (snd (eq_second e)) (eq_round_number e) set_id))"

fun check_equivocation_proof ::
    "'z grandpa_scheme \<Rightarrow> u64 \<Rightarrow> equivocation \<Rightarrow> (unit, grandpa_error) res" where
  "check_equivocation_proof G set_id (PrevoteEquivocation e) = check_vote_pair G set_id e Prevote"
| "check_equivocation_proof G set_id (PrecommitEquivocation e) = check_vote_pair G set_id e Precommit"

section \<open>Verification of a justification\<close>

text \<open>\<^verbatim>\<open>Iterator::min_by_key\<close> returns the first minimum, \<^verbatim>\<open>max_by_key\<close> the last maximum.\<close>

fun min_by_key :: "('a \<Rightarrow> 'k::linorder) \<Rightarrow> 'a list \<Rightarrow> 'a option" where
  "min_by_key k [] = None"
| "min_by_key k (x # xs) =
     (case min_by_key k xs of None \<Rightarrow> Some x | Some y \<Rightarrow> Some (if k x \<le> k y then x else y))"

fun max_by_key :: "('a \<Rightarrow> 'k::linorder) \<Rightarrow> 'a list \<Rightarrow> 'a option" where
  "max_by_key k [] = None"
| "max_by_key k (x # xs) =
     (case max_by_key k xs of None \<Rightarrow> Some x | Some y \<Rightarrow> Some (if k x \<le> k y then y else x))"

lemma by_key_None [simp]:
  "min_by_key k xs = None \<longleftrightarrow> xs = []" "max_by_key k xs = None \<longleftrightarrow> xs = []"
  by (cases xs; simp split: option.splits)+

lemma min_by_key_Some: "min_by_key k xs = Some x \<Longrightarrow> x \<in> set xs \<and> (\<forall>y \<in> set xs. k x \<le> k y)"
proof (induction xs arbitrary: x)
  case (Cons a xs)
  then show ?case
    by (cases "min_by_key k xs") (auto simp: not_le split: if_splits dest: order_trans less_imp_le)
qed simp

lemma max_by_key_Some: "max_by_key k xs = Some x \<Longrightarrow> x \<in> set xs \<and> (\<forall>y \<in> set xs. k y \<le> k x)"
proof (induction xs arbitrary: x)
  case (Cons a xs)
  then show ?case
    by (cases "max_by_key k xs") (auto simp: not_le split: if_splits dest: order_trans less_imp_le)
qed simp

lemma by_key_ascending:
  "sorted_wrt (\<lambda>a b. k a < k b) (x # xs) \<Longrightarrow>
     min_by_key k (x # xs) = Some x \<and> max_by_key k (x # xs) = Some (last (x # xs))"
proof (induction xs arbitrary: x)
  case Nil
  then show ?case by simp
next
  case (Cons y ys)
  then have IH: "min_by_key k (y # ys) = Some y" "max_by_key k (y # ys) = Some (last (y # ys))"
    by simp_all
  have le: "k x \<le> k y" "k x \<le> k (last (y # ys))"
    using Cons.prems last_in_set [of "y # ys"] by (simp_all add: order_less_imp_le)
  have "min_by_key k (x # y # ys) = Some x"
    unfolding min_by_key.simps(2) [of k x "y # ys"] IH using le by simp
  moreover have "max_by_key k (x # y # ys) = Some (last (y # ys))"
    unfolding max_by_key.simps(2) [of k x "y # ys"] IH using le by simp
  ultimately show ?case
    by simp
qed

text \<open>The loop over the precommits, with the set of the hashes visited so far.\<close>

fun visit_precommits ::
    "'z grandpa_scheme \<Rightarrow> ancestry_chain \<Rightarrow> h256 \<Rightarrow> u64 \<Rightarrow> u64 \<Rightarrow> signed_precommit list
       \<Rightarrow> h256 set \<Rightarrow> (h256 set, grandpa_error) call" where
  "visit_precommits G chain base_hash round set_id [] visited = Some (Inr visited)"
| "visit_precommits G chain base_hash round set_id (sp # rest) visited =
     bind_call (Some (check_message_signature G (Precommit (sp_precommit sp)) (sp_id sp)
       (sp_signature sp) round set_id)) (\<lambda>_.
     if base_hash = target_hash (sp_precommit sp)
     then visit_precommits G chain base_hash round set_id rest visited
     else
     bind_call (call_map_err (\<lambda>_. GrandpaAnyhow ''[verify_with_voter_set] Invalid ancestry!'')
       (ancestry chain base_hash (target_hash (sp_precommit sp)))) (\<lambda>route.
     visit_precommits G chain base_hash round set_id rest
       (insert (target_hash (sp_precommit sp)) visited \<union> set route)))"

definition verify_with_voter_set ::
    "'z grandpa_scheme \<Rightarrow> justification \<Rightarrow> u64 \<Rightarrow> authority_list \<Rightarrow> (unit, grandpa_error) call" where
  "verify_with_voter_set G j set_id voters =
     (let chain = ancestry_chain_new G (votes_ancestries j);
          precommits = commit_precommits (just_commit j) in
     bind_call (call_map_err
       (\<lambda>_. GrandpaAnyhow ''[verify_with_voter_set] Invalid ancestry while validating commit!'')
       (validate_commit G (just_commit j) voters (ancestry chain))) (\<lambda>result.
     bind_call (Some
       (if is_valid result then
          (if num_duplicated_precommits result > 0 \<or> num_invalid_voters result > 0
              \<or> num_equivocations result > 0
           then anyhow ''Invalid commit, found one of `duplicate precommits`, `invalid voters`, or `equivocations`''
           else Inr ())
        else anyhow ''invalid commit in grandpa justification'')) (\<lambda>_.
     bind_call (Some (unwrap_opt (map_option target_hash
       (min_by_key target_number (map sp_precommit precommits))))) (\<lambda>base_hash.
     bind_call (visit_precommits G chain base_hash (just_round j) set_id precommits {}) (\<lambda>visited_hashes.
     Some (if visited_hashes \<noteq> set (map (header_hash G) (votes_ancestries j))
       then anyhow ''invalid precommit ancestries in grandpa justification with unused headers''
       else Inr ()))))))"

definition justification_verify ::
    "'z grandpa_scheme \<Rightarrow> justification \<Rightarrow> u64 \<Rightarrow> authority_list \<Rightarrow> (unit, grandpa_error) call" where
  "justification_verify G j set_id authorities =
     bind_call (Some (ok_or (voter_set_new G authorities) (GrandpaAnyhow ''Invalid AuthoritiesSet''))) (\<lambda>voters.
     verify_with_voter_set G j set_id voters)"

definition justification_target :: "justification \<Rightarrow> u32 \<times> h256" where
  "justification_target j = (commit_target_number (just_commit j), commit_target_hash (just_commit j))"

section \<open>Finality proofs and the state of the verifier\<close>

record finality_proof =
  fp_block :: h256
  fp_justification :: bytes
  unknown_headers :: "relay_header list"

record verifier_state =
  vs_current_authorities :: authority_list
  vs_current_set_id :: u64
  vs_latest_relay_height :: u32
  vs_latest_para_height :: u32
  vs_latest_relay_hash :: h256
  vs_para_id :: u32

record parachain_header_proofs =
  state_proof :: "bytes list"
  extrinsic :: bytes
  extrinsic_proof :: "bytes list"

record headers_with_finality_proof =
  hf_finality_proof :: finality_proof
  hf_parachain_headers :: "(h256 \<times> parachain_header_proofs) list"
  hf_latest_para_height :: u32

definition parachain_header_storage_key :: "'z grandpa_scheme \<Rightarrow> u32 \<Rightarrow> bytes" where
  "parachain_header_storage_key G para_id =
     storage_prefix G ''Paras'' ''Heads'' @ twox_64 G (encode_u32 G para_id) @ encode_u32 G para_id"

section \<open>The walk along parent hashes\<close>

definition parent_of :: "ancestry_chain \<Rightarrow> h256 \<Rightarrow> h256 \<Rightarrow> bool" where
  "parent_of chain a b \<longleftrightarrow> (\<exists>h. chain a = Some h \<and> hdr_parent_hash h = b)"

text \<open>A walk from a block down to a base, which it meets at its end only.\<close>

definition walk :: "ancestry_chain \<Rightarrow> h256 \<Rightarrow> h256 \<Rightarrow> h256 list \<Rightarrow> bool" where
  "walk chain base block route \<longleftrightarrow>
     0 < length route \<and> hd route = block \<and> last route = base \<and> base \<notin> set (butlast route)
     \<and> successively (parent_of chain) route"

lemma walk_self: "walk chain base base route \<longleftrightarrow> route = [base]"
  by (cases route) (auto simp: walk_def)

lemma walk_step:
  assumes "block \<noteq> base" and "chain block = Some h"
  shows "walk chain base block (block # route) \<longleftrightarrow> walk chain base (hdr_parent_hash h) route"
  using assms by (cases route) (auto simp: walk_def parent_of_def)

lemma walk_Cons: "walk chain base block route \<Longrightarrow> block \<noteq> base \<Longrightarrow>
    \<exists>h rest. chain block = Some h \<and> route = block # rest \<and> walk chain base (hdr_parent_hash h) rest"
  by (cases route; cases "tl route") (auto simp: walk_def parent_of_def)

lemma walk_unique: "walk chain base block r \<Longrightarrow> walk chain base block r' \<Longrightarrow> r = r'"
proof (induction r arbitrary: block r')
  case Nil
  then show ?case by (simp add: walk_def)
next
  case (Cons x r)
  show ?case
  proof (cases "block = base")
    case True
    with Cons.prems show ?thesis by (simp add: walk_self)
  next
    case False
    from walk_Cons [OF Cons.prems(1) False] walk_Cons [OF Cons.prems(2) False]
    show ?thesis using Cons.IH by auto
  qed
qed

lemma walk_suffix:
  assumes "walk chain base block route" and "i < length route"
  shows "walk chain base (route ! i) (drop i route)"
proof -
  have "successively (parent_of chain) (drop i route)"
    using assms successively_append_iff [of "parent_of chain" "take i route" "drop i route"]
    by (simp add: walk_def)
  moreover have "set (butlast (drop i route)) \<subseteq> set (butlast route)"
    by (simp add: butlast_drop set_drop_subset)
  ultimately show ?thesis
    using assms by (auto simp: walk_def hd_drop_conv_nth last_drop)
qed

lemma walk_distinct:
  assumes "walk chain base block route"
  shows "distinct route"
  unfolding distinct_conv_nth
proof (intro allI impI)
  fix i j
  assume ij: "i < length route" "j < length route" "i \<noteq> j"
  show "route ! i \<noteq> route ! j"
  proof
    assume "route ! i = route ! j"
    then have "drop i route = drop j route"
      using walk_unique walk_suffix [OF assms ij(1)] walk_suffix [OF assms ij(2)] by metis
    then have "length (drop i route) = length (drop j route)"
      by simp
    with ij show False
      by simp
  qed
qed

lemma walk_in_chain: "walk chain base block route \<Longrightarrow> set (butlast route) \<subseteq> dom chain"
proof (induction route arbitrary: block)
  case Nil
  then show ?case by simp
next
  case (Cons x r)
  then show ?case
    using walk_Cons [OF Cons.prems] by (cases "block = base") (auto simp: walk_self walk_def)
qed

lemma walk_covers: "walk chain base block route \<Longrightarrow> set route \<subseteq> insert base (dom chain)"
  using walk_in_chain [of chain base block route]
  by (cases route rule: rev_cases) (auto simp: walk_def)

definition walk_result ::
    "ancestry_chain \<Rightarrow> h256 \<Rightarrow> h256 \<Rightarrow> h256 list \<Rightarrow> (h256 list, ancestry_error) res \<Rightarrow> bool" where
  "walk_result chain base current route r \<longleftrightarrow>
     (case r of Inr full \<Rightarrow> \<exists>rest. full = route @ rest \<and> walk chain base current (current # rest)
      | Inl e \<Rightarrow> e = Err NotDescendent \<and> (\<forall>w. \<not> walk chain base current w))"

lemma walk_result_step:
  assumes "walk_result chain base (hdr_parent_hash h) (route @ [hdr_parent_hash h]) r"
    and "chain current = Some h" and "current \<noteq> base"
  shows "walk_result chain base current route r"
  using assms walk_Cons [of chain base current] walk_step [of current base chain h]
  by (auto simp: walk_result_def split: sum.splits)

lemma ancestry_loop_sound:
  "ancestry_loop chain base current route = Some r \<Longrightarrow> walk_result chain base current route r"
proof (rule ancestry_loop.raw_induct [where P = walk_result])
  fix loop chain base current route r
  assume IH: "\<And>c b x w y. loop c b x w = Some y \<Longrightarrow> walk_result c b x w y"
    and step: "(if current = base then Some (Inr route)
      else case chain current of
        None \<Rightarrow> Some (fail_with NotDescendent)
      | Some h \<Rightarrow> loop chain base (hdr_parent_hash h) (route @ [hdr_parent_hash h])) = Some r"
  show "walk_result chain base current route r"
  proof (cases "chain current")
    case None
    with step show ?thesis
      using walk_Cons [of chain base current]
      by (auto simp: walk_result_def walk_self fail_with_def split: if_splits)
  next
    case (Some h)
    with step IH walk_result_step [of chain base h route r current] show ?thesis
      by (auto simp: walk_result_def walk_self split: if_splits)
  qed
qed

lemma ancestry_loop_complete:
  "walk chain base current (current # rest) \<Longrightarrow>
     ancestry_loop chain base current route = Some (Inr (route @ rest))"
proof (induction rest arbitrary: current route)
  case Nil
  then show ?case
    by (simp add: walk_def ancestry_loop.simps)
next
  case (Cons x rest)
  then have ne: "current \<noteq> base"
    by (auto simp: walk_def)
  from walk_Cons [OF Cons.prems ne] obtain h where h: "chain current = Some h"
    "walk chain base (hdr_parent_hash h) (x # rest)"
    by auto
  then have "hdr_parent_hash h = x"
    by (simp add: walk_def)
  with h Cons.IH [of x "route @ [x]"] ne show ?case
    by (subst ancestry_loop.simps) simp
qed

lemma ancestry_eq_Inr: "ancestry chain base block = Some (Inr route) \<longleftrightarrow> walk chain base block route"
proof
  show "walk chain base block route" if "ancestry chain base block = Some (Inr route)"
    using ancestry_loop_sound [OF that [unfolded ancestry_def]] by (auto simp: walk_result_def)
  assume w: "walk chain base block route"
  then obtain rest where "route = block # rest"
    by (cases route) (auto simp: walk_def)
  with w show "ancestry chain base block = Some (Inr route)"
    by (simp add: ancestry_def ancestry_loop_complete)
qed

lemma ancestry_eq_Inl:
  "ancestry chain base block = Some (Inl e) \<Longrightarrow> e = Err NotDescendent \<and> (\<forall>w. \<not> walk chain base block w)"
  unfolding ancestry_def by (drule ancestry_loop_sound) (simp add: walk_result_def)

lemma walk_mono:
  assumes "walk chain base block route" and "chain \<subseteq>\<^sub>m chain'"
  shows "walk chain' base block route"
proof -
  have "successively (parent_of chain') route"
    using assms by (auto simp: walk_def parent_of_def map_le_def dom_def elim!: successively_mono)
  with assms(1) show ?thesis
    by (simp add: walk_def)
qed

section \<open>Cycles\<close>

text \<open>Headers, each the child of the next.\<close>

definition descending :: "'z grandpa_scheme \<Rightarrow> relay_header list \<Rightarrow> bool" where
  "descending G hs \<longleftrightarrow> successively (\<lambda>a b. hdr_parent_hash a = header_hash G b) hs"

definition hash_cycle :: "'z grandpa_scheme \<Rightarrow> relay_header list \<Rightarrow> bool" where
  "hash_cycle G hs \<longleftrightarrow> 0 < length hs \<and> descending G (hs @ [hd hs])"

lemma ancestry_chain_new_Some:
  assumes "ancestry_chain_new G hs x = Some h"
  shows "h \<in> set hs" and "header_hash G h = x"
  using map_of_SomeD [OF assms [unfolded ancestry_chain_new_def]] by auto

lemma dom_ancestry_chain_new: "dom (ancestry_chain_new G hs) = header_hash G ` set hs"
  by (simp add: ancestry_chain_new_def dom_map_of_conv_image_fst image_image)

lemma endless_walk:
  "ancestry_loop (ancestry_chain_new G hs) base current route = None \<Longrightarrow>
     \<exists>ds. length ds = n \<and> (case ds of [] \<Rightarrow> True | d # _ \<Rightarrow> header_hash G d = current)
       \<and> set ds \<subseteq> set hs \<and> descending G ds"
proof (induction n arbitrary: current route)
  case 0
  show ?case by (rule exI [of _ "[]"]) (simp add: descending_def)
next
  case (Suc n)
  from Suc.prems obtain h where h: "ancestry_chain_new G hs current = Some h"
    and next_none: "ancestry_loop (ancestry_chain_new G hs) base (hdr_parent_hash h)
      (route @ [hdr_parent_hash h]) = None"
    by (subst (asm) ancestry_loop.simps) (auto split: if_splits option.splits)
  from Suc.IH [OF next_none] obtain ds where ds: "length ds = n" "set ds \<subseteq> set hs" "descending G ds"
    "case ds of [] \<Rightarrow> True | d # _ \<Rightarrow> header_hash G d = hdr_parent_hash h"
    by blast
  with ancestry_chain_new_Some [OF h] show ?case
    by (intro exI [of _ "h # ds"]) (cases ds; simp add: descending_def)
qed

lemma endless_walk_cycle:
  assumes "ancestry (ancestry_chain_new G hs) base block = None"
  shows "\<exists>cyc. hash_cycle G cyc \<and> set cyc \<subseteq> set hs"
proof -
  obtain ds where ds: "length ds = Suc (length hs)" "set ds \<subseteq> set hs" "descending G ds"
    using endless_walk [OF assms [unfolded ancestry_def], of "Suc (length hs)"] by blast
  have "card (set ds) \<le> length hs"
    using ds(2) card_mono [of "set hs" "set ds"] card_length [of hs] by fastforce
  with ds(1) have "\<not> distinct ds"
    by (auto dest: distinct_card)
  then obtain xs ys zs y where split: "ds = xs @ [y] @ ys @ [y] @ zs"
    by (auto dest: not_distinct_decomp)
  from ds(3) have "descending G ((y # ys) @ [y])"
    unfolding descending_def split
    by (simp add: successively_append_iff successively_Cons hd_append)
  with ds(2) split show ?thesis
    by (intro exI [of _ "y # ys"]) (auto simp: hash_cycle_def)
qed

section \<open>Properties\<close>

text \<open>C22: the walk along parent hashes over the headers that a message supplies does one of three
  things. It returns the route from the block to the base, without repetition, along parent hashes
  of supplied headers; it reports that there is no such route; or it never returns, and then the
  supplied headers contain a cycle of parent hashes.\<close>

theorem ancestry_outcome:
  "case ancestry (ancestry_chain_new G hs) base block of
     Some (Inr route) \<Rightarrow>
       walk (ancestry_chain_new G hs) base block route \<and> distinct route
       \<and> set (butlast route) \<subseteq> header_hash G ` set hs \<and> length route \<le> Suc (length hs)
   | Some (Inl e) \<Rightarrow> e = Err NotDescendent \<and> (\<nexists>route. walk (ancestry_chain_new G hs) base block route)
   | None \<Rightarrow> \<exists>cyc. hash_cycle G cyc \<and> set cyc \<subseteq> set hs"
proof (cases "ancestry (ancestry_chain_new G hs) base block")
  case None
  with endless_walk_cycle [OF this] show ?thesis by simp
next
  case (Some r)
  show ?thesis
  proof (cases r)
    case (Inl e)
    with Some ancestry_eq_Inl show ?thesis by fastforce
  next
    case (Inr route)
    with Some have w: "walk (ancestry_chain_new G hs) base block route"
      by (simp add: ancestry_eq_Inr)
    note d = walk_distinct [OF w] and sub = walk_in_chain [OF w, unfolded dom_ancestry_chain_new]
    have "length (butlast route) = card (set (butlast route))"
      using d by (simp add: distinct_butlast distinct_card)
    also have "\<dots> \<le> card (header_hash G ` set hs)"
      using sub by (simp add: card_mono)
    also have "\<dots> \<le> length hs"
      using card_image_le [of "set hs" "header_hash G"] card_length [of hs] by simp
    finally show ?thesis
      using Some Inr w d sub by simp
  qed
qed

section \<open>What a verified justification shows\<close>

lemma visit_precommits_ok:
  "visit_precommits G chain base_hash round set_id sps visited = Some (Inr seen) \<Longrightarrow>
     (\<forall>sp \<in> set sps.
        ed25519_verify G (sp_signature sp) (encode_vote G (Precommit (sp_precommit sp)) round set_id) (sp_id sp)
        \<and> (target_hash (sp_precommit sp) = base_hash
           \<or> (\<exists>route. walk chain base_hash (target_hash (sp_precommit sp)) route \<and> set route \<subseteq> seen)))
     \<and> visited \<subseteq> seen"
proof (induction sps arbitrary: visited)
  case Nil
  then show ?case by simp
next
  case (Cons sp sps)
  show ?case
  proof (cases "base_hash = target_hash (sp_precommit sp)")
    case True
    with Cons show ?thesis
      by (auto simp: check_message_signature_def split: if_splits)
  next
    case False
    with Cons.prems obtain route where sig: "ed25519_verify G (sp_signature sp)
        (encode_vote G (Precommit (sp_precommit sp)) round set_id) (sp_id sp)"
      and w: "walk chain base_hash (target_hash (sp_precommit sp)) route"
      and rest: "visit_precommits G chain base_hash round set_id sps
        (insert (target_hash (sp_precommit sp)) visited \<union> set route) = Some (Inr seen)"
      by (auto simp: check_message_signature_def ancestry_eq_Inr split: if_splits)
    from Cons.IH [OF rest] sig w False show ?thesis
      by auto
  qed
qed

text \<open>
  What verification establishes of a justification: a commit that the validation of
  \<^verbatim>\<open>finality_grandpa\<close> accepts without duplicates, strangers or equivocations, every precommit signed
  for the round and the authority set, and every voted block tied to one base by supplied headers.
\<close>

definition justified :: "'z grandpa_scheme \<Rightarrow> justification \<Rightarrow> u64 \<Rightarrow> authority_list \<Rightarrow> bool" where
  "justified G j set_id authorities \<longleftrightarrow>
     (\<exists>voters base_hash. voter_set_new G authorities = Some voters
      \<and> (\<exists>v. validate_commit G (just_commit j) voters (ancestry (ancestry_chain_new G (votes_ancestries j)))
             = Some (Inr v) \<and> is_valid v \<and> num_duplicated_precommits v = 0
             \<and> num_invalid_voters v = 0 \<and> num_equivocations v = 0)
      \<and> (\<forall>sp \<in> set (commit_precommits (just_commit j)).
           ed25519_verify G (sp_signature sp)
             (encode_vote G (Precommit (sp_precommit sp)) (just_round j) set_id) (sp_id sp)
           \<and> (target_hash (sp_precommit sp) = base_hash
              \<or> (\<exists>route. walk (ancestry_chain_new G (votes_ancestries j)) base_hash
                   (target_hash (sp_precommit sp)) route))))"

lemma justification_verified:
  assumes "justification_verify G j set_id authorities = Some (Inr ())"
  shows "justified G j set_id authorities"
proof -
  let ?chain = "ancestry_chain_new G (votes_ancestries j)"
  from assms obtain voters v base_hash seen where voters: "voter_set_new G authorities = Some voters"
    and v: "validate_commit G (just_commit j) voters (ancestry ?chain) = Some (Inr v)"
      "is_valid v" "num_duplicated_precommits v = 0" "num_invalid_voters v = 0" "num_equivocations v = 0"
    and visit: "visit_precommits G ?chain base_hash (just_round j) set_id
        (commit_precommits (just_commit j)) {} = Some (Inr seen)"
    by (auto simp: justification_verify_def verify_with_voter_set_def Let_def split: if_splits)
  from voters v visit_precommits_ok [OF visit] show ?thesis
    unfolding justified_def by blast
qed

text \<open>
  The route that the walk returns contains the base. So when some vote is for another block than the
  lowest one, the header of the lowest block must be among the supplied headers as well.
\<close>

lemma base_header_required:
  assumes "justification_verify G j set_id authorities = Some (Inr ())"
    and "min_by_key target_number (map sp_precommit (commit_precommits (just_commit j))) = Some lowest"
    and "sp \<in> set (commit_precommits (just_commit j))"
    and "target_hash (sp_precommit sp) \<noteq> target_hash lowest"
  shows "target_hash lowest \<in> header_hash G ` set (votes_ancestries j)"
proof -
  let ?chain = "ancestry_chain_new G (votes_ancestries j)"
  from assms(1,2) obtain seen where visit: "visit_precommits G ?chain (target_hash lowest) (just_round j)
      set_id (commit_precommits (just_commit j)) {} = Some (Inr seen)"
    and seen: "seen = header_hash G ` set (votes_ancestries j)"
    by (auto simp: justification_verify_def verify_with_voter_set_def Let_def split: if_splits)
  obtain route where "walk ?chain (target_hash lowest) (target_hash (sp_precommit sp)) route"
    and "set route \<subseteq> seen"
    using visit_precommits_ok [OF visit] assms(3,4) by blast
  then show ?thesis
    unfolding seen using last_in_set [of route] by (auto simp: walk_def)
qed

end
