(* ===== verification/Grandpa_Verifier.thy ===== *)
theory Grandpa_Verifier
  imports Grandpa_Justification
begin

text \<open>
  The verification function of the GRANDPA light client, \<^verbatim>\<open>algorithms/grandpa/verifier/src/lib.rs\<close>:
  a finality proof for headers of the relay chain, the parachain headers found in their state, and
  the state that the client moves to.
\<close>

section \<open>The verification function\<close>

text \<open>
  The loop over the parachain headers, which returns the heights found. \<open>finalized\<close> is sorted in the
  code, for a binary search.
\<close>

definition check_parachain_header ::
    "'z grandpa_scheme \<Rightarrow> ancestry_chain \<Rightarrow> u32 \<Rightarrow> h256 \<Rightarrow> parachain_header_proofs
       \<Rightarrow> (u32, grandpa_error) res" where
  "check_parachain_header G headers para_id hash proofs =
     bind_res (unwrap_opt (chain_header headers hash)) (\<lambda>relay_chain_header.
     let key = parachain_header_storage_key G para_id in
     bind_res (map_err (\<lambda>_. GrandpaAnyhow ''error verifying parachain header state proof'')
       (read_proof_check G (hdr_state_root relay_chain_header)
         (state_proof proofs) [key])) (\<lambda>found.
     bind_res (ok_or (Option.bind (found key) id)
       (GrandpaAnyhow ''Invalid proof, parachain header not found'')) (\<lambda>header.
     bind_res (ok_or (decode_header G header) GrandpaCodec) (\<lambda>parachain_header.
     if \<not> verify_trie_proof G (hdr_extrinsics_root parachain_header) (extrinsic_proof proofs)
          [(encode_compact G 0, Some (extrinsic proofs))]
     then anyhow ''Invalid extrinsic proof''
     else Inr (hdr_number parachain_header)))))"

fun check_parachain_headers ::
    "'z grandpa_scheme \<Rightarrow> ancestry_chain \<Rightarrow> h256 list \<Rightarrow> u32
       \<Rightarrow> (h256 \<times> parachain_header_proofs) list \<Rightarrow> (u32 list, grandpa_error) res" where
  "check_parachain_headers G headers finalized para_id [] = Inr []"
| "check_parachain_headers G headers finalized para_id ((hash, proofs) # rest) =
     (if hash \<notin> set finalized then check_parachain_headers G headers finalized para_id rest
      else
      bind_res (check_parachain_header G headers para_id hash proofs) (\<lambda>n.
      bind_res (check_parachain_headers G headers finalized para_id rest) (\<lambda>ns.
      Inr (n # ns))))"

definition rotate_authorities ::
    "'z grandpa_scheme \<Rightarrow> relay_header \<Rightarrow> u64 \<Rightarrow> authority_list \<Rightarrow> (u64 \<times> authority_list, 'e) res" where
  "rotate_authorities G target set_id authorities =
     (case find_scheduled_change G target of
        Some change \<Rightarrow>
          bind_res (plus_or_panic set_id 1) (\<lambda>next_id. Inr (next_id, next_authorities change))
      | None \<Rightarrow> Inr (set_id, authorities))"

definition list_max :: "u32 list \<Rightarrow> u32 option" where
  "list_max ns = max_by_key id ns"

definition new_verifier_state ::
    "'z grandpa_scheme \<Rightarrow> verifier_state \<Rightarrow> relay_header \<Rightarrow> u32 list \<Rightarrow> u32
       \<Rightarrow> (verifier_state, grandpa_error) res" where
  "new_verifier_state G c target para_heights latest_para_height =
     bind_res (case list_max para_heights of
         Some max_height \<Rightarrow>
           if max_height \<noteq> latest_para_height
           then anyhow ''Latest parachain header height doesn't match the one in the proof''
           else Inr max_height
       | None \<Rightarrow> Inr (vs_latest_para_height c)) (\<lambda>para_height.
     bind_res (rotate_authorities G target (vs_current_set_id c) (vs_current_authorities c))
       (\<lambda>(set_id, authorities).
     Inr (c\<lparr>vs_latest_relay_hash := header_hash G target, vs_latest_relay_height := hdr_number target,
            vs_latest_para_height := para_height, vs_current_set_id := set_id,
            vs_current_authorities := authorities\<rparr>)))"

definition no_headers :: string where
  "no_headers = ''Unknown headers can't be empty!''"

definition verify_parachain_headers_with_grandpa_finality_proof ::
    "'z grandpa_scheme \<Rightarrow> verifier_state \<Rightarrow> headers_with_finality_proof
       \<Rightarrow> (verifier_state, grandpa_error) call" where
  "verify_parachain_headers_with_grandpa_finality_proof G client_state pf =
     (let fp = hf_finality_proof pf; headers = ancestry_chain_new G (unknown_headers fp) in
     bind_call (Some (ok_or (max_by_key hdr_number (unknown_headers fp)) (GrandpaAnyhow no_headers)))
       (\<lambda>target.
     if header_hash G target \<noteq> fp_block fp
     then Some (anyhow ''Latest finalized block should be highest block in unknown_headers'')
     else
     bind_call (Some (ok_or (decode_justification G (fp_justification fp)) GrandpaCodec)) (\<lambda>j.
     if commit_target_hash (just_commit j) \<noteq> fp_block fp
     then Some (anyhow ''Justification target hash and finality proof block hash mismatch'')
     else
     bind_call (Some (ok_or (min_by_key hdr_number (unknown_headers fp)) (GrandpaAnyhow no_headers)))
       (\<lambda>base.
     bind_call
       (if hdr_number base < vs_latest_relay_height client_state
        then call_map_err (\<lambda>_. GrandpaAnyhow ''Invalid ancestry (base -> latest relay block)!'')
          (ancestry headers (header_hash G base) (vs_latest_relay_hash client_state))
        else Some (Inr [])) (\<lambda>_.
     bind_call (call_map_err (\<lambda>_. GrandpaAnyhow ''Invalid ancestry!'')
       (ancestry headers (vs_latest_relay_hash client_state) (header_hash G target))) (\<lambda>finalized.
     bind_call (justification_verify G j (vs_current_set_id client_state)
       (vs_current_authorities client_state)) (\<lambda>_.
     Some (bind_res (check_parachain_headers G headers finalized (vs_para_id client_state)
         (hf_parachain_headers pf)) (\<lambda>para_heights.
       new_verifier_state G client_state target para_heights (hf_latest_para_height pf))))))))))"

section \<open>What verification establishes\<close>

text \<open>A parachain header read from the state that a relay chain header commits to.\<close>

definition proven_head ::
    "'z grandpa_scheme \<Rightarrow> u32 \<Rightarrow> relay_header \<Rightarrow> parachain_header_proofs \<Rightarrow> relay_header \<Rightarrow> bool" where
  "proven_head G para relay proofs head \<longleftrightarrow>
     db_contains G (state_proof proofs) (hdr_state_root relay)
     \<and> (\<exists>v b. trie_get G (state_proof proofs) (hdr_state_root relay) (parachain_header_storage_key G para)
               = Some (Some v)
           \<and> decode_bytes G v = Some b \<and> decode_header G b = Some head)"

lemma read_head:
  assumes "read_proof_check G (hdr_state_root relay) (state_proof proofs)
      [parachain_header_storage_key G para] = Inr found"
    and "Option.bind (found (parachain_header_storage_key G para)) id = Some b"
    and "decode_header G b = Some head"
  shows "proven_head G para relay proofs head"
proof -
  obtain v where v: "trie_get G (state_proof proofs) (hdr_state_root relay)
      (parachain_header_storage_key G para) = Some v"
    "found (parachain_header_storage_key G para) = Some (Option.bind v (decode_bytes G))"
    using read_one_key(2) [OF assms(1)] by blast
  with assms(2) have "Option.bind v (decode_bytes G) = Some b"
    by simp
  with v(1) read_one_key(1) [OF assms(1)] assms(3) show ?thesis
    by (auto simp: proven_head_def bind_eq_Some_conv)
qed

lemma check_parachain_header_ok:
  assumes "check_parachain_header G headers para hash proofs = Inr n"
  obtains relay head where "headers hash = Some relay" and "proven_head G para relay proofs head"
    and "hdr_number head = n"
    and "verify_trie_proof G (hdr_extrinsics_root head) (extrinsic_proof proofs)
           [(encode_compact G 0, Some (extrinsic proofs))]"
proof -
  from assms obtain relay found b head where "headers hash = Some relay"
    and "read_proof_check G (hdr_state_root relay) (state_proof proofs)
      [parachain_header_storage_key G para] = Inr found"
    and "Option.bind (found (parachain_header_storage_key G para)) id = Some b"
    and "decode_header G b = Some head" and "hdr_number head = n"
    and "verify_trie_proof G (hdr_extrinsics_root head) (extrinsic_proof proofs)
      [(encode_compact G 0, Some (extrinsic proofs))]"
    by (auto simp: check_parachain_header_def chain_header_def Let_def split: if_splits)
  with that read_head show thesis
    by blast
qed

lemma check_parachain_headers_ok:
  "check_parachain_headers G headers finalized para phs = Inr ns \<Longrightarrow> (hash, proofs) \<in> set phs \<Longrightarrow>
     hash \<in> set finalized \<Longrightarrow> \<exists>n \<in> set ns. check_parachain_header G headers para hash proofs = Inr n"
  by (induction phs arbitrary: ns) (auto split: if_splits)

text \<open>
  The conditions under which a finality proof is taken: the block is that of the highest header, it
  descends from the latest known block, which descends from the lowest header if that is lower, and
  the justification for it verifies.
\<close>

definition base_known ::
    "'z grandpa_scheme \<Rightarrow> verifier_state \<Rightarrow> relay_header list \<Rightarrow> relay_header \<Rightarrow> bool" where
  "base_known G c hs base \<longleftrightarrow>
     vs_latest_relay_height c \<le> hdr_number base
     \<or> (\<exists>r. walk (ancestry_chain_new G hs) (header_hash G base) (vs_latest_relay_hash c) r)"

definition finalizes ::
    "'z grandpa_scheme \<Rightarrow> verifier_state \<Rightarrow> finality_proof \<Rightarrow> relay_header \<Rightarrow> justification \<Rightarrow> h256 list \<Rightarrow> bool" where
  "finalizes G c fp target j route \<longleftrightarrow>
     max_by_key hdr_number (unknown_headers fp) = Some target
     \<and> header_hash G target = fp_block fp
     \<and> decode_justification G (fp_justification fp) = Some j
     \<and> commit_target_hash (just_commit j) = fp_block fp
     \<and> (\<exists>base. min_by_key hdr_number (unknown_headers fp) = Some base
              \<and> base_known G c (unknown_headers fp) base)
     \<and> walk (ancestry_chain_new G (unknown_headers fp)) (vs_latest_relay_hash c) (fp_block fp) route
     \<and> justification_verify G j (vs_current_set_id c) (vs_current_authorities c) = Some (Inr ())"

lemma finality_proof_taken:
  assumes "verify_parachain_headers_with_grandpa_finality_proof G c pf = Some (Inr c')"
  obtains target j route ns where "finalizes G c (hf_finality_proof pf) target j route"
    and "check_parachain_headers G (ancestry_chain_new G (unknown_headers (hf_finality_proof pf))) route
           (vs_para_id c) (hf_parachain_headers pf) = Inr ns"
    and "new_verifier_state G c target ns (hf_latest_para_height pf) = Inr c'"
  using assms unfolding verify_parachain_headers_with_grandpa_finality_proof_def Let_def
  by (auto simp: finalizes_def base_known_def ancestry_eq_Inr not_less split: if_splits)

lemma finality_proof_accepted:
  assumes "finalizes G c (hf_finality_proof pf) target j route"
    and "check_parachain_headers G (ancestry_chain_new G (unknown_headers (hf_finality_proof pf))) route
           (vs_para_id c) (hf_parachain_headers pf) = Inr ns"
    and "new_verifier_state G c target ns (hf_latest_para_height pf) = Inr c'"
  shows "verify_parachain_headers_with_grandpa_finality_proof G c pf = Some (Inr c')"
proof -
  obtain base where base: "min_by_key hdr_number (unknown_headers (hf_finality_proof pf)) = Some base"
    "base_known G c (unknown_headers (hf_finality_proof pf)) base"
    using assms(1) by (auto simp: finalizes_def)
  have known: "\<exists>r. (if hdr_number base < vs_latest_relay_height c
        then call_map_err (\<lambda>_. GrandpaAnyhow ''Invalid ancestry (base -> latest relay block)!'')
          (ancestry (ancestry_chain_new G (unknown_headers (hf_finality_proof pf)))
            (header_hash G base) (vs_latest_relay_hash c))
        else Some (Inr [])) = Some (Inr r)"
    using base(2) by (auto simp: base_known_def ancestry_eq_Inr)
  with base(1) assms show ?thesis
    unfolding verify_parachain_headers_with_grandpa_finality_proof_def Let_def
    by (auto simp: finalizes_def ancestry_eq_Inr [symmetric])
qed

end
