(* ===== verification/Grandpa_Client.thy ===== *)
theory Grandpa_Client
  imports Grandpa_Verifier
begin

text \<open>
  The GRANDPA light client \<^verbatim>\<open>light-clients/ics10-grandpa/src\<close>: its states (\<^verbatim>\<open>client_state.rs\<close>,
  \<^verbatim>\<open>consensus_state.rs\<close>), messages (\<^verbatim>\<open>client_message.rs\<close>) and the methods of \<^verbatim>\<open>ClientDef\<close>
  (\<^verbatim>\<open>client_def.rs\<close>), with the cache of relay chain hashes that pallet-ibc keeps for it
  (\<^verbatim>\<open>pallet-ibc/src/light_clients.rs\<close>).

  The host stores the states of all its light clients; the clients other than GRANDPA are a type
  parameter. The protobuf encodings are the record \<open>client_codec\<close>.
\<close>

section \<open>States and messages\<close>

record grandpa_client_state =
  relay_chain :: relay_chain
  latest_relay_height :: u32
  latest_relay_hash :: h256
  frozen_height :: "height option"
  latest_para_height :: u32
  para_id :: u32
  current_set_id :: u64
  current_authorities :: authority_list

record grandpa_consensus_state =
  gc_timestamp :: tm_time
  gc_root :: commitment_root

record grandpa_header =
  gh_finality_proof :: finality_proof
  gh_parachain_headers :: "(h256 \<times> parachain_header_proofs) list"
  gh_height :: height

datatype grandpa_message =
    HeaderMessage grandpa_header
  | MisbehaviourMessage (first_finality_proof: finality_proof) (second_finality_proof: finality_proof)

datatype 'x any_consensus_state = GrandpaConsensus grandpa_consensus_state | OtherConsensus 'x

datatype 'x any_client_state = GrandpaState grandpa_client_state | OtherState 'x

text \<open>The values that the client passes to \<^verbatim>\<open>wrap\<close> as \<^verbatim>\<open>&dyn Any\<close>.\<close>

datatype dyn_state = DynClient grandpa_client_state | DynConsensus grandpa_consensus_state

fun wrap_consensus :: "dyn_state \<Rightarrow> 'x any_consensus_state option" where
  "wrap_consensus (DynConsensus k) = Some (GrandpaConsensus k)"
| "wrap_consensus (DynClient c) = None"

fun wrap_client :: "dyn_state \<Rightarrow> 'x any_client_state option" where
  "wrap_client (DynClient c) = Some (GrandpaState c)"
| "wrap_client (DynConsensus k) = None"

fun downcast_consensus :: "'x any_consensus_state \<Rightarrow> grandpa_consensus_state option" where
  "downcast_consensus (GrandpaConsensus k) = Some k"
| "downcast_consensus (OtherConsensus x) = None"

datatype ics10_error =
    E10_Codec
  | E10_ParseTimeStamp parse_timestamp_error
  | E10_GrandpaPrimitives grandpa_error
  | E10_Anyhow string
  | E10_Custom string

record ('cs, 'cons) client_codec =
  enc_client_state :: "'cs \<Rightarrow> bytes option"
  enc_consensus_state :: "'cons \<Rightarrow> bytes option"
  enc_connection :: "connection_end \<Rightarrow> bytes option"
  enc_channel :: "channel_end \<Rightarrow> bytes option"
  enc_u64 :: "u64 \<Rightarrow> bytes"
  debug_error :: "ics10_error \<Rightarrow> string"

definition into_ics02 :: "('cs, 'cons) client_codec \<Rightarrow> ics10_error \<Rightarrow> ics02_error" where
  "into_ics02 C e = E02_ClientError ''10-grandpa'' (debug_error C e)"

definition custom :: "('cs, 'cons) client_codec \<Rightarrow> string \<Rightarrow> ics02_error" where
  "custom C msg = into_ics02 C (E10_Custom msg)"

section \<open>The client state\<close>

definition into_verifier_state :: "grandpa_client_state \<Rightarrow> verifier_state" where
  "into_verifier_state c =
     \<lparr>vs_current_authorities = current_authorities c, vs_current_set_id = current_set_id c,
      vs_latest_relay_height = latest_relay_height c, vs_latest_para_height = latest_para_height c,
      vs_latest_relay_hash = latest_relay_hash c, vs_para_id = para_id c\<rparr>"

definition latest_height :: "grandpa_client_state \<Rightarrow> height" where
  "latest_height c = Height (ucast (para_id c)) (ucast (latest_para_height c))"

definition verify_height :: "grandpa_client_state \<Rightarrow> height \<Rightarrow> (unit, ics10_error) res" where
  "verify_height c h =
     (if latest_height c < h then fail_with (E10_Custom ''Insufficient height'')
      else case frozen_height c of
        Some f \<Rightarrow> if f \<le> h then fail_with (E10_Custom ''Client has been frozen at height'') else Inr ()
      | None \<Rightarrow> Inr ())"

definition grandpa_upgrade :: "grandpa_client_state \<Rightarrow> h256 \<Rightarrow> grandpa_client_state" where
  "grandpa_upgrade c upgrade_relay_hash = c\<lparr>frozen_height := None, latest_relay_hash := upgrade_relay_hash\<rparr>"

definition grandpa_expired :: "grandpa_client_state \<Rightarrow> duration \<Rightarrow> bool" where
  "grandpa_expired c elapsed \<longleftrightarrow> elapsed > trusting_period (relay_chain c)"

definition with_frozen_height ::
    "grandpa_client_state \<Rightarrow> height \<Rightarrow> (grandpa_client_state, ics10_error) res" where
  "with_frozen_height c h =
     (if h = height_zero then fail_with (E10_Custom ''ClientState frozen height must be greater than zero'')
      else Inr (c\<lparr>frozen_height := Some h\<rparr>))"

definition grandpa_status ::
    "('cs, 'cons, 'msg, 'app) env \<Rightarrow> grandpa_client_state \<Rightarrow> ('cs, 'cons, 'app) host \<Rightarrow> client_id
       \<Rightarrow> (status, 'e) res" where
  "grandpa_status E c s i =
     (if frozen_height c \<noteq> None then Inr Frozen
      else case get_consensus_state s i (latest_height c) of
        Inl _ \<Rightarrow> Inr ExpiredStatus
      | Inr k \<Rightarrow>
          bind_res (host_timestamp E s) (\<lambda>now.
          let elapsed = (case duration_since now (cons_timestamp E k) of Some d \<Rightarrow> d | None \<Rightarrow> 0) in
          Inr (if grandpa_expired c elapsed then ExpiredStatus else Active)))"

section \<open>The consensus state\<close>

definition millis_to_nanos :: "u64 \<Rightarrow> u64" where
  "millis_to_nanos n = (if unat n * 1000000 < 2 ^ 64 then n * 1000000 else - 1)"

definition from_header ::
    "'z grandpa_scheme \<Rightarrow> (int \<Rightarrow> bool) \<Rightarrow> parachain_header_proofs \<Rightarrow> u32 \<Rightarrow> h256
       \<Rightarrow> (height \<times> grandpa_consensus_state, ics10_error) res" where
  "from_header G tm proofs para relay_state_root =
     (let key = parachain_header_storage_key G para in
     bind_res (map_err (\<lambda>_. E10_Anyhow ''state machine error'')
       (read_proof_check G relay_state_root (state_proof proofs) [key])) (\<lambda>found.
     bind_res (ok_or (Option.bind (found key) id)
       (E10_Anyhow ''Invalid state proof for parachain header'')) (\<lambda>header_bytes.
     bind_res (ok_or (decode_header G header_bytes) E10_Codec) (\<lambda>parachain_header.
     bind_res (map_err E10_Anyhow (decode_timestamp_extrinsic G (extrinsic proofs))) (\<lambda>millis.
     bind_res (map_err E10_ParseTimeStamp (from_nanoseconds tm (millis_to_nanos millis))) (\<lambda>ts.
     bind_res (ok_or (time ts)
       (E10_Anyhow ''Error decoding Timestamp, timestamp cannot be zero'')) (\<lambda>t.
     Inr (Height (ucast para) (ucast (hdr_number parachain_header)),
          \<lparr>gc_timestamp = t, gc_root = CommitmentRoot (hdr_state_root parachain_header)\<rparr>))))))))"

section \<open>The cache of relay chain hashes\<close>

record relay_cache =
  header_hashes :: "h256 list"
  header_hashes_set :: "h256 set"

definition cache_size :: nat where
  "cache_size = 500"

text \<open>
  \<^verbatim>\<open>BoundedVec::try_push\<close> fails on a full vector; \<^verbatim>\<open>BoundedBTreeSet::try_insert\<close> on a full set that
  does not hold the value, which is only logged here.
\<close>

definition insert_relay_header_hash :: "h256 \<Rightarrow> relay_cache \<Rightarrow> (relay_cache, 'e) res" where
  "insert_relay_header_hash hash cache =
     bind_res
       (if length (header_hashes cache) < cache_size
        then Inr (cache\<lparr>header_hashes := header_hashes cache @ [hash]\<rparr>)
        else case header_hashes cache of
          [] \<Rightarrow> panics
        | old_hash # kept \<Rightarrow>
            if length kept < cache_size
            then Inr (cache\<lparr>header_hashes := kept @ [hash],
                            header_hashes_set := header_hashes_set cache - {old_hash}\<rparr>)
            else panics) (\<lambda>cache.
     Inr (if card (header_hashes_set cache) < cache_size \<or> hash \<in> header_hashes_set cache
          then cache\<lparr>header_hashes_set := insert hash (header_hashes_set cache)\<rparr> else cache))"

fun insert_relay_header_hashes :: "h256 list \<Rightarrow> relay_cache \<Rightarrow> (relay_cache, 'e) res" where
  "insert_relay_header_hashes [] cache = Inr cache"
| "insert_relay_header_hashes (h # hs) cache =
     bind_res (insert_relay_header_hash h cache) (insert_relay_header_hashes hs)"

definition contains_relay_header_hash :: "h256 \<Rightarrow> relay_cache \<Rightarrow> bool" where
  "contains_relay_header_hash h cache \<longleftrightarrow> h \<in> header_hashes_set cache"

section \<open>Verifying a message\<close>

text \<open>\<^verbatim>\<open>Result::is_ok\<close>; a panic goes on.\<close>

definition is_ok_call :: "('a, 'e) call \<Rightarrow> (bool, 'f) call" where
  "is_ok_call m =
     map_option (\<lambda>r. case r of Inr _ \<Rightarrow> Inr True | Inl (Err _) \<Rightarrow> Inr False | Inl Panic \<Rightarrow> panics) m"

definition verify_header_message ::
    "'z grandpa_scheme \<Rightarrow> ('cs, 'cons) client_codec \<Rightarrow> grandpa_client_state \<Rightarrow> grandpa_header
       \<Rightarrow> (unit, ics02_error) call" where
  "verify_header_message G C client_state header =
     (if ucast (para_id client_state) \<noteq> revision_number (gh_height header)
      then Some (fail_with (custom C ''Para id mismatch''))
      else
      bind_call (call_map_err (\<lambda>e. into_ics02 C (E10_GrandpaPrimitives e))
        (verify_parachain_headers_with_grandpa_finality_proof G (into_verifier_state client_state)
          \<lparr>hf_finality_proof = gh_finality_proof header,
           hf_parachain_headers = gh_parachain_headers header,
           hf_latest_para_height = ucast (revision_height (gh_height header))\<rparr>)) (\<lambda>_.
      Some (Inr ())))"

definition verify_misbehaviour ::
    "'z grandpa_scheme \<Rightarrow> ('cs, 'cons) client_codec \<Rightarrow> relay_cache \<Rightarrow> grandpa_client_state
       \<Rightarrow> finality_proof \<Rightarrow> finality_proof \<Rightarrow> (unit, ics02_error) call" where
  "verify_misbehaviour G C cache client_state first_proof second_proof =
     (if fp_block first_proof = fp_block second_proof
      then Some (fail_with (custom C ''Misbehaviour proofs are for the same block''))
      else
      let first_headers = ancestry_chain_new G (unknown_headers first_proof);
          second_headers = ancestry_chain_new G (unknown_headers second_proof) in
      bind_call (Some (ok_or (max_by_key hdr_number (unknown_headers first_proof)) (custom C no_headers)))
        (\<lambda>first_target.
      bind_call (Some (ok_or (max_by_key hdr_number (unknown_headers second_proof)) (custom C no_headers)))
        (\<lambda>second_target.
      if header_hash G first_target \<noteq> fp_block first_proof
         \<or> header_hash G second_target \<noteq> fp_block second_proof
      then Some (fail_with (custom C ''Misbehaviour proofs are not for the same chain''))
      else
      bind_call (Some (ok_or (min_by_key hdr_number (unknown_headers first_proof)) (custom C no_headers)))
        (\<lambda>first_base.
      bind_call (call_map_err (\<lambda>_. custom C ''Invalid ancestry!'')
        (ancestry first_headers (header_hash G first_base) (header_hash G first_target))) (\<lambda>_.
      bind_call (Some (ok_or (min_by_key hdr_number (unknown_headers second_proof)) (custom C no_headers)))
        (\<lambda>second_base.
      bind_call (call_map_err (\<lambda>_. custom C ''Invalid ancestry!'')
        (ancestry second_headers (header_hash G second_base) (header_hash G second_target))) (\<lambda>_.
      if hdr_parent_hash first_base \<noteq> hdr_parent_hash second_base
      then Some (fail_with (custom C ''Misbehaviour proofs are not for the same ancestor''))
      else if \<not> contains_relay_header_hash (hdr_parent_hash first_base) cache
      then Some (fail_with (custom C ''Could not find the known header for first finality proof''))
      else
      bind_call (Some (ok_or (decode_justification G (fp_justification first_proof))
        (custom C ''Could not decode first justification''))) (\<lambda>first_justification.
      bind_call (Some (ok_or (decode_justification G (fp_justification second_proof))
        (custom C ''Could not decode second justification''))) (\<lambda>second_justification.
      if fp_block first_proof \<noteq> commit_target_hash (just_commit first_justification)
         \<or> fp_block second_proof \<noteq> commit_target_hash (just_commit second_justification)
      then Some (fail_with (custom C ''First or second finality proof block hash does not match justification target hash''))
      else
      bind_call (is_ok_call (justification_verify G first_justification (current_set_id client_state)
        (current_authorities client_state))) (\<lambda>first_valid.
      bind_call (is_ok_call (justification_verify G second_justification (current_set_id client_state)
        (current_authorities client_state))) (\<lambda>second_valid.
      Some (if \<not> first_valid \<or> \<not> second_valid
            then fail_with (custom C ''Invalid justification'') else Inr ()))))))))))))"

fun verify_client_message ::
    "'z grandpa_scheme \<Rightarrow> ('cs, 'cons) client_codec \<Rightarrow> relay_cache \<Rightarrow> grandpa_client_state
       \<Rightarrow> grandpa_message \<Rightarrow> (unit, ics02_error) call" where
  "verify_client_message G C cache c (HeaderMessage header) = verify_header_message G C c header"
| "verify_client_message G C cache c (MisbehaviourMessage p q) = verify_misbehaviour G C cache c p q"

section \<open>Looking for misbehaviour\<close>

text \<open>The loop over the parachain headers of an update.\<close>

fun competing_headers ::
    "'z grandpa_scheme \<Rightarrow> ('cs, 'x any_consensus_state) client_codec \<Rightarrow> (int \<Rightarrow> bool)
       \<Rightarrow> ('st, 'x any_consensus_state, 'app) host \<Rightarrow> client_id \<Rightarrow> grandpa_client_state \<Rightarrow> ancestry_chain
       \<Rightarrow> (h256 \<times> parachain_header_proofs) list \<Rightarrow> (bool, ics02_error) res" where
  "competing_headers G C tm s i c chain [] = Inr False"
| "competing_headers G C tm s i c chain ((relay_hash, proofs) # rest) =
     bind_res (ok_or (chain_header chain relay_hash) (custom C ''No relay chain header found for hash''))
       (\<lambda>header.
     if find_forced_change G header \<noteq> None then Inr True
     else
     bind_res (map_err (into_ics02 C) (from_header G tm proofs (para_id c) (hdr_state_root header)))
       (\<lambda>(h, consensus_state).
     bind_res (maybe_consensus_state s i h) (\<lambda>stored.
     case stored of
       Some cs \<Rightarrow>
         bind_res (ok_or (downcast_consensus cs) (E02_ClientArgsTypeMismatch ''10-grandpa'')) (\<lambda>k.
         if k \<noteq> consensus_state then Inr True else competing_headers G C tm s i c chain rest)
     | None \<Rightarrow> competing_headers G C tm s i c chain rest)))"

fun check_for_misbehaviour ::
    "'z grandpa_scheme \<Rightarrow> ('cs, 'x any_consensus_state) client_codec \<Rightarrow> (int \<Rightarrow> bool)
       \<Rightarrow> ('st, 'x any_consensus_state, 'app) host \<Rightarrow> client_id \<Rightarrow> grandpa_client_state \<Rightarrow> grandpa_message
       \<Rightarrow> (bool, ics02_error) res" where
  "check_for_misbehaviour G C tm s i c (MisbehaviourMessage p q) = Inr True"
| "check_for_misbehaviour G C tm s i c (HeaderMessage header) =
     competing_headers G C tm s i c (ancestry_chain_new G (unknown_headers (gh_finality_proof header)))
       (gh_parachain_headers header)"

definition update_state_on_misbehaviour :: "grandpa_client_state \<Rightarrow> grandpa_client_state" where
  "update_state_on_misbehaviour c =
     c\<lparr>frozen_height := Some (Height (ucast (para_id c)) (ucast (latest_para_height c)))\<rparr>"

section \<open>Updating the state\<close>

fun new_consensus_states ::
    "'z grandpa_scheme \<Rightarrow> ('cs, 'x any_consensus_state) client_codec \<Rightarrow> (int \<Rightarrow> bool)
       \<Rightarrow> ('st, 'x any_consensus_state, 'app) host \<Rightarrow> client_id \<Rightarrow> grandpa_client_state \<Rightarrow> ancestry_chain
       \<Rightarrow> h256 list \<Rightarrow> (h256 \<times> parachain_header_proofs) list
       \<Rightarrow> ((height \<times> 'x any_consensus_state) list, ics02_error) res" where
  "new_consensus_states G C tm s i c chain finalized [] = Inr []"
| "new_consensus_states G C tm s i c chain finalized ((relay_hash, proofs) # rest) =
     (if relay_hash \<notin> set finalized then new_consensus_states G C tm s i c chain finalized rest
      else
      bind_res (ok_or (chain_header chain relay_hash) (custom C ''No relay chain header found for hash''))
        (\<lambda>header.
      bind_res (map_err (into_ics02 C) (from_header G tm proofs (para_id c) (hdr_state_root header)))
        (\<lambda>(h, consensus_state).
      if res_ok (get_consensus_state s i h) \<noteq> None
      then new_consensus_states G C tm s i c chain finalized rest
      else
      bind_res (unwrap_opt (wrap_consensus (DynConsensus consensus_state))) (\<lambda>wrapped.
      bind_res (new_consensus_states G C tm s i c chain finalized rest) (\<lambda>states.
      Inr ((h, wrapped) # states))))))"

text \<open>The new parachain height, from the first and the last of the sorted heights.\<close>

definition advance_para_height ::
    "grandpa_client_state \<Rightarrow> u32 list \<Rightarrow> (u32, ics02_error) res" where
  "advance_para_height c heights =
     (case sort heights of
        [] \<Rightarrow> Inr (latest_para_height c)
      | min_height # others \<Rightarrow>
          if min_height \<le> latest_para_height c
          then fail_with (E02_ImplementationSpecific ''Light client can only be updated to new parachain height.'')
          else Inr (last (min_height # others)))"

definition update_state ::
    "'z grandpa_scheme \<Rightarrow> ('cs, 'x any_consensus_state) client_codec \<Rightarrow> (int \<Rightarrow> bool)
       \<Rightarrow> ('st, 'x any_consensus_state, 'app) host \<Rightarrow> relay_cache \<Rightarrow> client_id \<Rightarrow> grandpa_client_state
       \<Rightarrow> grandpa_message
       \<Rightarrow> (grandpa_client_state \<times> 'x any_consensus_state consensus_update \<times> relay_cache, ics02_error) call" where
  "update_state G C tm s cache i c msg =
     (case msg of
        MisbehaviourMessage _ _ \<Rightarrow> Some panics
      | HeaderMessage header \<Rightarrow>
      let fp = gh_finality_proof header; chain = ancestry_chain_new G (unknown_headers fp) in
      bind_call (call_map_err (\<lambda>_. custom C ''[update_state] Invalid ancestry!'')
        (ancestry chain (latest_relay_hash c) (fp_block fp))) (\<lambda>finalized.
      Some (
      bind_res (new_consensus_states G C tm s i c chain finalized (gh_parachain_headers header))
        (\<lambda>consensus_states.
      bind_res (unwrap_opt (chain_header chain (fp_block fp))) (\<lambda>target.
      if hdr_number target \<le> latest_relay_height c
      then fail_with (E02_ImplementationSpecific ''Light client can only be updated to new relay chain height.'')
      else
      bind_res (advance_para_height c (map (\<lambda>(h, _). ucast (revision_height h)) consensus_states))
        (\<lambda>para_height.
      bind_res (rotate_authorities G target (current_set_id c) (current_authorities c))
        (\<lambda>(set_id, authorities).
      bind_res (insert_relay_header_hashes finalized cache) (\<lambda>cache.
      Inr (c\<lparr>latest_para_height := para_height, latest_relay_hash := fp_block fp,
             latest_relay_height := hdr_number target, current_set_id := set_id,
             current_authorities := authorities\<rparr>, Batch consensus_states, cache)))))))))"

text \<open>
  How the handler of client updates calls the client (\<^verbatim>\<open>ics02_client/handler/update_client.rs\<close>):
  verification, then a look for misbehaviour, then the frozen or the updated state.
\<close>

definition handle_client_message ::
    "'z grandpa_scheme \<Rightarrow> ('cs, 'x any_consensus_state) client_codec \<Rightarrow> (int \<Rightarrow> bool)
       \<Rightarrow> ('st, 'x any_consensus_state, 'app) host \<Rightarrow> relay_cache \<Rightarrow> client_id \<Rightarrow> grandpa_client_state
       \<Rightarrow> grandpa_message
       \<Rightarrow> (grandpa_client_state \<times> 'x any_consensus_state consensus_update option \<times> relay_cache, ics02_error) call" where
  "handle_client_message G C tm s cache i c msg =
     bind_call (call_map_err E02_HeaderVerificationFailureOf (verify_client_message G C cache c msg)) (\<lambda>_.
     bind_call (Some (map_err E02_HeaderVerificationFailureOf
       (check_for_misbehaviour G C tm s i c msg))) (\<lambda>found_misbehaviour.
     if found_misbehaviour then Some (Inr (update_state_on_misbehaviour c, None, cache))
     else
     bind_call (call_map_err E02_HeaderVerificationFailureOf (update_state G C tm s cache i c msg))
       (\<lambda>(c', states, cache'). Some (Inr (c', Some states, cache')))))"

section \<open>Upgrades\<close>

definition CLIENT_STATE_UPGRADE_PATH :: bytes where
  "CLIENT_STATE_UPGRADE_PATH = as_bytes ''client-state-upgrade-path''"

definition CONSENSUS_STATE_UPGRADE_PATH :: bytes where
  "CONSENSUS_STATE_UPGRADE_PATH = as_bytes ''consensus-state-upgrade-path''"

text \<open>Reading the value under an upgrade path and comparing it with the encoded state.\<close>

definition check_upgrade_proof ::
    "'z grandpa_scheme \<Rightarrow> ('cs, 'cons) client_codec \<Rightarrow> h256 \<Rightarrow> bytes \<Rightarrow> bytes list \<Rightarrow> bytes
       \<Rightarrow> (unit, ics02_error) res" where
  "check_upgrade_proof G C root path nodes encoded =
     bind_res (map_err (\<lambda>_. custom C ''state machine error'') (read_proof_check G root nodes [path])) (\<lambda>found.
     bind_res (ok_or (Option.bind (found path) id) (custom C ''Invalid proof for client state upgrade'')) (\<lambda>v.
     if v \<noteq> encoded then fail_with (custom C ''Invalid proof for client state upgrade'') else Inr ()))"

definition verify_upgrade_and_update_state ::
    "'z grandpa_scheme \<Rightarrow> ('y any_client_state, 'x any_consensus_state) client_codec
       \<Rightarrow> ('st, 'x any_consensus_state, 'app) host \<Rightarrow> client_id \<Rightarrow> grandpa_client_state
       \<Rightarrow> grandpa_client_state \<Rightarrow> grandpa_consensus_state \<Rightarrow> bytes \<Rightarrow> bytes
       \<Rightarrow> (grandpa_client_state \<times> 'x any_consensus_state consensus_update, ics02_error) res" where
  "verify_upgrade_and_update_state G C s i old_client_state upgrade_client_state upgrade_consensus_state
     proof_upgrade_client proof_upgrade_consensus_state =
     (let h = Height (ucast (para_id old_client_state)) (ucast (latest_para_height old_client_state)) in
     bind_res (get_consensus_state s i h) (\<lambda>stored.
     bind_res (ok_or (downcast_consensus stored) (custom C ''Wrong consensus state type stored for Grandpa client''))
       (\<lambda>consensus_state.
     bind_res (h256_from_slice (root_bytes (gc_root consensus_state))) (\<lambda>root.
     bind_res (ok_or (decode_nodes G proof_upgrade_client) (into_ics02 C E10_Codec)) (\<lambda>nodes.
     bind_res (unwrap_opt (wrap_client (DynClient upgrade_client_state))) (\<lambda>wrapped.
     bind_res (ok_or (enc_client_state C wrapped) (E02_Undecodable E02_Encode)) (\<lambda>encoded.
     bind_res (check_upgrade_proof G C root CLIENT_STATE_UPGRADE_PATH nodes encoded) (\<lambda>_.
     bind_res (ok_or (decode_nodes G proof_upgrade_consensus_state) (into_ics02 C E10_Codec)) (\<lambda>nodes.
     bind_res (unwrap_opt (wrap_consensus (DynClient upgrade_client_state))) (\<lambda>wrapped.
     bind_res (ok_or (enc_consensus_state C wrapped) (E02_Undecodable E02_Encode)) (\<lambda>encoded.
     bind_res (check_upgrade_proof G C root CONSENSUS_STATE_UPGRADE_PATH nodes encoded) (\<lambda>_.
     bind_res (unwrap_opt (wrap_consensus (DynConsensus upgrade_consensus_state))) (\<lambda>wrapped.
     Inr (upgrade_client_state, Single wrapped))))))))))))))"

section \<open>Proofs about the counterparty\<close>

definition encoded :: "bytes option \<Rightarrow> (bytes, ics02_error) res" where
  "encoded b = ok_or b (E02_Undecodable E02_Encode)"

text \<open>What the eight methods have in common: the height check and the proof.\<close>

definition check_member ::
    "'z grandpa_scheme \<Rightarrow> ('cs, 'cons) client_codec \<Rightarrow> commitment_prefix \<Rightarrow> commitment_proof_bytes
       \<Rightarrow> commitment_root \<Rightarrow> path \<Rightarrow> bytes \<Rightarrow> (unit, ics02_error) res" where
  "check_member G C prefix pf root path val =
     map_err (\<lambda>m. into_ics02 C (E10_Anyhow m)) (verify_membership G prefix pf root path val)"

definition verify_client_consensus_state ::
    "'z grandpa_scheme \<Rightarrow> ('cs, 'cons) client_codec \<Rightarrow> grandpa_client_state \<Rightarrow> height
       \<Rightarrow> commitment_prefix \<Rightarrow> commitment_proof_bytes \<Rightarrow> commitment_root \<Rightarrow> client_id \<Rightarrow> height
       \<Rightarrow> 'cons \<Rightarrow> (unit, ics02_error) res" where
  "verify_client_consensus_state G C c h prefix pf root i consensus_height expected =
     bind_res (map_err (into_ics02 C) (verify_height c h)) (\<lambda>_.
     bind_res (encoded (enc_consensus_state C expected)) (\<lambda>val.
     check_member G C prefix pf root
       (ClientConsensusStatePath i (revision_number consensus_height) (revision_height consensus_height)) val))"

definition verify_connection_state ::
    "'z grandpa_scheme \<Rightarrow> ('cs, 'cons) client_codec \<Rightarrow> grandpa_client_state \<Rightarrow> height
       \<Rightarrow> commitment_prefix \<Rightarrow> commitment_proof_bytes \<Rightarrow> commitment_root \<Rightarrow> connection_id
       \<Rightarrow> connection_end \<Rightarrow> (unit, ics02_error) res" where
  "verify_connection_state G C c h prefix pf root k expected =
     bind_res (map_err (into_ics02 C) (verify_height c h)) (\<lambda>_.
     bind_res (encoded (enc_connection C expected)) (\<lambda>val.
     check_member G C prefix pf root (ConnectionsPath k) val))"

definition verify_channel_state ::
    "'z grandpa_scheme \<Rightarrow> ('cs, 'cons) client_codec \<Rightarrow> grandpa_client_state \<Rightarrow> height
       \<Rightarrow> commitment_prefix \<Rightarrow> commitment_proof_bytes \<Rightarrow> commitment_root \<Rightarrow> port_id \<Rightarrow> channel_id
       \<Rightarrow> channel_end \<Rightarrow> (unit, ics02_error) res" where
  "verify_channel_state G C c h prefix pf root p ch expected =
     bind_res (map_err (into_ics02 C) (verify_height c h)) (\<lambda>_.
     bind_res (encoded (enc_channel C expected)) (\<lambda>val.
     check_member G C prefix pf root (ChannelEndsPath p ch) val))"

definition verify_client_full_state ::
    "'z grandpa_scheme \<Rightarrow> ('cs, 'cons) client_codec \<Rightarrow> grandpa_client_state \<Rightarrow> height
       \<Rightarrow> commitment_prefix \<Rightarrow> commitment_proof_bytes \<Rightarrow> commitment_root \<Rightarrow> client_id
       \<Rightarrow> 'cs \<Rightarrow> (unit, ics02_error) res" where
  "verify_client_full_state G C c h prefix pf root i expected =
     bind_res (map_err (into_ics02 C) (verify_height c h)) (\<lambda>_.
     bind_res (encoded (enc_client_state C expected)) (\<lambda>val.
     check_member G C prefix pf root (ClientStatePath i) val))"

text \<open>The proofs about packets also wait for the delay of the connection.\<close>

definition after_delay ::
    "'z grandpa_scheme \<Rightarrow> ('cs, 'cons) client_codec \<Rightarrow> ('st, 'k, 'msg, 'app) env
       \<Rightarrow> ('st, 'k, 'app) host \<Rightarrow> grandpa_client_state \<Rightarrow> height \<Rightarrow> connection_end
       \<Rightarrow> (unit, ics02_error) res" where
  "after_delay G C E s c h connection_end =
     bind_res (map_err (into_ics02 C) (verify_height c h)) (\<lambda>_.
     map_err (\<lambda>m. into_ics02 C (E10_Anyhow m)) (verify_delay_passed G E s h connection_end))"

definition verify_packet_data ::
    "'z grandpa_scheme \<Rightarrow> ('cs, 'cons) client_codec \<Rightarrow> ('st, 'k, 'msg, 'app) env
       \<Rightarrow> ('st, 'k, 'app) host \<Rightarrow> grandpa_client_state \<Rightarrow> height \<Rightarrow> connection_end
       \<Rightarrow> commitment_proof_bytes \<Rightarrow> commitment_root \<Rightarrow> port_id \<Rightarrow> channel_id \<Rightarrow> sequence \<Rightarrow> bytes
       \<Rightarrow> (unit, ics02_error) res" where
  "verify_packet_data G C E s c h connection_end pf root p ch sq commitment =
     bind_res (after_delay G C E s c h connection_end) (\<lambda>_.
     check_member G C (cpty_prefix (conn_counterparty connection_end)) pf root
       (CommitmentsPath p ch sq) commitment)"

definition verify_packet_acknowledgement ::
    "'z grandpa_scheme \<Rightarrow> ('cs, 'cons) client_codec \<Rightarrow> ('st, 'k, 'msg, 'app) env
       \<Rightarrow> ('st, 'k, 'app) host \<Rightarrow> grandpa_client_state \<Rightarrow> height \<Rightarrow> connection_end
       \<Rightarrow> commitment_proof_bytes \<Rightarrow> commitment_root \<Rightarrow> port_id \<Rightarrow> channel_id \<Rightarrow> sequence \<Rightarrow> bytes
       \<Rightarrow> (unit, ics02_error) res" where
  "verify_packet_acknowledgement G C E s c h connection_end pf root p ch sq ack =
     bind_res (after_delay G C E s c h connection_end) (\<lambda>_.
     check_member G C (cpty_prefix (conn_counterparty connection_end)) pf root (AcksPath p ch sq) ack)"

definition grandpa_verify_next_sequence_recv ::
    "'z grandpa_scheme \<Rightarrow> ('cs, 'cons) client_codec \<Rightarrow> ('st, 'k, 'msg, 'app) env
       \<Rightarrow> ('st, 'k, 'app) host \<Rightarrow> grandpa_client_state \<Rightarrow> height \<Rightarrow> connection_end
       \<Rightarrow> commitment_proof_bytes \<Rightarrow> commitment_root \<Rightarrow> port_id \<Rightarrow> channel_id \<Rightarrow> sequence
       \<Rightarrow> (unit, ics02_error) res" where
  "grandpa_verify_next_sequence_recv G C E s c h connection_end pf root p ch sq =
     bind_res (after_delay G C E s c h connection_end) (\<lambda>_.
     check_member G C (cpty_prefix (conn_counterparty connection_end)) pf root
       (SeqRecvsPath p ch) (enc_u64 C sq))"

definition grandpa_verify_packet_receipt_absence ::
    "'z grandpa_scheme \<Rightarrow> ('cs, 'cons) client_codec \<Rightarrow> ('st, 'k, 'msg, 'app) env
       \<Rightarrow> ('st, 'k, 'app) host \<Rightarrow> grandpa_client_state \<Rightarrow> height \<Rightarrow> connection_end
       \<Rightarrow> commitment_proof_bytes \<Rightarrow> commitment_root \<Rightarrow> port_id \<Rightarrow> channel_id \<Rightarrow> sequence
       \<Rightarrow> (unit, ics02_error) res" where
  "grandpa_verify_packet_receipt_absence G C E s c h connection_end pf root p ch sq =
     bind_res (after_delay G C E s c h connection_end) (\<lambda>_.
     map_err (\<lambda>m. into_ics02 C (E10_Anyhow m))
       (verify_non_membership G (cpty_prefix (conn_counterparty connection_end)) pf root
         (ReceiptsPath p ch sq)))"

end
