(* ===== verification/Grandpa_Safety.thy ===== *)
theory Grandpa_Safety
  imports Grandpa_Client Mock_Client
begin

text \<open>
  What the GRANDPA light client guarantees and what it does not: every accepted update is backed by a
  justified and connected finality proof, an honest update is accepted, proofs about packets are
  checked against the proven root after the delay. Two ways to freeze a client without any fault of
  the relay chain, and why no client can be upgraded.
\<close>

section \<open>Accepted updates\<close>

lemma from_header_ok:
  assumes "from_header G tm proofs para (hdr_state_root relay) = Inr (h, k)"
  shows "\<exists>head. proven_head G para relay proofs head
    \<and> h = Height (ucast para) (ucast (hdr_number head)) \<and> gc_root k = CommitmentRoot (hdr_state_root head)"
proof -
  from assms obtain found b head where
    "read_proof_check G (hdr_state_root relay) (state_proof proofs)
      [parachain_header_storage_key G para] = Inr found"
    and "Option.bind (found (parachain_header_storage_key G para)) id = Some b"
    and "decode_header G b = Some head"
    and "h = Height (ucast para) (ucast (hdr_number head))"
    and "gc_root k = CommitmentRoot (hdr_state_root head)"
    by (auto simp: from_header_def Let_def)
  with read_head show ?thesis
    by blast
qed

text \<open>
  A consensus state that an update may add: its height and root are those of a parachain header
  proven in the state of a relay chain header on the finalized route, and the height is new.
\<close>

definition backed_state ::
    "'z grandpa_scheme \<Rightarrow> ('st, 'x any_consensus_state, 'app) host \<Rightarrow> client_id \<Rightarrow> u32 \<Rightarrow> ancestry_chain
       \<Rightarrow> h256 list \<Rightarrow> (h256 \<times> parachain_header_proofs) list \<Rightarrow> height \<Rightarrow> 'x any_consensus_state \<Rightarrow> bool" where
  "backed_state G s i para chain route phs h k \<longleftrightarrow>
     (\<exists>hash proofs relay head g.
        (hash, proofs) \<in> set phs \<and> hash \<in> set route \<and> chain hash = Some relay
      \<and> proven_head G para relay proofs head
      \<and> h = Height (ucast para) (ucast (hdr_number head))
      \<and> k = GrandpaConsensus g \<and> gc_root g = CommitmentRoot (hdr_state_root head)
      \<and> consensus_states_get s (i, h) = None)"

lemma backed_state_Cons: "backed_state G s i para chain route phs h k \<Longrightarrow> backed_state G s i para chain route (p # phs) h k"
  unfolding backed_state_def list.set insert_iff by blast

lemma new_consensus_states_backed:
  "new_consensus_states G C tm s i c chain route phs = Inr states \<Longrightarrow> (h, k) \<in> set states \<Longrightarrow>
     backed_state G s i (para_id c) chain route phs h k"
proof (induction phs arbitrary: states)
  case Nil
  then show ?case by simp
next
  case (Cons p phs)
  obtain hash proofs where p: "p = (hash, proofs)"
    by (cases p)
  consider (later) states' where "new_consensus_states G C tm s i c chain route phs = Inr states'"
      and "(h, k) \<in> set states'"
    | (now) relay g where "hash \<in> set route" and "chain hash = Some relay"
      and "from_header G tm proofs (para_id c) (hdr_state_root relay) = Inr (h, g)"
      and "k = GrandpaConsensus g" and "consensus_states_get s (i, h) = None"
    using Cons.prems unfolding p
    by (auto simp: chain_header_def get_consensus_state_def split: if_splits prod.splits option.splits)
  then show ?case
  proof cases
    case later
    then show ?thesis
      using Cons.IH backed_state_Cons by blast
  next
    case now
    with from_header_ok [OF now(3)] show ?thesis
      unfolding backed_state_def p by auto
  qed
qed

lemma advance_para_height_ok:
  assumes "advance_para_height c hs = Inr n"
  shows "latest_para_height c \<le> n" and "\<forall>x \<in> set hs. latest_para_height c < x \<and> x \<le> n"
proof -
  have "latest_para_height c \<le> n \<and> (\<forall>x \<in> set hs. latest_para_height c < x \<and> x \<le> n)"
  proof (cases "sort hs")
    case Nil
    with assms have "hs = []" and "n = latest_para_height c"
      using set_sort [of "\<lambda>x. x" hs] by (auto simp: advance_para_height_def)
    then show ?thesis by simp
  next
    case (Cons m rest)
    with assms have m: "latest_para_height c < m" and n: "n = last (m # rest)"
      by (auto simp: advance_para_height_def split: if_splits)
    have sorted: "sorted (m # rest)"
      using sorted_sort [of hs] Cons by simp
    have "m \<le> x \<and> x \<le> n" if "x \<in> set (m # rest)" for x
      using sorted that n by (cases rest rule: rev_cases) (auto simp: sorted_append)
    moreover have "set hs = set (m # rest)"
      using Cons set_sort [of "\<lambda>x. x" hs] by simp
    ultimately show ?thesis
      using m by (metis list.set_intros(1) order.strict_trans1 order.strict_implies_order order_less_le_trans)
  qed
  then show "latest_para_height c \<le> n" and "\<forall>x \<in> set hs. latest_para_height c < x \<and> x \<le> n"
    by auto
qed

lemma update_state_ok:
  assumes "update_state G C tm s cache i c (HeaderMessage m) = Some (Inr (c', u, cache'))"
  obtains route states target n set_id authorities where
    "walk (ancestry_chain_new G (unknown_headers (gh_finality_proof m))) (latest_relay_hash c)
       (fp_block (gh_finality_proof m)) route"
    and "new_consensus_states G C tm s i c (ancestry_chain_new G (unknown_headers (gh_finality_proof m)))
       route (gh_parachain_headers m) = Inr states"
    and "ancestry_chain_new G (unknown_headers (gh_finality_proof m)) (fp_block (gh_finality_proof m))
       = Some target"
    and "latest_relay_height c < hdr_number target"
    and "advance_para_height c (map (\<lambda>(h, _). ucast (revision_height h)) states) = Inr n"
    and "rotate_authorities G target (current_set_id c) (current_authorities c)
       = (Inr (set_id, authorities) :: (u64 \<times> authority_list, ics02_error) res)"
    and "insert_relay_header_hashes route cache = (Inr cache' :: (relay_cache, ics02_error) res)"
    and "u = Batch states"
    and "c' = c\<lparr>latest_para_height := n, latest_relay_hash := fp_block (gh_finality_proof m),
           latest_relay_height := hdr_number target, current_set_id := set_id,
           current_authorities := authorities\<rparr>"
  using assms unfolding update_state_def Let_def
  by (auto simp: ancestry_eq_Inr chain_header_def not_le split: if_splits prod.splits)

lemma rotate_authorities_ok:
  assumes "rotate_authorities G target n as = Inr (n', as')"
  shows "case find_scheduled_change G target of
      None \<Rightarrow> n' = n \<and> as' = as
    | Some change \<Rightarrow> unat n' = unat n + 1 \<and> as' = next_authorities change"
  using assms checked_add_unat [of n 1]
  by (auto simp: rotate_authorities_def split: option.splits)

lemma height_of_u32:
  fixes a b :: u32
  shows "Height r (ucast a) < Height r (ucast b) \<longleftrightarrow> a < b"
    and "Height r (ucast a) \<le> Height r (ucast b) \<longleftrightarrow> a \<le> b"
    and "ucast (ucast a :: u64) = a"
proof -
  have u: "unat (ucast x :: u64) = unat x" for x :: u32
    using unsigned_less [of x, where 'a = nat] by (simp add: unsigned_ucast_eq take_bit_nat_eq_self)
  show "Height r (ucast a) < Height r (ucast b) \<longleftrightarrow> a < b"
    and "Height r (ucast a) \<le> Height r (ucast b) \<longleftrightarrow> a \<le> b"
    by (simp_all add: height_less_iff height_le_iff word_less_nat_alt word_le_nat_alt u)
  show "ucast (ucast a :: u64) = a"
    by transfer simp
qed

text \<open>What an update makes of the client, in terms of the route it follows.\<close>

definition moves_to ::
    "'z grandpa_scheme \<Rightarrow> grandpa_client_state \<Rightarrow> finality_proof \<Rightarrow> grandpa_client_state \<Rightarrow> bool" where
  "moves_to G c fp c' \<longleftrightarrow>
     (\<exists>target \<in> set (unknown_headers fp).
        header_hash G target = fp_block fp
      \<and> latest_relay_hash c' = fp_block fp \<and> latest_relay_height c' = hdr_number target
      \<and> latest_relay_height c < latest_relay_height c' \<and> latest_height c \<le> latest_height c'
      \<and> (case find_scheduled_change G target of
           None \<Rightarrow> current_set_id c' = current_set_id c \<and> current_authorities c' = current_authorities c
         | Some change \<Rightarrow> unat (current_set_id c') = unat (current_set_id c) + 1
             \<and> current_authorities c' = next_authorities change)
      \<and> frozen_height c' = frozen_height c \<and> para_id c' = para_id c \<and> relay_chain c' = relay_chain c)"

lemma update_state_moves:
  assumes "update_state G C tm s cache i c (HeaderMessage m) = Some (Inr (c', u, cache'))"
  shows "moves_to G c (gh_finality_proof m) c'"
proof -
  obtain target n set_id authorities hs where
    target: "ancestry_chain_new G (unknown_headers (gh_finality_proof m)) (fp_block (gh_finality_proof m))
      = Some target" and up: "latest_relay_height c < hdr_number target"
    and adv: "advance_para_height c hs = Inr n"
    and rot: "rotate_authorities G target (current_set_id c) (current_authorities c)
      = (Inr (set_id, authorities) :: (u64 \<times> authority_list, ics02_error) res)"
    and c': "c' = c\<lparr>latest_para_height := n, latest_relay_hash := fp_block (gh_finality_proof m),
      latest_relay_height := hdr_number target, current_set_id := set_id,
      current_authorities := authorities\<rparr>"
    by (rule update_state_ok [OF assms]) (rule that)
  have "latest_height c \<le> latest_height c'"
    using advance_para_height_ok(1) [OF adv] c' by (simp add: latest_height_def height_of_u32)
  then show ?thesis
    unfolding moves_to_def
    using ancestry_chain_new_Some [OF target] up rotate_authorities_ok [OF rot] c'
    by (intro bexI [of _ target]) (auto split: option.splits)
qed

lemma update_state_states:
  assumes "update_state G C tm s cache i c (HeaderMessage m) = Some (Inr (c', u, cache'))"
    and "walk (ancestry_chain_new G (unknown_headers (gh_finality_proof m))) (latest_relay_hash c)
      (fp_block (gh_finality_proof m)) route"
  shows "\<exists>states. u = Batch states \<and> (\<forall>(h, k) \<in> set states.
      backed_state G s i (para_id c) (ancestry_chain_new G (unknown_headers (gh_finality_proof m))) route
        (gh_parachain_headers m) h k
      \<and> latest_height c < h \<and> h \<le> latest_height c')"
proof -
  let ?chain = "ancestry_chain_new G (unknown_headers (gh_finality_proof m))"
  obtain route' states n set_id authorities and target :: relay_header where
    w: "walk ?chain (latest_relay_hash c) (fp_block (gh_finality_proof m)) route'"
    and states: "new_consensus_states G C tm s i c ?chain route' (gh_parachain_headers m) = Inr states"
    and adv: "advance_para_height c (map (\<lambda>(h, _). ucast (revision_height h)) states) = Inr n"
    and u: "u = Batch states"
    and c': "c' = c\<lparr>latest_para_height := n, latest_relay_hash := fp_block (gh_finality_proof m),
      latest_relay_height := hdr_number target, current_set_id := set_id,
      current_authorities := authorities\<rparr>"
    by (rule update_state_ok [OF assms(1)]) (rule that)
  have "backed_state G s i (para_id c) ?chain route (gh_parachain_headers m) h k
      \<and> latest_height c < h \<and> h \<le> latest_height c'" if "(h, k) \<in> set states" for h k
  proof -
    have b: "backed_state G s i (para_id c) ?chain route (gh_parachain_headers m) h k"
      using new_consensus_states_backed [OF states that] walk_unique [OF w assms(2)] by simp
    then obtain x :: u32 where h: "h = Height (ucast (para_id c)) (ucast x)"
      by (auto simp: backed_state_def)
    have "x \<in> set (map (\<lambda>(h, _). ucast (revision_height h)) states)"
      using that h by (force simp: height_of_u32)
    then have "latest_para_height c < x \<and> x \<le> n"
      using advance_para_height_ok(2) [OF adv] by blast
    with b h c' show ?thesis
      by (simp add: latest_height_def height_of_u32)
  qed
  with u show ?thesis
    by blast
qed

definition with_finality_proof :: "grandpa_header \<Rightarrow> headers_with_finality_proof" where
  "with_finality_proof m =
     \<lparr>hf_finality_proof = gh_finality_proof m, hf_parachain_headers = gh_parachain_headers m,
      hf_latest_para_height = ucast (revision_height (gh_height m))\<rparr>"

lemma with_finality_proof_simps [simp]:
  "hf_finality_proof (with_finality_proof m) = gh_finality_proof m"
  "hf_parachain_headers (with_finality_proof m) = gh_parachain_headers m"
  "hf_latest_para_height (with_finality_proof m) = ucast (revision_height (gh_height m))"
  by (simp_all add: with_finality_proof_def)

lemma header_message_verified:
  "verify_header_message G C c m = Some (Inr ()) \<longleftrightarrow>
     ucast (para_id c) = revision_number (gh_height m)
     \<and> (\<exists>d. verify_parachain_headers_with_grandpa_finality_proof G (into_verifier_state c)
              (with_finality_proof m) = Some (Inr d))"
  by (auto simp: verify_header_message_def with_finality_proof_def)

text \<open>C15: an update of a GRANDPA client that goes through is backed. Its block is the highest of the
  supplied headers and descends from the latest known relay chain block; the commit for it is
  valid and every vote of it is signed for the current authority set; the relay chain height
  increases, the authorities are those that the block announces, or the old ones. Every new
  consensus state has the state root of a parachain header proven in the state of a finalized relay
  chain header, at a new height above the old and up to the new latest height.\<close>

theorem finality_update_sound:
  assumes "handle_client_message G C tm s cache i c (HeaderMessage m) = Some (Inr (c', Some u, cache'))"
  shows "moves_to G c (gh_finality_proof m) c'
    \<and> (\<exists>highest j route states.
      finalizes G (into_verifier_state c) (gh_finality_proof m) highest j route
    \<and> justified G j (current_set_id c) (current_authorities c)
    \<and> u = Batch states
    \<and> (\<forall>(h, k) \<in> set states.
         backed_state G s i (para_id c) (ancestry_chain_new G (unknown_headers (gh_finality_proof m))) route
           (gh_parachain_headers m) h k
         \<and> latest_height c < h \<and> h \<le> latest_height c'))"
proof -
  let ?fp = "gh_finality_proof m"
  from assms obtain d where verified: "verify_parachain_headers_with_grandpa_finality_proof G
      (into_verifier_state c) (with_finality_proof m) = Some (Inr d)"
    and upd: "update_state G C tm s cache i c (HeaderMessage m) = Some (Inr (c', u, cache'))"
    by (auto simp: handle_client_message_def header_message_verified split: if_splits)
  obtain highest j route where fin: "finalizes G (into_verifier_state c) ?fp highest j route"
    by (rule finality_proof_taken [OF verified]) (rule that, simp)
  then have just: "justified G j (current_set_id c) (current_authorities c)"
    and w: "walk (ancestry_chain_new G (unknown_headers ?fp)) (latest_relay_hash c) (fp_block ?fp) route"
    using justification_verified [of G j] by (simp_all add: finalizes_def into_verifier_state_def)
  from fin just update_state_moves [OF upd] update_state_states [OF upd w] show ?thesis
    by blast
qed

section \<open>Honest chains\<close>

text \<open>Headers in ascending order, each the child of the one before, the first the child of \<open>parent\<close>.\<close>

fun extends :: "'z grandpa_scheme \<Rightarrow> h256 \<Rightarrow> relay_header list \<Rightarrow> bool" where
  "extends G parent [] \<longleftrightarrow> True"
| "extends G parent (h # hs) \<longleftrightarrow> hdr_parent_hash h = parent \<and> extends G (header_hash G h) hs"

definition honest :: "'z grandpa_scheme \<Rightarrow> h256 \<Rightarrow> relay_header list \<Rightarrow> bool" where
  "honest G parent hs \<longleftrightarrow>
     0 < length hs \<and> extends G parent hs \<and> sorted_wrt (\<lambda>a b. hdr_number a < hdr_number b) hs
     \<and> distinct (parent # map (header_hash G) hs)"

lemma extends_append:
  "extends G parent (xs @ ys) \<longleftrightarrow>
     extends G parent xs \<and> extends G (last (parent # map (header_hash G) xs)) ys"
  by (induction xs arbitrary: parent) auto

lemma honest_prefix: "honest G parent (hs @ later) \<Longrightarrow> 0 < length hs \<Longrightarrow> honest G parent hs"
  by (auto simp: honest_def extends_append sorted_wrt_append)

lemma ancestry_chain_distinct:
  assumes "distinct (map (header_hash G) hs)" and "h \<in> set hs"
  shows "ancestry_chain_new G hs (header_hash G h) = Some h"
  unfolding ancestry_chain_new_def
  using assms by (intro map_of_is_SomeI) (simp_all add: rev_map [symmetric] comp_def)

lemma extends_walk:
  "extends G parent hs \<Longrightarrow> distinct (parent # map (header_hash G) hs) \<Longrightarrow>
     (\<And>h. h \<in> set hs \<Longrightarrow> chain (header_hash G h) = Some h) \<Longrightarrow>
     walk chain parent (last (parent # map (header_hash G) hs)) (rev (parent # map (header_hash G) hs))"
proof (induction hs rule: rev_induct)
  case Nil
  then show ?case by (simp add: walk_self)
next
  case (snoc h hs)
  let ?tip = "last (parent # map (header_hash G) hs)"
  have w: "walk chain parent ?tip (rev (parent # map (header_hash G) hs))"
    using snoc by (auto simp: extends_append)
  have "hdr_parent_hash h = ?tip" and "header_hash G h \<noteq> parent" and "chain (header_hash G h) = Some h"
    using snoc.prems by (auto simp: extends_append)
  with w walk_step [of "header_hash G h" parent chain h] show ?case
    by simp
qed

lemma honest_walk:
  assumes "honest G parent hs"
  shows "walk (ancestry_chain_new G hs) parent (header_hash G (last hs))
    (rev (parent # map (header_hash G) hs))"
    and "\<exists>r. walk (ancestry_chain_new G hs) (header_hash G (hd hs)) (header_hash G (last hs)) r"
proof -
  obtain x xs where hs: "hs = x # xs"
    using assms by (cases hs) (auto simp: honest_def)
  have found: "ancestry_chain_new G hs (header_hash G h) = Some h" if "h \<in> set hs" for h
    using assms that by (intro ancestry_chain_distinct) (simp_all add: honest_def)
  have "walk (ancestry_chain_new G hs) parent (last (parent # map (header_hash G) hs))
      (rev (parent # map (header_hash G) hs))"
    using assms found by (intro extends_walk) (simp_all add: honest_def)
  then show "walk (ancestry_chain_new G hs) parent (header_hash G (last hs))
      (rev (parent # map (header_hash G) hs))"
    by (simp add: hs last_map split: if_splits)
  have "walk (ancestry_chain_new G hs) (header_hash G x) (last (header_hash G x # map (header_hash G) xs))
      (rev (header_hash G x # map (header_hash G) xs))"
    using assms found hs by (intro extends_walk) (auto simp: honest_def)
  then show "\<exists>r. walk (ancestry_chain_new G hs) (header_hash G (hd hs)) (header_hash G (last hs)) r"
    by (auto simp: hs last_map split: if_splits)
qed

lemma honest_ends:
  assumes "honest G parent hs"
  shows "min_by_key hdr_number hs = Some (hd hs)" and "max_by_key hdr_number hs = Some (last hs)"
    and "hdr_parent_hash (hd hs) = parent"
  using assms by_key_ascending [of hdr_number "hd hs" "tl hs"] by (cases hs; simp add: honest_def)+

section \<open>Freezing without a fault\<close>

lemma is_ok_call_ok [simp]: "is_ok_call (Some (Inr x)) = Some (Inr True)"
  by (simp add: is_ok_call_def)

lemma misbehaviour_accepted:
  assumes "fp_block p \<noteq> fp_block q"
    and "max_by_key hdr_number (unknown_headers p) = Some t1" and "header_hash G t1 = fp_block p"
    and "max_by_key hdr_number (unknown_headers q) = Some t2" and "header_hash G t2 = fp_block q"
    and "min_by_key hdr_number (unknown_headers p) = Some b1"
    and "min_by_key hdr_number (unknown_headers q) = Some b2"
    and "ancestry (ancestry_chain_new G (unknown_headers p)) (header_hash G b1) (fp_block p) = Some (Inr r1)"
    and "ancestry (ancestry_chain_new G (unknown_headers q)) (header_hash G b2) (fp_block q) = Some (Inr r2)"
    and "hdr_parent_hash b1 = hdr_parent_hash b2" and "contains_relay_header_hash (hdr_parent_hash b2) cache"
    and "decode_justification G (fp_justification p) = Some j1"
    and "decode_justification G (fp_justification q) = Some j2"
    and "commit_target_hash (just_commit j1) = fp_block p"
    and "commit_target_hash (just_commit j2) = fp_block q"
    and "justification_verify G j1 (current_set_id c) (current_authorities c) = Some (Inr ())"
    and "justification_verify G j2 (current_set_id c) (current_authorities c) = Some (Inr ())"
  shows "verify_misbehaviour G C cache c p q = Some (Inr ())"
  unfolding verify_misbehaviour_def Let_def
  using assms by simp

text \<open>C17: two finality proofs of different blocks of one and the same chain, each with the headers
  from a known block on, count as misbehaviour: the check asks for different blocks and a common
  ancestor, not for a fork. Whoever submits two justifications of the honest relay chain freezes the
  client, and from then on every proof at its latest height is refused.\<close>

theorem honest_chain_freezes:
  assumes "honest G parent (hs @ later)" and "0 < length hs" and "0 < length later"
    and "contains_relay_header_hash parent cache"
    and "decode_justification G b1 = Some j1" and "decode_justification G b2 = Some j2"
    and "commit_target_hash (just_commit j1) = header_hash G (last hs)"
    and "commit_target_hash (just_commit j2) = header_hash G (last later)"
    and "justification_verify G j1 (current_set_id c) (current_authorities c) = Some (Inr ())"
    and "justification_verify G j2 (current_set_id c) (current_authorities c) = Some (Inr ())"
  shows "\<exists>c'. handle_client_message G C tm s cache i c
      (MisbehaviourMessage
        \<lparr>fp_block = header_hash G (last hs), fp_justification = b1, unknown_headers = hs\<rparr>
        \<lparr>fp_block = header_hash G (last later), fp_justification = b2, unknown_headers = hs @ later\<rparr>)
      = Some (Inr (c', None, cache))
    \<and> frozen_height c' = Some (latest_height c)
    \<and> (\<exists>e. verify_height c' (latest_height c) = fail_with e)"
proof -
  have h1: "honest G parent hs"
    using assms(1,2) by (rule honest_prefix)
  have l: "last (hs @ later) = last later"
    using assms(3) by simp
  have "header_hash G (last hs) \<in> header_hash G ` set hs"
    and "header_hash G (last later) \<in> header_hash G ` set later"
    using assms(2,3) by simp_all
  moreover have "header_hash G ` set hs \<inter> header_hash G ` set later = {}"
    using assms(1) by (simp add: honest_def)
  ultimately have tips: "header_hash G (last hs) \<noteq> header_hash G (last later)"
    by (metis disjoint_iff)
  obtain r1 where
    r1: "ancestry (ancestry_chain_new G hs) (header_hash G (hd hs)) (header_hash G (last hs)) = Some (Inr r1)"
    using honest_walk(2) [OF h1] unfolding ancestry_eq_Inr ..
  obtain r2 where r2: "ancestry (ancestry_chain_new G (hs @ later)) (header_hash G (hd (hs @ later)))
      (header_hash G (last later)) = Some (Inr r2)"
    using honest_walk(2) [OF assms(1), unfolded l] unfolding ancestry_eq_Inr ..
  have "hd (hs @ later) = hd hs"
    using assms(2) by simp
  then have "verify_misbehaviour G C cache c
      \<lparr>fp_block = header_hash G (last hs), fp_justification = b1, unknown_headers = hs\<rparr>
      \<lparr>fp_block = header_hash G (last later), fp_justification = b2, unknown_headers = hs @ later\<rparr>
    = Some (Inr ())"
    using r1 r2 tips assms(4-10) honest_ends [OF h1] honest_ends [OF assms(1), unfolded l]
    by (intro misbehaviour_accepted [where ?t1.0 = "last hs" and ?t2.0 = "last later" and ?b1.0 = "hd hs"
          and ?b2.0 = "hd hs" and ?j1.0 = j1 and ?j2.0 = j2 and ?r1.0 = r1 and ?r2.0 = r2]) simp_all
  then show ?thesis
    by (intro exI [of _ "update_state_on_misbehaviour c"])
      (simp add: handle_client_message_def update_state_on_misbehaviour_def verify_height_def
        latest_height_def)
qed

lemma chain_with_header:
  assumes "header_hash G f \<notin> header_hash G ` set hs"
  shows "ancestry_chain_new G hs \<subseteq>\<^sub>m ancestry_chain_new G (f # hs)"
    and "ancestry_chain_new G (f # hs) (header_hash G f) = Some f"
proof -
  have split: "ancestry_chain_new G (f # hs) = [header_hash G f \<mapsto> f] ++ ancestry_chain_new G hs"
    by (simp add: ancestry_chain_new_def map_of_append)
  then show "ancestry_chain_new G hs \<subseteq>\<^sub>m ancestry_chain_new G (f # hs)"
    by (simp add: map_le_map_add)
  have "ancestry_chain_new G hs (header_hash G f) = None"
    using assms dom_ancestry_chain_new [of G hs] by blast
  then show "ancestry_chain_new G (f # hs) (header_hash G f) = Some f"
    by (simp add: split map_add_def)
qed

lemma finalizes_with_header:
  assumes "finalizes G c fp target j route" and "header_hash G f \<notin> header_hash G ` set (unknown_headers fp)"
    and "hdr_number f \<le> hdr_number target" and "vs_latest_relay_height c \<le> hdr_number f"
  shows "finalizes G c (fp\<lparr>unknown_headers := f # unknown_headers fp\<rparr>) target j route"
proof -
  let ?hs = "unknown_headers fp"
  obtain base where base: "min_by_key hdr_number ?hs = Some base" "base_known G c ?hs base"
    and top: "max_by_key hdr_number ?hs = Some target"
    using assms(1) by (auto simp: finalizes_def)
  have "min_by_key hdr_number (f # ?hs) = Some (if hdr_number f \<le> hdr_number base then f else base)"
    and max: "max_by_key hdr_number (f # ?hs) = Some target"
    using base(1) top assms(3) by simp_all
  moreover have "base_known G c (f # ?hs) (if hdr_number f \<le> hdr_number base then f else base)"
    using base(2) assms(4) walk_mono [OF _ chain_with_header(1) [OF assms(2)]]
    by (auto simp: base_known_def)
  ultimately show ?thesis
    using assms(1) walk_mono [OF _ chain_with_header(1) [OF assms(2)]] by (auto simp: finalizes_def)
qed

text \<open>C16: a header that is not part of the finalized chain freezes the client. Verification skips
  the parachain headers of such a relay chain header, but the look for misbehaviour does not: to a
  message that verifies anyone can add a made-up header, with any state root and parent, that
  carries a forced authority change, and the client is frozen.\<close>

theorem forged_header_freezes:
  assumes "verify_client_message G C cache c (HeaderMessage m) = Some (Inr ())"
    and "header_hash G f \<notin> header_hash G ` set (unknown_headers (gh_finality_proof m))"
    and "header_hash G f \<noteq> latest_relay_hash c"
    and "latest_relay_height c \<le> hdr_number f"
    and "h \<in> set (unknown_headers (gh_finality_proof m))" and "hdr_number f \<le> hdr_number h"
    and "find_forced_change G f = Some d"
  shows "handle_client_message G C tm s cache i c
      (HeaderMessage (m\<lparr>
        gh_finality_proof := (gh_finality_proof m)
          \<lparr>unknown_headers := f # unknown_headers (gh_finality_proof m)\<rparr>,
        gh_parachain_headers := [(header_hash G f, p)]\<rparr>))
    = Some (Inr (c\<lparr>frozen_height := Some (latest_height c)\<rparr>, None, cache))"
proof -
  let ?fp = "gh_finality_proof m" and ?c = "into_verifier_state c"
  let ?fp' = "?fp\<lparr>unknown_headers := f # unknown_headers ?fp\<rparr>"
  let ?m = "m\<lparr>gh_finality_proof := ?fp', gh_parachain_headers := [(header_hash G f, p)]\<rparr>"
  from assms(1) obtain c' where verified: "verify_parachain_headers_with_grandpa_finality_proof G ?c
      (with_finality_proof m) = Some (Inr c')" and para: "ucast (para_id c) = revision_number (gh_height m)"
    by (auto simp: header_message_verified)
  obtain target j route ns where fin: "finalizes G ?c ?fp target j route"
    and st: "new_verifier_state G ?c target ns (ucast (revision_height (gh_height m))) = Inr c'"
    by (rule finality_proof_taken [OF verified]) (rule that; simp)
  have "hdr_number h \<le> hdr_number target"
    using fin assms(5) max_by_key_Some [of hdr_number] by (auto simp: finalizes_def)
  then have fin': "finalizes G ?c ?fp' target j route"
    using fin assms(2,4,6) by (intro finalizes_with_header) (auto simp: into_verifier_state_def)
  have w: "walk (ancestry_chain_new G (unknown_headers ?fp)) (latest_relay_hash c) (fp_block ?fp) route"
    using fin by (simp add: finalizes_def into_verifier_state_def)
  have skipped: "header_hash G f \<notin> set route"
    using walk_covers [OF w] assms(2,3) unfolding dom_ancestry_chain_new by blast
  obtain c'' where st': "new_verifier_state G ?c target [] (ucast (revision_height (gh_height m))) = Inr c''"
    using st by (auto simp: new_verifier_state_def list_max_def split: prod.splits)
  have "verify_parachain_headers_with_grandpa_finality_proof G ?c (with_finality_proof ?m) = Some (Inr c'')"
    using fin' skipped st' by (intro finality_proof_accepted [of G ?c "with_finality_proof ?m" target j route "[]"]) simp_all
  then have v: "verify_header_message G C c ?m = Some (Inr ())"
    using para header_message_verified [of G C c ?m] by simp
  have "check_for_misbehaviour G C tm s i c (HeaderMessage ?m) = Inr True"
    using assms(7) chain_with_header(2) [OF assms(2)] by (simp add: chain_header_def)
  with v show ?thesis
    by (simp add: handle_client_message_def update_state_on_misbehaviour_def latest_height_def
        del: check_for_misbehaviour.simps)
qed

section \<open>The cache of relay chain hashes\<close>

definition cache_ok :: "relay_cache \<Rightarrow> bool" where
  "cache_ok cache \<longleftrightarrow> length (header_hashes cache) \<le> cache_size
     \<and> header_hashes_set cache \<subseteq> set (header_hashes cache)"

lemma set_in_short_list: "A \<subseteq> set xs \<Longrightarrow> length xs < n \<Longrightarrow> card A < n"
  using card_mono [of "set xs" A] card_length [of xs] by simp

lemma insert_hash_ok:
  assumes "cache_ok cache"
  shows "\<exists>cache'. insert_relay_header_hash h cache = Inr cache' \<and> cache_ok cache'
    \<and> contains_relay_header_hash h cache'"
proof (cases "length (header_hashes cache) < cache_size")
  case True
  with assms set_in_short_list [of "header_hashes_set cache" "header_hashes cache" cache_size] show ?thesis
    by (auto simp: insert_relay_header_hash_def cache_ok_def contains_relay_header_hash_def)
next
  case False
  with assms have full: "length (header_hashes cache) = cache_size"
    by (simp add: cache_ok_def)
  then obtain old kept where hashes: "header_hashes cache = old # kept"
    by (cases "header_hashes cache") (auto simp: cache_size_def)
  have kept: "header_hashes_set cache - {old} \<subseteq> set kept" and short: "length kept < cache_size"
    using assms hashes full by (auto simp: cache_ok_def)
  from set_in_short_list [OF this] have "card (header_hashes_set cache - {old}) < cache_size" .
  with kept short hashes full show ?thesis
    by (auto simp: insert_relay_header_hash_def cache_ok_def contains_relay_header_hash_def)
qed

lemma insert_hashes_ok:
  "cache_ok cache \<Longrightarrow> \<exists>cache'. insert_relay_header_hashes hs cache = Inr cache' \<and> cache_ok cache'"
proof (induction hs arbitrary: cache)
  case Nil
  then show ?case by simp
next
  case (Cons h hs)
  then show ?case
    using insert_hash_ok [OF Cons.prems, of h] by fastforce
qed

text \<open>
  The vector keeps duplicates, and every update inserts the block it starts from a second time. When
  the first copy of a hash leaves the full vector, the set forgets the hash, whose second copy stays.
\<close>

lemma cache_forgets_duplicate:
  assumes "header_hashes cache = h # kept" and "length (header_hashes cache) = cache_size"
    and "h \<in> set kept" and "x \<noteq> h"
    and "insert_relay_header_hash x cache = Inr cache'"
  shows "h \<in> set (header_hashes cache') \<and> \<not> contains_relay_header_hash h cache'"
  using assms by (auto simp: insert_relay_header_hash_def contains_relay_header_hash_def split: if_splits)

section \<open>Honest updates\<close>

text \<open>
  A parachain header that an honest relayer adds: it is proven in the state of one of the supplied
  headers, which announces no forced change, its timestamp extrinsic is proven and decodes, and its
  height is above the latest one and has no consensus state yet.
\<close>

definition honest_head ::
    "'z grandpa_scheme \<Rightarrow> (int \<Rightarrow> bool) \<Rightarrow> ('st, 'x any_consensus_state, 'app) host \<Rightarrow> client_id
       \<Rightarrow> grandpa_client_state \<Rightarrow> relay_header list \<Rightarrow> h256 \<times> parachain_header_proofs \<Rightarrow> u32 \<Rightarrow> bool" where
  "honest_head G tm s i c hs hp n \<longleftrightarrow>
     (\<exists>relay \<in> set hs. \<exists>k. fst hp = header_hash G relay
      \<and> find_forced_change G relay = None
      \<and> check_parachain_header G (ancestry_chain_new G hs) (para_id c) (fst hp) (snd hp) = Inr n
      \<and> from_header G tm (snd hp) (para_id c) (hdr_state_root relay)
          = Inr (Height (ucast (para_id c)) (ucast n), k)
      \<and> consensus_states_get s (i, Height (ucast (para_id c)) (ucast n)) = None
      \<and> latest_para_height c < n)"

lemma honest_heads_pass:
  assumes "distinct (map (header_hash G) hs)" and "list_all2 (honest_head G tm s i c hs) phs ns"
    and "header_hash G ` set hs \<subseteq> set route"
  shows "check_parachain_headers G (ancestry_chain_new G hs) route (para_id c) phs = Inr ns
    \<and> competing_headers G C tm s i c (ancestry_chain_new G hs) phs = Inr False
    \<and> (\<exists>states. new_consensus_states G C tm s i c (ancestry_chain_new G hs) route phs = Inr states
         \<and> map fst states = map (\<lambda>n. Height (ucast (para_id c)) (ucast n)) ns)"
  using assms(2)
proof (induction rule: list_all2_induct)
  case Nil
  then show ?case by simp
next
  case (Cons hp phs n ns)
  obtain relay k where relay: "relay \<in> set hs" "fst hp = header_hash G relay"
    "find_forced_change G relay = None"
    "check_parachain_header G (ancestry_chain_new G hs) (para_id c) (fst hp) (snd hp) = Inr n"
    "from_header G tm (snd hp) (para_id c) (hdr_state_root relay)
      = Inr (Height (ucast (para_id c)) (ucast n), k)"
    "consensus_states_get s (i, Height (ucast (para_id c)) (ucast n)) = None"
    using Cons.hyps(1) by (auto simp: honest_head_def)
  have "ancestry_chain_new G hs (header_hash G relay) = Some relay"
    using assms(1) relay(1) by (rule ancestry_chain_distinct)
  moreover have "header_hash G relay \<in> set route"
    using assms(3) relay(1) by blast
  moreover have "maybe_consensus_state s i (Height (ucast (para_id c)) (ucast n)) = Inr None"
    using relay(6) by (simp add: maybe_consensus_state_def get_consensus_state_def fail_with_def)
  ultimately show ?case
    using relay Cons.IH by (cases hp) (auto simp: chain_header_def get_consensus_state_def height_of_u32)
qed

lemma max_of_heights:
  fixes ns :: "u32 list"
  assumes "hi \<in> set ns" and "\<And>n. n \<in> set ns \<Longrightarrow> n \<le> hi"
  shows "list_max ns = Some hi" and "last (sort ns) = hi"
proof -
  obtain x where x: "max_by_key id ns = Some x"
    using assms(1) by (cases "max_by_key id ns") auto
  with max_by_key_Some [OF x] assms show "list_max ns = Some hi"
    by (force simp: list_max_def)
  have "sort ns \<noteq> []"
    using assms(1) by (metis empty_iff list.set(1) set_sort)
  then have sorted: "sorted (butlast (sort ns) @ [last (sort ns)])" and in_ns: "last (sort ns) \<in> set ns"
    using last_in_set [of "sort ns"] by simp_all
  have "hi \<in> set (butlast (sort ns) @ [last (sort ns)])"
    using assms(1) \<open>sort ns \<noteq> []\<close> by simp
  with sorted have "hi \<le> last (sort ns)"
    by (auto simp: sorted_append)
  with in_ns assms(2) show "last (sort ns) = hi"
    by (meson order_antisym)
qed

text \<open>The height that an honest message announces: the highest of its parachain headers, if any.\<close>

definition announces :: "u32 \<Rightarrow> u32 list \<Rightarrow> u32 \<Rightarrow> bool" where
  "announces old ns hi \<longleftrightarrow>
     (if ns = [] then hi = old else hi \<in> set ns \<and> (\<forall>n \<in> set ns. old < n \<and> n \<le> hi))"

lemma announced_advance:
  assumes "announces (latest_para_height c) ns hi"
  shows "advance_para_height c ns = Inr hi"
proof (cases "sort ns")
  case Nil
  with assms show ?thesis
    using set_sort [of "\<lambda>x. x" ns] by (auto simp: announces_def advance_para_height_def)
next
  case (Cons m rest)
  have "m \<in> set ns"
    using Cons by (metis list.set_intros(1) set_sort)
  moreover have "last (sort ns) = hi"
    using assms \<open>m \<in> set ns\<close> by (intro max_of_heights) (auto simp: announces_def split: if_splits)
  ultimately show ?thesis
    using assms Cons by (auto simp: advance_para_height_def announces_def not_le split: if_splits)
qed

lemma rotate_authorities_total:
  assumes "unat n + 1 < 2 ^ 64"
  shows "\<exists>r. rotate_authorities G target n as = Inr r"
  using assms checked_add_eq_Some [of n 1 "n + 1"]
  by (auto simp: rotate_authorities_def split: option.splits)

lemma announced_verifier_state:
  assumes "announces (vs_latest_para_height v) ns hi" and "unat (vs_current_set_id v) + 1 < 2 ^ 64"
  shows "\<exists>d. new_verifier_state G v target ns hi = Inr d"
proof -
  have "(case list_max ns of
      Some max_height \<Rightarrow> if max_height \<noteq> hi
        then anyhow ''Latest parachain header height doesn't match the one in the proof''
        else Inr max_height
    | None \<Rightarrow> Inr (vs_latest_para_height v)) = Inr hi"
    using assms(1) max_of_heights(1) [of hi ns] by (auto simp: announces_def list_max_def split: if_splits)
  moreover obtain r where "rotate_authorities G target (vs_current_set_id v) (vs_current_authorities v)
      = (Inr r :: (u64 \<times> authority_list, grandpa_error) res)"
    using rotate_authorities_total [OF assms(2)] by blast
  ultimately show ?thesis
    by (cases r) (simp add: new_verifier_state_def)
qed

lemma honest_finalizes:
  assumes "honest G (vs_latest_relay_hash v) hs" and "vs_latest_relay_height v < hdr_number (hd hs)"
    and "decode_justification G b = Some j" and "commit_target_hash (just_commit j) = header_hash G (last hs)"
    and "justification_verify G j (vs_current_set_id v) (vs_current_authorities v) = Some (Inr ())"
  shows "finalizes G v \<lparr>fp_block = header_hash G (last hs), fp_justification = b, unknown_headers = hs\<rparr>
    (last hs) j (rev (vs_latest_relay_hash v # map (header_hash G) hs))"
  using assms honest_ends [OF assms(1)] honest_walk(1) [OF assms(1)]
  by (simp add: finalizes_def base_known_def less_imp_le)

lemma honest_update_state:
  assumes "walk (ancestry_chain_new G (unknown_headers (gh_finality_proof m))) (latest_relay_hash c)
      (fp_block (gh_finality_proof m)) route"
    and "new_consensus_states G C tm s i c (ancestry_chain_new G (unknown_headers (gh_finality_proof m)))
      route (gh_parachain_headers m) = Inr states"
    and "ancestry_chain_new G (unknown_headers (gh_finality_proof m)) (fp_block (gh_finality_proof m)) = Some target"
    and "latest_relay_height c < hdr_number target"
    and "advance_para_height c (map (\<lambda>(h, _). ucast (revision_height h)) states) = Inr n"
    and "unat (current_set_id c) + 1 < 2 ^ 64" and "cache_ok cache"
  shows "\<exists>c' cache'. update_state G C tm s cache i c (HeaderMessage m) = Some (Inr (c', Batch states, cache'))
    \<and> latest_relay_hash c' = fp_block (gh_finality_proof m) \<and> latest_para_height c' = n
    \<and> para_id c' = para_id c \<and> cache_ok cache'"
proof -
  obtain set_id authorities where "rotate_authorities G target (current_set_id c) (current_authorities c)
      = (Inr (set_id, authorities) :: (u64 \<times> authority_list, ics02_error) res)"
    using rotate_authorities_total [OF assms(6)] by fast
  moreover obtain cache' where "insert_relay_header_hashes route cache = (Inr cache' :: (relay_cache, ics02_error) res)"
    and "cache_ok cache'"
    using insert_hashes_ok [OF assms(7)] by blast
  ultimately show ?thesis
    using assms(2-5) assms(1) [folded ancestry_eq_Inr] by (simp add: update_state_def Let_def chain_header_def)
qed


section \<open>Upgrades and proofs\<close>

text \<open>C40: no upgrade of a GRANDPA client succeeds. Where the proof of the new client state is right,
  the client state instead of the consensus state is wrapped as a consensus state, and the call
  panics; the new consensus state is never compared with a proof.\<close>

theorem upgrade_never_succeeds:
  "res_ok (verify_upgrade_and_update_state G C s i old new new_consensus client_proof consensus_proof) = None
   \<and> (case (consensus_states_get s (i, latest_height old), enc_client_state C (GrandpaState new)) of
        (Some (GrandpaConsensus k), Some b) \<Rightarrow>
          (case (decode_nodes G client_proof, decode_nodes G consensus_proof) of
             (Some nodes, Some _) \<Rightarrow>
               if check_upgrade_proof G C (root_bytes (gc_root k)) CLIENT_STATE_UPGRADE_PATH nodes b = Inr ()
               then verify_upgrade_and_update_state G C s i old new new_consensus client_proof consensus_proof
                    = Inl Panic
               else True
           | _ \<Rightarrow> True)
      | _ \<Rightarrow> True)"
proof -
  have "res_ok (verify_upgrade_and_update_state G C s i old new new_consensus client_proof consensus_proof) = None"
    by (cases "verify_upgrade_and_update_state G C s i old new new_consensus client_proof consensus_proof")
      (auto simp: verify_upgrade_and_update_state_def Let_def)
  then show ?thesis
    by (auto simp: verify_upgrade_and_update_state_def Let_def latest_height_def get_consensus_state_def
        h256_from_slice_def panics_def split: option.splits any_consensus_state.splits)
qed

text \<open>
  What a proof about the counterparty shows: in the child trie under the prefix, in the trie with the
  proven root, the path has the value.
\<close>

definition child_value ::
    "'z grandpa_scheme \<Rightarrow> commitment_prefix \<Rightarrow> commitment_proof_bytes \<Rightarrow> commitment_root \<Rightarrow> path
       \<Rightarrow> bytes option \<Rightarrow> bool" where
  "child_value G prefix pf root path v \<longleftrightarrow>
     (\<exists>nodes child_root found. decode_nodes G (proof_bytes pf) = Some nodes \<and> length (root_bytes root) = 32
      \<and> trie_get G nodes (root_bytes root) (prefixed_storage_key G (prefix_bytes prefix)) = Some (Some child_root)
      \<and> child_trie_get G nodes (keyspace G (prefix_bytes prefix)) child_root
          (prefix_bytes prefix @ as_bytes (path_display path)) = Some found
      \<and> Option.bind found (decode_bytes G) = v)"

lemma membership_shown:
  assumes "verify_membership G prefix pf root path v = Inr ()"
  shows "child_value G prefix pf root path (Some v)"
proof -
  from assms obtain nodes where "decode_nodes G (proof_bytes pf) = Some nodes" "length (root_bytes root) = 32"
    "read_child_proof_check G (root_bytes root) nodes (prefix_bytes prefix)
      [(prefix_bytes prefix @ as_bytes (path_display path), Some v)] = Inr ()"
    by (auto simp: verify_membership_def h256_from_slice_def Let_def split: if_splits)
  then show ?thesis
    unfolding child_value_def by (blast elim: read_child_proof_check_ok)
qed

lemma absence_shown:
  assumes "verify_non_membership G prefix pf root path = Inr ()"
  shows "child_value G prefix pf root path None"
proof -
  from assms obtain nodes where "decode_nodes G (proof_bytes pf) = Some nodes" "length (root_bytes root) = 32"
    "read_child_proof_check G (root_bytes root) nodes (prefix_bytes prefix)
      [(prefix_bytes prefix @ as_bytes (path_display path), None)] = Inr ()"
    by (auto simp: verify_non_membership_def h256_from_slice_def Let_def split: if_splits)
  then show ?thesis
    unfolding child_value_def by (blast elim: read_child_proof_check_ok)
qed

text \<open>The client has a consensus state for the height, is not frozen at it, and the delay has passed.\<close>

definition proof_ready ::
    "'z grandpa_scheme \<Rightarrow> ('st, 'k, 'msg, 'app) env \<Rightarrow> ('st, 'k, 'app) host \<Rightarrow> grandpa_client_state
       \<Rightarrow> height \<Rightarrow> connection_end \<Rightarrow> bool" where
  "proof_ready G E s c h e \<longleftrightarrow>
     h \<le> latest_height c \<and> (case frozen_height c of None \<Rightarrow> True | Some f \<Rightarrow> h < f)
     \<and> (\<exists>now processed earliest ph eh.
          host_timestamp E s = (Inr now :: (timestamp, string) res)
        \<and> client_update_time E s (conn_client_id e) h = Inr processed
        \<and> timestamp_add (tm_representable E) processed (conn_delay_period e) = Inr earliest
        \<and> (now = earliest \<or> timestamp_after now earliest)
        \<and> client_update_height s (conn_client_id e) h = Inr ph
        \<and> height_add ph (calculate_block_delay G (conn_delay_period e) (max_expected_time_per_block G))
            = (Inr eh :: (height, string) res)
        \<and> eh \<le> host_height s)"

lemma after_delay_ready:
  assumes "after_delay G C E s c h e = Inr ()"
  shows "proof_ready G E s c h e"
proof -
  from assms have height: "verify_height c h = Inr ()" and delay: "verify_delay_passed G E s h e = Inr ()"
    by (auto simp: after_delay_def)
  from height have h: "h \<le> latest_height c" "case frozen_height c of None \<Rightarrow> True | Some f \<Rightarrow> h < f"
    by (auto simp: verify_height_def not_less not_le split: if_splits option.splits)
  show ?thesis
    unfolding proof_ready_def
    by (intro conjI h) (rule verify_delay_passed_ok [OF delay], (rule exI conjI | assumption)+)
qed

text \<open>C23: what the GRANDPA client checks of a proof about a packet. When it accepts a commitment, an
  acknowledgement or the absence of a receipt, the height is known and not frozen, the delay of the
  connection has passed in time and in blocks since that height was stored, and the trie under the
  root has in the child trie of the counterparty's prefix just that value, or none, under the path of
  the packet.\<close>

theorem packet_proof_checked:
  "(verify_packet_data G C E s c h e pf root p ch sq v = Inr () \<longrightarrow>
      proof_ready G E s c h e
      \<and> child_value G (cpty_prefix (conn_counterparty e)) pf root (CommitmentsPath p ch sq) (Some v))
   \<and> (verify_packet_acknowledgement G C E s c h e pf root p ch sq v = Inr () \<longrightarrow>
      proof_ready G E s c h e
      \<and> child_value G (cpty_prefix (conn_counterparty e)) pf root (AcksPath p ch sq) (Some v))
   \<and> (grandpa_verify_packet_receipt_absence G C E s c h e pf root p ch sq = Inr () \<longrightarrow>
      proof_ready G E s c h e
      \<and> child_value G (cpty_prefix (conn_counterparty e)) pf root (ReceiptsPath p ch sq) None)"
  unfolding verify_packet_data_def verify_packet_acknowledgement_def grandpa_verify_packet_receipt_absence_def
    check_member_def
  by (auto intro: after_delay_ready membership_shown absence_shown)

section \<open>A sample relay chain\<close>

text \<open>
  An instance of the packages: a hash of the block number and the extrinsics root, justifications that
  consist of the hash of their target, signatures and proofs that always pass, a parachain header
  number 7 in every state. On it, a client that knows block 10 and the blocks 11 and 12.
\<close>

definition sample_justification :: "bytes \<Rightarrow> justification" where
  "sample_justification b =
     \<lparr>just_round = 1,
      just_commit =
        \<lparr>commit_target_hash = b, commit_target_number = 0,
         commit_precommits =
           [\<lparr>sp_precommit = \<lparr>target_hash = b, target_number = 0\<rparr>, sp_signature = [], sp_id = []\<rparr>]\<rparr>,
      votes_ancestries = []\<rparr>"

definition sample_grandpa :: grandpa where
  "sample_grandpa =
     \<lparr>db_contains = (\<lambda>_ _. True), trie_get = (\<lambda>_ root _. Some (Some root)),
      child_trie_get = (\<lambda>_ _ _ _. Some (Some [9])),
      prefixed_storage_key = (\<lambda>p. p), keyspace = (\<lambda>p. p), decode_bytes = Some,
      decode_nodes = (\<lambda>b. Some [b]), decode_call_timestamp = (\<lambda>_. Some 5),
      verify_trie_proof = (\<lambda>_ _ _. True), ceil_secs_quotient = (\<lambda>_ _. 1), ExpectedBlockTime = 12000,
      header_hash = (\<lambda>h. ucast (hdr_number h) # hdr_extrinsics_root h),
      decode_header = (\<lambda>_. Some \<lparr>hdr_parent_hash = [], hdr_number = 7, hdr_state_root = [1],
        hdr_extrinsics_root = [], hdr_digest = []\<rparr>),
      try_to_log = (\<lambda>_. Some (ForcedChange 0 \<lparr>next_authorities = [], change_delay = 0\<rparr>)),
      decode_justification = (\<lambda>b. Some (sample_justification b)), voter_set_new = Some,
      validate_commit = (\<lambda>_ _ _. Some (Inr \<lparr>is_valid = True, num_duplicated_precommits = 0,
        num_invalid_voters = 0, num_equivocations = 0\<rparr>)),
      encode_vote = (\<lambda>_ _ _. []), ed25519_verify = (\<lambda>_ _ _. True), storage_prefix = (\<lambda>_ _. []),
      twox_64 = (\<lambda>b. b), encode_u32 = (\<lambda>_. []), encode_compact = (\<lambda>_. [])\<rparr>"

definition relay_codec :: "(unit any_client_state, unit any_consensus_state) client_codec" where
  "relay_codec =
     \<lparr>enc_client_state = (\<lambda>_. Some []), enc_consensus_state = (\<lambda>_. Some []), enc_connection = (\<lambda>_. Some []),
      enc_channel = (\<lambda>_. Some []), enc_u64 = (\<lambda>_. []), debug_error = (\<lambda>_. [])\<rparr>"

definition relay_block :: "u32 \<Rightarrow> bytes list \<Rightarrow> relay_header" where
  "relay_block n logs =
     \<lparr>hdr_parent_hash = [ucast (n - 1)], hdr_number = n, hdr_state_root = [0], hdr_extrinsics_root = [],
      hdr_digest = logs\<rparr>"

definition relay_client :: grandpa_client_state where
  "relay_client =
     \<lparr>relay_chain = Kusama, latest_relay_height = 10, latest_relay_hash = [10], frozen_height = None,
      latest_para_height = 3, para_id = 2000, current_set_id = 0, current_authorities = [([], 1)]\<rparr>"

definition sample_cache :: relay_cache where
  "sample_cache = \<lparr>header_hashes = [[10]], header_hashes_set = {[10]}\<rparr>"

definition sample_relay_host :: "(unit, unit any_consensus_state, unit) host" where
  "sample_relay_host =
     \<lparr>trie = Map.empty, ClientUpdateTime = Map.empty, ClientUpdateHeight = Map.empty,
      ChannelCounter = 0, PacketCounter = 0, ClientCounter = 0, ConnectionCounter = 0,
      AcknowledgementCounter = 0, PacketReceiptCounter = 0, ChannelsConnection = Map.empty,
      ConnectionClient = (\<lambda>_. []), ConsensusHeights = (\<lambda>_. []), SendPackets = Map.empty,
      RecvPackets = Map.empty, Acks = Map.empty, app_storage = (),
      PalletPrefix = [], parachain_id = 2001, block_number = 10,
      now_nanos = 1000, BlockHash = [], MinimumConnectionDelay = 0\<rparr>"

definition sample_proofs :: parachain_header_proofs where
  "sample_proofs = \<lparr>state_proof = [], extrinsic = [0, 0], extrinsic_proof = []\<rparr>"

lemma sample_justification_verified [simp]:
  "justification_verify sample_grandpa (sample_justification b) n as = Some (Inr ())"
  by (simp add: justification_verify_def verify_with_voter_set_def sample_grandpa_def
      sample_justification_def check_message_signature_def ancestry_chain_new_def)

lemma sample_honest: "honest sample_grandpa [10] [relay_block 11 [], relay_block 12 []]"
  by (simp add: honest_def relay_block_def sample_grandpa_def)

definition sample_headers :: "relay_header list" where
  "sample_headers = [relay_block 11 [], relay_block 12 []]"

definition relay_update :: grandpa_header where
  "relay_update =
     \<lparr>gh_finality_proof = \<lparr>fp_block = [12], fp_justification = [12], unknown_headers = sample_headers\<rparr>,
      gh_parachain_headers = [([11], sample_proofs)], gh_height = Height 2000 7\<rparr>"

lemma sample_chain:
  "ancestry_chain_new sample_grandpa sample_headers
     = [[11] \<mapsto> relay_block 11 [], [12] \<mapsto> relay_block 12 []]"
  by (simp add: ancestry_chain_new_def sample_headers_def sample_grandpa_def relay_block_def)

lemma sample_ancestry:
  "ancestry [[11] \<mapsto> relay_block 11 [], [12] \<mapsto> relay_block 12 []] [10] [12] = Some (Inr [[12], [11], [10]])"
  by (simp add: ancestry_eq_Inr walk_def parent_of_def relay_block_def)

lemma sample_head:
  "check_parachain_header sample_grandpa [[11] \<mapsto> relay_block 11 [], [12] \<mapsto> relay_block 12 []] 2000 [11] sample_proofs = Inr 7"
  "from_header sample_grandpa (\<lambda>_. True) sample_proofs 2000 [0]
     = Inr (Height 2000 7, \<lparr>gc_timestamp = 5000000, gc_root = CommitmentRoot [1]\<rparr>)"
  by (simp_all add: check_parachain_header_def from_header_def chain_header_def relay_block_def
      sample_grandpa_def sample_proofs_def read_proof_check_def decode_timestamp_extrinsic_def
      millis_to_nanos_def from_nanoseconds_def parachain_header_storage_key_def Let_def)

lemma sample_host_empty [simp]: "consensus_states_get sample_relay_host k = None"
  by (simp add: consensus_states_get_def sample_relay_host_def child_get_def)

lemma relay_update_verified:
  "verify_header_message sample_grandpa relay_codec relay_client relay_update = Some (Inr ())"
proof -
  have "finalizes sample_grandpa (into_verifier_state relay_client) (gh_finality_proof relay_update)
      (relay_block 12 []) (sample_justification [12]) [[12], [11], [10]]"
    using honest_finalizes [of sample_grandpa "into_verifier_state relay_client" sample_headers "[12]"
        "sample_justification [12]"] sample_honest
    by (simp add: relay_update_def relay_client_def into_verifier_state_def sample_headers_def)
       (simp add: sample_grandpa_def sample_justification_def relay_block_def)
  moreover have "check_parachain_headers sample_grandpa (ancestry_chain_new sample_grandpa sample_headers)
      [[12], [11], [10]] 2000 [([11], sample_proofs)] = Inr [7]"
    by (simp add: sample_chain sample_head)
  moreover obtain d where
    "new_verifier_state sample_grandpa (into_verifier_state relay_client) (relay_block 12 []) [7] 7 = Inr d"
    using announced_verifier_state [of "into_verifier_state relay_client" "[7]" 7]
    by (auto simp: announces_def into_verifier_state_def relay_client_def)
  ultimately have "verify_parachain_headers_with_grandpa_finality_proof sample_grandpa
      (into_verifier_state relay_client) (with_finality_proof relay_update) = Some (Inr d)"
    by (intro finality_proof_accepted [where ns = "[7]"])
      (simp_all add: relay_update_def, simp_all add: into_verifier_state_def relay_client_def)
  then have "\<exists>d. verify_parachain_headers_with_grandpa_finality_proof sample_grandpa
      (into_verifier_state relay_client) (with_finality_proof relay_update) = Some (Inr d)" ..
  then show ?thesis
    by (simp add: header_message_verified) (simp add: relay_client_def relay_update_def)
qed

lemma relay_update_runs:
  "\<exists>c' u cache'. handle_client_message sample_grandpa relay_codec (\<lambda>_. True) sample_relay_host sample_cache
      (ClientId ''10-grandpa-0'') relay_client (HeaderMessage relay_update) = Some (Inr (c', Some u, cache'))"
proof -
  let ?i = "ClientId ''10-grandpa-0''" and ?k = "GrandpaConsensus \<lparr>gc_timestamp = 5000000, gc_root = CommitmentRoot [1]\<rparr>"
  have heads: "chain_header (ancestry_chain_new sample_grandpa sample_headers) [11] = Some (relay_block 11 [])"
    and head: "from_header sample_grandpa (\<lambda>_. True) sample_proofs (para_id relay_client)
      (hdr_state_root (relay_block 11 [])) = Inr (Height 2000 7, \<lparr>gc_timestamp = 5000000, gc_root = CommitmentRoot [1]\<rparr>)"
    using sample_head(2) by (simp_all add: chain_header_def sample_chain relay_client_def relay_block_def)
  have "find_forced_change sample_grandpa (relay_block 11 []) = None"
    by (simp add: find_forced_change_def relay_block_def)
  with heads head have check: "check_for_misbehaviour sample_grandpa relay_codec (\<lambda>_. True) sample_relay_host ?i
      relay_client (HeaderMessage relay_update) = Inr False"
    by (simp add: relay_update_def maybe_consensus_state_def get_consensus_state_def fail_with_def)
  have states: "new_consensus_states sample_grandpa relay_codec (\<lambda>_. True) sample_relay_host ?i relay_client
      (ancestry_chain_new sample_grandpa sample_headers) [[12], [11], [10]] [([11], sample_proofs)]
      = Inr [(Height 2000 7, ?k)]"
    using heads head by (simp add: get_consensus_state_def)
  obtain c' cache' where "update_state sample_grandpa relay_codec (\<lambda>_. True) sample_relay_host sample_cache ?i
      relay_client (HeaderMessage relay_update) = Some (Inr (c', Batch [(Height 2000 7, ?k)], cache'))"
    using honest_update_state [of sample_grandpa relay_update relay_client "[[12], [11], [10]]" relay_codec
        "\<lambda>_. True" sample_relay_host ?i "[(Height 2000 7, ?k)]" "relay_block 12 []" 7 sample_cache]
      states sample_ancestry
    by (auto simp: relay_update_def sample_chain ancestry_eq_Inr relay_client_def relay_block_def
        advance_para_height_def cache_ok_def sample_cache_def cache_size_def)
  with check show ?thesis
    by (simp add: handle_client_message_def relay_update_verified del: check_for_misbehaviour.simps)
qed

theorem finality_update_sound_witness:
  "\<exists>c' u cache'. handle_client_message sample_grandpa relay_codec (\<lambda>_. True) sample_relay_host sample_cache
      (ClientId ''10-grandpa-0'') relay_client (HeaderMessage relay_update) = Some (Inr (c', Some u, cache'))
    \<and> moves_to sample_grandpa relay_client (gh_finality_proof relay_update) c'"
  using relay_update_runs finality_update_sound by blast

theorem honest_chain_freezes_witness:
  "\<exists>c'. handle_client_message sample_grandpa relay_codec (\<lambda>_. True) sample_relay_host sample_cache
      (ClientId ''10-grandpa-0'') relay_client
      (MisbehaviourMessage
        \<lparr>fp_block = [11], fp_justification = [11], unknown_headers = [relay_block 11 []]\<rparr>
        \<lparr>fp_block = [12], fp_justification = [12], unknown_headers = [relay_block 11 [], relay_block 12 []]\<rparr>)
      = Some (Inr (c', None, sample_cache))
    \<and> (\<exists>e. verify_height c' (latest_height relay_client) = fail_with e)"
proof -
  have hashes: "header_hash sample_grandpa (relay_block n logs) = [ucast n]" for n logs
    by (simp add: sample_grandpa_def relay_block_def)
  have "decode_justification sample_grandpa b = Some (sample_justification b)"
    and "commit_target_hash (just_commit (sample_justification b)) = b" for b
    by (simp_all add: sample_grandpa_def sample_justification_def)
  moreover have "contains_relay_header_hash [10] sample_cache"
    by (simp add: contains_relay_header_hash_def sample_cache_def)
  ultimately show ?thesis
    using honest_chain_freezes [of sample_grandpa "[10]" "[relay_block 11 []]" "[relay_block 12 []]" sample_cache
        "[11]" "sample_justification [11]" "[12]" "sample_justification [12]" relay_client relay_codec
        "\<lambda>_. True" sample_relay_host "ClientId ''10-grandpa-0''"] sample_honest
    by (auto simp: hashes)
qed

definition forged_block :: relay_header where
  "forged_block = (relay_block 12 [[1]])\<lparr>hdr_extrinsics_root := [1]\<rparr>"

theorem forged_header_freezes_witness:
  "handle_client_message sample_grandpa relay_codec (\<lambda>_. True) sample_relay_host sample_cache
      (ClientId ''10-grandpa-0'') relay_client
      (HeaderMessage (relay_update\<lparr>
        gh_finality_proof := (gh_finality_proof relay_update)
          \<lparr>unknown_headers := forged_block # unknown_headers (gh_finality_proof relay_update)\<rparr>,
        gh_parachain_headers := [(header_hash sample_grandpa forged_block, sample_proofs)]\<rparr>))
    = Some (Inr (relay_client\<lparr>frozen_height := Some (latest_height relay_client)\<rparr>, None, sample_cache))"
proof (rule forged_header_freezes [where h = "relay_block 12 []"])
  show "verify_client_message sample_grandpa relay_codec sample_cache relay_client (HeaderMessage relay_update)
      = Some (Inr ())"
    by (simp add: relay_update_verified)
  show "find_forced_change sample_grandpa forged_block = Some (0, \<lparr>next_authorities = [], change_delay = 0\<rparr>)"
    by (simp add: find_forced_change_def forged_block_def relay_block_def sample_grandpa_def)
qed (simp_all add: sample_grandpa_def forged_block_def relay_block_def relay_update_def sample_headers_def
    relay_client_def)


definition sample_counterparty :: connection_end where
  "sample_counterparty =
     \<lparr>conn_state = ConnOpen, conn_client_id = ClientId ''10-grandpa-0'',
      conn_counterparty = \<lparr>cpty_client_id = ClientId ''c'', cpty_connection_id = None,
        cpty_prefix = CommitmentPrefix [1]\<rparr>,
      conn_versions = [], conn_delay_period = 0\<rparr>"

definition sample_proof_host :: "(mock_client_state, mock_consensus_state, unit) host" where
  "sample_proof_host = empty_host
     \<lparr>ClientUpdateTime := [(ClientId ''10-grandpa-0'', Height 2000 3) \<mapsto> 1],
      ClientUpdateHeight := [(ClientId ''10-grandpa-0'', Height 2000 3) \<mapsto> Height 2000 5]\<rparr>"

theorem packet_proof_checked_witness:
  "proof_ready sample_grandpa mock_env sample_proof_host relay_client (Height 2000 3) sample_counterparty
   \<and> child_value sample_grandpa (CommitmentPrefix [1]) (CommitmentProofBytes [5]) (CommitmentRoot (replicate 32 0))
       (CommitmentsPath (PortId ''transfer'') (ChannelId 0) 1) (Some [9])"
proof -
  have "verify_packet_data sample_grandpa relay_codec mock_env sample_proof_host relay_client (Height 2000 3)
      sample_counterparty (CommitmentProofBytes [5]) (CommitmentRoot (replicate 32 0))
      (PortId ''transfer'') (ChannelId 0) 1 [9] = Inr ()"
    by (simp add: verify_packet_data_def after_delay_def check_member_def verify_membership_def
        verify_height_def latest_height_def relay_client_def verify_delay_passed_def host_timestamp_def
        sample_proof_host_def empty_host_def from_nanoseconds_def client_update_time_def client_update_height_def
        sample_counterparty_def timestamp_add_def timestamp_after_def host_height_def height_add_def
        calculate_block_delay_def max_expected_time_per_block_def sample_grandpa_def plus_or_panic_def
        checked_add_def read_child_proof_check_def h256_from_slice_def Let_def height_less_iff)
  then show ?thesis
    using packet_proof_checked [of sample_grandpa relay_codec mock_env sample_proof_host relay_client
        "Height 2000 3" sample_counterparty "CommitmentProofBytes [5]" "CommitmentRoot (replicate 32 0)"
        "PortId ''transfer''" "ChannelId 0" 1 "[9]"]
    by (simp add: sample_counterparty_def)
qed

end
