(* ===== verification/Spec2Isabelle.thy ===== *)
theory Spec2Isabelle
  imports Transfer_Safety Simple_Iavl Grandpa_Safety
begin

text \<open>
  A model of the IBC protocol of this repository. The theories are described in their own headers.
\<close>

end
